(* ===== verification/Js_Base.thy ===== *)
theory Js_Base
  imports Main "HOL-Library.AList" "HOL-Library.Sublist" "HOL-Library.Product_Lexorder"
    "HOL-Library.Multiset"
begin

section \<open>The JavaScript base: values, maps, slices, sorting, text\<close>

text \<open>
  What the TypeScript sources use of the language and its standard library, and the lemmas about
  it that the components share.  JSON values are a datatype.  A JavaScript \<open>Map\<close> is an
  association list in insertion order: \<open>get\<close> is \<^const>\<open>map_of\<close>, \<open>set\<close> is
  \<^const>\<open>AList.update\<close> (in place, or at the end) and \<open>delete\<close> is \<^const>\<open>AList.delete\<close>.
  Numbers are \<^typ>\<open>int\<close>; a string is a list of code units (\<^typ>\<open>string\<close>).  The order of the
  keys of a plain object is not observable in the modelled code.
\<close>

named_theorems js_map_simps
  \<open>equations that compute lookups, key lists and filters of JavaScript maps\<close>

subsection \<open>JSON values\<close>

datatype json =
    JNull
  | JBool bool
  | JNum int
  | JStr string
  | JArr "json list"
  | JObj "(string \<times> json) list"

type_synonym jobj = "(string \<times> json) list"

type_synonym ('k, 'v) jsmap = "('k \<times> 'v) list"

text \<open>\<open>typeof v === "object" && v !== null\<close>: objects and arrays.\<close>

fun is_record :: "json \<Rightarrow> bool" where
  "is_record (JObj m) = True"
| "is_record (JArr xs) = True"
| "is_record v = False"

text \<open>The property read \<open>v[k]\<close> for a name \<open>k\<close> that no array and no prototype has;
  \<^const>\<open>None\<close> is \<open>undefined\<close>.\<close>

fun prop_of :: "string \<Rightarrow> json \<Rightarrow> json option" where
  "prop_of k (JObj m) = map_of m k"
| "prop_of k v = None"

fun as_str :: "json option \<Rightarrow> string option" where
  "as_str (Some (JStr s)) = Some s"
| "as_str v = None"

fun as_num :: "json option \<Rightarrow> int option" where
  "as_num (Some (JNum n)) = Some n"
| "as_num v = None"

fun as_arr :: "json option \<Rightarrow> json list option" where
  "as_arr (Some (JArr xs)) = Some xs"
| "as_arr v = None"

fun as_obj :: "json option \<Rightarrow> jobj option" where
  "as_obj (Some (JObj m)) = Some m"
| "as_obj v = None"

fun as_bool :: "json option \<Rightarrow> bool option" where
  "as_bool (Some (JBool b)) = Some b"
| "as_bool v = None"

lemma as_str_Some [simp]: "as_str v = Some s \<longleftrightarrow> v = Some (JStr s)"
  by (cases v rule: as_str.cases) auto

lemma as_num_Some [simp]: "as_num v = Some n \<longleftrightarrow> v = Some (JNum n)"
  by (cases v rule: as_num.cases) auto

lemma as_arr_Some [simp]: "as_arr v = Some xs \<longleftrightarrow> v = Some (JArr xs)"
  by (cases v rule: as_arr.cases) auto

lemma as_obj_Some [simp]: "as_obj v = Some m \<longleftrightarrow> v = Some (JObj m)"
  by (cases v rule: as_obj.cases) auto

text \<open>Reads of a field whose type the TypeScript compiler (or a schema) has established.\<close>

definition str_at :: "string \<Rightarrow> json \<Rightarrow> string" where
  "str_at k v = (case as_str (prop_of k v) of Some s \<Rightarrow> s | None \<Rightarrow> [])"

definition num_at :: "string \<Rightarrow> json \<Rightarrow> int" where
  "num_at k v = (case as_num (prop_of k v) of Some n \<Rightarrow> n | None \<Rightarrow> 0)"

definition strs_at :: "string \<Rightarrow> json \<Rightarrow> string list option" where
  "strs_at k v = map_option (List.map_filter (\<lambda>x. as_str (Some x))) (as_arr (prop_of k v))"

lemma str_at_JObj [simp]: "map_of m k = Some (JStr s) \<Longrightarrow> str_at k (JObj m) = s"
  by (simp add: str_at_def)

subsection \<open>JavaScript maps\<close>

lemma map_of_update [js_map_simps, simp]:
  "map_of (AList.update k v m) = (map_of m)(k \<mapsto> v)"
  by (simp add: update_conv')

lemma map_of_delete [js_map_simps, simp]:
  "map_of (AList.delete k m) = (map_of m)(k := None)"
  by (simp add: delete_conv')

lemma keys_delete [js_map_simps]:
  "set (map fst (AList.delete k m)) = set (map fst m) - {k}"
  by (simp add: delete_keys)

lemma keys_update [js_map_simps]:
  "set (map fst (AList.update k v m)) = insert k (set (map fst m))"
  by (auto simp: update_keys)

text \<open>Deleting, inside an iteration, every entry that satisfies a test.\<close>

lemma map_of_filter_entries [js_map_simps]:
  "distinct (map fst m) \<Longrightarrow>
   map_of (filter P m) k = (case map_of m k of Some v \<Rightarrow> if P (k, v) then Some v else None | None \<Rightarrow> None)"
proof (induction m)
  case Nil
  then show ?case by simp
next
  case (Cons e m)
  then have "fst e \<notin> fst ` set m" by simp
  then have "map_of m (fst e) = None" and "map_of (filter P m) (fst e) = None"
    by (auto simp: map_of_eq_None_iff)
  with Cons show ?case by (cases e) (auto split: option.splits)
qed

lemma distinct_keys_filter [simp]:
  "distinct (map fst m) \<Longrightarrow> distinct (map fst (filter P m))"
  by (induction m) auto

lemma set_update_subset:
  "set (AList.update k v m) \<subseteq> insert (k, v) (set m)"
  by (induction m) auto

lemma set_update_iff:
  "distinct (map fst m) \<Longrightarrow>
   e \<in> set (AList.update k v m) \<longleftrightarrow> e = (k, v) \<or> (e \<in> set m \<and> fst e \<noteq> k)"
  by (induction m) force+

lemma set_delete_iff:
  "e \<in> set (AList.delete k m) \<longleftrightarrow> e \<in> set m \<and> fst e \<noteq> k"
  by (cases e) (auto simp: AList.delete_eq)

subsection \<open>Slices\<close>

text \<open>\<open>xs.slice(-n)\<close> for \<open>0 < n\<close>: the last \<open>n\<close> elements, or all of them.\<close>

definition slice_last :: "nat \<Rightarrow> 'a list \<Rightarrow> 'a list" where
  "slice_last n xs = drop (length xs - n) xs"

lemma length_slice_last [simp]: "length (slice_last n xs) = min n (length xs)"
  by (auto simp: slice_last_def)

lemma slice_last_short [simp]: "length xs \<le> n \<Longrightarrow> slice_last n xs = xs"
  by (simp add: slice_last_def)

lemma suffix_slice_last: "suffix (slice_last n xs) xs"
  by (simp add: slice_last_def suffix_drop)

lemma set_slice_last: "set (slice_last n xs) \<subseteq> set xs"
  by (simp add: slice_last_def set_drop_subset)

text \<open>Trimming a prefix early makes no difference to a later trim: the law that makes an
  incrementally trimmed log equal to the trimmed full log.\<close>

lemma slice_last_absorb: "slice_last n (slice_last n xs @ ys) = slice_last n (xs @ ys)"
  by (cases "length xs \<le> n") (auto simp: slice_last_def add.commute)

subsection \<open>Sorting\<close>

text \<open>
  \<open>Array.prototype.sort\<close> is stable; a comparator result of \<open>NaN\<close> counts as \<open>0\<close>.  For a
  consistent comparator the result is unique, and insertion from the right computes it.
\<close>

fun insert_by :: "('a \<Rightarrow> 'a \<Rightarrow> int) \<Rightarrow> 'a \<Rightarrow> 'a list \<Rightarrow> 'a list" where
  "insert_by cmp x [] = [x]"
| "insert_by cmp x (y # ys) = (if cmp x y \<le> 0 then x # y # ys else y # insert_by cmp x ys)"

definition js_sort :: "('a \<Rightarrow> 'a \<Rightarrow> int) \<Rightarrow> 'a list \<Rightarrow> 'a list" where
  "js_sort cmp xs = foldr (insert_by cmp) xs []"

lemma js_sort_simps [simp]:
  "js_sort cmp [] = []"
  "js_sort cmp (x # xs) = insert_by cmp x (js_sort cmp xs)"
  by (simp_all add: js_sort_def)

lemma mset_insert_by: "mset (insert_by cmp x xs) = add_mset x (mset xs)"
  by (induction xs) auto

lemma mset_js_sort [simp]: "mset (js_sort cmp xs) = mset xs"
  by (induction xs) (auto simp: mset_insert_by)

lemma set_js_sort [simp]: "set (js_sort cmp xs) = set xs"
  by (metis mset_js_sort set_mset_mset)

lemma length_js_sort [simp]: "length (js_sort cmp xs) = length xs"
  by (metis mset_js_sort size_mset)

lemma distinct_js_sort [simp]: "distinct (js_sort cmp xs) = distinct xs"
  by (metis distinct_count_atmost_1 mset_js_sort set_js_sort)

text \<open>A comparator that agrees with the order of a key sorts as the library's stable
  \<^const>\<open>sort_key\<close> does.\<close>

lemma insert_by_key:
  assumes "\<And>y. y \<in> set ys \<Longrightarrow> (cmp x y \<le> 0) = (key x \<le> key y)"
  shows "insert_by cmp x ys = insort_key key x ys"
  using assms by (induction ys) auto

lemma js_sort_key:
  fixes key :: "'a \<Rightarrow> 'b::linorder"
  assumes "\<And>x y. x \<in> set xs \<Longrightarrow> y \<in> set xs \<Longrightarrow> (cmp x y \<le> 0) = (key x \<le> key y)"
  shows "js_sort cmp xs = sort_key key xs"
  using assms
proof (induction xs)
  case Nil
  then show ?case by simp
next
  case (Cons x xs)
  then have "js_sort cmp xs = sort_key key xs" by simp
  moreover from Cons.prems have "insert_by cmp x (sort_key key xs) = insort_key key x (sort_key key xs)"
    by (intro insert_by_key) auto
  ultimately show ?case by simp
qed

subsection \<open>Text\<close>

definition starts_with :: "string \<Rightarrow> string \<Rightarrow> bool" where
  "starts_with p s = prefix p s"

definition ends_with :: "string \<Rightarrow> string \<Rightarrow> bool" where
  "ends_with p s = suffix p s"

text \<open>\<open>String.prototype.trim\<close> on code units below 256: tab to carriage return, space, no-break
  space.\<close>

definition is_ws :: "char \<Rightarrow> bool" where
  "is_ws c = (let n = of_char c :: nat in (9 \<le> n \<and> n \<le> 13) \<or> n = 32 \<or> n = 160)"

definition js_trim :: "string \<Rightarrow> string" where
  "js_trim s = rev (dropWhile is_ws (rev (dropWhile is_ws s)))"

lemma dropWhile_hd: "s = [] \<or> \<not> P (hd s) \<Longrightarrow> dropWhile P s = s"
  by (cases s) auto

lemma hd_dropWhile_or: "dropWhile P s = [] \<or> \<not> P (hd (dropWhile P s))"
  using hd_dropWhile [of P s] by (auto simp del: dropWhile_eq_Nil_conv)

lemma js_trim_fixed: "(s = [] \<or> \<not> is_ws (hd s) \<and> \<not> is_ws (last s)) \<Longrightarrow> js_trim s = s"
  by (auto simp: js_trim_def dropWhile_hd hd_rev)

lemma js_trim_ends: "js_trim s = [] \<or> \<not> is_ws (hd (js_trim s)) \<and> \<not> is_ws (last (js_trim s))"
proof -
  define a where "a = dropWhile is_ws s"
  define b where "b = rev (dropWhile is_ws (rev a))"
  have "b = js_trim s" by (simp add: a_def b_def js_trim_def)
  moreover have "prefix b a"
    unfolding b_def using suffix_dropWhile [of is_ws "rev a"] by (simp add: suffix_to_prefix)
  then have "b = [] \<or> a \<noteq> [] \<and> hd b = hd a" by (cases b; cases a) auto
  moreover have "a = [] \<or> \<not> is_ws (hd a)" unfolding a_def by (rule hd_dropWhile_or)
  moreover have "b = [] \<or> \<not> is_ws (last b)"
    using hd_dropWhile_or [of is_ws "rev a"] by (simp add: b_def last_rev del: dropWhile_eq_Nil_conv)
  ultimately show ?thesis by auto
qed

lemma js_trim_idem [simp]: "js_trim (js_trim s) = js_trim s"
  by (rule js_trim_fixed) (rule js_trim_ends)

text \<open>\<open>toLowerCase\<close> on ASCII.\<close>

definition to_lower :: "char \<Rightarrow> char" where
  "to_lower c = (let n = of_char c :: nat in if 65 \<le> n \<and> n \<le> 90 then char_of (n + 32) else c)"

text \<open>\<open>String(n)\<close> for integers, and \<open>padStart\<close>.\<close>

definition digit :: "nat \<Rightarrow> char" where
  "digit n = char_of (48 + n)"

fun show_nat :: "nat \<Rightarrow> string" where
  "show_nat n = (if n < 10 then [digit n] else show_nat (n div 10) @ [digit (n mod 10)])"

declare show_nat.simps [simp del]

definition show_int :: "int \<Rightarrow> string" where
  "show_int i = (if i < 0 then CHR ''-'' # show_nat (nat (- i)) else show_nat (nat i))"

definition pad_start :: "nat \<Rightarrow> char \<Rightarrow> string \<Rightarrow> string" where
  "pad_start n c s = replicate (n - length s) c @ s"

definition digit_val :: "char \<Rightarrow> nat" where
  "digit_val c = of_char c - 48"

definition read_nat :: "string \<Rightarrow> nat" where
  "read_nat s = foldl (\<lambda>a c. 10 * a + digit_val c) 0 s"

lemma digit_val_digit [simp]: "n < 10 \<Longrightarrow> digit_val (digit n) = n"
  by (simp add: digit_val_def digit_def of_char_of)

lemma read_nat_snoc [simp]: "read_nat (s @ [c]) = 10 * read_nat s + digit_val c"
  by (simp add: read_nat_def)

lemma read_show_nat [simp]: "read_nat (show_nat n) = n"
proof (induction n rule: show_nat.induct)
  case (1 n)
  show ?case
  proof (cases "n < 10")
    case True
    then show ?thesis by (subst show_nat.simps) (simp add: read_nat_def)
  next
    case False
    with 1 have "read_nat (show_nat (n div 10)) = n div 10" by simp
    with False show ?thesis by (subst show_nat.simps) simp
  qed
qed

lemma read_nat_zeros: "read_nat (replicate k (digit 0) @ s) = read_nat s"
proof (induction k)
  case (Suc k)
  then show ?case by (simp add: read_nat_def)
qed simp

lemma length_show_nat_le: "n < 10 ^ k \<Longrightarrow> 0 < k \<Longrightarrow> length (show_nat n) \<le> k"
proof (induction n arbitrary: k rule: show_nat.induct)
  case (1 n)
  show ?case
  proof (cases "n < 10")
    case True
    with "1.prems" show ?thesis by (subst show_nat.simps) simp
  next
    case False
    with "1.prems" obtain j where k: "k = Suc j" by (cases k) auto
    with False "1.prems" have j: "0 < j" by (cases j) auto
    from k "1.prems" have "n div 10 < 10 ^ j" by simp
    with "1.IH" [OF False this j] False k show ?thesis by (subst show_nat.simps) simp
  qed
qed

lemma show_nat_inj [simp]: "show_nat m = show_nat n \<longleftrightarrow> m = n"
  by (metis read_show_nat)

subsection \<open>Deterministic machines\<close>

text \<open>A machine that reacts to a list of inputs, and the invariant rule for its runs: the contract
  that every event-driven component below is proved under.\<close>

locale machine =
  fixes step :: "'s \<Rightarrow> 'e \<Rightarrow> 's"
    and inv :: "'s \<Rightarrow> bool"
  assumes step_inv: "inv s \<Longrightarrow> inv (step s e)"
begin

lemma run_inv: "inv s \<Longrightarrow> inv (foldl step s es)"
  by (induction es arbitrary: s) (auto intro: step_inv)

lemma run_inv_prefix: "inv s \<Longrightarrow> prefix es' es \<Longrightarrow> inv (foldl step s es')"
  by (rule run_inv)

end

end
