(* ===== verification/Mobile_Buffers.thy ===== *)
theory Mobile_Buffers
  imports Js_Base
begin

section \<open>Sequence-numbered buffers (apps/mobile/src/state/terminalBuffer.ts, renderBuffer.ts)\<close>

text \<open>
  The mobile app keeps, for each session, the raw text of the terminal and the lines that the
  desktop has rendered.  Both are fed by numbered chunks and both ignore a chunk whose number is not
  beyond the last one; both trim what they keep.  The two share a contract, stated as the locales
  \<open>seq_buffer\<close> and \<open>log_buffer\<close>, which both are proved to satisfy.  Lines are a type parameter of the
  render buffer: it never looks into them.
\<close>

subsection \<open>The terminal text\<close>

definition MAX_TERMINAL_BUFFER_LENGTH :: nat where
  "MAX_TERMINAL_BUFFER_LENGTH = 200000"

record terminal_buffer =
  tb_text :: string
  tb_lastSeq :: int

record terminal_chunk =
  tc_seq :: int
  tc_data :: string

definition trimTerminalText :: "string \<Rightarrow> string" where
  "trimTerminalText text =
     (if length text \<le> MAX_TERMINAL_BUFFER_LENGTH then text
      else slice_last MAX_TERMINAL_BUFFER_LENGTH text)"

definition createTerminalBuffer :: terminal_buffer where
  "createTerminalBuffer = \<lparr>tb_text = [], tb_lastSeq = 0\<rparr>"

definition appendTerminalOutput :: "terminal_buffer \<Rightarrow> terminal_chunk \<Rightarrow> terminal_buffer" where
  "appendTerminalOutput buffer chunk =
     (if tc_seq chunk \<le> tb_lastSeq buffer then buffer
      else \<lparr>tb_text = trimTerminalText (tb_text buffer @ tc_data chunk), tb_lastSeq = tc_seq chunk\<rparr>)"

definition replaceTerminalSnapshot :: "terminal_buffer \<Rightarrow> string \<Rightarrow> int \<Rightarrow> terminal_buffer" where
  "replaceTerminalSnapshot b text lastSeq = \<lparr>tb_text = trimTerminalText text, tb_lastSeq = lastSeq\<rparr>"

definition replayTerminalOutput :: "terminal_buffer \<Rightarrow> terminal_chunk list \<Rightarrow> terminal_buffer" where
  "replayTerminalOutput buffer chunks =
     foldl appendTerminalOutput buffer (js_sort (\<lambda>left right. tc_seq left - tc_seq right) chunks)"

subsection \<open>The rendered lines\<close>

definition MAX_RENDER_HISTORY :: nat where
  "MAX_RENDER_HISTORY = 1000"

record 'l render_buffer =
  rb_history :: "'l list"
  rb_screen :: "'l list"
  rb_lastSeq :: int

record 'l render_frame =
  rf_seq :: int
  rf_historyAppend :: "'l list"
  rf_screen :: "'l list"

record 'l render_snapshot =
  rs_history :: "'l list"
  rs_screen :: "'l list"
  rs_lastSeq :: int

definition createRenderBuffer :: "'l render_buffer" where
  "createRenderBuffer = \<lparr>rb_history = [], rb_screen = [], rb_lastSeq = 0\<rparr>"

definition applyRenderFrame :: "'l render_buffer \<Rightarrow> 'l render_frame \<Rightarrow> 'l render_buffer" where
  "applyRenderFrame buffer frame =
     (if rf_seq frame \<le> rb_lastSeq buffer then buffer
      else
        (let history =
               (if length (rf_historyAppend frame) = 0 then rb_history buffer
                else slice_last MAX_RENDER_HISTORY (rb_history buffer @ rf_historyAppend frame))
         in \<lparr>rb_history = history, rb_screen = rf_screen frame, rb_lastSeq = rf_seq frame\<rparr>))"

definition replaceRenderSnapshot :: "'l render_snapshot \<Rightarrow> 'l render_buffer" where
  "replaceRenderSnapshot snapshot =
     \<lparr>rb_history = slice_last MAX_RENDER_HISTORY (rs_history snapshot),
      rb_screen = rs_screen snapshot, rb_lastSeq = rs_lastSeq snapshot\<rparr>"

definition hasRenderContent :: "'r list render_buffer option \<Rightarrow> bool" where
  "hasRenderContent buffer =
     (case buffer of
        None \<Rightarrow> False
      | Some b \<Rightarrow> length (rb_history b) > 0 \<or> list_ex (\<lambda>line. length line > 0) (rb_screen b))"

subsection \<open>The shared contract\<close>

text \<open>The chunks of a list that a buffer at \<open>n\<close> accepts: those that go beyond all before them.\<close>

fun accepted :: "('c \<Rightarrow> int) \<Rightarrow> int \<Rightarrow> 'c list \<Rightarrow> 'c list" where
  "accepted sq n [] = []"
| "accepted sq n (c # cs) =
     (if sq c \<le> n then accepted sq n cs else c # accepted sq (sq c) cs)"

text \<open>With rising numbers the accepted chunks are simply those beyond the buffer's number.\<close>

lemma accepted_sorted:
  "sorted (map sq cs) \<Longrightarrow> distinct (map sq cs) \<Longrightarrow> accepted sq n cs = filter (\<lambda>c. n < sq c) cs"
proof (induction cs arbitrary: n)
  case (Cons c cs)
  then have "\<forall>d \<in> set cs. sq c < sq d" by (auto simp: order.strict_iff_order)
  then have "filter (\<lambda>d. sq c < sq d) cs = cs" and "n < sq c \<Longrightarrow> filter (\<lambda>d. n < sq d) cs = cs"
    by (auto simp: filter_id_conv)
  with Cons show ?case by auto
qed simp

locale seq_buffer =
  fixes push :: "'b \<Rightarrow> 'c \<Rightarrow> 'b"
    and num :: "'c \<Rightarrow> int"
    and last_num :: "'b \<Rightarrow> int"
  assumes stale: "num c \<le> last_num b \<Longrightarrow> push b c = b"
    and fresh: "last_num b < num c \<Longrightarrow> last_num (push b c) = num c"
begin

lemma push_mono: "last_num b \<le> last_num (push b c)"
  by (cases "num c \<le> last_num b") (auto simp: stale fresh)

lemma push_covers: "num c \<le> last_num (push b c)"
  by (cases "num c \<le> last_num b") (auto simp: stale fresh)

lemma run_mono: "last_num b \<le> last_num (foldl push b cs)"
  by (induction cs arbitrary: b) (auto intro: order_trans push_mono)

lemma run_covers: "c \<in> set cs \<Longrightarrow> num c \<le> last_num (foldl push b cs)"
proof (induction cs arbitrary: b)
  case (Cons d ds)
  then show ?case by (auto intro: order_trans [OF push_covers run_mono])
qed simp

lemma run_stale: "(\<And>c. c \<in> set cs \<Longrightarrow> num c \<le> last_num b) \<Longrightarrow> foldl push b cs = b"
  by (induction cs) (auto simp: stale)

text \<open>Delivering again, in any order and number, what was delivered before changes nothing.\<close>

lemma redelivery: "set ds \<subseteq> set cs \<Longrightarrow> foldl push b (cs @ ds) = foldl push b cs"
  by (simp, rule run_stale) (auto intro: run_covers)

lemma run_last: "last_num (foldl push b cs) = foldl max (last_num b) (map num cs)"
proof (induction cs arbitrary: b)
  case (Cons c cs)
  have "last_num (push b c) = max (last_num b) (num c)"
    by (cases "num c \<le> last_num b") (auto simp: stale fresh)
  with Cons show ?case by simp
qed simp

end

locale log_buffer = seq_buffer push num last_num
  for push :: "'b \<Rightarrow> 'c \<Rightarrow> 'b" and num :: "'c \<Rightarrow> int" and last_num :: "'b \<Rightarrow> int" +
  fixes kept :: "'b \<Rightarrow> 'x list"
    and added :: "'c \<Rightarrow> 'x list"
    and bound :: nat
  assumes push_kept:
    "last_num b < num c \<Longrightarrow> length (kept b) \<le> bound \<Longrightarrow>
     kept (push b c) = slice_last bound (kept b @ added c)"
begin

lemma push_bounded: "length (kept b) \<le> bound \<Longrightarrow> length (kept (push b c)) \<le> bound"
  by (cases "num c \<le> last_num b") (auto simp: stale push_kept)

lemma run_bounded: "length (kept b) \<le> bound \<Longrightarrow> length (kept (foldl push b cs)) \<le> bound"
  by (induction cs arbitrary: b) (auto intro: push_bounded)

text \<open>Trimming at every chunk loses nothing that a single trim at the end would keep.\<close>

lemma run_kept:
  "length (kept b) \<le> bound \<Longrightarrow>
   kept (foldl push b cs) = slice_last bound (kept b @ concat (map added (accepted num (last_num b) cs)))"
proof (induction cs arbitrary: b)
  case (Cons c cs)
  show ?case
  proof (cases "num c \<le> last_num b")
    case True
    with Cons show ?thesis by (simp add: stale)
  next
    case False
    with Cons.prems have "kept (push b c) = slice_last bound (kept b @ added c)"
      and "last_num (push b c) = num c" and "length (kept (push b c)) \<le> bound"
      by (simp_all add: push_kept fresh push_bounded)
    with False Cons.IH [of "push b c"] show ?thesis by (simp add: slice_last_absorb)
  qed
qed simp

end

lemma trimTerminalText_slice: "trimTerminalText t = slice_last MAX_TERMINAL_BUFFER_LENGTH t"
  by (simp add: trimTerminalText_def)

interpretation tb: log_buffer appendTerminalOutput tc_seq tb_lastSeq tb_text tc_data MAX_TERMINAL_BUFFER_LENGTH
  by unfold_locales (auto simp: appendTerminalOutput_def trimTerminalText_slice)

interpretation rb: log_buffer applyRenderFrame rf_seq rb_lastSeq rb_history rf_historyAppend MAX_RENDER_HISTORY
  by unfold_locales (auto simp: applyRenderFrame_def Let_def)

subsection \<open>Properties\<close>

lemma replay_is_sort_key:
  "replayTerminalOutput b cs = foldl appendTerminalOutput b (sort_key tc_seq cs)"
  unfolding replayTerminalOutput_def by (subst js_sort_key [where key = tc_seq]) auto

lemma sort_key_map: "sort_key f (map g xs) = map g (sort_key (\<lambda>x. f (g x)) xs)"
proof -
  have ins: "insort_key f (g x) (map g ys) = map g (insort_key (\<lambda>x. f (g x)) x ys)" for x ys
    by (induction ys) auto
  show ?thesis by (induction xs) (simp_all add: ins)
qed

lemma distinct_sort_key_map: "distinct (map f (sort_key f xs)) = distinct (map f xs)"
  by (metis mset_map mset_sort mset_eq_imp_distinct_iff)

text \<open>Replaying recorded output gives the text that was there followed by the data of exactly the
  chunks beyond the buffer's number, in the order of their numbers and whatever order they are
  recorded in, trimmed once to the last 200000 code units; the buffer's number becomes the greatest.\<close>

theorem replay_exact:
  assumes "length (tb_text b) \<le> MAX_TERMINAL_BUFFER_LENGTH" and "distinct (map tc_seq cs)"
  shows "tb_text (replayTerminalOutput b cs) =
           slice_last MAX_TERMINAL_BUFFER_LENGTH
             (tb_text b @ concat (map tc_data (sort_key tc_seq (filter (\<lambda>c. tb_lastSeq b < tc_seq c) cs)))) \<and>
         tb_lastSeq (replayTerminalOutput b cs) = foldl max (tb_lastSeq b) (map tc_seq (sort_key tc_seq cs))"
  using assms
  by (simp add: replay_is_sort_key tb.run_kept tb.run_last accepted_sorted distinct_sort_key_map filter_sort)

theorem replay_exact_witness:
  "tb_text (replayTerminalOutput \<lparr>tb_text = ''a'', tb_lastSeq = 1\<rparr>
      [\<lparr>tc_seq = 3, tc_data = ''c''\<rparr>, \<lparr>tc_seq = 1, tc_data = ''x''\<rparr>, \<lparr>tc_seq = 2, tc_data = ''b''\<rparr>]) = ''abc''"
  by (subst conjunct1 [OF replay_exact])
    (simp_all add: MAX_TERMINAL_BUFFER_LENGTH_def)

text \<open>Redelivered output is harmless: after any run of chunks, delivering any of them again, any
  number of times and in any order, leaves the terminal text and the rendered screen as they are.\<close>

theorem redelivery_ignored:
  assumes "set ds \<subseteq> set cs" and "set gs \<subseteq> set fs"
  shows "foldl appendTerminalOutput b (cs @ ds) = foldl appendTerminalOutput b cs \<and>
         foldl applyRenderFrame r (fs @ gs) = foldl applyRenderFrame r fs"
  using assms by (simp add: tb.redelivery rb.redelivery del: foldl_append)

theorem redelivery_ignored_witness:
  "foldl appendTerminalOutput createTerminalBuffer
     ([\<lparr>tc_seq = 1, tc_data = ''a''\<rparr>, \<lparr>tc_seq = 2, tc_data = ''b''\<rparr>] @ [\<lparr>tc_seq = 1, tc_data = ''a''\<rparr>]) =
   foldl appendTerminalOutput createTerminalBuffer [\<lparr>tc_seq = 1, tc_data = ''a''\<rparr>, \<lparr>tc_seq = 2, tc_data = ''b''\<rparr>]"
  by (rule conjunct1 [OF redelivery_ignored [where gs = "[] :: nat render_frame list" and fs = "[]"]]) simp_all

text \<open>The rendered history is the last thousand of the lines that the accepted frames appended,
  and the screen is the one of the last accepted frame.\<close>

theorem render_history_exact:
  assumes "length (rb_history r) \<le> MAX_RENDER_HISTORY"
  shows "rb_history (foldl applyRenderFrame r fs) =
           slice_last MAX_RENDER_HISTORY
             (rb_history r @ concat (map rf_historyAppend (accepted rf_seq (rb_lastSeq r) fs))) \<and>
         rb_screen (foldl applyRenderFrame r fs) =
           last (rb_screen r # map rf_screen (accepted rf_seq (rb_lastSeq r) fs))"
proof -
  have "rb_screen (foldl applyRenderFrame r fs) =
          last (rb_screen r # map rf_screen (accepted rf_seq (rb_lastSeq r) fs))"
  proof (induction fs arbitrary: r)
    case (Cons f fs)
    then show ?case by (simp add: applyRenderFrame_def Let_def)
  qed simp
  with assms rb.run_kept show ?thesis by auto
qed

theorem render_history_exact_witness:
  "rb_history (foldl applyRenderFrame createRenderBuffer
     [\<lparr>rf_seq = 1, rf_historyAppend = [''a''], rf_screen = [''x'']\<rparr>,
      \<lparr>rf_seq = 1, rf_historyAppend = [''b''], rf_screen = [''y'']\<rparr>]) = [''a'']"
  by (subst conjunct1 [OF render_history_exact])
    (simp_all add: MAX_RENDER_HISTORY_def createRenderBuffer_def)

end
