(* ===== verification/Session_State.thy ===== *)
theory Session_State
  imports Mobile_Buffers
begin

section \<open>The session state of the mobile app (apps/mobile/src/state/sessionState.ts, sessionReducer.ts)\<close>

text \<open>
  The state behind every screen of the mobile app and the reducer that alone changes it.  Sessions
  and interactions arrive as unchecked JSON objects and are kept as such; a session is filed under
  its \<open>id\<close>, which its type makes a string.  A \<open>Record\<close> is a partial map and the dismissed keys are a
  set, so identifiers that name a property of \<open>Object.prototype\<close> are outside the model.
\<close>

type_synonym session = jobj
type_synonym interaction = jobj

subsection \<open>Data\<close>

datatype activity_type = ActCreated | ActUpdated | ActEnded | ActRemoved

record activity_fact =
  af_id :: string
  af_sessionId :: string
  af_type :: activity_type
  af_at :: string
  af_status :: "json option"
  af_title :: "json option"
  af_exitCode :: "int option"

record event_message =
  ev_event :: string
  ev_data :: jobj
  ev_sentAt :: string

datatype subscribe_mode = ModeReplay | ModeSnapshot | ModeLive

record subscribe_result =
  sr_session :: session
  sr_mode :: subscribe_mode
  sr_events :: "event_message list option"
  sr_terminalBuffer :: "string option"
  sr_lastSeq :: "int option"
  sr_activeInteraction :: "interaction option"
  sr_terminalRender :: "json render_snapshot option"

record session_state =
  sessionsById :: "string \<rightharpoonup> session"
  sessionIds :: "string list"
  terminalBySessionId :: "string \<rightharpoonup> terminal_buffer"
  renderBySessionId :: "string \<rightharpoonup> json render_buffer"
  activeInteractionsBySessionId :: "string \<rightharpoonup> interaction"
  dismissedAttentionKeys :: "string set"
  activity :: "activity_fact list"
  openSessionId :: "string option"
  subscribedSessionId :: "string option"

datatype session_action =
    SessionListReceived "session list"
  | SessionSubscribeReceived subscribe_result
  | EventReceived event_message
  | AttentionDismissed string
  | SessionOpened "string option"
  | SessionSubscriptionChanged "string option"

definition createInitialSessionState :: session_state where
  "createInitialSessionState =
     \<lparr>sessionsById = (\<lambda>_. None), sessionIds = [], terminalBySessionId = (\<lambda>_. None),
      renderBySessionId = (\<lambda>_. None), activeInteractionsBySessionId = (\<lambda>_. None),
      dismissedAttentionKeys = {}, activity = [], openSessionId = None, subscribedSessionId = None\<rparr>"

text \<open>\<open>session.id\<close>.\<close>

definition sess_id :: "session \<Rightarrow> string" where
  "sess_id session = str_at ''id'' (JObj session)"

text \<open>\<open>String(v)\<close>, which turns a computed key into a property name.\<close>

fun comma_join :: "string list \<Rightarrow> string" where
  "comma_join [] = []"
| "comma_join [s] = s"
| "comma_join (s # ss) = s @ '','' @ comma_join ss"

fun js_string :: "json \<Rightarrow> string" where
  "js_string JNull = ''null''"
| "js_string (JBool b) = (if b then ''true'' else ''false'')"
| "js_string (JNum n) = show_int n"
| "js_string (JStr s) = s"
| "js_string (JArr vs) = comma_join (map (\<lambda>v. if v = JNull then [] else js_string v) vs)"
| "js_string (JObj m) = ''[object Object]''"

definition to_key :: "json option \<Rightarrow> string" where
  "to_key v = (case v of Some j \<Rightarrow> js_string j | None \<Rightarrow> ''undefined'')"

subsection \<open>Reading an event\<close>

definition eventSession :: "event_message \<Rightarrow> session option" where
  "eventSession event =
     (case map_of (ev_data event) ''session'' of
        None \<Rightarrow> None
      | Some value \<Rightarrow>
          if is_record value \<and> as_str (prop_of ''id'' value) \<noteq> None then as_obj (Some value) else None)"

definition eventInteraction :: "event_message \<Rightarrow> interaction option" where
  "eventInteraction event =
     (case map_of (ev_data event) ''interaction'' of
        None \<Rightarrow> None
      | Some value \<Rightarrow>
          if is_record value \<and> as_str (prop_of ''id'' value) \<noteq> None then as_obj (Some value) else None)"

definition eventSessionId :: "event_message \<Rightarrow> string option" where
  "eventSessionId event = as_str (map_of (ev_data event) ''sessionId'')"

subsection \<open>Updates\<close>

definition addActivity :: "session_state \<Rightarrow> activity_fact \<Rightarrow> session_state" where
  "addActivity state activityFact = state\<lparr>activity := slice_last 20 (activity state @ [activityFact])\<rparr>"

definition makeActivity ::
  "event_message \<Rightarrow> string \<Rightarrow> activity_type \<Rightarrow> session option \<Rightarrow> int option \<Rightarrow> activity_fact" where
  "makeActivity event sessionId type session exitCode =
     \<lparr>af_id = ev_sentAt event @ '':'' @ ev_event event @ '':'' @ sessionId,
      af_sessionId = sessionId,
      af_type = type,
      af_at = ev_sentAt event,
      af_status = (case session of Some m \<Rightarrow> map_of m ''status'' | None \<Rightarrow> None),
      af_title = (case session of Some m \<Rightarrow> map_of m ''title'' | None \<Rightarrow> None),
      af_exitCode = exitCode\<rparr>"

definition upsertSession :: "session_state \<Rightarrow> session \<Rightarrow> session_state" where
  "upsertSession state session =
     (let existing = sessionsById state (sess_id session) \<noteq> None
      in state\<lparr>sessionsById := (sessionsById state)(sess_id session \<mapsto> session),
               sessionIds := (if existing then sessionIds state else sessionIds state @ [sess_id session])\<rparr>)"

definition omitKey :: "(string \<rightharpoonup> 'a) \<Rightarrow> string \<Rightarrow> (string \<rightharpoonup> 'a)" where
  "omitKey r key = r(key := None)"

subsection \<open>Replayed events\<close>

definition terminalReplayCoordinates :: "event_message \<Rightarrow> (string \<times> int) option" where
  "terminalReplayCoordinates event =
     (if ev_event event \<noteq> ''terminal.output'' then None
      else
        (case (as_str (map_of (ev_data event) ''sessionId''), as_num (map_of (ev_data event) ''seq'')) of
           (Some sessionId, Some sq) \<Rightarrow> Some (sessionId, sq)
         | _ \<Rightarrow> None))"

definition replay_seq :: "event_message \<Rightarrow> int" where
  "replay_seq event = (case terminalReplayCoordinates event of Some (_, sq) \<Rightarrow> sq | None \<Rightarrow> 0)"

text \<open>The three loops of \<open>orderReplayEvents\<close>: queue the terminal output of each session, sort every
  queue, and fill the places of a session's output from its queue.\<close>

definition queue_event ::
  "(string, event_message list) jsmap \<Rightarrow> event_message \<Rightarrow> (string, event_message list) jsmap" where
  "queue_event terminalBySession event =
     (case terminalReplayCoordinates event of
        None \<Rightarrow> terminalBySession
      | Some (sessionId, _) \<Rightarrow>
          (let queued = (case map_of terminalBySession sessionId of Some q \<Rightarrow> q | None \<Rightarrow> [])
           in AList.update sessionId (queued @ [event]) terminalBySession))"

definition sort_queues ::
  "(string, event_message list) jsmap \<Rightarrow> (string, event_message list) jsmap" where
  "sort_queues terminalBySession =
     map (\<lambda>(sessionId, queued).
            (sessionId, js_sort (\<lambda>left right. replay_seq left - replay_seq right) queued))
       terminalBySession"

fun fill_places ::
  "(string, event_message list) jsmap \<Rightarrow> (string, nat) jsmap \<Rightarrow> event_message list \<Rightarrow> event_message list" where
  "fill_places queues nextIndex [] = []"
| "fill_places queues nextIndex (event # events) =
     (case terminalReplayCoordinates event of
        None \<Rightarrow> event # fill_places queues nextIndex events
      | Some (sessionId, _) \<Rightarrow>
          (let index = (case map_of nextIndex sessionId of Some n \<Rightarrow> n | None \<Rightarrow> 0)
           in (case map_of queues sessionId of
                 Some queued \<Rightarrow> if index < length queued then queued ! index else event
               | None \<Rightarrow> event) #
              fill_places queues (AList.update sessionId (index + 1) nextIndex) events))"

definition orderReplayEvents :: "event_message list \<Rightarrow> event_message list" where
  "orderReplayEvents events = fill_places (sort_queues (foldl queue_event [] events)) [] events"

subsection \<open>The reducer\<close>

definition receiveSession :: "session_state \<Rightarrow> event_message \<Rightarrow> session_state" where
  "receiveSession state event =
     (case eventSession event of
        None \<Rightarrow> state
      | Some session \<Rightarrow>
          (let type = (if ev_event event = ''session.created'' then ActCreated else ActUpdated)
           in addActivity (upsertSession state session)
                (makeActivity event (sess_id session) type (Some session) None)))"

definition receiveOutput :: "session_state \<Rightarrow> event_message \<Rightarrow> session_state" where
  "receiveOutput state event =
     (case (as_str (map_of (ev_data event) ''sessionId''), as_num (map_of (ev_data event) ''seq''),
            as_str (map_of (ev_data event) ''data'')) of
        (Some sessionId, Some sq, Some text) \<Rightarrow>
          (let chunk = \<lparr>tc_seq = sq, tc_data = text\<rparr>;
               current = (case terminalBySessionId state sessionId of
                            Some b \<Rightarrow> b | None \<Rightarrow> createTerminalBuffer);
               nxt = appendTerminalOutput current chunk
           in if nxt = current then state
              else state\<lparr>terminalBySessionId := (terminalBySessionId state)(sessionId \<mapsto> nxt)\<rparr>)
      | _ \<Rightarrow> state)"

definition receiveRender :: "session_state \<Rightarrow> event_message \<Rightarrow> session_state" where
  "receiveRender state event =
     (case (as_str (map_of (ev_data event) ''sessionId''), as_num (map_of (ev_data event) ''seq''),
            as_arr (map_of (ev_data event) ''historyAppend''), as_arr (map_of (ev_data event) ''screen'')) of
        (Some sessionId, Some sq, Some historyAppend, Some screen) \<Rightarrow>
          (let current = (case renderBySessionId state sessionId of
                            Some b \<Rightarrow> b | None \<Rightarrow> createRenderBuffer);
               nxt = applyRenderFrame current
                       \<lparr>rf_seq = sq, rf_historyAppend = historyAppend, rf_screen = screen\<rparr>
           in if nxt = current then state
              else state\<lparr>renderBySessionId := (renderBySessionId state)(sessionId \<mapsto> nxt)\<rparr>)
      | _ \<Rightarrow> state)"

definition receiveInteraction :: "session_state \<Rightarrow> event_message \<Rightarrow> session_state" where
  "receiveInteraction state event =
     (case eventInteraction event of
        None \<Rightarrow> state
      | Some interaction \<Rightarrow>
          state\<lparr>activeInteractionsBySessionId :=
            (activeInteractionsBySessionId state)(to_key (map_of interaction ''sessionId'') \<mapsto> interaction)\<rparr>)"

definition receiveResolved :: "session_state \<Rightarrow> event_message \<Rightarrow> session_state" where
  "receiveResolved state event =
     (case eventSessionId event of
        None \<Rightarrow> state
      | Some sessionId \<Rightarrow>
          if sessionId = [] then state
          else state\<lparr>activeInteractionsBySessionId :=
                 omitKey (activeInteractionsBySessionId state) sessionId\<rparr>)"

definition receiveEnded :: "session_state \<Rightarrow> event_message \<Rightarrow> session_state" where
  "receiveEnded state event =
     (case eventSessionId event of
        None \<Rightarrow> state
      | Some sessionId \<Rightarrow>
          if sessionId = [] then state
          else
            (case sessionsById state sessionId of
               None \<Rightarrow> state
             | Some current \<Rightarrow>
                 (let exitCode = as_num (map_of (ev_data event) ''exitCode'');
                      stopped = AList.update ''lastActivityAt'' (JStr (ev_sentAt event))
                                  (AList.update ''status'' (JStr ''stopped'') current);
                      ended = (case exitCode of
                                 None \<Rightarrow> stopped
                               | Some n \<Rightarrow> AList.update ''exitCode'' (JNum n) stopped)
                  in addActivity (upsertSession state ended)
                       (makeActivity event sessionId ActEnded (Some ended) exitCode))))"

definition removeSession :: "session_state \<Rightarrow> string \<Rightarrow> session_state" where
  "removeSession state sessionId =
     state\<lparr>sessionsById := omitKey (sessionsById state) sessionId,
           sessionIds := filter (\<lambda>i. i \<noteq> sessionId) (sessionIds state),
           terminalBySessionId := omitKey (terminalBySessionId state) sessionId,
           renderBySessionId := omitKey (renderBySessionId state) sessionId,
           activeInteractionsBySessionId := omitKey (activeInteractionsBySessionId state) sessionId,
           dismissedAttentionKeys :=
             {key \<in> dismissedAttentionKeys state. \<not> starts_with (sessionId @ '':'') key},
           openSessionId :=
             (if openSessionId state = Some sessionId then None else openSessionId state),
           subscribedSessionId :=
             (if subscribedSessionId state = Some sessionId then None else subscribedSessionId state)\<rparr>"

definition receiveRemoved :: "session_state \<Rightarrow> event_message \<Rightarrow> session_state" where
  "receiveRemoved state event =
     (case eventSessionId event of
        None \<Rightarrow> state
      | Some sessionId \<Rightarrow>
          if sessionId = [] then state
          else addActivity (removeSession state sessionId)
                 (makeActivity event sessionId ActRemoved (sessionsById state sessionId) None))"

definition receiveEvent :: "session_state \<Rightarrow> event_message \<Rightarrow> session_state" where
  "receiveEvent state event =
     (if ev_event event = ''session.created'' \<or> ev_event event = ''session.updated''
      then receiveSession state event
      else if ev_event event = ''terminal.output'' then receiveOutput state event
      else if ev_event event = ''terminal.render'' then receiveRender state event
      else if ev_event event = ''interaction.requested'' \<or> ev_event event = ''interaction.updated''
      then receiveInteraction state event
      else if ev_event event = ''interaction.resolved'' then receiveResolved state event
      else if ev_event event = ''session.ended'' then receiveEnded state event
      else if ev_event event = ''session.removed'' then receiveRemoved state event
      else state)"

definition receiveList :: "session_state \<Rightarrow> session list \<Rightarrow> session_state" where
  "receiveList state sessions =
     state\<lparr>sessionsById := foldl (\<lambda>m session. m(sess_id session \<mapsto> session)) (\<lambda>_. None) sessions,
           sessionIds := map sess_id sessions\<rparr>"

definition receiveSubscribe :: "session_state \<Rightarrow> subscribe_result \<Rightarrow> session_state" where
  "receiveSubscribe state result =
     (let i = sess_id (sr_session result);
          s1 = upsertSession state (sr_session result);
          s2 = s1\<lparr>openSessionId := Some i, subscribedSessionId := Some i,
                  activeInteractionsBySessionId :=
                    (case sr_activeInteraction result of
                       Some interaction \<Rightarrow> (activeInteractionsBySessionId s1)(i \<mapsto> interaction)
                     | None \<Rightarrow> omitKey (activeInteractionsBySessionId s1) i)\<rparr>;
          s3 = (if sr_mode result = ModeSnapshot
                then s2\<lparr>terminalBySessionId := (terminalBySessionId s2)(i \<mapsto>
                       replaceTerminalSnapshot
                         (case terminalBySessionId s2 i of Some b \<Rightarrow> b | None \<Rightarrow> createTerminalBuffer)
                         (case sr_terminalBuffer result of Some t \<Rightarrow> t | None \<Rightarrow> [])
                         (case sr_lastSeq result of Some n \<Rightarrow> n | None \<Rightarrow> 0))\<rparr>
                else s2);
          s4 = (if sr_mode result = ModeReplay
                then foldl receiveEvent s3
                       (orderReplayEvents (case sr_events result of Some es \<Rightarrow> es | None \<Rightarrow> []))
                else s3)
      in (case sr_terminalRender result of
            Some snapshot \<Rightarrow> s4\<lparr>renderBySessionId := (renderBySessionId s4)(i \<mapsto> replaceRenderSnapshot snapshot)\<rparr>
          | None \<Rightarrow> s4))"

fun sessionReducer :: "session_state \<Rightarrow> session_action \<Rightarrow> session_state" where
  "sessionReducer state (SessionListReceived sessions) = receiveList state sessions"
| "sessionReducer state (SessionSubscribeReceived result) = receiveSubscribe state result"
| "sessionReducer state (EventReceived event) = receiveEvent state event"
| "sessionReducer state (AttentionDismissed key) =
     state\<lparr>dismissedAttentionKeys := insert key (dismissedAttentionKeys state)\<rparr>"
| "sessionReducer state (SessionOpened sessionId) = state\<lparr>openSessionId := sessionId\<rparr>"
| "sessionReducer state (SessionSubscriptionChanged sessionId) = state\<lparr>subscribedSessionId := sessionId\<rparr>"

end
