(* ===== verification/Session_Replay.thy ===== *)
theory Session_Replay
  imports Session_State
begin

section \<open>The order of replayed events\<close>

text \<open>
  \<open>orderReplayEvents\<close> sorts each session's terminal output within the places that the output
  occupies and leaves all other events where they are; reducing the ordered events gives a
  session's terminal what the reference \<^const>\<open>replayTerminalOutput\<close> gives it.
\<close>

definition place_of :: "event_message \<Rightarrow> string option" where
  "place_of event = map_option fst (terminalReplayCoordinates event)"

lemma place_of_None [simp]: "terminalReplayCoordinates ev = None \<Longrightarrow> place_of ev = None"
  and place_of_Some [simp]: "terminalReplayCoordinates ev = Some (i, n) \<Longrightarrow> place_of ev = Some i"
  by (simp_all add: place_of_def)

text \<open>The queue of a session holds the session's output, and only that, in order of arrival.\<close>

abbreviation queue_at :: "(string, event_message list) jsmap \<Rightarrow> string \<Rightarrow> event_message list" where
  "queue_at m i \<equiv> (case map_of m i of Some q \<Rightarrow> q | None \<Rightarrow> [])"

lemma queue_event_at:
  "queue_at (queue_event m ev) i = queue_at m i @ (if place_of ev = Some i then [ev] else [])"
proof (cases "terminalReplayCoordinates ev")
  case None
  then show ?thesis by (simp add: queue_event_def)
next
  case (Some c)
  then show ?thesis by (cases c) (auto simp: queue_event_def Let_def split: option.split)
qed

lemma queues_at: "queue_at (foldl queue_event m es) i = queue_at m i @ filter (\<lambda>e. place_of e = Some i) es"
  by (induction es arbitrary: m) (auto simp: queue_event_at)

lemma sort_queues_at:
  "queue_at (sort_queues m) i = js_sort (\<lambda>l r. replay_seq l - replay_seq r) (queue_at m i)"
  by (induction m) (auto simp: sort_queues_def)

lemma js_sort_seq: "js_sort (\<lambda>l r. replay_seq l - replay_seq r) q = sort_key replay_seq q"
  by (rule js_sort_key) auto

lemma ordered_queue:
  "queue_at (sort_queues (foldl queue_event [] es)) i = sort_key replay_seq (filter (\<lambda>e. place_of e = Some i) es)"
  by (simp add: sort_queues_at queues_at js_sort_seq)

text \<open>Filling the places.\<close>

abbreviation index_at :: "(string, nat) jsmap \<Rightarrow> string \<Rightarrow> nat" where
  "index_at m i \<equiv> (case map_of m i of Some n \<Rightarrow> n | None \<Rightarrow> 0)"

lemma fill_places_Cons:
  "terminalReplayCoordinates ev = Some (i, n) \<Longrightarrow> index_at ix i < length (queue_at qs i) \<Longrightarrow>
   fill_places qs ix (ev # es) =
     queue_at qs i ! index_at ix i # fill_places qs (AList.update i (index_at ix i + 1) ix) es"
  by (cases "map_of qs i") (auto simp: Let_def)

lemma fill_places_spec:
  assumes "\<And>i. length (filter (\<lambda>e. place_of e = Some i) es) \<le> length (queue_at qs i) - index_at ix i"
    and "\<And>i e. e \<in> set (queue_at qs i) \<Longrightarrow> place_of e = Some i"
  shows "map place_of (fill_places qs ix es) = map place_of es \<and>
         filter (\<lambda>e. place_of e = None) (fill_places qs ix es) = filter (\<lambda>e. place_of e = None) es \<and>
         filter (\<lambda>e. place_of e = Some i) (fill_places qs ix es) =
           take (length (filter (\<lambda>e. place_of e = Some i) es)) (drop (index_at ix i) (queue_at qs i))"
  using assms
proof (induction es arbitrary: ix)
  case (Cons ev es)
  show ?case
  proof (cases "terminalReplayCoordinates ev")
    case None
    with Cons.prems have "\<And>i. length (filter (\<lambda>e. place_of e = Some i) es) \<le> length (queue_at qs i) - index_at ix i"
      by (auto split: if_splits)
    with Cons.IH [of ix] Cons.prems(2) None show ?thesis by simp
  next
    case (Some c)
    then obtain j n where c: "terminalReplayCoordinates ev = Some (j, n)" by (cases c) auto
    define ix' where "ix' = AList.update j (index_at ix j + 1) ix"
    have ix': "index_at ix' k = (if k = j then index_at ix j + 1 else index_at ix k)" for k
      by (simp add: ix'_def)
    have len: "length (filter (\<lambda>e. place_of e = Some k) (ev # es)) \<le> length (queue_at qs k) - index_at ix k" for k
      by (rule Cons.prems(1))
    from len [of j] c have lt: "index_at ix j < length (queue_at qs j)" by simp
    define x where "x = queue_at qs j ! index_at ix j"
    have x: "place_of x = Some j" unfolding x_def by (rule Cons.prems(2)) (rule nth_mem [OF lt])
    have "length (filter (\<lambda>e. place_of e = Some k) es) \<le> length (queue_at qs k) - index_at ix' k" for k
      using len [of k] c unfolding ix' by (cases "k = j") auto
    note IH = Cons.IH [OF this Cons.prems(2)]
    have step: "fill_places qs ix (ev # es) = x # fill_places qs ix' es"
      unfolding x_def ix'_def by (rule fill_places_Cons [OF c lt])
    have "take (Suc m) (drop (index_at ix j) (queue_at qs j)) = x # take m (drop (index_at ix' j) (queue_at qs j))" for m
      using lt by (simp add: ix' x_def Cons_nth_drop_Suc [symmetric])
    then show ?thesis unfolding step using IH x c by (auto simp: ix')
  qed
qed simp

lemma orderReplayEvents_spec:
  shows order_places: "map place_of (orderReplayEvents es) = map place_of es"
    and order_others: "filter (\<lambda>e. place_of e = None) (orderReplayEvents es) = filter (\<lambda>e. place_of e = None) es"
    and order_session: "filter (\<lambda>e. place_of e = Some i) (orderReplayEvents es) =
           sort_key replay_seq (filter (\<lambda>e. place_of e = Some i) es)"
proof -
  let ?q = "sort_queues (foldl queue_event [] es)"
  have len: "length (filter (\<lambda>e. place_of e = Some i) es) \<le> length (queue_at ?q i) - index_at [] i" for i
    unfolding ordered_queue by simp
  have pl: "e \<in> set (queue_at ?q i) \<Longrightarrow> place_of e = Some i" for i e
    unfolding ordered_queue by simp
  note s = fill_places_spec [of es ?q "[]" i, OF len pl, unfolded ordered_queue]
  from s show "map place_of (orderReplayEvents es) = map place_of es"
    and "filter (\<lambda>e. place_of e = None) (orderReplayEvents es) = filter (\<lambda>e. place_of e = None) es"
    and "filter (\<lambda>e. place_of e = Some i) (orderReplayEvents es) =
           sort_key replay_seq (filter (\<lambda>e. place_of e = Some i) es)"
    unfolding orderReplayEvents_def by (simp_all del: fill_places.simps)
qed

lemma filters_mset:
  assumes "\<And>k. mset (filter (\<lambda>e. f e = k) xs) = mset (filter (\<lambda>e. f e = k) ys)"
  shows "mset xs = mset ys"
proof (rule multiset_eqI)
  fix x
  have "count (mset zs) x = count (mset (filter (\<lambda>e. f e = f x) zs)) x" for zs by simp
  with assms [of "f x"] show "count (mset xs) x = count (mset ys) x" by metis
qed

lemma order_mset: "mset (orderReplayEvents es) = mset es"
proof (rule filters_mset [where f = place_of])
  fix k
  show "mset (filter (\<lambda>e. place_of e = k) (orderReplayEvents es)) = mset (filter (\<lambda>e. place_of e = k) es)"
    by (cases k) (simp_all add: order_others order_session)
qed

lemma nth_fixed:
  assumes "map f xs = map f ys" and "filter (\<lambda>e. f e = k) xs = filter (\<lambda>e. f e = k) ys"
    and "n < length ys" and "f (ys ! n) = k"
  shows "xs ! n = ys ! n"
  using assms
proof (induction ys arbitrary: xs n)
  case (Cons y ys)
  from Cons.prems(1) obtain x xs' where xs: "xs = x # xs'" and fx: "f x = f y" and m: "map f xs' = map f ys"
    by auto
  have tl: "filter (\<lambda>e. f e = k) xs' = filter (\<lambda>e. f e = k) ys"
    using Cons.prems(2) fx by (auto simp: xs split: if_splits)
  show ?case
  proof (cases n)
    case 0
    with Cons.prems fx show ?thesis by (simp add: xs)
  next
    case (Suc j)
    with Cons.IH [OF m tl, of j] Cons.prems show ?thesis by (simp add: xs)
  qed
qed simp

text \<open>Ordering a replay loses, adds and changes no event; an event that is not terminal output
  stays where it is; a place of some session's output stays a place of that session; and within a
  session the output comes in the order of its numbers, equal numbers in order of arrival.\<close>

theorem replay_order:
  "mset (orderReplayEvents es) = mset es \<and>
   map place_of (orderReplayEvents es) = map place_of es \<and>
   (\<forall>n < length es. place_of (es ! n) = None \<longrightarrow> orderReplayEvents es ! n = es ! n) \<and>
   filter (\<lambda>e. place_of e = Some i) (orderReplayEvents es) =
     sort_key replay_seq (filter (\<lambda>e. place_of e = Some i) es)"
  using nth_fixed [OF order_places order_others] by (simp add: order_mset order_places order_session)

definition sample_output :: "int \<Rightarrow> string \<Rightarrow> event_message" where
  "sample_output n text =
     \<lparr>ev_event = ''terminal.output'',
      ev_data = [(''sessionId'', JStr ''s''), (''seq'', JNum n), (''data'', JStr text)],
      ev_sentAt = ''t''\<rparr>"

definition sample_other :: event_message where
  "sample_other = \<lparr>ev_event = ''other'', ev_data = [], ev_sentAt = ''t''\<rparr>"

lemma sample_places [simp]:
  "terminalReplayCoordinates (sample_output n t) = Some (''s'', n)"
  "terminalReplayCoordinates sample_other = None"
  "place_of (sample_output n t) = Some ''s''" "place_of sample_other = None"
  "replay_seq (sample_output n t) = n"
  by (simp_all add: sample_output_def sample_other_def terminalReplayCoordinates_def place_of_def replay_seq_def)

theorem replay_order_witness:
  "orderReplayEvents [sample_output 2 ''b'', sample_other, sample_output 1 ''a''] ! 1 = sample_other \<and>
   filter (\<lambda>e. place_of e = Some ''s'') (orderReplayEvents [sample_output 2 ''b'', sample_other, sample_output 1 ''a'']) =
     [sample_output 1 ''a'', sample_output 2 ''b'']"
  using replay_order [of "[sample_output 2 ''b'', sample_other, sample_output 1 ''a'']" "''s''"]
  by (auto simp: insort_key_def dest!: spec [of _ "1::nat"])

subsection \<open>What a replay leaves in the terminal\<close>

definition chunk_of :: "string \<Rightarrow> event_message \<Rightarrow> terminal_chunk option" where
  "chunk_of i event =
     (case (terminalReplayCoordinates event, as_str (map_of (ev_data event) ''data'')) of
        (Some (sessionId, sq), Some text) \<Rightarrow>
          if sessionId = i then Some \<lparr>tc_seq = sq, tc_data = text\<rparr> else None
      | _ \<Rightarrow> None)"

definition terminal_at :: "session_state \<Rightarrow> string \<Rightarrow> terminal_buffer" where
  "terminal_at s i = (case terminalBySessionId s i of Some b \<Rightarrow> b | None \<Rightarrow> createTerminalBuffer)"

definition removes :: "string \<Rightarrow> event_message \<Rightarrow> bool" where
  "removes i event \<longleftrightarrow> ev_event event = ''session.removed'' \<and> eventSessionId event = Some i"

lemma terminal_addActivity [simp]: "terminal_at (addActivity s a) i = terminal_at s i"
  and terminal_upsert [simp]: "terminal_at (upsertSession s x) i = terminal_at s i"
  by (simp_all add: terminal_at_def addActivity_def upsertSession_def Let_def)

lemma receiveOutput_terminal:
  "ev_event ev = ''terminal.output'' \<Longrightarrow>
   terminal_at (receiveOutput s ev) i =
     (case chunk_of i ev of Some c \<Rightarrow> appendTerminalOutput (terminal_at s i) c | None \<Rightarrow> terminal_at s i)"
  unfolding receiveOutput_def chunk_of_def terminalReplayCoordinates_def
  by (auto simp: terminal_at_def Let_def split: option.split)

lemma chunk_of_other: "ev_event ev \<noteq> ''terminal.output'' \<Longrightarrow> chunk_of i ev = None"
  by (simp add: chunk_of_def terminalReplayCoordinates_def)

lemma receive_others_terminal:
  "terminal_at (receiveSession s ev) i = terminal_at s i"
  "terminal_at (receiveRender s ev) i = terminal_at s i"
  "terminal_at (receiveInteraction s ev) i = terminal_at s i"
  "terminal_at (receiveResolved s ev) i = terminal_at s i"
  "terminal_at (receiveEnded s ev) i = terminal_at s i"
      apply (simp add: receiveSession_def split: option.split)
     apply (simp add: receiveRender_def terminal_at_def Let_def split: option.split)
    apply (simp add: receiveInteraction_def terminal_at_def split: option.split)
   apply (simp add: receiveResolved_def terminal_at_def split: option.split)
  apply (simp add: receiveEnded_def Let_def split: option.split)
  done

lemma receiveRemoved_terminal:
  "eventSessionId ev \<noteq> Some i \<Longrightarrow> terminal_at (receiveRemoved s ev) i = terminal_at s i"
  by (auto simp: receiveRemoved_def removeSession_def omitKey_def terminal_at_def addActivity_def
      split: option.split)

lemma receiveEvent_terminal:
  assumes "\<not> removes i ev"
  shows "terminal_at (receiveEvent s ev) i =
     (case chunk_of i ev of Some c \<Rightarrow> appendTerminalOutput (terminal_at s i) c | None \<Rightarrow> terminal_at s i)"
proof (cases "ev_event ev = ''terminal.output''")
  case True
  then show ?thesis by (simp add: receiveEvent_def receiveOutput_terminal)
next
  case False
  with assms show ?thesis
    by (auto simp: receiveEvent_def chunk_of_other receive_others_terminal removes_def intro: receiveRemoved_terminal)
qed

lemma run_terminal:
  "(\<And>ev. ev \<in> set es \<Longrightarrow> \<not> removes i ev) \<Longrightarrow>
   terminal_at (foldl receiveEvent s es) i =
     foldl appendTerminalOutput (terminal_at s i) (List.map_filter (chunk_of i) es)"
proof (induction es arbitrary: s)
  case (Cons ev es)
  then show ?case by (cases "chunk_of i ev") (simp_all add: receiveEvent_terminal map_filter_simps)
qed (simp add: map_filter_simps)

definition the_chunk :: "event_message \<Rightarrow> terminal_chunk" where
  "the_chunk event = \<lparr>tc_seq = replay_seq event, tc_data = the (as_str (map_of (ev_data event) ''data''))\<rparr>"

lemma chunk_of_split:
  "chunk_of i ev = (if place_of ev = Some i \<and> as_str (map_of (ev_data ev) ''data'') \<noteq> None
                    then Some (the_chunk ev) else None)"
  by (auto simp: chunk_of_def the_chunk_def place_of_def replay_seq_def split: option.splits)

lemma chunks_conv:
  "List.map_filter (chunk_of i) es =
     map the_chunk (filter (\<lambda>e. as_str (map_of (ev_data e) ''data'') \<noteq> None) (filter (\<lambda>e. place_of e = Some i) es))"
  by (induction es) (auto simp: map_filter_simps chunk_of_split)

lemma ordered_chunks:
  "List.map_filter (chunk_of i) (orderReplayEvents es) = sort_key tc_seq (List.map_filter (chunk_of i) es)"
  by (simp add: chunks_conv order_session filter_sort sort_key_map) (simp add: the_chunk_def)

lemma order_removes: "(\<And>ev. ev \<in> set es \<Longrightarrow> \<not> removes i ev) \<Longrightarrow> ev \<in> set (orderReplayEvents es) \<Longrightarrow> \<not> removes i ev"
  using mset_eq_setD [OF order_mset] by blast

lemma terminal_frame [simp]:
  "terminal_at (s\<lparr>renderBySessionId := a\<rparr>) i = terminal_at s i"
  "terminal_at (s\<lparr>openSessionId := b\<rparr>) i = terminal_at s i"
  "terminal_at (s\<lparr>subscribedSessionId := c\<rparr>) i = terminal_at s i"
  "terminal_at (s\<lparr>activeInteractionsBySessionId := d\<rparr>) i = terminal_at s i"
  by (simp_all add: terminal_at_def)

text \<open>C13: Subscribing with a replay, whatever else the replayed events do to the state, leaves in the
  session's terminal exactly what the reference replay of its recorded output leaves there, whatever
  order the desktop sent it in.\<close>

theorem subscribe_replay_refines:
  assumes "sr_mode r = ModeReplay" and "sr_events r = Some es"
    and "\<forall>ev \<in> set es. \<not> removes i ev"
  shows "terminal_at (sessionReducer s (SessionSubscribeReceived r)) i =
           replayTerminalOutput (terminal_at s i) (List.map_filter (chunk_of i) es)"
proof -
  have "terminal_at (foldl receiveEvent s' (orderReplayEvents es)) i =
          foldl appendTerminalOutput (terminal_at s' i) (List.map_filter (chunk_of i) (orderReplayEvents es))" for s'
    using assms(3) by (intro run_terminal) (auto dest: order_removes [rotated])
  then have "terminal_at (sessionReducer s (SessionSubscribeReceived r)) i =
          foldl appendTerminalOutput (terminal_at s i) (List.map_filter (chunk_of i) (orderReplayEvents es))"
    using assms(1,2) by (simp add: receiveSubscribe_def Let_def split: option.split)
  then show ?thesis by (simp add: ordered_chunks replay_is_sort_key)
qed

theorem subscribe_replay_refines_witness:
  "terminal_at (sessionReducer createInitialSessionState (SessionSubscribeReceived
      \<lparr>sr_session = [(''id'', JStr ''s'')], sr_mode = ModeReplay,
       sr_events = Some [sample_output 2 ''b'', sample_other, sample_output 1 ''a''],
       sr_terminalBuffer = None, sr_lastSeq = None, sr_activeInteraction = None,
       sr_terminalRender = None\<rparr>)) ''s'' = \<lparr>tb_text = ''ab'', tb_lastSeq = 2\<rparr>"
  by (subst subscribe_replay_refines [where es = "[sample_output 2 ''b'', sample_other, sample_output 1 ''a'']"])
    (simp_all add: removes_def sample_output_def sample_other_def replay_is_sort_key map_filter_simps
      chunk_of_def terminalReplayCoordinates_def terminal_at_def createInitialSessionState_def
      createTerminalBuffer_def appendTerminalOutput_def trimTerminalText_def
      MAX_TERMINAL_BUFFER_LENGTH_def)

end
