(* ===== verification/Session_Invariant.thy ===== *)
theory Session_Invariant
  imports Session_Replay
begin

section \<open>The invariant of the session state\<close>

text \<open>
  What every action of the reducer keeps, whatever the desktop sends: the list of identifiers names
  exactly the sessions that are stored, each session is stored under its own identifier, and the
  activity, the terminals and the rendered histories stay within their bounds.
\<close>

definition filed_ok :: "session_state \<Rightarrow> bool" where
  "filed_ok s \<longleftrightarrow> set (sessionIds s) = dom (sessionsById s) \<and>
     (\<forall>i x. sessionsById s i = Some x \<longrightarrow> sess_id x = i)"

definition bounds_ok :: "session_state \<Rightarrow> bool" where
  "bounds_ok s \<longleftrightarrow> length (activity s) \<le> 20 \<and>
     (\<forall>i b. terminalBySessionId s i = Some b \<longrightarrow> length (tb_text b) \<le> MAX_TERMINAL_BUFFER_LENGTH) \<and>
     (\<forall>i b. renderBySessionId s i = Some b \<longrightarrow> length (rb_history b) \<le> MAX_RENDER_HISTORY)"

definition session_inv :: "session_state \<Rightarrow> bool" where
  "session_inv s \<longleftrightarrow> filed_ok s \<and> bounds_ok s"

text \<open>What each update does to the two halves of the invariant.\<close>

lemma filed_addActivity [simp]: "filed_ok (addActivity s a) = filed_ok s"
  and filed_terminal [simp]: "filed_ok (s\<lparr>terminalBySessionId := t\<rparr>) = filed_ok s"
  and filed_render [simp]: "filed_ok (s\<lparr>renderBySessionId := r\<rparr>) = filed_ok s"
  and filed_interactions [simp]: "filed_ok (s\<lparr>activeInteractionsBySessionId := m\<rparr>) = filed_ok s"
  and filed_open [simp]: "filed_ok (s\<lparr>openSessionId := x\<rparr>) = filed_ok s"
  and filed_subscribed [simp]: "filed_ok (s\<lparr>subscribedSessionId := x\<rparr>) = filed_ok s"
  and filed_dismissed [simp]: "filed_ok (s\<lparr>dismissedAttentionKeys := d\<rparr>) = filed_ok s"
  by (simp_all add: filed_ok_def addActivity_def)

lemma bounds_addActivity [simp]: "bounds_ok s \<Longrightarrow> bounds_ok (addActivity s a)"
  and bounds_upsert [simp]: "bounds_ok (upsertSession s x) = bounds_ok s"
  and bounds_interactions [simp]: "bounds_ok (s\<lparr>activeInteractionsBySessionId := m\<rparr>) = bounds_ok s"
  and bounds_open [simp]: "bounds_ok (s\<lparr>openSessionId := y\<rparr>) = bounds_ok s"
  and bounds_subscribed [simp]: "bounds_ok (s\<lparr>subscribedSessionId := y\<rparr>) = bounds_ok s"
  and bounds_dismissed [simp]: "bounds_ok (s\<lparr>dismissedAttentionKeys := d\<rparr>) = bounds_ok s"
  by (simp_all add: bounds_ok_def addActivity_def upsertSession_def Let_def)

lemma bounds_terminal:
  "bounds_ok s \<Longrightarrow> length (tb_text b) \<le> MAX_TERMINAL_BUFFER_LENGTH \<Longrightarrow>
   bounds_ok (s\<lparr>terminalBySessionId := (terminalBySessionId s)(i \<mapsto> b)\<rparr>)"
  by (simp add: bounds_ok_def)

lemma bounds_render:
  "bounds_ok s \<Longrightarrow> length (rb_history b) \<le> MAX_RENDER_HISTORY \<Longrightarrow>
   bounds_ok (s\<lparr>renderBySessionId := (renderBySessionId s)(i \<mapsto> b)\<rparr>)"
  by (simp add: bounds_ok_def)

lemma filed_upsert: "filed_ok s \<Longrightarrow> filed_ok (upsertSession s x)"
  by (auto simp: filed_ok_def upsertSession_def Let_def)

lemma bounds_terminalD:
  "bounds_ok s \<Longrightarrow> terminalBySessionId s i = Some b \<Longrightarrow> length (tb_text b) \<le> MAX_TERMINAL_BUFFER_LENGTH"
  "length (tb_text createTerminalBuffer) \<le> MAX_TERMINAL_BUFFER_LENGTH"
  by (simp_all add: bounds_ok_def createTerminalBuffer_def)

lemma bounds_renderD:
  "bounds_ok s \<Longrightarrow> renderBySessionId s i = Some r \<Longrightarrow> length (rb_history r) \<le> MAX_RENDER_HISTORY"
  "length (rb_history createRenderBuffer) \<le> MAX_RENDER_HISTORY"
  by (simp_all add: bounds_ok_def createRenderBuffer_def)

lemma inv_receiveSession: "session_inv s \<Longrightarrow> session_inv (receiveSession s ev)"
  by (auto simp: session_inv_def receiveSession_def filed_upsert split: option.split)

lemma inv_receiveOutput: "session_inv s \<Longrightarrow> session_inv (receiveOutput s ev)"
  unfolding receiveOutput_def session_inv_def
  by (auto simp: Let_def split: option.split intro!: bounds_terminal tb.push_bounded bounds_terminalD)

lemma inv_receiveRender: "session_inv s \<Longrightarrow> session_inv (receiveRender s ev)"
  unfolding receiveRender_def session_inv_def
  by (auto simp: Let_def split: option.split intro!: bounds_render rb.push_bounded bounds_renderD)

lemma inv_receiveInteraction: "session_inv s \<Longrightarrow> session_inv (receiveInteraction s ev)"
  by (simp add: session_inv_def receiveInteraction_def split: option.split)

lemma inv_receiveResolved: "session_inv s \<Longrightarrow> session_inv (receiveResolved s ev)"
  by (simp add: session_inv_def receiveResolved_def split: option.split)

lemma inv_receiveEnded: "session_inv s \<Longrightarrow> session_inv (receiveEnded s ev)"
  by (simp add: session_inv_def receiveEnded_def Let_def filed_upsert split: option.split)

lemma inv_removeSession: "session_inv s \<Longrightarrow> session_inv (removeSession s i)"
  by (auto simp: session_inv_def filed_ok_def bounds_ok_def removeSession_def omitKey_def)

lemma inv_receiveRemoved: "session_inv s \<Longrightarrow> session_inv (receiveRemoved s ev)"
  using inv_removeSession [of s]
  by (auto simp: receiveRemoved_def split: option.split) (auto simp: session_inv_def)

lemmas inv_receives = inv_receiveSession inv_receiveOutput inv_receiveRender inv_receiveInteraction
  inv_receiveResolved inv_receiveEnded inv_receiveRemoved

lemma inv_receiveEvent: "session_inv s \<Longrightarrow> session_inv (receiveEvent s ev)"
  by (simp add: receiveEvent_def inv_receives)

interpretation received: machine receiveEvent session_inv
  by unfold_locales (rule inv_receiveEvent)

lemma list_dom:
  "dom (foldl (\<lambda>m x. m(sess_id x \<mapsto> x)) m xs) = sess_id ` set xs \<union> dom m"
  by (induction xs arbitrary: m) simp_all

lemma list_filed:
  "foldl (\<lambda>m x. m(sess_id x \<mapsto> x)) m xs i = Some x \<Longrightarrow> m i = Some x \<or> sess_id x = i"
proof (induction xs arbitrary: m)
  case (Cons y ys)
  from Cons.IH [of "m(sess_id y \<mapsto> y)"] Cons.prems show ?case by (simp split: if_splits) blast
qed simp

lemma inv_receiveList: "session_inv s \<Longrightarrow> session_inv (receiveList s xs)"
  using list_filed [of "\<lambda>_. None" xs]
  by (simp add: session_inv_def filed_ok_def bounds_ok_def receiveList_def list_dom)

lemma inv_receiveSubscribe:
  assumes "session_inv s"
  shows "session_inv (receiveSubscribe s r)"
proof -
  define i where "i = sess_id (sr_session r)"
  define s1 where "s1 = upsertSession s (sr_session r)"
  define s2 where "s2 = s1\<lparr>openSessionId := Some i, subscribedSessionId := Some i,
                  activeInteractionsBySessionId :=
                    (case sr_activeInteraction r of
                       Some x \<Rightarrow> (activeInteractionsBySessionId s1)(i \<mapsto> x)
                     | None \<Rightarrow> omitKey (activeInteractionsBySessionId s1) i)\<rparr>"
  have s2: "session_inv s2" using assms by (simp add: s2_def s1_def session_inv_def filed_upsert)
  define s3 where "s3 = (if sr_mode r = ModeSnapshot
                then s2\<lparr>terminalBySessionId := (terminalBySessionId s2)(i \<mapsto>
                       replaceTerminalSnapshot
                         (case terminalBySessionId s2 i of Some b \<Rightarrow> b | None \<Rightarrow> createTerminalBuffer)
                         (case sr_terminalBuffer r of Some t \<Rightarrow> t | None \<Rightarrow> [])
                         (case sr_lastSeq r of Some n \<Rightarrow> n | None \<Rightarrow> 0))\<rparr>
                else s2)"
  define s4 where "s4 = (if sr_mode r = ModeReplay
                then foldl receiveEvent s3
                       (orderReplayEvents (case sr_events r of Some es \<Rightarrow> es | None \<Rightarrow> []))
                else s3)"
  have s3: "session_inv s3" unfolding s3_def using s2
    by (auto simp: session_inv_def replaceTerminalSnapshot_def trimTerminalText_slice intro!: bounds_terminal)
  then have s4: "session_inv s4" unfolding s4_def by (simp add: received.run_inv)
  then have "session_inv (s4\<lparr>renderBySessionId := (renderBySessionId s4)(i \<mapsto> replaceRenderSnapshot x)\<rparr>)" for x
    by (auto simp: session_inv_def replaceRenderSnapshot_def intro!: bounds_render)
  with s4 show ?thesis
    unfolding receiveSubscribe_def Let_def i_def [symmetric] s1_def [symmetric] s2_def [symmetric]
      s3_def [symmetric] s4_def [symmetric]
    by (simp split: option.split)
qed

interpretation sessions: machine sessionReducer session_inv
proof unfold_locales
  fix s a
  assume "session_inv s"
  then show "session_inv (sessionReducer s a)"
    by (cases a) (simp_all add: inv_receiveList inv_receiveSubscribe inv_receiveEvent, simp_all add: session_inv_def)
qed

lemma inv_initial: "session_inv createInitialSessionState"
  by (simp add: session_inv_def filed_ok_def bounds_ok_def createInitialSessionState_def)

text \<open>C14: Whatever a desktop sends and the user does, the app's state stays consistent: the list of
  session identifiers names exactly the stored sessions, each under its own identifier, the activity
  has at most 20 entries, each terminal at most 200000 code units and each history at most 1000 lines.\<close>

theorem session_state_reachable: "session_inv (foldl sessionReducer createInitialSessionState actions)"
  by (rule sessions.run_inv) (rule inv_initial)



end
