(* ===== verification/Inbox_Selectors.thy ===== *)
theory Inbox_Selectors
  imports Session_Invariant
begin

section \<open>The lists on the screens (apps/mobile/src/state/inboxSelectors.ts)\<close>

text \<open>
  What the inbox and the session list show, computed from the session state.  \<open>Date.parse\<close> is the
  argument \<open>dp\<close>; \<^const>\<open>None\<close> is its \<open>NaN\<close>, which makes a comparator's result count as \<open>0\<close>.
\<close>

type_synonym date_parse = "string \<Rightarrow> int option"

datatype session_filter = FilterAll | FilterActive | FilterCompleted

definition ATTENTION_PRIORITY :: "string \<Rightarrow> int option" where
  "ATTENTION_PRIORITY = map_of [(''waiting'', 0), (''error'', 1), (''stopped'', 2)]"

definition ACTIVE_STATUSES :: "string set" where
  "ACTIVE_STATUSES = {''starting'', ''running'', ''waiting''}"

definition COMPLETED_STATUSES :: "string set" where
  "COMPLETED_STATUSES = {''stopped'', ''error''}"

definition MAX_SAFE_INTEGER :: int where
  "MAX_SAFE_INTEGER = 9007199254740991"

abbreviation status_of :: "session \<Rightarrow> string" where
  "status_of session \<equiv> str_at ''status'' (JObj session)"

abbreviation active_at :: "session \<Rightarrow> string" where
  "active_at session \<equiv> str_at ''lastActivityAt'' (JObj session)"

text \<open>\<open>Date.parse(right) - Date.parse(left)\<close>.\<close>

definition later_first :: "date_parse \<Rightarrow> string \<Rightarrow> string \<Rightarrow> int" where
  "later_first dp left right =
     (case (dp right, dp left) of (Some r, Some l) \<Rightarrow> r - l | _ \<Rightarrow> 0)"

definition newestFirst :: "date_parse \<Rightarrow> session \<Rightarrow> session \<Rightarrow> int" where
  "newestFirst dp left right = later_first dp (active_at left) (active_at right)"

definition waitingFirst :: "date_parse \<Rightarrow> session \<Rightarrow> session \<Rightarrow> int" where
  "waitingFirst dp left right =
     (let waitingPriority = of_bool (status_of right = ''waiting'') - of_bool (status_of left = ''waiting'')
      in if waitingPriority \<noteq> 0 then waitingPriority else newestFirst dp left right)"

definition makeDismissalKey :: "session \<Rightarrow> string" where
  "makeDismissalKey session =
     (let base = to_key (map_of session ''id'') @ '':'' @ to_key (map_of session ''status'') @ '':'' @
                 to_key (map_of session ''lastActivityAt'')
      in case map_of session ''exitCode'' of
           None \<Rightarrow> base
         | Some exitCode \<Rightarrow> base @ '':'' @ js_string exitCode)"

definition attentionOrder :: "date_parse \<Rightarrow> session \<Rightarrow> session \<Rightarrow> int" where
  "attentionOrder dp left right =
     (let rank = (\<lambda>s. case ATTENTION_PRIORITY (status_of s) of Some p \<Rightarrow> p | None \<Rightarrow> MAX_SAFE_INTEGER);
          priority = rank left - rank right
      in if priority \<noteq> 0 then priority else newestFirst dp left right)"

text \<open>\<open>state.sessionIds.map((id) => state.sessionsById[id])\<close> without the undefined ones.\<close>

definition listed :: "session_state \<Rightarrow> session list" where
  "listed state = List.map_filter (sessionsById state) (sessionIds state)"

definition needs_attention :: "session_state \<Rightarrow> session \<Rightarrow> bool" where
  "needs_attention state session \<longleftrightarrow>
     ATTENTION_PRIORITY (status_of session) \<noteq> None \<and>
     makeDismissalKey session \<notin> dismissedAttentionKeys state"

definition selectAttentionCards :: "date_parse \<Rightarrow> session_state \<Rightarrow> session list" where
  "selectAttentionCards dp state =
     js_sort (attentionOrder dp) (filter (needs_attention state) (listed state))"

definition in_filter :: "session_filter \<Rightarrow> session \<Rightarrow> bool" where
  "in_filter f session =
     (case f of
        FilterActive \<Rightarrow> status_of session \<in> ACTIVE_STATUSES
      | FilterCompleted \<Rightarrow> status_of session \<in> COMPLETED_STATUSES
      | FilterAll \<Rightarrow> True)"

definition selectSessions :: "date_parse \<Rightarrow> session_state \<Rightarrow> session_filter \<Rightarrow> session list" where
  "selectSessions dp state f = js_sort (waitingFirst dp) (filter (in_filter f) (listed state))"

definition selectRecentActivity :: "date_parse \<Rightarrow> session_state \<Rightarrow> activity_fact list" where
  "selectRecentActivity dp state =
     take 20 (js_sort (\<lambda>left right. later_first dp (af_at left) (af_at right)) (activity state))"

subsection \<open>The comparators as keys\<close>

definition time_of :: "date_parse \<Rightarrow> session \<Rightarrow> int" where
  "time_of dp x = (case dp (active_at x) of Some t \<Rightarrow> t | None \<Rightarrow> 0)"

definition dates_ok :: "date_parse \<Rightarrow> session_state \<Rightarrow> bool" where
  "dates_ok dp s \<longleftrightarrow> (\<forall>x \<in> set (listed s). dp (active_at x) \<noteq> None)"

definition attention_key :: "date_parse \<Rightarrow> session \<Rightarrow> int \<times> int" where
  "attention_key dp x =
     (case ATTENTION_PRIORITY (status_of x) of Some p \<Rightarrow> p | None \<Rightarrow> MAX_SAFE_INTEGER, - time_of dp x)"

definition waiting_key :: "date_parse \<Rightarrow> session \<Rightarrow> bool \<times> int" where
  "waiting_key dp x = (status_of x \<noteq> ''waiting'', - time_of dp x)"

lemma newestFirst_time:
  "dp (active_at x) \<noteq> None \<Longrightarrow> dp (active_at y) \<noteq> None \<Longrightarrow> newestFirst dp x y = time_of dp y - time_of dp x"
  by (auto simp: newestFirst_def later_first_def time_of_def)

lemma attention_sorts:
  assumes "\<And>x. x \<in> set xs \<Longrightarrow> dp (active_at x) \<noteq> None"
  shows "js_sort (attentionOrder dp) xs = sort_key (attention_key dp) xs"
proof (rule js_sort_key)
  fix x y
  assume "x \<in> set xs" "y \<in> set xs"
  then have "newestFirst dp x y = time_of dp y - time_of dp x" by (intro newestFirst_time assms)
  then show "(attentionOrder dp x y \<le> 0) = (attention_key dp x \<le> attention_key dp y)"
    by (auto simp: attentionOrder_def attention_key_def Let_def)
qed

lemma waiting_sorts:
  assumes "\<And>x. x \<in> set xs \<Longrightarrow> dp (active_at x) \<noteq> None"
  shows "js_sort (waitingFirst dp) xs = sort_key (waiting_key dp) xs"
proof (rule js_sort_key)
  fix x y
  assume "x \<in> set xs" "y \<in> set xs"
  then have "newestFirst dp x y = time_of dp y - time_of dp x" by (intro newestFirst_time assms)
  then show "(waitingFirst dp x y \<le> 0) = (waiting_key dp x \<le> waiting_key dp y)"
    by (auto simp: waitingFirst_def waiting_key_def Let_def)
qed

lemma dates_filter: "dates_ok dp s \<Longrightarrow> x \<in> set (filter P (listed s)) \<Longrightarrow> dp (active_at x) \<noteq> None"
  by (auto simp: dates_ok_def)

lemma cards_sorted:
  "dates_ok dp s \<Longrightarrow>
   selectAttentionCards dp s = sort_key (attention_key dp) (filter (needs_attention s) (listed s))"
  unfolding selectAttentionCards_def by (rule attention_sorts) (rule dates_filter)

lemma listed_set: "session_inv s \<Longrightarrow> x \<in> set (listed s) \<longleftrightarrow> sessionsById s (sess_id x) = Some x"
  unfolding listed_def session_inv_def filed_ok_def
  by (force simp: List.map_filter_def)

subsection \<open>Properties\<close>


text \<open>Dismissing a card removes that card from the inbox and no card with another key, and keeps
  the order of the others; the card comes back exactly when its key changes.\<close>

theorem dismissal_hides_card:
  assumes "dates_ok dp s"
  shows "selectAttentionCards dp (sessionReducer s (AttentionDismissed k)) =
           filter (\<lambda>x. makeDismissalKey x \<noteq> k) (selectAttentionCards dp s)"
proof -
  define s' where "s' = sessionReducer s (AttentionDismissed k)"
  have l: "listed s' = listed s" by (simp add: s'_def listed_def)
  have f: "filter (needs_attention s') (listed s) =
      filter (\<lambda>x. makeDismissalKey x \<noteq> k) (filter (needs_attention s) (listed s))"
    by (auto simp: s'_def needs_attention_def intro: filter_cong)
  from assms have "dates_ok dp s'" by (simp add: dates_ok_def l)
  then have "selectAttentionCards dp s' = sort_key (attention_key dp) (filter (needs_attention s') (listed s'))"
    by (rule cards_sorted)
  also have "\<dots> = filter (\<lambda>x. makeDismissalKey x \<noteq> k) (sort_key (attention_key dp) (filter (needs_attention s) (listed s)))"
    by (simp add: l f filter_sort del: filter_filter)
  finally show ?thesis using assms by (simp add: cards_sorted s'_def)
qed

text \<open>The filters of the session list divide it: when every session's status is one of the five of
  the protocol, each session is shown under exactly one of ``active'' and ``completed'', as often as
  under ``all'', and nothing else is shown; under each filter the sessions that wait for the user come
  first and then the most recently active.\<close>

theorem session_filters_divide:
  assumes "\<forall>x \<in> set (listed s). status_of x \<in> {''starting'', ''running'', ''waiting'', ''stopped'', ''error''}"
    and "dates_ok dp s"
  shows "mset (selectSessions dp s FilterAll) =
           mset (selectSessions dp s FilterActive) + mset (selectSessions dp s FilterCompleted) \<and>
         mset (selectSessions dp s FilterAll) = mset (listed s) \<and>
         set (selectSessions dp s FilterActive) \<inter> set (selectSessions dp s FilterCompleted) = {} \<and>
         (\<forall>f. sorted (map (waiting_key dp) (selectSessions dp s f)))"
proof -
  have c: "in_filter FilterCompleted x = (\<not> in_filter FilterActive x)" if "x \<in> set (listed s)" for x
    using bspec [OF assms(1) that] by (auto simp: in_filter_def ACTIVE_STATUSES_def COMPLETED_STATUSES_def)
  then have "filter (in_filter FilterCompleted) (listed s) = filter (\<lambda>x. \<not> in_filter FilterActive x) (listed s)"
    by (intro filter_cong refl)
  then have "mset (listed s) = mset (filter (in_filter FilterActive) (listed s)) +
        mset (filter (in_filter FilterCompleted) (listed s))"
    by (simp add: mset_filter)
  moreover have "filter (in_filter FilterAll) xs = xs" for xs by (simp add: in_filter_def)
  moreover have "selectSessions dp s f = sort_key (waiting_key dp) (filter (in_filter f) (listed s))" for f
    unfolding selectSessions_def by (rule waiting_sorts) (rule dates_filter [OF assms(2)])
  ultimately show ?thesis using c by auto
qed

subsection \<open>Examples\<close>

definition sample_session :: "string \<Rightarrow> string \<Rightarrow> session" where
  "sample_session i status =
     [(''id'', JStr i), (''status'', JStr status), (''lastActivityAt'', JStr i)]"

definition sample_sessions :: session_state where
  "sample_sessions = sessionReducer createInitialSessionState
     (SessionListReceived [sample_session ''a'' ''stopped'', sample_session ''b'' ''waiting''])"

lemma sample_session_simps [simp]:
  "sess_id (sample_session i st) = i" "status_of (sample_session i st) = st" "active_at (sample_session i st) = i"
  "map_of (sample_session i st) ''exitCode'' = None" "map_of (sample_session i st) ''id'' = Some (JStr i)"
  "map_of (sample_session i st) ''status'' = Some (JStr st)" "map_of (sample_session i st) ''lastActivityAt'' = Some (JStr i)"
  by (simp_all add: sample_session_def sess_id_def)

lemma sample_listed [simp]:
  "listed sample_sessions = [sample_session ''a'' ''stopped'', sample_session ''b'' ''waiting'']"
  by (simp add: sample_sessions_def listed_def receiveList_def map_filter_simps)

lemma sample_keys [simp]:
  "makeDismissalKey (sample_session i st) = i @ '':'' @ st @ '':'' @ i"
  by (simp add: makeDismissalKey_def to_key_def Let_def)

lemma sample_undismissed [simp]: "dismissedAttentionKeys sample_sessions = {}"
  by (simp add: sample_sessions_def receiveList_def createInitialSessionState_def)

lemma sample_dates: "dates_ok (\<lambda>t. Some 0) s"
  by (simp add: dates_ok_def)


theorem dismissal_hides_card_witness:
  "selectAttentionCards (\<lambda>t. Some 0) (sessionReducer sample_sessions (AttentionDismissed ''b:waiting:b'')) =
     [sample_session ''a'' ''stopped'']"
  unfolding dismissal_hides_card [OF sample_dates]
  by (simp add: selectAttentionCards_def needs_attention_def ATTENTION_PRIORITY_def attentionOrder_def
      newestFirst_def later_first_def Let_def)

theorem session_filters_divide_witness:
  "set (selectSessions (\<lambda>t. Some 0) sample_sessions FilterActive) \<inter>
   set (selectSessions (\<lambda>t. Some 0) sample_sessions FilterCompleted) = {}"
  by (rule conjunct1 [OF conjunct2 [OF conjunct2 [OF session_filters_divide [OF _ sample_dates]]]]) simp

end
