(* ===== verification/Ui_View.thy ===== *)
theory Ui_View
  imports Js_Base
begin

section \<open>What the components render (apps/mobile/src/ui)\<close>

text \<open>
  A React component is modelled by the function from its props and its hooks' values to what it renders.
  A view keeps of an element what a user can read and do: texts, fields and pressable areas, nested as the
  elements are, with their \<open>testID\<close>; styles and roles are left out.  A pressable carries its label, whether
  it is disabled, and, in place of its callback, the action the callback takes, which holds the values
  that the callback's closure has captured.  So a press of an old rendering acts with old values, as it
  does in React.  The constant texts of the interface, which are in Russian, are written in English translation as
  \<open>Msg\<close>; \<open>Words\<close> is text that comes from data, \<open>Glyphs\<close> is text of the terminal as code points.
\<close>

named_theorems view_simps \<open>what can be pressed, edited and read in the views\<close>

subsection \<open>Texts\<close>

datatype copy = Msg string | Words string | Glyphs "nat list" | Parts "copy list"

subsection \<open>Views\<close>

datatype 'a view =
    Box string "'a view list"
  | Txt copy
  | Pressable copy bool 'a "'a view list"
  | Field copy bool string "string \<Rightarrow> 'a"

text \<open>What a press can do: the actions of the pressables that are not disabled.\<close>

primrec presses :: "'a view \<Rightarrow> 'a list" where
  "presses (Box i vs) = concat (map presses vs)"
| "presses (Txt c) = []"
| "presses (Pressable l dis a vs) = (if dis then [] else [a]) @ concat (map presses vs)"
| "presses (Field l ed v f) = []"

text \<open>What typing can do: the editable fields' callbacks.\<close>

primrec typings :: "'a view \<Rightarrow> (string \<Rightarrow> 'a) list" where
  "typings (Box i vs) = concat (map typings vs)"
| "typings (Txt c) = []"
| "typings (Pressable l dis a vs) = concat (map typings vs)"
| "typings (Field l ed v f) = (if ed then [f] else [])"

text \<open>The labels of the pressables, with whether they are disabled and what they do.\<close>

primrec buttons :: "'a view \<Rightarrow> (copy \<times> bool \<times> 'a) list" where
  "buttons (Box i vs) = concat (map buttons vs)"
| "buttons (Txt c) = []"
| "buttons (Pressable l dis a vs) = (l, dis, a) # concat (map buttons vs)"
| "buttons (Field l ed v f) = []"

primrec texts :: "'a view \<Rightarrow> copy list" where
  "texts (Box i vs) = concat (map texts vs)"
| "texts (Txt c) = [c]"
| "texts (Pressable l dis a vs) = concat (map texts vs)"
| "texts (Field l ed v f) = []"

text \<open>The user can do an action: press an enabled area, or type a text into an editable field.\<close>

definition offers :: "'a view \<Rightarrow> 'a \<Rightarrow> bool" where
  "offers v a \<longleftrightarrow> a \<in> set (presses v) \<or> (\<exists>f\<in>set (typings v). a \<in> range f)"

lemma offers_simps [view_simps]:
  "offers (Box i vs) a \<longleftrightarrow> (\<exists>v\<in>set vs. offers v a)"
  "offers (Txt c) a \<longleftrightarrow> False"
  "offers (Pressable l dis b vs) a \<longleftrightarrow> (\<not> dis \<and> a = b) \<or> (\<exists>v\<in>set vs. offers v a)"
  "offers (Field l ed w f) a \<longleftrightarrow> ed \<and> a \<in> range f"
  by (auto simp: offers_def)

text \<open>A component inside another: its actions become actions of the other.\<close>

lemma offers_map_view [view_simps]: "offers (map_view g v) a \<longleftrightarrow> (\<exists>b. a = g b \<and> offers v b)"
proof (induction v)
  case (Box i vs)
  then show ?case by (auto simp: view_simps)
next
  case (Pressable l dis b vs)
  then show ?case by (auto simp: view_simps)
qed (auto simp: view_simps image_iff)

lemma presses_buttons: "a \<in> set (presses v) \<longleftrightarrow> (\<exists>l. (l, False, a) \<in> set (buttons v))"
  by (induction v) (auto split: if_splits)

lemma buttons_map_view: "buttons (map_view g v) = map (\<lambda>(l, dis, a). (l, dis, g a)) (buttons v)"
  by (induction v) (auto simp: map_concat comp_def intro!: arg_cong [where f = concat])

lemma texts_map_view [simp]: "texts (map_view g v) = texts v"
  by (induction v) (auto simp: comp_def intro!: arg_cong [where f = concat])

subsection \<open>The kit (apps/mobile/src/ui)\<close>

definition AppScreen :: "string \<Rightarrow> 'a view list \<Rightarrow> 'a view" where
  "AppScreen testID children = Box [] [Box testID children]"

text \<open>\<open>AppButton\<close>; its defaults are \<open>disabled = false\<close>, \<open>loading = false\<close> and the label
  \<open>Loading\<close> while loading.\<close>

definition AppButton :: "copy \<Rightarrow> bool \<Rightarrow> bool \<Rightarrow> copy \<Rightarrow> 'a \<Rightarrow> 'a view" where
  "AppButton label disabled loading loadingLabel action =
     (let isDisabled = disabled \<or> loading;
          accessibleLabel = (if loading then loadingLabel else label)
      in Pressable accessibleLabel isDisabled action [Txt accessibleLabel])"

abbreviation button :: "string \<Rightarrow> 'a \<Rightarrow> 'a view" where
  "button label action \<equiv> AppButton (Msg label) False False (Msg ''Loading'') action"

datatype banner_status = BannerReconnecting | BannerOffline | BannerResyncing | BannerRecovery

fun banner_content :: "banner_status \<Rightarrow> string \<times> string" where
  "banner_content BannerReconnecting = (''Reconnecting'', ''Restoring the connection'')"
| "banner_content BannerOffline = (''Offline'', ''No connection. Changes are kept on the device.'')"
| "banner_content BannerResyncing = (''Synchronising'', ''Synchronising changes'')"
| "banner_content BannerRecovery = (''Connection restored'', ''The connection is restored. All changes are synchronised.'')"

definition ConnectionBanner :: "banner_status \<Rightarrow> 'a view" where
  "ConnectionBanner status =
     (case banner_content status of (label, message) \<Rightarrow> Box [] [Txt (Msg label), Txt (Msg message)])"

text \<open>No caller of \<open>EmptyState\<close> gives it an action or an illustration; both are views.\<close>

definition EmptyState :: "copy \<Rightarrow> copy \<Rightarrow> 'a view option \<Rightarrow> 'a view option \<Rightarrow> 'a view" where
  "EmptyState title description action illustration =
     Box [] ((case illustration of None \<Rightarrow> [] | Some v \<Rightarrow> [v]) @
             [Box [] [Txt title, Txt description]] @
             (case action of None \<Rightarrow> [] | Some v \<Rightarrow> [Box [] [v]]))"

datatype badge_status = BadgeConnected | BadgeActive | BadgeWaiting | BadgeOffline | BadgeError

fun badge_label :: "badge_status \<Rightarrow> string" where
  "badge_label BadgeConnected = ''Connected''"
| "badge_label BadgeActive = ''At work''"
| "badge_label BadgeWaiting = ''Waiting''"
| "badge_label BadgeOffline = ''Offline''"
| "badge_label BadgeError = ''Error''"

definition StatusBadge :: "badge_status \<Rightarrow> 'a view" where
  "StatusBadge status = Box [] [Txt (Msg (badge_label status))]"

definition BrandMark :: "'a view" where
  "BrandMark = Txt (Msg ''Cucoudle'')"

definition SplashScreen :: "'a view" where
  "SplashScreen = Box [] [Box ''splash-artwork'' [], Txt (Msg ''Cucoudle''), Txt (Msg ''AI CODING AGENTS - ONE CHAT''), Txt (Msg ''Loading the app'')]"

lemma kit_offers [view_simps]:
  "offers (AppScreen i vs) a \<longleftrightarrow> (\<exists>v\<in>set vs. offers v a)"
  "offers (AppButton l dis ld ll b) a \<longleftrightarrow> \<not> dis \<and> \<not> ld \<and> a = b"
  "offers (ConnectionBanner st) a \<longleftrightarrow> False"
  "offers (EmptyState t d act ill) a \<longleftrightarrow> (\<exists>v. (act = Some v \<or> ill = Some v) \<and> offers v a)"
  "offers (StatusBadge bd) a \<longleftrightarrow> False"
  "offers SplashScreen a \<longleftrightarrow> False"
  "offers BrandMark a \<longleftrightarrow> False"
  by (auto simp: AppScreen_def AppButton_def ConnectionBanner_def EmptyState_def StatusBadge_def SplashScreen_def
      BrandMark_def view_simps case_prod_beta' Let_def split: option.splits)

end
