(* ===== verification/Session_List.thy ===== *)
theory Session_List
  imports Inbox_Selectors Ui_View
begin

section \<open>The list of sessions (apps/mobile/src/features/sessions)\<close>

text \<open>
  A row for a session, the filter and the screen with the list.  The locale's formatting of a time,
  \<open>toLocaleString\<close>, is the argument \<open>fmt\<close>, as \<open>Date.parse\<close> is \<open>dp\<close>.
\<close>

subsection \<open>SessionRow.tsx\<close>

definition path_sep :: "char \<Rightarrow> bool" where
  "path_sep c \<longleftrightarrow> c = CHR ''/'' \<or> c = CHR 0x5C"

text \<open>\<open>cwd.replace(/[\\/]+$/, "")\<close>.\<close>

definition strip_seps :: "string \<Rightarrow> string" where
  "strip_seps s = rev (dropWhile path_sep (rev s))"

text \<open>\<open>s.split(/[\\/]/)\<close>: always at least one part.\<close>

fun split_seps :: "string \<Rightarrow> string list" where
  "split_seps [] = [[]]"
| "split_seps (c # s) =
     (if path_sep c then [] # split_seps s
      else (case split_seps s of [] \<Rightarrow> [[c]] | part # parts \<Rightarrow> (c # part) # parts))"

definition projectLabel :: "string \<Rightarrow> string" where
  "projectLabel cwd =
     (let normalized = strip_seps cwd; name = last (split_seps normalized)
      in if name \<noteq> [] then name else cwd)"

definition activityLabel :: "date_parse \<Rightarrow> (int \<Rightarrow> string) \<Rightarrow> string \<Rightarrow> string" where
  "activityLabel dp fmt v = (case dp v of None \<Rightarrow> v | Some timestamp \<Rightarrow> fmt timestamp)"

abbreviation session_text :: "string \<Rightarrow> session \<Rightarrow> string" where
  "session_text key session \<equiv> str_at key (JObj session)"

definition statusLabel :: "session \<Rightarrow> copy" where
  "statusLabel session =
     (if status_of session = ''waiting'' then Msg ''Waits for your answer'' else Words (status_of session))"

definition SessionRow :: "date_parse \<Rightarrow> (int \<Rightarrow> string) \<Rightarrow> session \<Rightarrow> 'a \<Rightarrow> 'a view" where
  "SessionRow dp fmt session onPress =
     (let project = projectLabel (session_text ''cwd'' session);
          activity = activityLabel dp fmt (active_at session)
      in Pressable
           (Parts [Words (session_text ''title'' session), Words (session_text ''agent'' session), Words project,
                   statusLabel session, Words activity]) False onPress
           [Box [] [Box [] [Txt (Words (session_text ''agent'' session)), Txt (Words (session_text ''title'' session))],
                    Box [] [Txt (statusLabel session)]],
            Box [] [Txt (Words project), Txt (Words activity)]])"

subsection \<open>SessionFilter.tsx\<close>

definition filter_options :: "(string \<times> session_filter) list" where
  "filter_options = [(''All'', FilterAll), (''Active'', FilterActive), (''Completed'', FilterCompleted)]"

definition SessionFilter :: "session_filter \<Rightarrow> (session_filter \<Rightarrow> 'a) \<Rightarrow> 'a view" where
  "SessionFilter value onChange =
     Box [] (map (\<lambda>(label, v). Pressable (Msg label) False (onChange v) [Txt (Msg label)]) filter_options)"

subsection \<open>SessionsScreen.tsx\<close>

datatype sessions_connection = SessionsOnline | SessionsReconnecting | SessionsOffline

datatype sessions_action = SetFilter session_filter | OpenRow string

definition sessions_empty :: "session_state \<Rightarrow> date_parse \<Rightarrow> sessions_connection \<Rightarrow> bool \<Rightarrow> string \<times> string" where
  "sessions_empty state dp connectionStatus hasLoadedSessionList =
     (if connectionStatus = SessionsOffline
      then (''Computer is offline'', ''Connect the computer to the network to see the sessions'')
      else if connectionStatus = SessionsReconnecting
      then (''Reconnecting'', ''The list of sessions appears when the connection is restored'')
      else if \<not> hasLoadedSessionList
      then (''Loading the sessions'', ''Waiting for the list of sessions from the connected computer'')
      else if length (selectSessions dp state FilterAll) > 0 then (''No matching sessions'', ''Choose another filter'')
      else (''No sessions yet'', ''Start a CLI agent on the connected computer''))"

text \<open>The hook's value is the filter.\<close>

definition SessionsScreen ::
  "date_parse \<Rightarrow> (int \<Rightarrow> string) \<Rightarrow> session_state \<Rightarrow> sessions_connection \<Rightarrow> bool \<Rightarrow> session_filter \<Rightarrow> sessions_action view" where
  "SessionsScreen dp fmt state connectionStatus hasLoadedSessionList f =
     (let sessions = selectSessions dp state f;
          allSessions = selectSessions dp state FilterAll;
          empty = sessions_empty state dp connectionStatus hasLoadedSessionList
      in AppScreen ''sessions-screen''
           [Box [] [Txt (Msg ''Sessions''), Txt (Words (show_nat (length allSessions)))],
            SessionFilter f SetFilter,
            Box [] (if sessions = [] then [EmptyState (Msg (fst empty)) (Msg (snd empty)) None None]
                    else map (\<lambda>item. SessionRow dp fmt item (OpenRow (sess_id item))) sessions)])"

subsection \<open>Properties\<close>

lemma split_seps_nonempty: "split_seps s \<noteq> []"
  by (induction s) (auto split: list.splits)

lemma last_split_seps: "last (split_seps s) = rev (takeWhile (\<lambda>c. \<not> path_sep c) (rev s))"
proof (induction s)
  case (Cons c s)
  obtain part parts where p: "split_seps s = part # parts"
    using split_seps_nonempty [of s] by (cases "split_seps s") auto
  have none: "parts = [] \<longleftrightarrow> (\<forall>c\<in>set s. \<not> path_sep c)" if "split_seps s = part # parts" for s part parts
    using that by (induction s arbitrary: part parts) (auto simp: split_seps_nonempty split: if_splits list.splits)
  show ?case
  proof (cases "\<forall>c\<in>set s. \<not> path_sep c")
    case True
    then have "takeWhile (\<lambda>c. \<not> path_sep c) (rev s) = rev s"
      "takeWhile (\<lambda>c. \<not> path_sep c) (rev s @ [c]) = rev s @ takeWhile (\<lambda>c. \<not> path_sep c) [c]"
      by (simp add: takeWhile_eq_all_conv, intro takeWhile_append2) simp
    with True none [OF p] Cons p show ?thesis by auto
  next
    case False
    then have "takeWhile (\<lambda>c. \<not> path_sep c) (rev s @ [c]) = takeWhile (\<lambda>c. \<not> path_sep c) (rev s)"
      by (auto simp: takeWhile_append1)
    moreover from False none [OF p] Cons p have "last parts = rev (takeWhile (\<lambda>c. \<not> path_sep c) (rev s))" "parts \<noteq> []"
      by (simp_all split: if_splits)
    ultimately show ?thesis using p by simp
  qed
qed simp


text \<open>The label of a project is the last part of its path: the path is some parts, then the label, then
  only separators, and the label has no separator in it; only for a path of nothing but separators, and
  for the empty one, it is the path itself.\<close>

theorem project_label_exact:
  "if list_all path_sep cwd then projectLabel cwd = cwd
   else projectLabel cwd \<noteq> [] \<and> list_all (\<lambda>c. \<not> path_sep c) (projectLabel cwd) \<and>
        (\<exists>dirs seps. cwd = dirs @ projectLabel cwd @ seps \<and> list_all path_sep seps \<and> (dirs = [] \<or> path_sep (last dirs)))"
proof (cases "list_all path_sep cwd")
  case True
  then have "strip_seps cwd = []" by (simp add: strip_seps_def dropWhile_eq_Nil_conv list_all_iff)
  with True show ?thesis by (simp add: projectLabel_def)
next
  case False
  define r where "r = dropWhile path_sep (rev cwd)"
  define name where "name = takeWhile (\<lambda>c. \<not> path_sep c) r"
  have "r \<noteq> []" using False by (auto simp: r_def dropWhile_eq_Nil_conv list_all_iff)
  moreover then have "\<not> path_sep (hd r)" unfolding r_def by (rule hd_dropWhile)
  ultimately have name: "name \<noteq> []" by (cases r) (simp_all add: name_def)
  then have label: "projectLabel cwd = rev name"
    by (simp add: projectLabel_def strip_seps_def last_split_seps r_def name_def Let_def)
  define rest where "rest = dropWhile (\<lambda>c. \<not> path_sep c) r"
  have "rev cwd = takeWhile path_sep (rev cwd) @ name @ rest"
    by (simp add: r_def name_def rest_def)
  then have "cwd = rev rest @ rev name @ rev (takeWhile path_sep (rev cwd))"
    by (metis append_assoc rev_append rev_rev_ident)
  moreover have "list_all path_sep (rev (takeWhile path_sep (rev cwd)))"
    by (auto simp: list_all_iff dest: set_takeWhileD)
  moreover have "rev rest = [] \<or> path_sep (last (rev rest))"
    using hd_dropWhile [of "\<lambda>c. \<not> path_sep c" r] by (auto simp: rest_def last_rev)
  moreover have "\<not> path_sep c" if "c \<in> set name" for c
    using that by (auto simp: name_def dest: set_takeWhileD)
  ultimately have "\<exists>dirs seps. cwd = dirs @ rev name @ seps \<and> list_all path_sep seps \<and> (dirs = [] \<or> path_sep (last dirs))"
    "list_all (\<lambda>c. \<not> path_sep c) (rev name)" by (blast, simp add: list_all_iff)
  with False name show ?thesis by (simp add: label)
qed

lemma SessionRow_offers [view_simps]: "offers (SessionRow dp fmt session b) a \<longleftrightarrow> a = b"
  by (auto simp: SessionRow_def view_simps Let_def)

lemma SessionFilter_offers [view_simps]: "offers (SessionFilter f g) a \<longleftrightarrow> (\<exists>v. a = g v)"
proof -
  have "(\<exists>v. a = g v) \<longleftrightarrow> a = g FilterAll \<or> a = g FilterActive \<or> a = g FilterCompleted"
    by (metis session_filter.exhaust)
  then show ?thesis by (simp add: SessionFilter_def filter_options_def view_simps)
qed

text \<open>The screen offers to open exactly the sessions of the chosen filter, and to choose each filter;
  the list gives way to a text only when it is empty.\<close>

theorem sessions_screen_offers:
  "offers (SessionsScreen dp fmt state connectionStatus hasLoadedSessionList f) a \<longleftrightarrow>
     (case a of
        SetFilter v \<Rightarrow> True
      | OpenRow i \<Rightarrow> i \<in> sess_id ` set (filter (in_filter f) (listed state)))"
proof -
  have "selectSessions dp state f = [] \<longleftrightarrow> filter (in_filter f) (listed state) = []"
    by (metis selectSessions_def length_js_sort length_0_conv)
  moreover have "set (selectSessions dp state f) = set (filter (in_filter f) (listed state))"
    by (simp add: selectSessions_def)
  ultimately show ?thesis
    by (cases a) (auto simp: SessionsScreen_def view_simps Let_def filter_empty_conv)
qed

end
