(* ===== verification/Session_Composer.thy ===== *)
theory Session_Composer
  imports Ui_View
begin

section \<open>The composer (features/session/SessionComposer.tsx)\<close>

text \<open>
  The field and the button that send a command to a session.  The record holds the hooks' values and the
  reference \<open>pendingRef\<close>; \<open>cm_inFlight\<close> counts the calls of \<open>onSendInput\<close> whose promise has not settled.
  An action holds what its closure has captured when it was rendered.
\<close>

subsection \<open>The component\<close>

text \<open>What a promise is rejected with: an \<open>Error\<close>, which has a message, or another value.\<close>

datatype thrown = ErrorThrown copy | OtherThrown

record composer =
  cm_draft :: string
  cm_pending :: bool
  cm_error :: "copy option"
  cm_pendingRef :: bool
  cm_inFlight :: nat

definition initial_composer :: composer where
  "initial_composer =
     \<lparr>cm_draft = [], cm_pending = False, cm_error = None, cm_pendingRef = False, cm_inFlight = 0\<rparr>"

fun errorMessage :: "copy \<Rightarrow> thrown \<Rightarrow> copy" where
  "errorMessage fallback (ErrorThrown m) = m"
| "errorMessage fallback OtherThrown = fallback"

definition send_failed :: copy where
  "send_failed = Msg ''Could not send the command''"

text \<open>\<open>Send sessionId disabled draft\<close>: the session, \<open>disabled\<close> and the draft as rendered.\<close>

datatype composer_action = ChangeDraft string | Send string bool string

datatype composer_effect = OnSendInput jobj

type_synonym composer_outcome = "composer \<times> composer_effect list"

definition input_params :: "string \<Rightarrow> string \<Rightarrow> jobj" where
  "input_params sessionId draft =
     [(''sessionId'', JStr sessionId), (''inputMode'', JStr ''text''), (''data'', JStr draft), (''submit'', JBool True)]"

text \<open>\<open>send\<close> up to its \<open>await\<close>.\<close>

definition sendDraft :: "string \<Rightarrow> bool \<Rightarrow> string \<Rightarrow> composer \<Rightarrow> composer_outcome" where
  "sendDraft sessionId disabled draft s =
     (if disabled \<or> cm_pendingRef s \<or> draft = [] then (s, [])
      else (s\<lparr>cm_pendingRef := True, cm_pending := True, cm_error := None, cm_inFlight := Suc (cm_inFlight s)\<rparr>,
            [OnSendInput (input_params sessionId draft)]))"

text \<open>The \<open>finally\<close> clause.\<close>

definition send_done :: "composer \<Rightarrow> composer" where
  "send_done s = s\<lparr>cm_pendingRef := False, cm_pending := False, cm_inFlight := cm_inFlight s - 1\<rparr>"

definition sendFailed :: "thrown \<Rightarrow> composer \<Rightarrow> composer" where
  "sendFailed err s =
     send_done (s\<lparr>cm_error := Some (errorMessage send_failed err)\<rparr>)"

definition sendAnswered :: "bool \<Rightarrow> composer \<Rightarrow> composer" where
  "sendAnswered accepted s =
     (if \<not> accepted then sendFailed (ErrorThrown (Msg ''The command was not accepted'')) s
      else send_done (s\<lparr>cm_draft := []\<rparr>))"

text \<open>\<open>error ? <Text>{error}</Text> : null\<close>: an empty message shows nothing.\<close>

definition error_note :: "copy option \<Rightarrow> 'a view list" where
  "error_note err = (case err of None \<Rightarrow> [] | Some c \<Rightarrow> if c = Words [] then [] else [Txt c])"

lemma error_note_offers [view_simps]: "v \<in> set (error_note err) \<Longrightarrow> offers v a \<longleftrightarrow> False"
  by (auto simp: error_note_def view_simps split: option.splits if_splits)

definition SessionComposer :: "string \<Rightarrow> bool \<Rightarrow> composer \<Rightarrow> composer_action view" where
  "SessionComposer sessionId disabled s =
     (let controlsDisabled = disabled \<or> cm_pending s;
          sendDisabled = controlsDisabled \<or> cm_draft s = []
      in Box [] ([Box ''session-composer-field''
                   [Field (Msg ''Command'') (\<not> controlsDisabled) (cm_draft s) ChangeDraft,
                    Pressable (Msg (if cm_pending s then ''Sending'' else ''Send'')) sendDisabled
                      (Send sessionId disabled (cm_draft s))
                      (if cm_pending s then [] else [Box ''session-send-icon'' [Txt (Msg ''up'')]])]] @
                 error_note (cm_error s)))"

lemma SessionComposer_offers [view_simps]:
  "offers (SessionComposer sessionId disabled s) a \<longleftrightarrow>
     \<not> disabled \<and> \<not> cm_pending s \<and>
     ((\<exists>t. a = ChangeDraft t) \<or> (cm_draft s \<noteq> [] \<and> a = Send sessionId disabled (cm_draft s)))"
  by (auto simp: SessionComposer_def view_simps Let_def split: option.splits)

subsection \<open>The component in the app\<close>

text \<open>The user acts on what was rendered last; the state may have gone on since.\<close>

record composer_ui =
  cu_state :: composer
  cu_shown :: "composer_action view"

datatype composer_input =
    ComposerRender string bool
  | ComposerDo composer_action
  | ComposerAnswered bool
  | ComposerFailed thrown

fun composer_act :: "composer_action \<Rightarrow> composer \<Rightarrow> composer_outcome" where
  "composer_act (ChangeDraft t) s = (s\<lparr>cm_draft := t\<rparr>, [])"
| "composer_act (Send sessionId disabled draft) s = sendDraft sessionId disabled draft s"

fun composer_react :: "composer_ui \<Rightarrow> composer_input \<Rightarrow> composer_ui \<times> composer_effect list" where
  "composer_react u (ComposerRender sessionId disabled) =
     (u\<lparr>cu_shown := SessionComposer sessionId disabled (cu_state u)\<rparr>, [])"
| "composer_react u (ComposerDo a) =
     (case composer_act a (cu_state u) of (s, effs) \<Rightarrow> (u\<lparr>cu_state := s\<rparr>, effs))"
| "composer_react u (ComposerAnswered accepted) = (u\<lparr>cu_state := sendAnswered accepted (cu_state u)\<rparr>, [])"
| "composer_react u (ComposerFailed err) = (u\<lparr>cu_state := sendFailed err (cu_state u)\<rparr>, [])"

fun composer_can :: "composer_ui \<Rightarrow> composer_input \<Rightarrow> bool" where
  "composer_can u (ComposerDo a) = offers (cu_shown u) a"
| "composer_can u (ComposerAnswered accepted) = (0 < cm_inFlight (cu_state u))"
| "composer_can u (ComposerFailed err) = (0 < cm_inFlight (cu_state u))"
| "composer_can u (ComposerRender sessionId disabled) = True"

definition initial_composer_ui :: "string \<Rightarrow> bool \<Rightarrow> composer_ui" where
  "initial_composer_ui sessionId disabled =
     \<lparr>cu_state = initial_composer, cu_shown = SessionComposer sessionId disabled initial_composer\<rparr>"

text \<open>The history pairs each input with the effects that it had.\<close>

inductive composer_reach :: "composer_ui \<Rightarrow> (composer_input \<times> composer_effect list) list \<Rightarrow> bool" where
  composer_start: "composer_reach (initial_composer_ui sessionId disabled) []"
| composer_step: "composer_reach u hist \<Longrightarrow> composer_can u i \<Longrightarrow>
    composer_reach (fst (composer_react u i)) (hist @ [(i, snd (composer_react u i))])"


subsection \<open>Properties\<close>

definition inputs_sent :: "(composer_input \<times> composer_effect list) list \<Rightarrow> jobj list" where
  "inputs_sent hist = concat (map (\<lambda>(i, effs). map (\<lambda>e. case e of OnSendInput ps \<Rightarrow> ps) effs) hist)"

definition settled :: "(composer_input \<times> composer_effect list) list \<Rightarrow> nat" where
  "settled hist = length (filter (\<lambda>(i, effs). case i of ComposerAnswered b \<Rightarrow> True | ComposerFailed e \<Rightarrow> True | _ \<Rightarrow> False) hist)"

lemma history_snoc [simp]:
  "inputs_sent (hist @ [(i, effs)]) = inputs_sent hist @ map (\<lambda>e. case e of OnSendInput ps \<Rightarrow> ps) effs"
  "settled (hist @ [(i, effs)]) = settled hist +
     (case i of ComposerAnswered b \<Rightarrow> 1 | ComposerFailed e \<Rightarrow> 1 | _ \<Rightarrow> 0)"
  by (simp_all add: inputs_sent_def settled_def split: composer_input.split)

definition composer_inv :: "composer \<Rightarrow> bool" where
  "composer_inv s \<longleftrightarrow> cm_inFlight s = (if cm_pendingRef s then 1 else 0) \<and> cm_pending s = cm_pendingRef s"

lemma composer_inv_react:
  assumes "composer_inv (cu_state u)" "composer_can u i"
  shows "composer_inv (cu_state (fst (composer_react u i)))"
  using assms
  by (cases "(u, i)" rule: composer_react.cases)
    (auto simp: composer_inv_def sendDraft_def sendAnswered_def sendFailed_def send_done_def split: prod.splits if_splits
       elim!: composer_act.elims)

lemma composer_reach_inv: "composer_reach u hist \<Longrightarrow> composer_inv (cu_state u)"
proof (induction rule: composer_reach.induct)
  case (composer_start sessionId disabled)
  show ?case by (simp add: composer_inv_def initial_composer_ui_def initial_composer_def)
qed (rule composer_inv_react)

lemma composer_reach_shown: "composer_reach u hist \<Longrightarrow> \<exists>sid dis s. cu_shown u = SessionComposer sid dis s"
proof (induction rule: composer_reach.induct)
  case (composer_step u hist i)
  then show ?case by (cases "(u, i)" rule: composer_react.cases) (auto split: prod.splits)
qed (auto simp: initial_composer_ui_def)


text \<open>What is sent is what the user saw: the whole draft in the field that was rendered last, not
  empty, for the session of that rendering, which was not disabled.\<close>

theorem composer_sends_what_is_shown:
  assumes "composer_reach u hist" and "composer_can u i" and "OnSendInput ps \<in> set (snd (composer_react u i))"
  shows "\<exists>sid s. cu_shown u = SessionComposer sid False s \<and> ps = input_params sid (cm_draft s) \<and> cm_draft s \<noteq> []"
proof -
  from composer_reach_shown [OF assms(1)] obtain sid dis s where s: "cu_shown u = SessionComposer sid dis s" by blast
  from assms(2,3) show ?thesis
    by (cases "(u, i)" rule: composer_react.cases)
      (auto simp: s sendDraft_def view_simps split: prod.splits if_splits elim!: composer_act.elims
         intro!: exI [of _ sid] exI [of _ s])
qed

definition typed_ui :: composer_ui where
  "typed_ui = fst (composer_react (fst (composer_react (initial_composer_ui ''s'' False)
     (ComposerDo (ChangeDraft ''ls'')))) (ComposerRender ''s'' False))"

lemma typed_reach: "composer_reach typed_ui
   (([] @ [(ComposerDo (ChangeDraft ''ls''), snd (composer_react (initial_composer_ui ''s'' False) (ComposerDo (ChangeDraft ''ls''))))])
    @ [(ComposerRender ''s'' False, snd (composer_react (fst (composer_react (initial_composer_ui ''s'' False)
     (ComposerDo (ChangeDraft ''ls'')))) (ComposerRender ''s'' False)))])"
  unfolding typed_ui_def
  by (intro composer_step composer_start)
    (simp_all add: initial_composer_ui_def initial_composer_def view_simps)


theorem composer_sends_what_is_shown_witness:
  "\<exists>sid s. cu_shown typed_ui = SessionComposer sid False s \<and> input_params ''s'' ''ls'' = input_params sid (cm_draft s) \<and> cm_draft s \<noteq> []"
  by (rule composer_sends_what_is_shown [OF typed_reach, of "ComposerDo (Send ''s'' False ''ls'')"])
    (simp_all add: typed_ui_def initial_composer_ui_def initial_composer_def view_simps sendDraft_def)

end
