(* ===== verification/Structured_Actions.thy ===== *)
theory Structured_Actions
  imports Session_Composer
begin

section \<open>The structured actions (features/session/StructuredActionZone.tsx)\<close>

text \<open>
  The buttons and the field with which the user answers an interaction that an agent asks for.  An
  interaction is its JSON object together with a number that stands for the identity of the object, which
  the dependency list of \<open>useEffect\<close> compares.  The record holds the hooks' values and the reference
  \<open>pendingRef\<close>; \<open>zn_seen\<close> is the interaction for which the effect ran last, \<open>zn_waiting\<close> are the
  interactions of the calls of \<open>onRespond\<close> whose promises have not settled.
\<close>

subsection \<open>Interactions\<close>

type_synonym interaction_object = "nat \<times> jobj"

fun obj_of :: "json \<Rightarrow> jobj" where
  "obj_of (JObj m) = m"
| "obj_of v = []"

text \<open>\<open>request.options\<close>.\<close>

definition options_of :: "jobj \<Rightarrow> jobj list option" where
  "options_of request = map_option (map obj_of) (as_arr (map_of request ''options''))"

abbreviation text_of :: "string \<Rightarrow> jobj \<Rightarrow> string" where
  "text_of key m \<equiv> str_at key (JObj m)"

definition approveIntents :: "string set" where
  "approveIntents = {''approve'', ''approveOnce''}"

definition rejectIntents :: "string set" where
  "rejectIntents = {''reject'', ''cancel''}"

text \<open>\<open>request.options?.find(...)\<close>.\<close>

definition find_option :: "string set \<Rightarrow> jobj \<Rightarrow> jobj option" where
  "find_option intents request =
     (case options_of request of
        None \<Rightarrow> None
      | Some opts \<Rightarrow> List.find (\<lambda>opt. text_of ''intent'' opt \<in> intents) opts)"

subsection \<open>The component\<close>

datatype phase = PhaseIdle | PhaseSubmitting | PhaseSubmitted | PhaseFailed

record zone =
  zn_phase :: phase
  zn_error :: "copy option"
  zn_text :: string
  zn_pendingRef :: bool
  zn_seen :: "nat option"
  zn_waiting :: "string list"

record zone_props =
  zp_sessionId :: string
  zp_canMutate :: bool
  zp_negotiatedCapabilities :: "string set option"
  zp_interaction :: "interaction_object option"

text \<open>An action \<open>ZoneSubmit sessionId interaction disabled response\<close> is a call of \<open>submit\<close> by a closure
  that has captured the first three.\<close>

datatype zone_action =
    ZoneText string
  | ZoneSubmit string "jobj option" bool jobj
  | ZoneOpen string

datatype zone_effect = OnRespond jobj | OnOpenSession string

type_synonym zone_outcome = "zone \<times> zone_effect list"

text \<open>Mounted, and after its effect has run.\<close>

definition zone_mounted :: "interaction_object option \<Rightarrow> zone" where
  "zone_mounted interaction =
     \<lparr>zn_phase = PhaseIdle, zn_error = None, zn_text = [], zn_pendingRef = False,
      zn_seen = map_option fst interaction, zn_waiting = []\<rparr>"

text \<open>The effect with the dependencies \<open>[interaction]\<close>.\<close>

definition useInteractionEffect :: "interaction_object option \<Rightarrow> zone \<Rightarrow> zone" where
  "useInteractionEffect interaction s =
     (if zn_seen s = map_option fst interaction then s
      else s\<lparr>zn_pendingRef := False, zn_phase := PhaseIdle, zn_error := None, zn_text := [],
             zn_seen := map_option fst interaction\<rparr>)"

definition respond_params :: "string \<Rightarrow> jobj \<Rightarrow> jobj \<Rightarrow> jobj" where
  "respond_params sessionId interaction response =
     [(''sessionId'', JStr sessionId), (''interactionId'', JStr (text_of ''id'' interaction)),
      (''response'', JObj response)]"

definition submit :: "string \<Rightarrow> jobj option \<Rightarrow> bool \<Rightarrow> jobj \<Rightarrow> zone \<Rightarrow> zone_outcome" where
  "submit sessionId interaction disabled response s =
     (case interaction of
        None \<Rightarrow> (s, [])
      | Some request \<Rightarrow>
          if zn_pendingRef s \<or> disabled then (s, [])
          else (s\<lparr>zn_pendingRef := True, zn_phase := PhaseSubmitting, zn_error := None,
                  zn_waiting := zn_waiting s @ [text_of ''id'' request]\<rparr>,
                [OnRespond (respond_params sessionId request response)]))"

text \<open>The promise of the \<open>n\<close>-th call that waits settles.\<close>

definition call_done :: "nat \<Rightarrow> zone \<Rightarrow> zone" where
  "call_done n s = s\<lparr>zn_waiting := take n (zn_waiting s) @ drop (Suc n) (zn_waiting s)\<rparr>"

definition submitAnswered :: "nat \<Rightarrow> zone \<Rightarrow> zone" where
  "submitAnswered n s = (call_done n s)\<lparr>zn_phase := PhaseSubmitted\<rparr>"

definition submitFailed :: "nat \<Rightarrow> thrown \<Rightarrow> zone \<Rightarrow> zone" where
  "submitFailed n err s =
     (call_done n s)\<lparr>zn_phase := PhaseFailed,
       zn_error := Some (errorMessage (Msg ''Could not send the answer'') err)\<rparr>"

subsection \<open>What it renders\<close>

definition options_response :: "string \<Rightarrow> jobj" where
  "options_response optionId = [(''type'', JStr ''options''), (''optionIds'', JArr [JStr optionId])]"

definition text_response :: "string \<Rightarrow> jobj" where
  "text_response t = [(''type'', JStr ''text''), (''text'', JStr t), (''submit'', JBool True)]"

text \<open>\<open>answer\<close> is what \<open>submit\<close> becomes in this rendering, \<open>respondWithOption\<close> is its use.\<close>

definition renderKind :: "(jobj \<Rightarrow> zone_action) \<Rightarrow> bool \<Rightarrow> phase \<Rightarrow> string \<Rightarrow> jobj \<Rightarrow> zone_action view option" where
  "renderKind answer disabled phase text request =
     (let respondWithOption = (\<lambda>opt. answer (options_response (text_of ''id'' opt)));
          kind = text_of ''kind'' request
      in if kind = ''approval'' \<or> kind = ''confirmation'' then
           (case (find_option approveIntents request, find_option rejectIntents request) of
              (Some approveOption, Some rejectOption) \<Rightarrow>
                Some (Box []
                  ([Box [] [AppButton (Msg ''Reject'') disabled False (Msg ''Loading'') (respondWithOption rejectOption)]] @
                   (case find_option {''approveSession''} request of
                      None \<Rightarrow> []
                    | Some alwaysOption \<Rightarrow>
                        [Box [] [AppButton (Msg ''Always'') disabled False (Msg ''Loading'') (respondWithOption alwaysOption)]]) @
                   [Box [] [AppButton (Msg ''Approve'') disabled (phase = PhaseSubmitting) (Msg ''Sending'')
                              (respondWithOption approveOption)]]))
            | _ \<Rightarrow> None)
         else if kind = ''singleSelect'' then
           (let options = (case options_of request of None \<Rightarrow> [] | Some opts \<Rightarrow> opts)
            in if options = [] then None
               else Some (Box [] (map (\<lambda>opt.
                      AppButton (Words (text_of ''label'' opt)) disabled False (Msg ''Loading'') (respondWithOption opt))
                      options)))
         else if kind = ''text'' then
           Some (Box [] [Field (Msg ''Answer'') (\<not> disabled) text ZoneText,
                         AppButton (Msg ''Send'') (disabled \<or> text = []) (phase = PhaseSubmitting) (Msg ''Sending'')
                           (answer (text_response text))])
         else None)"

definition StructuredActionZone :: "zone_props \<Rightarrow> zone \<Rightarrow> zone_action view" where
  "StructuredActionZone p s =
     (let structured = (case zp_negotiatedCapabilities p of None \<Rightarrow> False | Some c \<Rightarrow> ''interaction.structured'' \<in> c);
          interaction = map_option snd (zp_interaction p);
          disabled = (\<not> zp_canMutate p \<or> zn_phase s \<noteq> PhaseIdle);
          content =
            (case interaction of
               None \<Rightarrow> None
             | Some request \<Rightarrow>
                 if structured \<and> text_of ''sessionId'' request = zp_sessionId p
                 then renderKind (ZoneSubmit (zp_sessionId p) interaction disabled) disabled (zn_phase s) (zn_text s) request
                 else None)
      in case content of
           None \<Rightarrow> button ''Open session'' (ZoneOpen (zp_sessionId p))
         | Some v \<Rightarrow>
             Box [] ([v] @
                     (if zn_phase s = PhaseSubmitted then [Txt (Msg ''Answer sent, waiting for confirmation'')] else []) @
                     error_note (zn_error s)))"

subsection \<open>The component in the app\<close>

record zone_ui =
  zu_state :: zone
  zu_shown :: "zone_action view"

datatype zone_input =
    ZoneRender zone_props
  | ZoneDo zone_action
  | ZoneAnswered nat
  | ZoneFailed nat thrown

fun zone_act :: "zone_action \<Rightarrow> zone \<Rightarrow> zone_outcome" where
  "zone_act (ZoneText t) s = (s\<lparr>zn_text := t\<rparr>, [])"
| "zone_act (ZoneSubmit sessionId interaction disabled response) s = submit sessionId interaction disabled response s"
| "zone_act (ZoneOpen sessionId) s = (s, [OnOpenSession sessionId])"

text \<open>After a rendering the effect runs; what it sets is rendered next.\<close>

fun zone_react :: "zone_ui \<Rightarrow> zone_input \<Rightarrow> zone_ui \<times> zone_effect list" where
  "zone_react u (ZoneRender p) =
     (\<lparr>zu_state = useInteractionEffect (zp_interaction p) (zu_state u), zu_shown = StructuredActionZone p (zu_state u)\<rparr>, [])"
| "zone_react u (ZoneDo a) = (case zone_act a (zu_state u) of (s, effs) \<Rightarrow> (u\<lparr>zu_state := s\<rparr>, effs))"
| "zone_react u (ZoneAnswered n) = (u\<lparr>zu_state := submitAnswered n (zu_state u)\<rparr>, [])"
| "zone_react u (ZoneFailed n err) = (u\<lparr>zu_state := submitFailed n err (zu_state u)\<rparr>, [])"

fun zone_can :: "zone_ui \<Rightarrow> zone_input \<Rightarrow> bool" where
  "zone_can u (ZoneRender p) = True"
| "zone_can u (ZoneDo a) = offers (zu_shown u) a"
| "zone_can u (ZoneAnswered n) = (n < length (zn_waiting (zu_state u)))"
| "zone_can u (ZoneFailed n err) = (n < length (zn_waiting (zu_state u)))"

definition zone_ui_mounted :: "zone_props \<Rightarrow> zone_ui" where
  "zone_ui_mounted p =
     \<lparr>zu_state = zone_mounted (zp_interaction p), zu_shown = StructuredActionZone p (zone_mounted (zp_interaction p))\<rparr>"

type_synonym zone_history = "(zone_input \<times> zone_effect list) list"

inductive zone_reach :: "zone_props \<Rightarrow> zone_ui \<Rightarrow> zone_history \<Rightarrow> bool" for p where
  zone_start: "zone_reach p (zone_ui_mounted p) []"
| zone_step: "zone_reach p u hist \<Longrightarrow> zone_can u i \<Longrightarrow>
    zone_reach p (fst (zone_react u i)) (hist @ [(i, snd (zone_react u i))])"


subsection \<open>What can be answered\<close>

definition allowed_answer :: "jobj \<Rightarrow> string \<Rightarrow> jobj \<Rightarrow> bool" where
  "allowed_answer request text response \<longleftrightarrow>
     (text_of ''kind'' request \<in> {''approval'', ''confirmation'', ''singleSelect''} \<and>
      (\<exists>opts opt. options_of request = Some opts \<and> opt \<in> set opts \<and> response = options_response (text_of ''id'' opt) \<and>
         (text_of ''kind'' request \<noteq> ''singleSelect'' \<longrightarrow>
            text_of ''intent'' opt \<in> approveIntents \<union> rejectIntents \<union> {''approveSession''}))) \<or>
     (text_of ''kind'' request = ''text'' \<and> text \<noteq> [] \<and> response = text_response text)"

lemma find_option_Some:
  assumes "find_option intents request = Some opt"
  obtains opts where "options_of request = Some opts" "opt \<in> set opts" "text_of ''intent'' opt \<in> intents"
  using assms by (auto simp: find_option_def find_Some_iff split: option.splits)

definition kind_button :: "string \<Rightarrow> string set" where
  "kind_button label =
     (if label = ''Approve'' then approveIntents else if label = ''Reject'' then rejectIntents
      else if label = ''Always'' then {''approveSession''} else {})"

lemma AppButton_buttons [simp]:
  "buttons (AppButton l dis ld ll a) = [(if ld then ll else l, dis \<or> ld, a)]"
  by (simp add: AppButton_def Let_def)

definition chosen :: "string set \<Rightarrow> jobj \<Rightarrow> jobj \<Rightarrow> bool" where
  "chosen intents request response \<longleftrightarrow>
     (\<exists>opts opt. options_of request = Some opts \<and> opt \<in> set opts \<and> text_of ''intent'' opt \<in> intents \<and>
        response = options_response (text_of ''id'' opt))"

lemma chosen_found: "find_option intents request = Some opt \<Longrightarrow> chosen intents request (options_response (text_of ''id'' opt))"
  by (auto simp: chosen_def elim!: find_option_Some)

lemma chosen_allowed:
  assumes "chosen intents request response" "text_of ''kind'' request = ''approval'' \<or> text_of ''kind'' request = ''confirmation''"
    "intents \<subseteq> approveIntents \<union> rejectIntents \<union> {''approveSession''}"
  shows "allowed_answer request text response"
  using assms by (auto simp: chosen_def allowed_answer_def)

text \<open>What is promised of a button with the label \<open>l\<close> that answers \<open>response\<close>.\<close>

definition button_ok :: "jobj \<Rightarrow> string \<Rightarrow> copy \<Rightarrow> bool \<Rightarrow> jobj \<Rightarrow> bool" where
  "button_ok request text l dis response \<longleftrightarrow>
     (\<not> dis \<longrightarrow> allowed_answer request text response) \<and>
     (case l of Msg label \<Rightarrow> kind_button label = {} \<or> chosen (kind_button label) request response | _ \<Rightarrow> True)"

lemma approval_button:
  assumes "find_option intents request = Some opt"
    "text_of ''kind'' request = ''approval'' \<or> text_of ''kind'' request = ''confirmation''"
    "intents \<subseteq> approveIntents \<union> rejectIntents \<union> {''approveSession''}"
    "kind_button label = {} \<or> kind_button label = intents"
  shows "button_ok request text (Msg label) dis (options_response (text_of ''id'' opt))"
  using chosen_found [OF assms(1)] chosen_allowed [OF chosen_found [OF assms(1)] assms(2,3)] assms(4)
  by (auto simp: button_ok_def)

lemma kind_button_simps [simp]:
  "kind_button ''Approve'' = approveIntents" "kind_button ''Reject'' = rejectIntents"
  "kind_button ''Always'' = {''approveSession''}" "kind_button ''Send'' = {}" "kind_button ''Sending'' = {}"
  by (simp_all add: kind_button_def)

definition answer_button ::
  "(jobj \<Rightarrow> zone_action) \<Rightarrow> bool \<Rightarrow> jobj \<Rightarrow> string \<Rightarrow> copy \<times> bool \<times> zone_action \<Rightarrow> bool" where
  "answer_button answer disabled request text b \<longleftrightarrow>
     (case b of (l, dis, a) \<Rightarrow>
        (disabled \<longrightarrow> dis) \<and> (\<exists>response. a = answer response \<and> button_ok request text l dis response))"

lemma answer_buttonI:
  "(disabled \<Longrightarrow> dis) \<Longrightarrow> button_ok request text l dis response \<Longrightarrow>
   answer_button answer disabled request text (l, dis, answer response)"
  by (auto simp: answer_button_def)

lemma renderKind_approval:
  assumes "renderKind answer disabled ph text request = Some v"
    and kind: "text_of ''kind'' request = ''approval'' \<or> text_of ''kind'' request = ''confirmation''"
    and "b \<in> set (buttons v)"
  shows "answer_button answer disabled request text b"
proof -
  let ?re = "\<lambda>opt. answer (options_response (text_of ''id'' opt))"
  let ?ok = "answer_button answer disabled request text"
  from assms(1,2) obtain ap rj where f: "find_option approveIntents request = Some ap"
    "find_option rejectIntents request = Some rj"
    by (auto simp: renderKind_def split: option.splits)
  have "?ok (Msg ''Reject'', disabled, ?re rj)" "?ok (Msg ''Sending'', True, ?re ap)" "?ok (Msg ''Approve'', disabled, ?re ap)"
    by (intro answer_buttonI approval_button [OF f(2) kind] approval_button [OF f(1) kind]; auto)+
  moreover have "?ok (Msg ''Always'', disabled, ?re al)" if "find_option {''approveSession''} request = Some al" for al
    by (intro answer_buttonI approval_button [OF that kind]) auto
  ultimately show ?thesis
    using assms f by (auto simp: renderKind_def split: option.splits if_splits)
qed

lemma renderKind_select:
  assumes "renderKind answer disabled ph text request = Some v"
    and "text_of ''kind'' request = ''singleSelect''" and "b \<in> set (buttons v)"
  shows "answer_button answer disabled request text b"
proof -
  from assms(1,2) obtain opts where opts: "options_of request = Some opts"
    by (auto simp: renderKind_def Let_def split: option.splits if_splits)
  have "answer_button answer disabled request text (Words w, disabled, answer (options_response (text_of ''id'' opt)))"
    if "opt \<in> set opts" for opt w
    by (intro answer_buttonI) (use that opts assms(2) in \<open>auto simp: button_ok_def allowed_answer_def\<close>)
  then show ?thesis
    using assms opts by (auto simp: renderKind_def Let_def split: if_splits)
qed

lemma renderKind_text:
  assumes "renderKind answer disabled ph text request = Some v"
    and "text_of ''kind'' request = ''text''" and "b \<in> set (buttons v)"
  shows "answer_button answer disabled request text b"
proof -
  have "answer_button answer disabled request text (Msg w, dis, answer (text_response text))"
    if "kind_button w = {}" "disabled \<or> text = [] \<longrightarrow> dis" for w dis
    by (intro answer_buttonI) (use that assms(2) in \<open>auto simp: button_ok_def allowed_answer_def\<close>)
  then show ?thesis
    using assms by (auto simp: renderKind_def Let_def split: if_splits)
qed

lemma renderKind_other:
  "renderKind answer disabled ph text request = Some v \<Longrightarrow>
   (text_of ''kind'' request = ''approval'' \<or> text_of ''kind'' request = ''confirmation'') \<or>
   text_of ''kind'' request = ''singleSelect'' \<or> text_of ''kind'' request = ''text''"
  by (auto simp: renderKind_def Let_def split: if_splits)

lemma renderKind_buttons:
  assumes "renderKind answer disabled ph text request = Some v" and "b \<in> set (buttons v)"
  shows "answer_button answer disabled request text b"
  using renderKind_other [OF assms(1)] renderKind_approval [OF assms(1) _ assms(2)]
    renderKind_select [OF assms(1) _ assms(2)] renderKind_text [OF assms(1) _ assms(2)] by blast


abbreviation zone_disabled :: "zone_props \<Rightarrow> zone \<Rightarrow> bool" where
  "zone_disabled p s \<equiv> \<not> zp_canMutate p \<or> zn_phase s \<noteq> PhaseIdle"

lemma zone_content:
  assumes "b \<in> set (buttons (StructuredActionZone p s))" and "\<forall>i. snd (snd b) \<noteq> ZoneOpen i"
  obtains n request v where "zp_interaction p = Some (n, request)" "text_of ''sessionId'' request = zp_sessionId p"
    "renderKind (ZoneSubmit (zp_sessionId p) (Some request) (zone_disabled p s)) (zone_disabled p s)
       (zn_phase s) (zn_text s) request = Some v"
    "b \<in> set (buttons v)"
  using assms
  by (auto simp: StructuredActionZone_def Let_def error_note_def split: option.splits if_splits)

lemma zone_submit_button:
  assumes "(l, dis, ZoneSubmit sid interaction off response) \<in> set (buttons (StructuredActionZone p s))"
  shows "\<exists>n request. zp_interaction p = Some (n, request) \<and> interaction = Some request \<and> sid = zp_sessionId p \<and>
           text_of ''sessionId'' request = sid \<and> button_ok request (zn_text s) l dis response \<and>
           (dis \<or> (\<not> off \<and> zp_canMutate p \<and> zn_phase s = PhaseIdle))"
proof -
  have "\<forall>i. snd (snd (l, dis, ZoneSubmit sid interaction off response)) \<noteq> ZoneOpen i" by simp
  from zone_content [OF assms this] obtain n request v
    where v: "zp_interaction p = Some (n, request)" "text_of ''sessionId'' request = zp_sessionId p"
      "renderKind (ZoneSubmit (zp_sessionId p) (Some request) (zone_disabled p s)) (zone_disabled p s)
         (zn_phase s) (zn_text s) request = Some v"
      "(l, dis, ZoneSubmit sid interaction off response) \<in> set (buttons v)" .
  from renderKind_buttons [OF v(3,4)]
  have "(zone_disabled p s \<longrightarrow> dis)" "button_ok request (zn_text s) l dis response"
    "interaction = Some request" "sid = zp_sessionId p" "off = zone_disabled p s"
    by (auto simp: answer_button_def)
  with v(1,2) show ?thesis by auto
qed


lemma zone_typings: "f \<in> set (typings (StructuredActionZone p s)) \<Longrightarrow> f = ZoneText"
  by (auto simp: StructuredActionZone_def renderKind_def AppButton_def error_note_def Let_def
      split: option.splits if_splits)

lemma zone_offers_submit:
  assumes "offers (StructuredActionZone p s) (ZoneSubmit sid interaction off response)"
  shows "zp_canMutate p \<and> zn_phase s = PhaseIdle \<and> sid = zp_sessionId p \<and> \<not> off"
proof -
  have "ZoneSubmit sid interaction off response \<in> set (presses (StructuredActionZone p s))"
    using assms zone_typings [of _ p s] by (auto simp: offers_def)
  then obtain l where "(l, False, ZoneSubmit sid interaction off response) \<in> set (buttons (StructuredActionZone p s))"
    by (auto simp: presses_buttons)
  from zone_submit_button [OF this] show ?thesis by auto
qed

subsection \<open>One answer for one interaction\<close>

text \<open>How many answers were sent since the interaction changed last; \<open>seen\<close> is the interaction.\<close>

fun account :: "nat option \<times> nat \<Rightarrow> zone_input \<times> zone_effect list \<Rightarrow> nat option \<times> nat" where
  "account (seen, k) (ZoneRender p, effs) =
     (if map_option fst (zp_interaction p) = seen then (seen, k) else (map_option fst (zp_interaction p), 0))"
| "account (seen, k) (i, effs) =
     (seen, k + length (filter (\<lambda>e. case e of OnRespond ps \<Rightarrow> True | _ \<Rightarrow> False) effs))"

definition answers :: "zone_props \<Rightarrow> zone_history \<Rightarrow> nat option \<times> nat" where
  "answers p hist = foldl account (map_option fst (zp_interaction p), 0) hist"

lemma answers_snoc [simp]: "answers p (hist @ [x]) = account (answers p hist) x"
  by (simp add: answers_def)

lemma account_react:
  assumes "acc = (zn_seen (zu_state u), if zn_pendingRef (zu_state u) then 1 else 0)"
  shows "account acc (i, snd (zone_react u i)) =
    (zn_seen (zu_state (fst (zone_react u i))), if zn_pendingRef (zu_state (fst (zone_react u i))) then 1 else 0)"
  using assms
  by (cases "(u, i)" rule: zone_react.cases)
    (auto simp: useInteractionEffect_def submit_def submitAnswered_def submitFailed_def call_done_def
      split: prod.splits option.splits if_splits elim!: zone_act.elims)

lemma zone_reach_answers:
  "zone_reach p u hist \<Longrightarrow> answers p hist = (zn_seen (zu_state u), if zn_pendingRef (zu_state u) then 1 else 0)"
proof (induction rule: zone_reach.induct)
  case zone_start
  show ?case by (simp add: answers_def zone_ui_mounted_def zone_mounted_def)
qed (simp add: account_react)

text \<open>C16: However often the user presses, and whether the answer is confirmed, fails or hangs, at most one
  answer is sent between two changes of the interaction that the zone was rendered with.\<close>

theorem zone_answers_once:
  assumes "zone_reach p u hist"
  shows "snd (answers p hist) \<le> 1"
  using zone_reach_answers [OF assms] by simp


subsection \<open>Examples\<close>

definition approval :: "string \<Rightarrow> jobj" where
  "approval i = [(''id'', JStr i), (''sessionId'', JStr ''s''), (''kind'', JStr ''approval''),
     (''options'', JArr [JObj [(''id'', JStr ''y''), (''intent'', JStr ''approve'')],
                         JObj [(''id'', JStr ''n''), (''intent'', JStr ''reject'')]])]"

definition approval_props :: "nat \<Rightarrow> string \<Rightarrow> zone_props" where
  "approval_props n i = \<lparr>zp_sessionId = ''s'', zp_canMutate = True,
     zp_negotiatedCapabilities = Some {''interaction.structured''}, zp_interaction = Some (n, approval i)\<rparr>"

abbreviation approve :: "string \<Rightarrow> zone_action" where
  "approve i \<equiv> ZoneSubmit ''s'' (Some (approval i)) False (options_response ''y'')"

lemma approval_fields [simp]:
  "text_of ''kind'' (approval i) = ''approval''" "text_of ''sessionId'' (approval i) = ''s''" "text_of ''id'' (approval i) = i"
  "find_option approveIntents (approval i) = Some [(''id'', JStr ''y''), (''intent'', JStr ''approve'')]"
  "find_option rejectIntents (approval i) = Some [(''id'', JStr ''n''), (''intent'', JStr ''reject'')]"
  "find_option {''approveSession''} (approval i) = None"
  by (simp_all add: approval_def str_at_def find_option_def options_of_def approveIntents_def rejectIntents_def)

lemma approval_view:
  "buttons (StructuredActionZone (approval_props n i) s) =
    [(Msg ''Reject'', zn_phase s \<noteq> PhaseIdle, ZoneSubmit ''s'' (Some (approval i)) (zn_phase s \<noteq> PhaseIdle) (options_response ''n'')),
     (if zn_phase s = PhaseSubmitting then Msg ''Sending'' else Msg ''Approve'', zn_phase s \<noteq> PhaseIdle,
      ZoneSubmit ''s'' (Some (approval i)) (zn_phase s \<noteq> PhaseIdle) (options_response ''y''))]"
  by (auto simp: StructuredActionZone_def approval_props_def renderKind_def error_note_def Let_def split: option.splits)

lemma approval_offers: "zn_phase s = PhaseIdle \<Longrightarrow> offers (StructuredActionZone (approval_props n i) s) (approve i)"
  by (auto simp: offers_def presses_buttons approval_view intro: exI [of _ "Msg ''Approve''"])

lemma approval_props_interaction [simp]: "zp_interaction (approval_props n i) = Some (n, approval i)"
  by (simp add: approval_props_def)


definition zone_run :: "zone_ui \<Rightarrow> zone_input list \<Rightarrow> zone_ui" where
  "zone_run u is = foldl (\<lambda>u i. fst (zone_react u i)) u is"

definition answered_ui :: zone_ui where
  "answered_ui = zone_run (zone_ui_mounted (approval_props 1 ''a'')) [ZoneDo (approve ''a'')]"

lemma answered_reach: "zone_reach (approval_props 1 ''a'') answered_ui
  ([] @ [(ZoneDo (approve ''a''), snd (zone_react (zone_ui_mounted (approval_props 1 ''a'')) (ZoneDo (approve ''a''))))])"
  unfolding answered_ui_def zone_run_def foldl_Cons foldl_Nil
  by (intro zone_step zone_start)
    (simp add: zone_ui_mounted_def approval_offers zone_mounted_def)

theorem zone_answers_once_witness:
  "snd (answers (approval_props 1 ''a'') [(ZoneDo (approve ''a''),
     snd (zone_react (zone_ui_mounted (approval_props 1 ''a'')) (ZoneDo (approve ''a''))))]) \<le> 1"
  using zone_answers_once [OF answered_reach] by simp

text \<open>An answer that is confirmed only after the next interaction is shown blocks that one: its buttons are
  disabled and its answer is said to be sent, although none was sent for it.\<close>

theorem late_confirmation_blocks_next:
  "zn_phase (zu_state (zone_run answered_ui [ZoneRender (approval_props 2 ''b''), ZoneAnswered 0])) = PhaseSubmitted \<and>
   zn_pendingRef (zu_state (zone_run answered_ui [ZoneRender (approval_props 2 ''b''), ZoneAnswered 0])) = False \<and>
   \<not> offers (zu_shown (zone_run answered_ui [ZoneRender (approval_props 2 ''b''), ZoneAnswered 0, ZoneRender (approval_props 2 ''b'')]))
       (approve ''b'')"
  by (auto simp: answered_ui_def zone_run_def zone_ui_mounted_def zone_mounted_def submit_def useInteractionEffect_def
      submitAnswered_def call_done_def dest!: zone_offers_submit)

text \<open>An option that the request marks as disabled is offered like the others.\<close>

theorem disabled_option_offered:
  "\<exists>request opt. options_of request = Some [opt] \<and> map_of opt ''disabled'' = Some (JBool True) \<and>
     offers (StructuredActionZone ((approval_props 1 ''a'')\<lparr>zp_interaction := Some (1, request)\<rparr>) (zone_mounted None))
       (ZoneSubmit ''s'' (Some request) False (options_response (text_of ''id'' opt)))"
proof -
  let ?opt = "[(''id'', JStr ''x''), (''disabled'', JBool True)]"
  let ?request = "[(''sessionId'', JStr ''s''), (''kind'', JStr ''singleSelect''), (''options'', JArr [JObj ?opt])]"
  have "options_of ?request = Some [?opt]" "map_of ?opt ''disabled'' = Some (JBool True)"
    by (simp_all add: options_of_def)
  moreover have "offers (StructuredActionZone ((approval_props 1 ''a'')\<lparr>zp_interaction := Some (1, ?request)\<rparr>) (zone_mounted None))
       (ZoneSubmit ''s'' (Some ?request) False (options_response (text_of ''id'' ?opt)))"
    by (simp add: StructuredActionZone_def approval_props_def renderKind_def zone_mounted_def options_of_def str_at_def
        view_simps error_note_def)
  ultimately show ?thesis by blast
qed

end
