(* ===== verification/Terminal_Presentation.thy ===== *)
theory Terminal_Presentation
  imports Mobile_Buffers
begin

section \<open>The terminal on the screen (apps/mobile/src/features/session)\<close>

text \<open>
  \<open>terminalPresentation.ts\<close> turns the rendered lines into rows for reading or into the exact grid, and
  \<open>ansiPalette.ts\<close> gives the colours.  Text is a list of code points, because the code takes texts
  apart with \<open>Array.from\<close>.  The cache of \<open>presentLine\<close> is left out: it returns what the computation
  returned before for the same line object, and lines are not changed.
\<close>

type_synonym text_cp = "nat list"

text \<open>The four flags of a run are the literal \<open>true\<close> or absent, so a truth value holds each.\<close>

record run_style =
  rn_fg :: "string option"
  rn_bg :: "string option"
  rn_b :: bool
  rn_i :: bool
  rn_u :: bool
  rn_d :: bool

record styled_run =
  rn_t :: text_cp
  rn_style :: run_style

type_synonym styled_line = "styled_run list"

record cell =
  ce_value :: nat
  ce_style :: run_style

datatype row_kind = RowText | RowBlank | RowRule

record terminal_row =
  tr_key :: string
  tr_kind :: row_kind
  tr_line :: styled_line

definition MAX_READING_INDENT :: nat where
  "MAX_READING_INDENT = 4"

definition POSITIONAL_GAP :: nat where
  "POSITIONAL_GAP = 4"

text \<open>The classes of the two regular expressions, and JavaScript's white space.\<close>

definition rule_char :: "nat \<Rightarrow> bool" where
  "rule_char c \<longleftrightarrow> c \<in> {0x2500, 0x2501, 0x2550, 0x254C, 0x254D, 0x2504, 0x2505, 0x2014, 0x5F, 0x3D, 0x2D}"

definition RULE_PATTERN :: "text_cp \<Rightarrow> bool" where
  "RULE_PATTERN t \<longleftrightarrow> 6 \<le> length t \<and> list_all rule_char t"

definition INVISIBLE_PATTERN :: "nat \<Rightarrow> bool" where
  "INVISIBLE_PATTERN c \<longleftrightarrow>
     c \<le> 0x08 \<or> c = 0x0B \<or> c = 0x0C \<or> (0x0E \<le> c \<and> c \<le> 0x1F) \<or> c = 0x7F \<or>
     (0x200B \<le> c \<and> c \<le> 0x200D) \<or> c = 0x2060 \<or> c = 0xFEFF"

definition white_space :: "nat \<Rightarrow> bool" where
  "white_space c \<longleftrightarrow>
     (9 \<le> c \<and> c \<le> 13) \<or> c = 0x20 \<or> c = 0xA0 \<or> c = 0x1680 \<or> (0x2000 \<le> c \<and> c \<le> 0x200A) \<or>
     c \<in> {0x2028, 0x2029, 0x202F, 0x205F, 0x3000, 0xFEFF}"

definition trim_cp :: "text_cp \<Rightarrow> text_cp" where
  "trim_cp t = rev (dropWhile white_space (rev (dropWhile white_space t)))"

definition cleanText :: "text_cp \<Rightarrow> text_cp" where
  "cleanText t =
     filter (\<lambda>c. \<not> INVISIBLE_PATTERN c)
       (concat (map (\<lambda>c. if c = 0x09 then [0x20, 0x20] else [c])
          (map (\<lambda>c. if c = 0xA0 then 0x20 else c) t)))"

definition lineCells :: "styled_line \<Rightarrow> cell list" where
  "lineCells line =
     concat (map (\<lambda>run. map (\<lambda>v. \<lparr>ce_value = v, ce_style = rn_style run\<rparr>) (cleanText (rn_t run))) line)"

subsection \<open>Compacting the cells of a line\<close>

abbreviation is_space :: "cell \<Rightarrow> bool" where
  "is_space c \<equiv> ce_value c = 0x20"

text \<open>The main loop; \<open>started\<close> says \<open>index > 0\<close>, the list is what is left from \<open>index\<close> on.\<close>

function compact_loop :: "bool \<Rightarrow> cell list \<Rightarrow> cell list" where
  "compact_loop started [] = []"
| "compact_loop started (c # cs) =
     (if \<not> is_space c then c # compact_loop True cs
      else
        (let gap = c # takeWhile is_space cs; rest = dropWhile is_space cs
         in (if started \<and> rest \<noteq> [] \<and> POSITIONAL_GAP \<le> length gap then [c] else gap) @
            compact_loop True rest))"
  by pat_completeness auto

termination
  by (relation "measure (\<lambda>(b, cs). length cs)") (auto simp: le_imp_less_Suc length_dropWhile_le)

definition compactCells :: "cell list \<Rightarrow> cell list" where
  "compactCells cells =
     (let trimmed = rev (dropWhile is_space (rev cells));
          leading = length (takeWhile is_space trimmed);
          indented = (if leading > MAX_READING_INDENT then drop (leading - MAX_READING_INDENT) trimmed else trimmed)
      in compact_loop False indented)"

subsection \<open>Rows\<close>

definition sameStyle :: "run_style \<Rightarrow> run_style \<Rightarrow> bool" where
  "sameStyle l r \<longleftrightarrow>
     rn_fg l = rn_fg r \<and> rn_bg l = rn_bg r \<and> rn_b l = rn_b r \<and> rn_i l = rn_i r \<and> rn_u l = rn_u r \<and> rn_d l = rn_d r"

definition push_cell :: "styled_line \<Rightarrow> cell \<Rightarrow> styled_line" where
  "push_cell runs c =
     (if runs \<noteq> [] \<and> sameStyle (rn_style (last runs)) (ce_style c)
      then butlast runs @ [(last runs)\<lparr>rn_t := rn_t (last runs) @ [ce_value c]\<rparr>]
      else runs @ [\<lparr>rn_t = [ce_value c], rn_style = ce_style c\<rparr>])"

definition cellsToRuns :: "cell list \<Rightarrow> styled_line" where
  "cellsToRuns cells = foldl push_cell [] cells"

definition presentLine :: "styled_line \<Rightarrow> row_kind \<times> styled_line" where
  "presentLine line =
     (let normalized = cellsToRuns (compactCells (lineCells line));
          plain = trim_cp (concat (map rn_t normalized))
      in if length plain = 0 then (RowBlank, [])
         else if RULE_PATTERN plain then (RowRule, normalized) else (RowText, normalized))"

text \<open>The lines of the screen up to the last one that is not empty.\<close>

definition used_screen :: "styled_line list \<Rightarrow> styled_line list" where
  "used_screen screen = rev (dropWhile (\<lambda>line. length line = 0) (rev screen))"

definition keyed :: "string \<Rightarrow> styled_line list \<Rightarrow> (string \<times> styled_line) list" where
  "keyed pre lines = map (\<lambda>(n, line). (pre @ show_nat n, line)) (enumerate 0 lines)"

definition source_rows :: "styled_line render_buffer \<Rightarrow> (string \<times> styled_line) list" where
  "source_rows buffer = keyed ''h'' (rb_history buffer) @ keyed ''s'' (used_screen (rb_screen buffer))"

definition push_row :: "terminal_row list \<Rightarrow> string \<times> styled_line \<Rightarrow> terminal_row list" where
  "push_row rows item =
     (let row = \<lparr>tr_key = fst item, tr_kind = fst (presentLine (snd item)), tr_line = snd (presentLine (snd item))\<rparr>
      in if tr_kind row = RowBlank \<and> rows \<noteq> [] \<and> tr_kind (last rows) = RowBlank then rows else rows @ [row])"

definition terminalRows :: "styled_line render_buffer \<Rightarrow> terminal_row list" where
  "terminalRows buffer = foldl push_row [] (source_rows buffer)"

definition exactTerminalRows :: "styled_line render_buffer \<Rightarrow> terminal_row list" where
  "exactTerminalRows buffer =
     map (\<lambda>(key, line). \<lparr>tr_key = key, tr_kind = (if length line = 0 then RowBlank else RowText), tr_line = line\<rparr>)
       (source_rows buffer)"

definition row_width :: "terminal_row \<Rightarrow> nat" where
  "row_width row = foldl (\<lambda>total run. total + length (rn_t run)) 0 (tr_line row)"

definition terminalGridWidth :: "terminal_row list \<Rightarrow> nat" where
  "terminalGridWidth rows =
     (let columns = foldl (\<lambda>m row. max m (row_width row)) 0 rows in max 720 (columns * 8 + 2 * 16))"

subsection \<open>ansiPalette.ts\<close>

definition TERMINAL_BACKGROUND :: string where
  "TERMINAL_BACKGROUND = ''#030912''"

definition TERMINAL_DEFAULT_FG :: string where
  "TERMINAL_DEFAULT_FG = ''#E6EDF3''"

definition NAMED :: "(string \<times> string) list" where
  "NAMED = [
     (''black'', ''#0D1117''), (''red'', ''#F47067''), (''green'', ''#57AB5A''), (''yellow'', ''#C69026''),
     (''blue'', ''#539BF5''), (''magenta'', ''#B083F0''), (''cyan'', ''#39C5CF''), (''white'', ''#D0D7DE''),
     (''brightblack'', ''#636E7B''), (''brightred'', ''#FF938A''), (''brightgreen'', ''#6BC46D''),
     (''brightyellow'', ''#DAAA3F''), (''brightblue'', ''#6CB6FF''), (''brightmagenta'', ''#DCBDFB''),
     (''brightcyan'', ''#56D4DD''), (''brightwhite'', ''#F4F7FA''), (''brown'', ''#C69026'')]"

definition hex_digit :: "char \<Rightarrow> bool" where
  "hex_digit c \<longleftrightarrow> c \<in> set ''0123456789abcdefABCDEF''"

definition hex6 :: "string \<Rightarrow> bool" where
  "hex6 s \<longleftrightarrow> length s = 6 \<and> list_all hex_digit s"

text \<open>
  \<open>NAMED\<close> is an object literal, so that an index also finds what every object inherits.  Of the inherited
  names only two are in lower case; their values are a function and an object, both truthy.
\<close>

datatype colour = Colour string | Inherited string

definition named_colour :: "string \<Rightarrow> colour option" where
  "named_colour k =
     (if k = ''constructor'' \<or> k = ''__proto__'' then Some (Inherited k)
      else map_option Colour (map_of NAMED k))"

definition ansiColor :: "string option \<Rightarrow> string option \<Rightarrow> colour option" where
  "ansiColor v fallback =
     (case v of
        None \<Rightarrow> map_option Colour fallback
      | Some s \<Rightarrow>
          if s = [] then map_option Colour fallback
          else
            (case named_colour (map to_lower s) of
               Some named \<Rightarrow> Some named
             | None \<Rightarrow>
                 if hex6 s then Some (Colour (CHR ''#'' # s))
                 else if hd s = CHR ''#'' \<and> hex6 (tl s) then Some (Colour s)
                 else map_option Colour fallback))"

subsection \<open>Runs and cells\<close>

definition run_cells :: "styled_run \<Rightarrow> cell list" where
  "run_cells run = map (\<lambda>v. \<lparr>ce_value = v, ce_style = rn_style run\<rparr>) (rn_t run)"

lemma sameStyle_eq [simp]: "sameStyle l r \<longleftrightarrow> l = r"
  by (auto simp: sameStyle_def)

definition joined_runs :: "styled_line \<Rightarrow> bool" where
  "joined_runs runs \<longleftrightarrow> (\<forall>r \<in> set runs. rn_t r \<noteq> []) \<and> successively (\<lambda>a b. rn_style a \<noteq> rn_style b) runs"

lemma push_cell_cells: "concat (map run_cells (push_cell runs c)) = concat (map run_cells runs) @ [c]"
proof (cases "runs = []")
  case False
  then obtain rs r where "runs = rs @ [r]" by (metis append_butlast_last_id)
  then show ?thesis by (auto simp: push_cell_def run_cells_def)
qed (simp add: push_cell_def run_cells_def)

lemma push_cell_ok: "joined_runs runs \<Longrightarrow> joined_runs (push_cell runs c)"
proof (cases "runs = []")
  case False
  then obtain rs r where r: "runs = rs @ [r]" by (metis append_butlast_last_id)
  assume "joined_runs runs"
  with r show ?thesis
    by (cases "rs = []") (auto simp: push_cell_def joined_runs_def successively_append_iff)
qed (simp add: push_cell_def joined_runs_def)

lemma foldl_push_cells: "concat (map run_cells (foldl push_cell runs cells)) = concat (map run_cells runs) @ cells"
  by (induction cells arbitrary: runs) (simp_all add: push_cell_cells)

lemma foldl_push_ok: "joined_runs runs \<Longrightarrow> joined_runs (foldl push_cell runs cells)"
  by (induction cells arbitrary: runs) (simp_all add: push_cell_ok)

text \<open>Joining cells to runs and taking the runs apart again gives the same cells with the same
  styles; no run is empty and no two neighbours have the same style.\<close>

theorem cells_to_runs:
  "concat (map run_cells (cellsToRuns cells)) = cells \<and>
   [] \<notin> rn_t ` set (cellsToRuns cells) \<and>
   successively (\<lambda>a b. rn_style a \<noteq> rn_style b) (cellsToRuns cells)"
  using foldl_push_cells [of "[]" cells] foldl_push_ok [of "[]" cells]
  by (auto simp: cellsToRuns_def joined_runs_def)

lemma run_cells_values: "map ce_value (concat (map run_cells runs)) = concat (map rn_t runs)"
  by (induction runs) (simp_all add: run_cells_def comp_def)

lemma runs_text: "concat (map rn_t (cellsToRuns cells)) = map ce_value cells"
  using run_cells_values [of "cellsToRuns cells"] foldl_push_cells [of "[]" cells]
  by (simp add: cellsToRuns_def)

subsection \<open>Compaction\<close>

lemma takeWhile_spaces: "list_all is_space (takeWhile is_space cs)"
  by (simp add: list_all_iff) (meson set_takeWhileD)

lemma compact_visible: "filter (\<lambda>c. \<not> is_space c) (compact_loop b cs) = filter (\<lambda>c. \<not> is_space c) cs"
proof (induction b cs rule: compact_loop.induct)
  case (2 b c cs)
  have "filter (\<lambda>c. \<not> is_space c) (takeWhile is_space cs) = []"
    by (auto simp: filter_empty_conv dest: set_takeWhileD)
  then have "filter (\<lambda>c. \<not> is_space c) cs = filter (\<lambda>c. \<not> is_space c) (dropWhile is_space cs)"
    by (metis append_Nil filter_append takeWhile_dropWhile_id)
  with 2 show ?case by (auto simp: Let_def filter_empty_conv dest: set_takeWhileD)
qed simp

definition no_trailing :: "cell list \<Rightarrow> bool" where
  "no_trailing cs \<longleftrightarrow> cs = [] \<or> \<not> is_space (last cs)"

lemma compact_empty: "compact_loop b cs = [] \<longleftrightarrow> cs = []"
  by (cases cs) (auto simp: Let_def)

lemma dropWhile_last: "dropWhile P xs \<noteq> [] \<Longrightarrow> last (dropWhile P xs) = last xs"
  by (metis last_appendR takeWhile_dropWhile_id)

lemma no_trailing_drop: "no_trailing (c # cs) \<Longrightarrow> is_space c \<Longrightarrow>
    dropWhile is_space cs \<noteq> [] \<and> no_trailing (dropWhile is_space cs)"
proof -
  assume n: "no_trailing (c # cs)" and s: "is_space c"
  have "dropWhile is_space cs \<noteq> []"
  proof
    assume "dropWhile is_space cs = []"
    then have "\<forall>x \<in> set (c # cs). is_space x" using s by simp
    then have "is_space (last (c # cs))" by (metis last_in_set list.distinct(1))
    with n show False by (simp add: no_trailing_def)
  qed
  moreover from this have "cs \<noteq> []" by auto
  ultimately show ?thesis using n dropWhile_last [of is_space cs] by (simp add: no_trailing_def)
qed

lemma compact_no_trailing: "no_trailing cs \<Longrightarrow> no_trailing (compact_loop b cs)"
proof (induction b cs rule: compact_loop.induct)
  case (2 b c cs)
  show ?case
  proof (cases "is_space c")
    case True
    note d = no_trailing_drop [OF 2(3) True]
    with 2(2) [OF _ refl refl] True have "no_trailing (compact_loop True (dropWhile is_space cs))" by simp
    moreover have "compact_loop True (dropWhile is_space cs) \<noteq> []" using d by (simp add: compact_empty)
    ultimately show ?thesis using True by (simp add: Let_def no_trailing_def)
  next
    case False
    have "no_trailing cs" using 2(3) by (auto simp: no_trailing_def split: if_splits)
    with 2(1) False have "no_trailing (compact_loop True cs)" by simp
    with False show ?thesis by (auto simp: no_trailing_def)
  qed
qed simp

text \<open>\<open>narrow k cs\<close>: after \<open>k\<close> spaces, no gap in \<open>cs\<close> reaches four spaces.\<close>

fun narrow :: "nat \<Rightarrow> cell list \<Rightarrow> bool" where
  "narrow k [] = True"
| "narrow k (c # cs) = (if is_space c then Suc k < POSITIONAL_GAP \<and> narrow (Suc k) cs else narrow 0 cs)"

lemma narrow_gap:
  "list_all is_space gap \<Longrightarrow> xs = [] \<or> \<not> is_space (hd xs) \<Longrightarrow> k < POSITIONAL_GAP \<Longrightarrow>
   narrow k (gap @ xs) \<longleftrightarrow> k + length gap < POSITIONAL_GAP \<and> narrow 0 xs"
proof (induction gap arbitrary: k)
  case Nil
  then show ?case by (cases xs) auto
next
  case (Cons g gap)
  show ?case
  proof (cases "Suc k < POSITIONAL_GAP")
    case True
    with Cons show ?thesis by auto
  next
    case False
    with Cons.prems show ?thesis by auto
  qed
qed

lemma compact_hd: "\<not> is_space c \<Longrightarrow> compact_loop b (c # cs) = c # compact_loop True cs"
  by simp

lemma hd_dropWhile_space: "dropWhile is_space cs = [] \<or> \<not> is_space (hd (dropWhile is_space cs))"
  using hd_dropWhile [of is_space cs] by blast

lemma compact_rest_hd:
  "compact_loop b (dropWhile is_space cs) = [] \<or> \<not> is_space (hd (compact_loop b (dropWhile is_space cs)))"
proof (cases "dropWhile is_space cs")
  case (Cons x xs)
  with hd_dropWhile_space [of cs] have "\<not> is_space x" by simp
  then show ?thesis by (simp add: Cons)
next
  case Nil
  show ?thesis unfolding Nil by simp
qed

lemma compact_narrow: "no_trailing cs \<Longrightarrow> narrow 0 (compact_loop True cs)"
proof (induction "True" cs rule: compact_loop.induct)
  case (2 c cs)
  show ?case
  proof (cases "is_space c")
    case True
    note d = no_trailing_drop [OF 2(3) True]
    define gap where "gap = c # takeWhile is_space cs"
    have IH: "narrow 0 (compact_loop True (dropWhile is_space cs))" using 2(2) [OF _ refl refl] True d by simp
    have sp: "list_all is_space gap" "list_all is_space [c]" using True takeWhile_spaces by (simp_all add: gap_def)
    have "compact_loop True (c # cs) =
        (if POSITIONAL_GAP \<le> length gap then [c] else gap) @ compact_loop True (dropWhile is_space cs)"
      using True d by (simp add: Let_def gap_def)
    moreover have "0 < POSITIONAL_GAP" "1 < POSITIONAL_GAP" by (simp_all add: POSITIONAL_GAP_def)
    ultimately show ?thesis using IH narrow_gap [OF sp(1) compact_rest_hd, of 0 True cs] narrow_gap [OF sp(2) compact_rest_hd, of 0 True cs]
      by (auto simp: not_le)
  next
    case False
    have "no_trailing cs" using 2(3) by (auto simp: no_trailing_def split: if_splits)
    with 2(1) False show ?thesis by simp
  qed
qed simp

text \<open>What is compact already is left alone.\<close>

lemma narrow_fixed: "narrow 0 cs \<Longrightarrow> compact_loop True cs = cs"
proof (induction "True" cs rule: compact_loop.induct)
  case (2 c cs)
  show ?case
  proof (cases "is_space c")
    case True
    define gap where "gap = c # takeWhile is_space cs"
    have sp: "list_all is_space gap" using True takeWhile_spaces by (simp add: gap_def)
    have "narrow 0 (gap @ dropWhile is_space cs)" using 2(3) by (simp add: gap_def)
    then have n: "length gap < POSITIONAL_GAP" "narrow 0 (dropWhile is_space cs)"
      using narrow_gap [OF sp hd_dropWhile_space, of 0 cs] by (simp_all add: POSITIONAL_GAP_def)
    have "compact_loop True (dropWhile is_space cs) = dropWhile is_space cs"
      using 2(2) [OF _ refl refl] True n by simp
    then show ?thesis using True n by (simp add: Let_def gap_def)
  qed (use 2 in simp)
qed simp

lemma compact_False:
  "compact_loop False cs = takeWhile is_space cs @ compact_loop True (dropWhile is_space cs)"
  by (cases cs) (simp_all add: Let_def)

lemma spaces_takeWhile:
  "list_all is_space gap \<Longrightarrow> xs = [] \<or> \<not> is_space (hd xs) \<Longrightarrow>
   takeWhile is_space (gap @ xs) = gap \<and> dropWhile is_space (gap @ xs) = xs"
proof (induction gap)
  case Nil
  then show ?case by (cases xs) simp_all
qed simp

lemma takeWhile_compact:
  "takeWhile is_space (takeWhile is_space cs @ compact_loop True (dropWhile is_space cs)) = takeWhile is_space cs"
  and dropWhile_compact:
  "dropWhile is_space (takeWhile is_space cs @ compact_loop True (dropWhile is_space cs)) =
     compact_loop True (dropWhile is_space cs)"
  using spaces_takeWhile [OF takeWhile_spaces [of cs] compact_rest_hd [of True cs]] by simp_all

definition indented :: "cell list \<Rightarrow> cell list" where
  "indented cells =
     (let trimmed = rev (dropWhile is_space (rev cells)); leading = length (takeWhile is_space trimmed)
      in if leading > MAX_READING_INDENT then drop (leading - MAX_READING_INDENT) trimmed else trimmed)"

lemma compactCells_indented: "compactCells cells = compact_loop False (indented cells)"
  by (simp add: compactCells_def indented_def Let_def)

lemma trimmed_no_trailing: "no_trailing (rev (dropWhile is_space (rev cells)))"
  using hd_dropWhile_space [of "rev cells"] by (auto simp: no_trailing_def last_rev)

lemma drop_spaces:
  assumes "n \<le> length (takeWhile P cs)"
  shows "drop n cs = drop n (takeWhile P cs) @ dropWhile P cs"
proof -
  have "drop n (takeWhile P cs @ dropWhile P cs) = drop n (takeWhile P cs) @ dropWhile P cs"
    using assms by (simp only: drop_append diff_is_0_eq' drop_0)
  then show ?thesis by (simp only: takeWhile_dropWhile_id)
qed

lemma indented_parts:
  defines "t \<equiv> \<lambda>cells. rev (dropWhile is_space (rev cells))"
  shows "\<exists>gap. indented cells = gap @ dropWhile is_space (t cells) \<and> list_all is_space gap \<and>
           length gap = min MAX_READING_INDENT (length (takeWhile is_space (t cells)))"
proof -
  let ?w = "takeWhile is_space (t cells)"
  define n where "n = length ?w - MAX_READING_INDENT"
  have "indented cells = drop n (t cells)"
    by (auto simp: indented_def t_def Let_def n_def)
  also have "\<dots> = drop n ?w @ dropWhile is_space (t cells)" by (rule drop_spaces) (simp add: n_def)
  finally have "indented cells = drop n ?w @ dropWhile is_space (t cells)" .
  moreover have "list_all is_space (drop n ?w)"
    using takeWhile_spaces [of "t cells"] by (auto simp: list_all_iff dest: in_set_dropD)
  moreover have "length (drop n ?w) = min MAX_READING_INDENT (length ?w)" by (simp add: n_def)
  ultimately show ?thesis by blast
qed

text \<open>A line's cells before and after.\<close>

definition compacted :: "cell list \<Rightarrow> bool" where
  "compacted cs \<longleftrightarrow> no_trailing cs \<and> length (takeWhile is_space cs) \<le> MAX_READING_INDENT \<and>
     narrow 0 (dropWhile is_space cs)"

lemma no_trailing_dropWhile: "no_trailing cs \<Longrightarrow> no_trailing (dropWhile is_space cs)"
  by (cases "dropWhile is_space cs = []") (auto simp: no_trailing_def dropWhile_last)

lemma no_trailing_drop_n: "no_trailing cs \<Longrightarrow> no_trailing (drop n cs)"
  by (cases "n < length cs") (auto simp: no_trailing_def)

lemma indented_no_trailing: "no_trailing (indented cells)"
  using no_trailing_drop_n [OF trimmed_no_trailing] trimmed_no_trailing
  by (simp add: indented_def Let_def)

lemma compact_compacted: "compacted (compactCells cells)"
proof -
  obtain gap where g: "indented cells = gap @ dropWhile is_space (rev (dropWhile is_space (rev cells)))"
    "list_all is_space gap" "length gap \<le> MAX_READING_INDENT"
    using indented_parts [of cells] by auto
  from spaces_takeWhile [OF g(2) hd_dropWhile_space] g(1,3)
  have "length (takeWhile is_space (indented cells)) \<le> MAX_READING_INDENT" by simp
  with compact_no_trailing [OF indented_no_trailing, of False cells]
    compact_narrow [OF no_trailing_dropWhile [OF indented_no_trailing]]
  show ?thesis
    unfolding compacted_def compactCells_indented compact_False takeWhile_compact dropWhile_compact by blast
qed

lemma compacted_fixed:
  assumes "compacted cs"
  shows "compactCells cs = cs"
proof -
  have "rev (dropWhile is_space (rev cs)) = cs"
    using assms by (cases cs rule: rev_cases) (auto simp: compacted_def no_trailing_def)
  then have "indented cs = cs" using assms by (simp add: indented_def Let_def compacted_def)
  with assms narrow_fixed [of "dropWhile is_space cs"] show ?thesis
    by (simp add: compactCells_indented compact_False compacted_def)
qed

lemma compactCells_visible: "filter (\<lambda>c. \<not> is_space c) (compactCells cells) = filter (\<lambda>c. \<not> is_space c) cells"
proof -
  let ?t = "rev (dropWhile is_space (rev cells))" and ?f = "filter (\<lambda>c. \<not> is_space c)"
  have sp: "?f gap = []" if "list_all is_space gap" for gap using that by (auto simp: filter_empty_conv list_all_iff)
  have tw: "?f cs = ?f (dropWhile is_space cs)" for cs
    by (metis append_Nil filter_append sp takeWhile_dropWhile_id takeWhile_spaces)
  obtain gap where "indented cells = gap @ dropWhile is_space ?t" "list_all is_space gap"
    using indented_parts [of cells] by auto
  then have "?f (indented cells) = ?f ?t" using sp tw [of ?t] by simp
  also have "\<dots> = ?f cells" using tw [of "rev cells"] by (simp add: rev_filter [symmetric]) (metis rev_filter rev_rev_ident)
  finally show ?thesis by (simp add: compactCells_indented compact_visible)
qed

text \<open>C34: Compacting a line for reading keeps every cell that is not a space, with its style and in its
  place in the order; it leaves no space at the end, at most four at the beginning and nowhere else four
  in a row; and a line that is like that already is not changed, so compacting twice is compacting once.\<close>

theorem compaction_exact:
  "filter (\<lambda>c. \<not> is_space c) (compactCells cells) = filter (\<lambda>c. \<not> is_space c) cells \<and>
   no_trailing (compactCells cells) \<and>
   length (takeWhile is_space (compactCells cells)) \<le> 4 \<and>
   narrow 0 (dropWhile is_space (compactCells cells)) \<and>
   compactCells (compactCells cells) = compactCells cells"
  using compactCells_visible compact_compacted [of cells] compacted_fixed [OF compact_compacted]
  by (simp add: compacted_def MAX_READING_INDENT_def)

subsection \<open>Rows\<close>

lemma keyed_fst: "map fst (map (\<lambda>(n, line). (pre @ show_nat n, line)) (enumerate k lines)) =
    map (\<lambda>n. pre @ show_nat n) [k..<k + length lines]"
  by (induction lines arbitrary: k) (simp_all add: upt_conv_Cons del: upt_Suc)

lemma keyed_keys: "map fst (keyed pre lines) = map (\<lambda>n. pre @ show_nat n) [0..<length lines]"
  using keyed_fst [of pre 0 lines] by (simp only: keyed_def add_0)

lemma source_keys_distinct: "distinct (map fst (source_rows buffer))"
  by (auto simp: source_rows_def keyed_keys distinct_map inj_on_def)

lemma subseq_distinct: "subseq ks xs \<Longrightarrow> distinct xs \<Longrightarrow> distinct ks"
proof (induction rule: list_emb.induct)
  case (list_emb_Cons2 x y xs ys)
  then have "set xs \<subseteq> set ys" by (auto elim: list_emb_set)
  with list_emb_Cons2 show ?case by auto
qed auto

lemma push_row_cases:
  "push_row rows item = rows \<or>
   push_row rows item = rows @ [\<lparr>tr_key = fst item, tr_kind = fst (presentLine (snd item)), tr_line = snd (presentLine (snd item))\<rparr>]"
  by (simp add: push_row_def Let_def)

lemma push_rows_keys: "\<exists>ks. map tr_key (foldl push_row rows items) = map tr_key rows @ ks \<and> subseq ks (map fst items)"
proof (induction items arbitrary: rows)
  case (Cons item items)
  from Cons.IH [of "push_row rows item"] obtain ks
    where ks: "map tr_key (foldl push_row (push_row rows item) items) = map tr_key (push_row rows item) @ ks"
      "subseq ks (map fst items)" by blast
  from push_row_cases [of rows item] show ?case
    using ks by (elim disjE) (auto intro: exI [of _ "fst item # ks"])
qed simp

lemma push_rows_blank:
  "successively (\<lambda>a b. \<not> (tr_kind a = RowBlank \<and> tr_kind b = RowBlank)) rows \<Longrightarrow>
   successively (\<lambda>a b. \<not> (tr_kind a = RowBlank \<and> tr_kind b = RowBlank)) (foldl push_row rows items)"
proof (induction items arbitrary: rows)
  case (Cons item items)
  have "successively (\<lambda>a b. \<not> (tr_kind a = RowBlank \<and> tr_kind b = RowBlank)) (push_row rows item)"
    using Cons.prems by (auto simp: push_row_def Let_def successively_append_iff)
  with Cons.IH show ?case by simp
qed simp

lemma push_rows_lines:
  "filter (\<lambda>x. fst x \<noteq> RowBlank) (map (\<lambda>r. (tr_kind r, tr_line r)) (foldl push_row rows items)) =
   filter (\<lambda>x. fst x \<noteq> RowBlank) (map (\<lambda>r. (tr_kind r, tr_line r)) rows) @
   filter (\<lambda>x. fst x \<noteq> RowBlank) (map (\<lambda>i. presentLine (snd i)) items)"
proof (induction items arbitrary: rows)
  case (Cons item items)
  then show ?case by (auto simp: push_row_def Let_def)
qed simp

lemma source_rows_lines: "map snd (source_rows buffer) = rb_history buffer @ used_screen (rb_screen buffer)"
  by (simp add: source_rows_def keyed_def comp_def case_prod_beta')

text \<open>The rows for reading are the lines of the history and then those of the screen, each presented
  by itself and in their order; only blank lines are left out, no two blank rows follow each other, and
  no two rows have the same key.\<close>

theorem terminal_rows_exact:
  "filter (\<lambda>x. fst x \<noteq> RowBlank) (map (\<lambda>r. (tr_kind r, tr_line r)) (terminalRows buffer)) =
     filter (\<lambda>x. fst x \<noteq> RowBlank)
       (map presentLine (rb_history buffer @ used_screen (rb_screen buffer))) \<and>
   successively (\<lambda>a b. \<not> (tr_kind a = RowBlank \<and> tr_kind b = RowBlank)) (terminalRows buffer) \<and>
   distinct (map tr_key (terminalRows buffer))"
proof -
  have l: "map (\<lambda>i. presentLine (snd i)) (source_rows buffer) =
      map presentLine (rb_history buffer @ used_screen (rb_screen buffer))"
    by (simp flip: source_rows_lines add: comp_def)
  obtain ks where "map tr_key (terminalRows buffer) = ks" "subseq ks (map fst (source_rows buffer))"
    using push_rows_keys [of "[]" "source_rows buffer"] by (auto simp: terminalRows_def)
  with source_keys_distinct have "distinct (map tr_key (terminalRows buffer))" by (simp add: subseq_distinct)
  with push_rows_lines [of "[]" "source_rows buffer"] push_rows_blank [of "[]" "source_rows buffer"]
  show ?thesis by (simp add: terminalRows_def l)
qed

lemma foldl_max_ge: "(m::nat) \<le> foldl (\<lambda>m r. max m (f r)) m rows"
  by (induction rows arbitrary: m) (auto intro: order_trans [OF max.cobounded1])

lemma foldl_max_mem: "r \<in> set rows \<Longrightarrow> f r \<le> foldl (\<lambda>m r. max m (f r)) (m::nat) rows"
  by (induction rows arbitrary: m) (auto intro: order_trans [OF max.cobounded2 foldl_max_ge])

text \<open>C39: The exact grid is wide enough for each of its rows, at 8 points a character and 16 on either
  side, and never narrower than 720 points.\<close>

theorem grid_width_fits:
  assumes "row \<in> set (exactTerminalRows buffer)"
  shows "8 * row_width row + 32 \<le> terminalGridWidth (exactTerminalRows buffer) \<and>
         720 \<le> terminalGridWidth (exactTerminalRows buffer)"
  using foldl_max_mem [OF assms, of row_width 0] by (simp add: terminalGridWidth_def Let_def)

lemma named_valid: "map_of NAMED k = Some n \<Longrightarrow> hd n = CHR ''#'' \<and> hex6 (tl n) \<and> length n = 7"
proof -
  assume m: "map_of NAMED k = Some n"
  have "list_all (\<lambda>(k, n). hd n = CHR ''#'' \<and> hex6 (tl n) \<and> length n = 7) NAMED" by code_simp
  with map_of_SomeD [OF m] show ?thesis by (auto simp: list_all_iff)
qed

text \<open>A colour that the palette returns is the fallback or a hash sign with six hexadecimal digits,
  but for the names \<open>constructor\<close> and \<open>__proto__\<close>, for which it returns what the palette's object
  inherits under that name and no colour at all.\<close>

theorem ansi_color_valid:
  assumes "ansiColor (Some s) fallback = Some c"
  shows "(if map to_lower s = ''constructor'' \<or> map to_lower s = ''__proto__''
          then c = Inherited (map to_lower s)
          else \<exists>h. c = Colour h \<and>
            (fallback = Some h \<or> (hd h = CHR ''#'' \<and> hex6 (tl h) \<and> length h = 7)))"
proof (cases s)
  case (Cons x xs)
  with assms show ?thesis
    by (auto simp: ansiColor_def named_colour_def hex6_def dest: named_valid split: if_splits option.splits)
qed (use assms in \<open>auto simp: ansiColor_def\<close>)

theorem ansi_color_valid_witness: "Inherited ''constructor'' = Inherited (map to_lower ''Constructor'')"
proof -
  have "ansiColor (Some ''Constructor'') None = Some (Inherited ''constructor'')"
    "map to_lower ''Constructor'' = ''constructor''" by code_simp+
  with ansi_color_valid [OF this(1)] show ?thesis by simp
qed

definition sample_grid :: "styled_line render_buffer" where
  "sample_grid = \<lparr>rb_history = [], rb_screen = [[\<lparr>rn_t = [65, 66], rn_style =
     \<lparr>rn_fg = None, rn_bg = None, rn_b = False, rn_i = False, rn_u = False, rn_d = False\<rparr>\<rparr>], []], rb_lastSeq = 1\<rparr>"

theorem grid_width_fits_witness:
  "8 * row_width (hd (exactTerminalRows sample_grid)) + 32 \<le> terminalGridWidth (exactTerminalRows sample_grid)"
proof -
  have "hd (exactTerminalRows sample_grid) \<in> set (exactTerminalRows sample_grid)"
    by (simp add: exactTerminalRows_def source_rows_def keyed_def used_screen_def sample_grid_def)
  from conjunct1 [OF grid_width_fits [OF this]] show ?thesis .
qed

end
