(* ===== verification/Plain_Terminal.thy ===== *)
theory Plain_Terminal
  imports Ui_View Complex_Main
begin

section \<open>The plain terminal (features/session/PlainTerminal.tsx)\<close>

text \<open>
  The text of a session without escape sequences, and whether the view follows the output.  The regular
  expressions of the source are terms of a small datatype; \<open>matches\<close> is the backtracking matcher of
  ECMAScript with the rest of the match as its continuation, so that the first success in its order of
  tries is the match that the language defines.
\<close>

subsection \<open>Regular expressions and \<open>replace\<close> with the flag \<open>g\<close>\<close>

datatype regex =
    Class "char \<Rightarrow> bool"
  | Star "char \<Rightarrow> bool"
  | Seq regex regex
  | Alt regex regex
  | Opt "char \<Rightarrow> bool"

type_synonym continuation = "string \<Rightarrow> string option"

definition one :: "(char \<Rightarrow> bool) \<Rightarrow> continuation \<Rightarrow> continuation" where
  "one p k s = (case s of [] \<Rightarrow> None | c # r \<Rightarrow> if p c then k r else None)"

definition or_else :: "string option \<Rightarrow> string option \<Rightarrow> string option" where
  "or_else x y = (case x of None \<Rightarrow> y | Some r \<Rightarrow> Some r)"

text \<open>A greedy star tries one more character first.\<close>

fun star :: "(char \<Rightarrow> bool) \<Rightarrow> continuation \<Rightarrow> continuation" where
  "star p k [] = k []"
| "star p k (c # s) = (if p c then or_else (star p k s) (k (c # s)) else k (c # s))"

primrec matches :: "regex \<Rightarrow> continuation \<Rightarrow> continuation" where
  "matches (Class p) k = one p k"
| "matches (Star p) k = star p k"
| "matches (Seq r1 r2) k = matches r1 (matches r2 k)"
| "matches (Alt r1 r2) k = (\<lambda>s. or_else (matches r1 k s) (matches r2 k s))"
| "matches (Opt p) k = (\<lambda>s. or_else (one p k s) (k s))"

text \<open>\<open>value.replace(r, w)\<close> for a global \<open>r\<close>; after an empty match the next character is kept.\<close>

function replaceAll :: "regex \<Rightarrow> string \<Rightarrow> string \<Rightarrow> string" where
  "replaceAll r w s =
     (case matches r Some s of
        None \<Rightarrow> (case s of [] \<Rightarrow> [] | c # s' \<Rightarrow> c # replaceAll r w s')
      | Some rest \<Rightarrow>
          if length rest < length s then w @ replaceAll r w rest
          else (case s of [] \<Rightarrow> w | c # s' \<Rightarrow> w @ c # replaceAll r w s'))"
  by pat_completeness auto
termination by (relation "measure (\<lambda>(r, w, s). length s)") auto

declare replaceAll.simps [simp del]

subsection \<open>plainTerminalText\<close>

definition between :: "nat \<Rightarrow> nat \<Rightarrow> char \<Rightarrow> bool" where
  "between a b c \<longleftrightarrow> a \<le> of_char c \<and> of_char c \<le> b"

definition is_code :: "nat \<Rightarrow> char \<Rightarrow> bool" where
  "is_code n c \<longleftrightarrow> of_char c = n"

text \<open>\<open>\u001b\][^\u0007]*(?:\u0007|\u001b\\)\<close>\<close>

definition osc_pattern :: regex where
  "osc_pattern =
     Seq (Class (is_code 27)) (Seq (Class (is_code 93)) (Seq (Star (\<lambda>c. \<not> is_code 7 c))
       (Alt (Class (is_code 7)) (Seq (Class (is_code 27)) (Class (is_code 92))))))"

text \<open>\<open>\u001b(?:\[[0-?]*[ -/]*[@-~]|[@-_])\<close>\<close>

definition csi_pattern :: regex where
  "csi_pattern =
     Seq (Class (is_code 27))
       (Alt (Seq (Class (is_code 91)) (Seq (Star (between 48 63)) (Seq (Star (between 32 47)) (Class (between 64 126)))))
            (Class (between 64 95)))"

text \<open>\<open>\r\n?\<close>\<close>

definition newline_pattern :: regex where
  "newline_pattern = Seq (Class (is_code 13)) (Opt (is_code 10))"

text \<open>\<open>[\u0000-\u0008\u000b\u000c\u000e-\u001f\u007f]\<close>\<close>

definition control_char :: "char \<Rightarrow> bool" where
  "control_char c \<longleftrightarrow> between 0 8 c \<or> is_code 11 c \<or> is_code 12 c \<or> between 14 31 c \<or> is_code 127 c"

definition plainTerminalText :: "string \<Rightarrow> string" where
  "plainTerminalText s =
     replaceAll (Class control_char) []
       (replaceAll newline_pattern [CHR 0x0A]
         (replaceAll csi_pattern [] (replaceAll osc_pattern [] s)))"


subsection \<open>The characters\<close>

abbreviation (input) BEL :: char where "BEL \<equiv> CHR 0x07"
abbreviation (input) ESC :: char where "ESC \<equiv> CHR 0x1B"

lemma is_code_iff: "n < 256 \<Longrightarrow> is_code n c \<longleftrightarrow> c = char_of n"
  by (auto simp: is_code_def of_char_of)

lemma is_code_simps [simp]:
  "is_code 7 c \<longleftrightarrow> c = BEL" "is_code 10 c \<longleftrightarrow> c = CHR 0x0A" "is_code 13 c \<longleftrightarrow> c = CHR 0x0D"
  "is_code 27 c \<longleftrightarrow> c = ESC" "is_code 91 c \<longleftrightarrow> c = CHR 0x5B" "is_code 92 c \<longleftrightarrow> c = CHR 0x5C"
  "is_code 93 c \<longleftrightarrow> c = CHR 0x5D"
  by (simp_all add: is_code_iff) (simp_all add: char_of_def bit_iff_odd)

text \<open>What may be shown: no control character except the tabulator and the line feed.\<close>

definition readable :: "char \<Rightarrow> bool" where
  "readable c \<longleftrightarrow> (32 \<le> (of_char c :: nat) \<and> of_char c \<noteq> (127::nat)) \<or> c = CHR 0x09 \<or> c = CHR 0x0A"

lemma of_char_9_10: "of_char c = (9::nat) \<longleftrightarrow> c = CHR 0x09" "of_char c = (10::nat) \<longleftrightarrow> c = CHR 0x0A"
  using is_code_iff [of 9 c] is_code_iff [of 10 c] by (simp_all add: is_code_def char_of_def bit_iff_odd)

lemma readable_iff: "readable c \<longleftrightarrow> \<not> control_char c \<and> c \<noteq> CHR 0x0D"
proof -
  have "c = CHR 0x0D \<longleftrightarrow> of_char c = (13::nat)" using is_code_simps(3) [of c] by (simp only: is_code_def)
  then show ?thesis
    unfolding readable_def control_char_def between_def is_code_def of_char_9_10 [symmetric] by linarith
qed

lemma readable_not_esc: "readable c \<Longrightarrow> c \<noteq> ESC \<and> c \<noteq> CHR 0x0D \<and> c \<noteq> BEL"
  by (auto simp: readable_def)


subsection \<open>Replacing\<close>

lemma or_else_simps [simp]:
  "or_else None y = y" "or_else (Some r) y = Some r" "or_else x None = x"
  by (simp_all add: or_else_def split: option.split)

lemma or_else_Some: "or_else x y = Some r \<longleftrightarrow> x = Some r \<or> (x = None \<and> y = Some r)"
  by (cases x) auto

lemma one_simps [simp]:
  "one p k [] = None" "one p k (c # s) = (if p c then k s else None)"
  by (simp_all add: one_def)

text \<open>A star whose continuation fails on its own characters takes all of them.\<close>

lemma star_maximal: "(\<And>c s. p c \<Longrightarrow> k (c # s) = None) \<Longrightarrow> star p k s = k (dropWhile p s)"
  by (induction s) (auto simp: or_else_def split: option.split)

lemma replaceAll_Nil [simp]: "matches r Some [] = None \<Longrightarrow> replaceAll r w [] = []"
  by (subst replaceAll.simps) simp

lemma replaceAll_skip: "matches r Some (c # s) = None \<Longrightarrow> replaceAll r w (c # s) = c # replaceAll r w s"
  by (subst replaceAll.simps) simp

lemma replaceAll_match:
  "matches r Some s = Some t \<Longrightarrow> length t < length s \<Longrightarrow> replaceAll r w s = w @ replaceAll r w t"
  by (subst replaceAll.simps) simp

text \<open>Text without the character that a pattern starts with is passed over.\<close>

lemma replaceAll_clear:
  assumes "\<And>c s. c \<noteq> a \<Longrightarrow> matches r Some (c # s) = None" and "a \<notin> set u"
  shows "replaceAll r w (u @ s) = u @ replaceAll r w s"
  using assms(2) by (induction u) (auto simp: replaceAll_skip assms(1))

lemma replaceAll_class: "replaceAll (Class p) [] s = filter (\<lambda>c. \<not> p c) s"
  by (induction s) (auto simp: replaceAll_skip replaceAll_match)

lemma osc_starts: "c \<noteq> ESC \<Longrightarrow> matches osc_pattern Some (c # s) = None"
  and csi_starts: "c \<noteq> ESC \<Longrightarrow> matches csi_pattern Some (c # s) = None"
  and newline_starts: "c \<noteq> CHR 0x0D \<Longrightarrow> matches newline_pattern Some (c # s) = None"
  by (simp_all add: osc_pattern_def csi_pattern_def newline_pattern_def)

lemma patterns_empty [simp]:
  "matches osc_pattern Some [] = None" "matches csi_pattern Some [] = None" "matches newline_pattern Some [] = None"
  by (simp_all add: osc_pattern_def csi_pattern_def newline_pattern_def)

lemmas osc_clear = replaceAll_clear [OF osc_starts]
  and csi_clear = replaceAll_clear [OF csi_starts]
  and newline_clear = replaceAll_clear [OF newline_starts]

lemma no_carriage_return: "CHR 0x0D \<notin> set (replaceAll newline_pattern [CHR 0x0A] s)"
proof (induction s rule: length_induct)
  case (1 s)
  show ?case
  proof (cases s)
    case (Cons c t)
    show ?thesis
    proof (cases "c = CHR 0x0D")
      case True
      obtain rest where "matches newline_pattern Some s = Some rest" "length rest < length s"
        by (cases t; cases "t \<noteq> [] \<and> hd t = CHR 0x0A") (auto simp: Cons True newline_pattern_def)
      with 1 show ?thesis by (simp add: replaceAll_match)
    next
      case False
      with 1 Cons show ?thesis by (simp add: replaceAll_skip newline_starts)
    qed
  qed simp
qed

lemma plain_text_clean: "list_all readable (plainTerminalText s)"
proof -
  let ?t = "replaceAll csi_pattern [] (replaceAll osc_pattern [] s)"
  have "plainTerminalText s = filter (\<lambda>c. \<not> control_char c) (replaceAll newline_pattern [CHR 0x0A] ?t)"
    by (simp add: plainTerminalText_def replaceAll_class)
  then show ?thesis using no_carriage_return [of ?t] by (auto simp: readable_iff list_all_iff)
qed

lemma plain_text_id:
  assumes "list_all readable s"
  shows "plainTerminalText s = s"
proof -
  have "ESC \<notin> set s" "CHR 0x0D \<notin> set s" "filter (\<lambda>c. \<not> control_char c) s = s"
    using assms readable_not_esc by (auto simp: readable_iff filter_id_conv list_all_iff)
  then show ?thesis
    using osc_clear [where u = s and s = "[]"] csi_clear [where u = s and s = "[]"]
      newline_clear [where u = s and s = "[]"]
    by (simp add: plainTerminalText_def replaceAll_class)
qed

text \<open>C23: Whatever the terminal sent, the plain text that is shown has no control characters apart from
  tabulators and line feeds: no escape, no carriage return, no bell, no delete; and text that is plain
  already is shown as it is, so that making it plain twice changes nothing.\<close>

theorem plain_text_readable:
  "list_all readable (plainTerminalText s) \<and> plainTerminalText (plainTerminalText s) = plainTerminalText s"
  using plain_text_clean [of s] plain_text_id by blast

subsection \<open>What the patterns match\<close>

text \<open>A title sequence without a bell after it ends at the last string terminator.\<close>

abbreviation (input) ST :: string where "ST \<equiv> [ESC, CHR 0x5C]"

fun after_last_st :: "string \<Rightarrow> string option" where
  "after_last_st [] = None"
| "after_last_st (c # s) =
     or_else (after_last_st s) (if c = ESC \<and> s \<noteq> [] \<and> hd s = CHR 0x5C then Some (tl s) else None)"

definition osc_end :: continuation where
  "osc_end s = or_else (one (is_code 7) Some s) (one (is_code 27) (one (is_code 92) Some) s)"

lemma osc_end_eq: "osc_end s = (if s \<noteq> [] \<and> hd s = BEL then Some (tl s)
    else if prefix ST s then Some (drop 2 s) else None)"
  by (cases s; cases "tl s") (auto simp: osc_end_def)

lemma matches_osc: "matches osc_pattern Some (ESC # CHR 0x5D # t) = star (\<lambda>c. c \<noteq> BEL) osc_end t"
  by (simp add: osc_pattern_def osc_end_def [abs_def])

lemma star_bel: "BEL \<notin> set u \<Longrightarrow> star (\<lambda>c. c \<noteq> BEL) osc_end (u @ BEL # v) = Some v"
  by (induction u) (auto simp: osc_end_eq)

lemma star_no_bel: "BEL \<notin> set t \<Longrightarrow> star (\<lambda>c. c \<noteq> BEL) osc_end t = after_last_st t"
proof (induction t)
  case (Cons c t)
  then show ?case by (cases t) (auto simp: osc_end_eq)
qed (simp add: osc_end_def)

lemma after_last_st_None: "after_last_st t = None \<longleftrightarrow> (\<nexists>x y. t = x @ ST @ y)"
proof (induction t)
  case (Cons c t)
  have "(\<exists>x y. c # t = x @ ST @ y) \<longleftrightarrow> (c = ESC \<and> t \<noteq> [] \<and> hd t = CHR 0x5C) \<or> (\<exists>x y. t = x @ ST @ y)"
    by (cases t) (auto simp: Cons_eq_append_conv)
  with Cons show ?case by (auto simp: or_else_def split: option.splits)
qed simp

lemma after_last_st_Some:
  "after_last_st t = Some r \<longleftrightarrow> (\<exists>u. t = u @ ST @ r) \<and> (\<nexists>x y. r = x @ ST @ y)"
proof (induction t arbitrary: r)
  case (Cons c t)
  show ?case
  proof (cases "after_last_st t")
    case None
    then have n: "\<nexists>x y. t = x @ ST @ y" by (simp add: after_last_st_None)
    have "(\<exists>u. c # t = u @ ST @ r) \<longleftrightarrow> c = ESC \<and> t = CHR 0x5C # r"
      using n by (auto simp: Cons_eq_append_conv)
    with None n show ?thesis by (cases t) (auto simp: Cons_eq_append_conv)
  next
    case (Some r')
    with Cons.IH [of r'] have r': "\<exists>u. t = u @ ST @ r'" "\<nexists>x y. r' = x @ ST @ y" by simp_all
    show ?thesis
    proof
      assume "after_last_st (c # t) = Some r"
      with Some r' show "(\<exists>u. c # t = u @ ST @ r) \<and> (\<nexists>x y. r = x @ ST @ y)"
        by (auto intro: exI [where x = "c # u" for u])
    next
      assume a: "(\<exists>u. c # t = u @ ST @ r) \<and> (\<nexists>x y. r = x @ ST @ y)"
      then have "t \<noteq> CHR 0x5C # r"
        using r'(1) by (auto simp: append_eq_Cons_conv) blast
      with a have "\<exists>u. t = u @ ST @ r" by (auto simp: Cons_eq_append_conv)
      with a Cons.IH [of r] show "after_last_st (c # t) = Some r" by simp
    qed
  qed
qed simp


lemma first_split: "x \<notin> set u \<Longrightarrow> x \<notin> set u' \<Longrightarrow> u @ x # v = u' @ x # v' \<longleftrightarrow> u = u' \<and> v = v'"
  by (induction u u' rule: list_induct2') auto

text \<open>The first pattern, tried at the start of a title sequence, removes the following and nothing
  else: with a bell anywhere after it, everything up to the first bell, even if the sequence was
  terminated otherwise before; without one, everything up to the last string terminator; and it does
  not match when there is neither.\<close>

theorem osc_match:
  "matches osc_pattern Some (ESC # CHR 0x5D # t) = Some r \<longleftrightarrow>
     (\<exists>u. t = u @ BEL # r \<and> BEL \<notin> set u) \<or>
     (BEL \<notin> set t \<and> (\<exists>u. t = u @ ST @ r) \<and> \<not> (\<exists>x y. r = x @ ST @ y))"
proof (cases "BEL \<in> set t")
  case True
  then obtain u v where "t = u @ BEL # v" "BEL \<notin> set u" by (meson split_list_first)
  then show ?thesis
    by (auto simp: matches_osc star_bel first_split)
next
  case False
  then show ?thesis by (auto simp: matches_osc star_no_bel after_last_st_Some)
qed

text \<open>A control sequence is matched in one way only, without backtracking.\<close>

definition csi_rest :: "string \<Rightarrow> string option" where
  "csi_rest t =
     (let s = dropWhile (between 32 47) (dropWhile (between 48 63) t)
      in if s \<noteq> [] \<and> between 64 126 (hd s) then Some (tl s) else None)"

lemma one_hd: "one p Some s = (if s \<noteq> [] \<and> p (hd s) then Some (tl s) else None)"
  by (cases s) auto

lemma csi_body: "matches (Seq (Star (between 48 63)) (Seq (Star (between 32 47)) (Class (between 64 126)))) Some t = csi_rest t"
proof -
  have final: "star (between 32 47) (one (between 64 126) Some) s = one (between 64 126) Some (dropWhile (between 32 47) s)" for s
    by (rule star_maximal) (simp add: between_def)
  have "star (between 48 63) (star (between 32 47) (one (between 64 126) Some)) t =
      star (between 32 47) (one (between 64 126) Some) (dropWhile (between 48 63) t)"
    by (rule star_maximal) (simp add: final between_def)
  then show ?thesis by (simp add: final csi_rest_def Let_def one_hd)
qed

lemma matches_csi:
  "matches csi_pattern Some (ESC # c # t) =
     (if c = CHR 0x5B then or_else (csi_rest t) (Some t) else if between 64 95 c then Some t else None)"
  using csi_body [of t] by (auto simp: csi_pattern_def between_def)

subsection \<open>Text with control sequences\<close>

datatype segment = Visible string | Csi string string char | Title string

fun valid_segment :: "segment \<Rightarrow> bool" where
  "valid_segment (Visible s) = list_all readable s"
| "valid_segment (Csi ps is c) = (list_all (between 48 63) ps \<and> list_all (between 32 47) is \<and> between 64 126 c)"
| "valid_segment (Title s) = (BEL \<notin> set s)"

fun encode_segment :: "segment \<Rightarrow> string" where
  "encode_segment (Visible s) = s"
| "encode_segment (Csi ps is c) = [ESC, CHR 0x5B] @ ps @ is @ [c]"
| "encode_segment (Title s) = [ESC, CHR 0x5D] @ s @ [BEL]"

fun shown_segment :: "segment \<Rightarrow> string" where
  "shown_segment (Visible s) = s"
| "shown_segment seg = []"

fun without_title :: "segment \<Rightarrow> string" where
  "without_title (Title s) = []"
| "without_title seg = encode_segment seg"

lemma readable_no_esc: "list_all readable s \<Longrightarrow> ESC \<notin> set s"
  using readable_not_esc by (auto simp: list_all_iff)

lemma between_no_esc: "list_all (between a b) s \<Longrightarrow> 27 < a \<Longrightarrow> ESC \<notin> set s"
  by (auto simp: list_all_iff between_def)

lemma titles_removed:
  assumes "list_all valid_segment segs"
  shows "replaceAll osc_pattern [] (concat (map encode_segment segs)) = concat (map without_title segs)"
  using assms
proof (induction segs)
  case (Cons seg segs)
  let ?rest = "concat (map encode_segment segs)"
  show ?case
  proof (cases seg)
    case (Visible s)
    with Cons show ?thesis by (simp add: osc_clear readable_no_esc)
  next
    case (Csi ps "is" c)
    have "matches osc_pattern Some (ESC # CHR 0x5B # ps @ is @ c # ?rest) = None"
      by (simp add: osc_pattern_def)
    moreover from Cons.prems Csi have "ESC \<notin> set (CHR 0x5B # ps @ is @ [c])"
      by (auto simp: between_no_esc) (auto simp: between_def)
    ultimately show ?thesis
      using Cons osc_clear [where u = "CHR 0x5B # ps @ is @ [c]" and s = ?rest]
      by (simp add: Csi replaceAll_skip)
  next
    case (Title s)
    with Cons.prems have "matches osc_pattern Some (ESC # CHR 0x5D # s @ BEL # ?rest) = Some ?rest"
      by (simp add: matches_osc star_bel)
    with Cons show ?thesis by (simp add: Title replaceAll_match)
  qed
qed simp


lemma csi_rest_whole:
  assumes "list_all (between 48 63) ps" "list_all (between 32 47) is" "between 64 126 c"
  shows "csi_rest (ps @ is @ c # rest) = Some rest"
proof -
  have "dropWhile (between 48 63) (ps @ is @ c # rest) = is @ c # rest"
    using assms by (cases "is") (auto simp: list_all_iff dropWhile_append2 between_def)
  moreover have "dropWhile (between 32 47) (is @ c # rest) = c # rest"
    using assms by (auto simp: list_all_iff dropWhile_append2 between_def)
  ultimately show ?thesis using assms(3) by (simp add: csi_rest_def)
qed

lemma csis_removed:
  assumes "list_all valid_segment segs"
  shows "replaceAll csi_pattern [] (concat (map without_title segs)) = concat (map shown_segment segs)"
  using assms
proof (induction segs)
  case (Cons seg segs)
  show ?case
  proof (cases seg)
    case (Visible s)
    with Cons show ?thesis by (simp add: csi_clear readable_no_esc)
  next
    case (Csi ps "is" c)
    with Cons.prems have "matches csi_pattern Some (ESC # CHR 0x5B # ps @ is @ c # concat (map without_title segs)) =
        Some (concat (map without_title segs))"
      by (simp add: matches_csi csi_rest_whole)
    with Cons show ?thesis by (simp add: Csi replaceAll_match)
  qed (use Cons in simp)
qed simp

text \<open>C22: Of a text that consists of readable pieces, control sequences (colours, cursor movements) and
  titles ended by a bell, in any order, exactly the readable pieces are shown, complete and in order.\<close>

theorem control_sequences_removed:
  assumes "list_all valid_segment segs"
  shows "plainTerminalText (concat (map encode_segment segs)) = concat (map shown_segment segs)"
proof -
  let ?shown = "concat (map shown_segment segs)"
  have "list_all readable (shown_segment seg)" if "valid_segment seg" for seg
    using that by (cases seg) simp_all
  with assms have "list_all readable ?shown" by (auto simp: list_all_iff)
  then have id: "plainTerminalText ?shown = ?shown" and noesc: "ESC \<notin> set ?shown"
    using plain_text_id readable_no_esc by blast+
  from noesc have "replaceAll csi_pattern [] (replaceAll osc_pattern [] ?shown) = ?shown"
    using osc_clear [where u = ?shown and s = "[]"] csi_clear [where u = ?shown and s = "[]"] by simp
  with id show ?thesis
    by (simp add: plainTerminalText_def titles_removed [OF assms] csis_removed [OF assms])
qed

theorem control_sequences_removed_witness:
  "plainTerminalText (concat (map encode_segment [Title ''sh'', Csi ''1;31'' [] (CHR ''m''), Visible ''ok'', Csi [] [] (CHR ''m'')]))
    = ''ok''"
  by (subst control_sequences_removed) (simp_all add: between_def readable_def)

text \<open>Titles that end with a string terminator, as many shells and agents send them, take the text
  between them along: of a text between two such titles nothing is shown.\<close>

theorem text_between_titles_lost:
  assumes "list_all readable title" "list_all readable text" "list_all readable title'"
  shows "plainTerminalText ([ESC, CHR 0x5D] @ title @ ST @ text @ [ESC, CHR 0x5D] @ title' @ ST) = []"
proof -
  let ?t = "title @ ST @ text @ [ESC, CHR 0x5D] @ title' @ ST"
  have "BEL \<notin> set ?t" using assms readable_not_esc by (auto simp: list_all_iff)
  moreover have "\<exists>u. ?t = u @ ST @ []"
    by (rule exI [of _ "title @ ST @ text @ [ESC, CHR 0x5D] @ title'"]) simp
  ultimately have "after_last_st ?t = Some []" "matches osc_pattern Some (ESC # CHR 0x5D # ?t) = after_last_st ?t"
    by (auto simp: after_last_st_Some matches_osc star_no_bel)
  then show ?thesis
    by (simp add: plainTerminalText_def replaceAll_match replaceAll_class)
qed

subsection \<open>Following the output\<close>

record terminal_geometry =
  tg_contentHeight :: rat
  tg_viewportHeight :: rat
  tg_offsetY :: rat

definition END_THRESHOLD :: rat where
  "END_THRESHOLD = 80"

definition isNearTerminalEnd :: "terminal_geometry \<Rightarrow> bool" where
  "isNearTerminalEnd g \<longleftrightarrow> tg_contentHeight g - tg_viewportHeight g - tg_offsetY g \<le> END_THRESHOLD"

text \<open>The component's only state is the reference \<open>followsOutput\<close>.  A change of the content's size scrolls
  to the end, without an animation, while the output is followed.\<close>

datatype scroll_effect = ScrollToEnd bool

definition plainScroll :: "terminal_geometry \<Rightarrow> bool \<Rightarrow> bool" where
  "plainScroll g follows = isNearTerminalEnd g"

definition plainContentSizeChange :: "bool \<Rightarrow> scroll_effect list" where
  "plainContentSizeChange follows = (if follows then [ScrollToEnd False] else [])"

definition PlainTerminal :: "string \<Rightarrow> 'a view" where
  "PlainTerminal text =
     Box ''plain-terminal''
       [Box ''plain-terminal-text''
         [Txt (if plainTerminalText text \<noteq> [] then Words (plainTerminalText text) else Msg ''No output yet'')]]"

lemma PlainTerminal_offers [view_simps]: "offers (PlainTerminal text) a \<longleftrightarrow> False"
  by (simp add: PlainTerminal_def view_simps)

end
