(* ===== verification/Styled_Terminal.thy ===== *)
theory Styled_Terminal
  imports Terminal_Presentation Plain_Terminal
begin

section \<open>The styled terminal (features/session/StyledTerminal.tsx)\<close>

text \<open>
  The list of rows for reading or as the exact grid, with the button that leads back to the last output.
  The hooks' values are a record; \<open>useMemo\<close> only caches.
\<close>

subsection \<open>The component\<close>

datatype terminal_mode = ModeReadable | ModeGrid

record styled_terminal =
  sm_mode :: terminal_mode
  sm_followsOutput :: bool
  sm_showLiveTail :: bool

definition initial_styled :: styled_terminal where
  "initial_styled = \<lparr>sm_mode = ModeReadable, sm_followsOutput = True, sm_showLiveTail = False\<rparr>"

record text_style =
  ts_color :: "colour option"
  ts_backgroundColor :: "colour option"
  ts_bold :: bool
  ts_italic :: bool
  ts_underline :: bool
  ts_faint :: bool

definition runStyle :: "run_style \<Rightarrow> text_style" where
  "runStyle r =
     \<lparr>ts_color = ansiColor (rn_fg r) (Some TERMINAL_DEFAULT_FG), ts_backgroundColor = ansiColor (rn_bg r) None,
      ts_bold = rn_b r, ts_italic = rn_i r, ts_underline = rn_u r, ts_faint = rn_d r\<rparr>"

definition handleScroll :: "terminal_geometry \<Rightarrow> styled_terminal \<Rightarrow> styled_terminal" where
  "handleScroll g s =
     (let follows = isNearTerminalEnd g in s\<lparr>sm_followsOutput := follows, sm_showLiveTail := \<not> follows\<rparr>)"

definition handleContentSizeChange :: "styled_terminal \<Rightarrow> styled_terminal \<times> scroll_effect list" where
  "handleContentSizeChange s = (s, if sm_followsOutput s then [ScrollToEnd False] else [])"

definition scrollToLiveTail :: "styled_terminal \<Rightarrow> styled_terminal \<times> scroll_effect list" where
  "scrollToLiveTail s = (s\<lparr>sm_followsOutput := True, sm_showLiveTail := False\<rparr>, [ScrollToEnd True])"

definition selectMode :: "terminal_mode \<Rightarrow> styled_terminal \<Rightarrow> styled_terminal" where
  "selectMode nextMode s = s\<lparr>sm_mode := nextMode, sm_followsOutput := True, sm_showLiveTail := False\<rparr>"

subsection \<open>What it renders\<close>

datatype styled_action = SelectMode terminal_mode | ToLiveTail

definition TerminalRow :: "bool \<Rightarrow> terminal_row \<Rightarrow> 'a view" where
  "TerminalRow exact row =
     (if tr_kind row = RowBlank then Box [] []
      else if \<not> exact \<and> tr_kind row = RowRule then Box [] [Box [] []]
      else Box [] (map (\<lambda>run. Txt (Glyphs (rn_t run))) (tr_line row)))"

definition StyledTerminal :: "styled_line render_buffer \<Rightarrow> styled_terminal \<Rightarrow> styled_action view" where
  "StyledTerminal buffer s =
     (let rows = (if sm_mode s = ModeReadable then terminalRows buffer else exactTerminalRows buffer);
          list = Box ''styled-terminal-list'' (map (TerminalRow (sm_mode s = ModeGrid)) rows)
      in Box ''styled-terminal''
           ([Box [] [Pressable (Msg ''Read'') False (SelectMode ModeReadable) [Txt (Msg ''Read'')],
                     Pressable (Msg ''1:1'') False (SelectMode ModeGrid) [Txt (Msg ''1:1'')]],
             (if sm_mode s = ModeGrid then Box ''terminal-grid-scroll'' [list] else list)] @
            (if sm_showLiveTail s
             then [Pressable (Msg ''To the latest output'') False ToLiveTail [Txt (Msg ''down'')]] else [])))"

text \<open>The width of the list.\<close>

definition gridWidth :: "styled_line render_buffer \<Rightarrow> styled_terminal \<Rightarrow> nat" where
  "gridWidth buffer s = (if sm_mode s = ModeGrid then terminalGridWidth (exactTerminalRows buffer) else 720)"

subsection \<open>Its events\<close>

datatype styled_input = Scrolled terminal_geometry | ContentChanged | StyledPress styled_action

fun styled_react :: "styled_terminal \<Rightarrow> styled_input \<Rightarrow> styled_terminal \<times> scroll_effect list" where
  "styled_react s (Scrolled g) = (handleScroll g s, [])"
| "styled_react s ContentChanged = handleContentSizeChange s"
| "styled_react s (StyledPress (SelectMode m)) = (selectMode m s, [])"
| "styled_react s (StyledPress ToLiveTail) = scrollToLiveTail s"

definition styled_step :: "styled_terminal \<Rightarrow> styled_input \<Rightarrow> styled_terminal" where
  "styled_step s i = fst (styled_react s i)"

subsection \<open>Properties\<close>

definition styled_inv :: "styled_terminal \<Rightarrow> bool" where
  "styled_inv s \<longleftrightarrow> sm_showLiveTail s = (\<not> sm_followsOutput s)"

interpretation styled: machine styled_step styled_inv
proof
  fix s i assume "styled_inv s"
  then show "styled_inv (styled_step s i)"
    by (cases "(s, i)" rule: styled_react.cases)
      (simp_all add: styled_inv_def styled_step_def handleScroll_def handleContentSizeChange_def selectMode_def
        scrollToLiveTail_def Let_def)
qed

lemma TerminalRow_offers [view_simps]: "offers (TerminalRow ex row) a \<longleftrightarrow> False"
  by (auto simp: TerminalRow_def view_simps)

lemma StyledTerminal_offers [view_simps]:
  "offers (StyledTerminal buffer s) a \<longleftrightarrow> (\<exists>m. a = SelectMode m) \<or> a = ToLiveTail \<and> sm_showLiveTail s"
  by (cases a) (auto simp: StyledTerminal_def view_simps Let_def intro: terminal_mode.exhaust)

text \<open>Whatever the reader does, the button that leads to the latest output is offered exactly while
  the output is not followed; as long as it is offered new output never moves the text, and after it was
  pressed, or the mode was changed, new output scrolls to the end again.\<close>

theorem live_tail_offered_iff_not_following:
  "offers (StyledTerminal buffer (foldl styled_step initial_styled is)) ToLiveTail \<longleftrightarrow>
     snd (styled_react (foldl styled_step initial_styled is) ContentChanged) = []"
proof -
  have "styled_inv initial_styled" by (simp add: styled_inv_def initial_styled_def)
  from styled.run_inv [OF this] show ?thesis
    by (simp add: styled_inv_def handleContentSizeChange_def view_simps)
qed

text \<open>The grid leaves nothing out: the runs of all lines of the buffer are there in their order.\<close>

definition glyphs :: "'a view \<Rightarrow> text_cp list" where
  "glyphs v = concat (map (\<lambda>c. case c of Glyphs t \<Rightarrow> [t] | _ \<Rightarrow> []) (texts v))"

lemma glyphs_simps [simp]:
  "glyphs (Box i vs) = concat (map glyphs vs)" "glyphs (Txt (Glyphs t)) = [t]" "glyphs (Txt (Msg m)) = []"
  "glyphs (Pressable l dis a vs) = concat (map glyphs vs)"
  by (induction vs) (simp_all add: glyphs_def)

lemma glyphs_row: "glyphs (TerminalRow exact row) =
    (if tr_kind row = RowBlank \<or> \<not> exact \<and> tr_kind row = RowRule then [] else map rn_t (tr_line row))"
  by (simp add: TerminalRow_def comp_def)


definition visible :: "nat \<Rightarrow> bool" where
  "visible c \<longleftrightarrow> \<not> white_space c"

definition row_text :: "row_kind \<times> styled_line \<Rightarrow> text_cp" where
  "row_text row = (if fst row = RowBlank \<or> fst row = RowRule then [] else concat (map rn_t (snd row)))"

lemma visible_dropWhile: "filter visible (dropWhile white_space t) = filter visible t"
  by (induction t) (auto simp: visible_def)

lemma trim_cp_Nil: "trim_cp t = [] \<longleftrightarrow> filter visible t = []"
proof -
  have "trim_cp t = [] \<longleftrightarrow> filter visible (dropWhile white_space t) = []"
    by (simp add: trim_cp_def dropWhile_eq_Nil_conv filter_empty_conv visible_def)
  then show ?thesis by (simp only: visible_dropWhile)
qed

lemma visible_cells: "filter visible (map ce_value (compactCells cells)) = filter visible (map ce_value cells)"
proof -
  let ?v = "filter (\<lambda>c. visible (ce_value c))"
  have drop: "?v cs = ?v (filter (\<lambda>c. \<not> is_space c) cs)" for cs
    by (auto simp: visible_def white_space_def intro: filter_cong)
  have "?v (compactCells cells) = ?v (filter (\<lambda>c. \<not> is_space c) (compactCells cells))" by (rule drop)
  also have "\<dots> = ?v (filter (\<lambda>c. \<not> is_space c) cells)" by (simp only: compactCells_visible)
  also have "\<dots> = ?v cells" by (rule drop [symmetric])
  finally show ?thesis by (simp add: filter_map comp_def)
qed

lemma lineCells_values: "map ce_value (lineCells line) = concat (map (\<lambda>run. cleanText (rn_t run)) line)"
  by (simp add: lineCells_def map_concat comp_def)

lemma visible_line:
  "filter visible (row_text (presentLine line)) =
     (if fst (presentLine line) = RowRule then [] else filter visible (concat (map (\<lambda>run. cleanText (rn_t run)) line)))"
proof -
  have "filter visible (concat (map rn_t (cellsToRuns (compactCells (lineCells line))))) =
      filter visible (concat (map (\<lambda>run. cleanText (rn_t run)) line))"
    by (simp only: runs_text visible_cells lineCells_values)
  moreover have "filter visible (map ce_value (lineCells line)) = []"
    if "trim_cp (map ce_value (compactCells (lineCells line))) = []"
    using that by (simp only: trim_cp_Nil visible_cells)
  ultimately show ?thesis
    by (auto simp: presentLine_def row_text_def Let_def runs_text visible_cells simp flip: lineCells_values)
qed

lemma readable_rows_text:
  "concat (map (\<lambda>r. row_text (tr_kind r, tr_line r)) (terminalRows buffer)) =
   concat (map (\<lambda>line. row_text (presentLine line)) (rb_history buffer @ used_screen (rb_screen buffer)))"
proof -
  have drop: "concat (map row_text xs) = concat (map row_text (filter (\<lambda>x. fst x \<noteq> RowBlank) xs))" for xs
    by (induction xs) (auto simp: row_text_def)
  have "map (\<lambda>i. presentLine (snd i)) (source_rows buffer) =
      map presentLine (rb_history buffer @ used_screen (rb_screen buffer))"
    by (simp flip: source_rows_lines add: comp_def)
  with push_rows_lines [of "[]" "source_rows buffer"]
  have "filter (\<lambda>x. fst x \<noteq> RowBlank) (map (\<lambda>r. (tr_kind r, tr_line r)) (terminalRows buffer)) =
      filter (\<lambda>x. fst x \<noteq> RowBlank) (map presentLine (rb_history buffer @ used_screen (rb_screen buffer)))"
    by (simp add: terminalRows_def)
  with drop [of "map (\<lambda>r. (tr_kind r, tr_line r)) (terminalRows buffer)"]
    drop [of "map presentLine (rb_history buffer @ used_screen (rb_screen buffer))"]
  show ?thesis by (simp add: comp_def)
qed

lemma used_screen_text: "concat (map g (used_screen screen)) = concat (map g screen)" if "g [] = []"
proof -
  have "concat (map g (rev (dropWhile (\<lambda>line. length line = 0) ls))) = concat (map g (rev ls))" for ls
    by (induction ls) (simp_all add: that)
  from this [of "rev screen"] show ?thesis by (simp add: used_screen_def)
qed


lemma concat_map_concat: "concat (concat (map f xs)) = concat (map (\<lambda>x. concat (f x)) xs)"
  by (induction xs) simp_all

lemma exact_glyphs:
  "map (\<lambda>r. concat (glyphs (TerminalRow True r))) (exactTerminalRows buffer) =
   map (\<lambda>line. concat (map rn_t line)) (map snd (source_rows buffer))"
  by (auto simp: exactTerminalRows_def glyphs_row split: if_splits)

text \<open>The text of the view, read from top to bottom.\<close>

definition shown_text :: "'a view \<Rightarrow> text_cp" where
  "shown_text v = concat (glyphs v)"


end
