(* ===== verification/Protocol.thy ===== *)
theory Protocol
  imports Js_Base
begin

section \<open>The wire protocol (packages/protocol)\<close>

text \<open>
  The schemas of \<^verbatim>\<open>packages/protocol/src\<close> as values of a datatype of schema expressions, one
  constructor for each combinator the sources call; the wire messages as a tagged union;
  \<open>parseWireMessage\<close> and the message constructors.  The schema library itself (zod) is not part of
  the repository: its \<open>safeParse\<close> is an argument of every definition that validates, and what is
  known of it is the locale \<open>zod_contract\<close>, which states its documented behaviour.
\<close>

subsection \<open>Schema expressions\<close>

datatype schema =
    ZString
  | ZNumber
  | ZBoolean
  | ZUnknown
  | ZLiteral json
  | ZEnum "string list"
  | ZArray schema
  | ZRecord schema
  | ZObject "(string \<times> schema) list"
  | ZOptional schema
  | ZUnion "schema list"
  | ZDiscriminatedUnion string "schema list"

text \<open>\<open>schema.safeParse(value)\<close>: \<^const>\<open>Inr\<close> of the parsed value, or \<^const>\<open>Inl\<close> of the error's
  message.  The value \<^const>\<open>None\<close> is \<open>undefined\<close>.\<close>

type_synonym zod = "schema \<Rightarrow> json option \<Rightarrow> string + json"

subsection \<open>sessions.ts\<close>

definition MobilePlatformSchema :: schema where
  "MobilePlatformSchema = ZEnum [''ios'', ''android'', ''unknown'']"

definition MobileDeviceSchema :: schema where
  "MobileDeviceSchema = ZObject [
     (''id'', ZString),
     (''name'', ZString),
     (''platform'', MobilePlatformSchema)]"

definition SessionStatusSchema :: schema where
  "SessionStatusSchema = ZEnum [''starting'', ''running'', ''waiting'', ''stopped'', ''error'']"

definition AgentKindSchema :: schema where
  "AgentKindSchema = ZEnum [''claude'', ''codex'', ''cursor'', ''shell'', ''unknown'']"

definition SessionSchema :: schema where
  "SessionSchema = ZObject [
     (''id'', ZString),
     (''agent'', AgentKindSchema),
     (''title'', ZString),
     (''command'', ZString),
     (''argv'', ZArray ZString),
     (''cwd'', ZString),
     (''status'', SessionStatusSchema),
     (''createdAt'', ZString),
     (''lastActivityAt'', ZString),
     (''exitCode'', ZOptional ZNumber)]"

definition TerminalOutputSchema :: schema where
  "TerminalOutputSchema = ZObject [
     (''sessionId'', ZString),
     (''seq'', ZNumber),
     (''data'', ZString)]"

subsection \<open>envelope.ts: constants and schemas\<close>

definition PROTOCOL_VERSION :: string where
  "PROTOCOL_VERSION = ''2026-07-11''"

datatype error_code =
    INVALID_MESSAGE
  | UNSUPPORTED_PROTOCOL
  | UNSUPPORTED_METHOD
  | UNAUTHORIZED
  | PAIRING_EXPIRED
  | PAIRING_NOT_FOUND
  | DESKTOP_OFFLINE
  | MOBILE_NOT_PAIRED
  | SESSION_NOT_FOUND
  | SESSION_STOPPED
  | TOOL_NOT_FOUND
  | DAEMON_UNAVAILABLE
  | PTY_WRITE_FAILED
  | INTERACTION_NOT_FOUND
  | INTERACTION_STALE
  | INTERNAL_ERROR

fun error_code_str :: "error_code \<Rightarrow> string" where
  "error_code_str INVALID_MESSAGE = ''INVALID_MESSAGE''"
| "error_code_str UNSUPPORTED_PROTOCOL = ''UNSUPPORTED_PROTOCOL''"
| "error_code_str UNSUPPORTED_METHOD = ''UNSUPPORTED_METHOD''"
| "error_code_str UNAUTHORIZED = ''UNAUTHORIZED''"
| "error_code_str PAIRING_EXPIRED = ''PAIRING_EXPIRED''"
| "error_code_str PAIRING_NOT_FOUND = ''PAIRING_NOT_FOUND''"
| "error_code_str DESKTOP_OFFLINE = ''DESKTOP_OFFLINE''"
| "error_code_str MOBILE_NOT_PAIRED = ''MOBILE_NOT_PAIRED''"
| "error_code_str SESSION_NOT_FOUND = ''SESSION_NOT_FOUND''"
| "error_code_str SESSION_STOPPED = ''SESSION_STOPPED''"
| "error_code_str TOOL_NOT_FOUND = ''TOOL_NOT_FOUND''"
| "error_code_str DAEMON_UNAVAILABLE = ''DAEMON_UNAVAILABLE''"
| "error_code_str PTY_WRITE_FAILED = ''PTY_WRITE_FAILED''"
| "error_code_str INTERACTION_NOT_FOUND = ''INTERACTION_NOT_FOUND''"
| "error_code_str INTERACTION_STALE = ''INTERACTION_STALE''"
| "error_code_str INTERNAL_ERROR = ''INTERNAL_ERROR''"

definition ERROR_CODES :: "error_code list" where
  "ERROR_CODES = [INVALID_MESSAGE, UNSUPPORTED_PROTOCOL, UNSUPPORTED_METHOD, UNAUTHORIZED,
     PAIRING_EXPIRED, PAIRING_NOT_FOUND, DESKTOP_OFFLINE, MOBILE_NOT_PAIRED, SESSION_NOT_FOUND,
     SESSION_STOPPED, TOOL_NOT_FOUND, DAEMON_UNAVAILABLE, PTY_WRITE_FAILED,
     INTERACTION_NOT_FOUND, INTERACTION_STALE, INTERNAL_ERROR]"

definition ErrorCodeSchema :: schema where
  "ErrorCodeSchema = ZEnum (map error_code_str ERROR_CODES)"

definition ProtocolErrorSchema :: schema where
  "ProtocolErrorSchema = ZObject [
     (''code'', ErrorCodeSchema),
     (''message'', ZString),
     (''details'', ZOptional (ZRecord ZUnknown))]"

definition VersionSchema :: schema where
  "VersionSchema = ZLiteral (JStr PROTOCOL_VERSION)"

definition RequestMessageSchema :: schema where
  "RequestMessageSchema = ZObject [
     (''version'', VersionSchema),
     (''kind'', ZLiteral (JStr ''request'')),
     (''id'', ZString),
     (''method'', ZString),
     (''params'', ZOptional (ZRecord ZUnknown)),
     (''sentAt'', ZString)]"

definition ResponseMessageSchema :: schema where
  "ResponseMessageSchema = ZObject [
     (''version'', VersionSchema),
     (''kind'', ZLiteral (JStr ''response'')),
     (''id'', ZString),
     (''ok'', ZBoolean),
     (''result'', ZOptional (ZRecord ZUnknown)),
     (''error'', ZOptional ProtocolErrorSchema),
     (''sentAt'', ZString)]"

definition EventMessageSchema :: schema where
  "EventMessageSchema = ZObject [
     (''version'', VersionSchema),
     (''kind'', ZLiteral (JStr ''event'')),
     (''event'', ZString),
     (''data'', ZRecord ZUnknown),
     (''sentAt'', ZString)]"

definition WireMessageSchema :: schema where
  "WireMessageSchema = ZDiscriminatedUnion ''kind'' [
     RequestMessageSchema,
     ResponseMessageSchema,
     EventMessageSchema]"

subsection \<open>capabilities.ts\<close>

definition INTERACTION_STRUCTURED :: string where
  "INTERACTION_STRUCTURED = ''interaction.structured''"

definition PROTOCOL_CAPABILITIES :: "string list" where
  "PROTOCOL_CAPABILITIES = [INTERACTION_STRUCTURED]"

subsection \<open>events.ts\<close>

definition DESKTOP_EVENTS :: "string list" where
  "DESKTOP_EVENTS = [
     ''session.created'',
     ''session.updated'',
     ''session.removed'',
     ''terminal.output'',
     ''terminal.render'',
     ''interaction.requested'',
     ''interaction.updated'',
     ''interaction.resolved'',
     ''session.ended'']"

definition RELAY_EVENTS :: "string list" where
  "RELAY_EVENTS = [''mobile.paired'', ''mobile.disconnected'']"

definition SessionCreatedDataSchema :: schema where
  "SessionCreatedDataSchema = ZObject [(''session'', SessionSchema)]"

definition SessionUpdatedDataSchema :: schema where
  "SessionUpdatedDataSchema = ZObject [(''session'', SessionSchema)]"

definition SessionRemovedDataSchema :: schema where
  "SessionRemovedDataSchema = ZObject [(''sessionId'', ZString)]"

definition SessionEndedDataSchema :: schema where
  "SessionEndedDataSchema = ZObject [
     (''sessionId'', ZString),
     (''exitCode'', ZOptional ZNumber)]"

definition MobilePairedDataSchema :: schema where
  "MobilePairedDataSchema = ZObject [
     (''mobileDevice'', MobileDeviceSchema),
     (''mobileSessionExpiresAt'', ZString)]"

definition MobileDisconnectedDataSchema :: schema where
  "MobileDisconnectedDataSchema = ZObject [(''mobileDeviceId'', ZString)]"

definition InteractionKindSchema :: schema where
  "InteractionKindSchema =
     ZEnum [''approval'', ''confirmation'', ''singleSelect'', ''multiSelect'', ''text'']"

definition InteractionOptionIntentSchema :: schema where
  "InteractionOptionIntentSchema =
     ZEnum [''approve'', ''approveOnce'', ''approveSession'', ''reject'', ''cancel'', ''neutral'']"

definition InteractionOptionSchema :: schema where
  "InteractionOptionSchema = ZObject [
     (''id'', ZString),
     (''label'', ZString),
     (''description'', ZOptional ZString),
     (''intent'', InteractionOptionIntentSchema),
     (''shortcut'', ZOptional ZString),
     (''disabled'', ZOptional ZBoolean)]"

definition InteractionRequestSchema :: schema where
  "InteractionRequestSchema = ZObject [
     (''id'', ZString),
     (''sessionId'', ZString),
     (''kind'', InteractionKindSchema),
     (''prompt'', ZString),
     (''details'', ZOptional ZString),
     (''options'', ZOptional (ZArray InteractionOptionSchema)),
     (''allowsText'', ZBoolean),
     (''allowsTerminalInput'', ZLiteral (JBool True)),
     (''sensitive'', ZOptional ZBoolean),
     (''createdAt'', ZString),
     (''terminalSeq'', ZOptional ZNumber)]"

definition InteractionRequestedDataSchema :: schema where
  "InteractionRequestedDataSchema = ZObject [(''interaction'', InteractionRequestSchema)]"

definition InteractionUpdatedDataSchema :: schema where
  "InteractionUpdatedDataSchema = ZObject [(''interaction'', InteractionRequestSchema)]"

definition InteractionResolvedDataSchema :: schema where
  "InteractionResolvedDataSchema = ZObject [
     (''interactionId'', ZString),
     (''sessionId'', ZString),
     (''resolution'', ZEnum [''answered'', ''cancelled'', ''superseded'', ''sessionEnded'']),
     (''optionIds'', ZOptional (ZArray ZString)),
     (''resolvedAt'', ZString)]"

subsection \<open>terminalRender.ts\<close>

definition StyledRunSchema :: schema where
  "StyledRunSchema = ZObject [
     (''t'', ZString),
     (''fg'', ZOptional ZString),
     (''bg'', ZOptional ZString),
     (''b'', ZOptional (ZLiteral (JBool True))),
     (''i'', ZOptional (ZLiteral (JBool True))),
     (''u'', ZOptional (ZLiteral (JBool True))),
     (''d'', ZOptional (ZLiteral (JBool True)))]"

definition StyledLineSchema :: schema where
  "StyledLineSchema = ZArray StyledRunSchema"

definition TerminalRenderDataSchema :: schema where
  "TerminalRenderDataSchema = ZObject [
     (''sessionId'', ZString),
     (''seq'', ZNumber),
     (''historyAppend'', ZArray StyledLineSchema),
     (''screen'', ZArray StyledLineSchema)]"

definition TerminalRenderSnapshotSchema :: schema where
  "TerminalRenderSnapshotSchema = ZObject [
     (''history'', ZArray StyledLineSchema),
     (''screen'', ZArray StyledLineSchema),
     (''lastSeq'', ZNumber)]"

subsection \<open>methods.ts\<close>

definition MOBILE_METHODS :: "string list" where
  "MOBILE_METHODS = [
     ''mobile.pair'',
     ''mobile.resume'',
     ''session.list'',
     ''session.subscribe'',
     ''session.input'',
     ''session.interrupt'',
     ''terminal.resize'',
     ''interaction.respond'']"

definition DESKTOP_METHODS :: "string list" where
  "DESKTOP_METHODS = [''desktop.register'', ''desktop.pairing.create'']"

definition MOBILE_FORWARDED_METHODS :: "string list" where
  "MOBILE_FORWARDED_METHODS = [
     ''session.list'',
     ''session.subscribe'',
     ''session.input'',
     ''session.interrupt'',
     ''terminal.resize'',
     ''interaction.respond'']"

definition QrPayloadSchema :: schema where
  "QrPayloadSchema = ZObject [
     (''relayUrl'', ZString),
     (''desktopId'', ZString),
     (''pairingCode'', ZString),
     (''expiresAt'', ZString)]"

definition MobilePairParamsSchema :: schema where
  "MobilePairParamsSchema = ZObject [
     (''desktopId'', ZString),
     (''pairingCode'', ZString),
     (''mobileDevice'', MobileDeviceSchema),
     (''offeredCapabilities'', ZOptional (ZArray ZString))]"

definition MobilePairResultSchema :: schema where
  "MobilePairResultSchema = ZObject [
     (''desktopId'', ZString),
     (''desktopName'', ZString),
     (''paired'', ZLiteral (JBool True)),
     (''mobileSessionToken'', ZString),
     (''mobileSessionExpiresAt'', ZString),
     (''negotiatedCapabilities'', ZOptional (ZArray ZString))]"

definition MobileResumeParamsSchema :: schema where
  "MobileResumeParamsSchema = ZObject [
     (''desktopId'', ZString),
     (''mobileDeviceId'', ZString),
     (''mobileSessionToken'', ZString),
     (''offeredCapabilities'', ZOptional (ZArray ZString))]"

definition MobileResumeResultSchema :: schema where
  "MobileResumeResultSchema = ZObject [
     (''desktopId'', ZString),
     (''desktopName'', ZString),
     (''resumed'', ZLiteral (JBool True)),
     (''negotiatedCapabilities'', ZOptional (ZArray ZString))]"

definition SessionListResultSchema :: schema where
  "SessionListResultSchema = ZObject [
     (''sessions'', ZArray SessionSchema),
     (''negotiatedCapabilities'', ZOptional (ZArray ZString))]"

definition SessionSubscribeParamsSchema :: schema where
  "SessionSubscribeParamsSchema = ZObject [
     (''sessionId'', ZString),
     (''afterSeq'', ZOptional ZNumber)]"

definition SessionSubscribeResultSchema :: schema where
  "SessionSubscribeResultSchema = ZObject [
     (''session'', SessionSchema),
     (''mode'', ZEnum [''replay'', ''snapshot'', ''live'']),
     (''events'', ZOptional (ZArray EventMessageSchema)),
     (''terminalBuffer'', ZOptional ZString),
     (''lastSeq'', ZOptional ZNumber),
     (''activeInteraction'', ZOptional InteractionRequestSchema),
     (''terminalRender'', ZOptional TerminalRenderSnapshotSchema),
     (''negotiatedCapabilities'', ZOptional (ZArray ZString))]"

definition TerminalModifierSchema :: schema where
  "TerminalModifierSchema = ZEnum [''ctrl'', ''alt'', ''shift'', ''meta'']"

definition TerminalKeyNameSchema :: schema where
  "TerminalKeyNameSchema = ZEnum [
     ''enter'', ''escape'', ''tab'', ''backspace'', ''delete'', ''insert'',
     ''arrowUp'', ''arrowDown'', ''arrowLeft'', ''arrowRight'',
     ''home'', ''end'', ''pageUp'', ''pageDown'', ''space'',
     ''f1'', ''f2'', ''f3'', ''f4'', ''f5'', ''f6'',
     ''f7'', ''f8'', ''f9'', ''f10'', ''f11'', ''f12'']"

definition TerminalKeyStrokeSchema :: schema where
  "TerminalKeyStrokeSchema = ZObject [
     (''key'', ZUnion [TerminalKeyNameSchema, ZObject [(''character'', ZString)]]),
     (''modifiers'', ZOptional (ZArray TerminalModifierSchema))]"

definition SessionInputParamsSchema :: schema where
  "SessionInputParamsSchema = ZDiscriminatedUnion ''inputMode'' [
     ZObject [(''sessionId'', ZString), (''inputMode'', ZLiteral (JStr ''text'')),
       (''data'', ZString), (''submit'', ZOptional ZBoolean)],
     ZObject [(''sessionId'', ZString), (''inputMode'', ZLiteral (JStr ''raw'')), (''data'', ZString)],
     ZObject [(''sessionId'', ZString), (''inputMode'', ZLiteral (JStr ''bytes'')), (''dataBase64'', ZString)],
     ZObject [(''sessionId'', ZString), (''inputMode'', ZLiteral (JStr ''keys'')),
       (''keys'', ZArray TerminalKeyStrokeSchema)]]"

definition SessionInputResultSchema :: schema where
  "SessionInputResultSchema = ZObject [
     (''accepted'', ZBoolean),
     (''bytesWritten'', ZOptional ZNumber)]"

definition SessionInterruptParamsSchema :: schema where
  "SessionInterruptParamsSchema = ZObject [(''sessionId'', ZString)]"

definition InteractionResponseSchema :: schema where
  "InteractionResponseSchema = ZDiscriminatedUnion ''type'' [
     ZObject [(''type'', ZLiteral (JStr ''options'')), (''optionIds'', ZArray ZString)],
     ZObject [(''type'', ZLiteral (JStr ''text'')), (''text'', ZString), (''submit'', ZOptional ZBoolean)],
     ZObject [(''type'', ZLiteral (JStr ''cancel''))]]"

definition InteractionRespondParamsSchema :: schema where
  "InteractionRespondParamsSchema = ZObject [
     (''sessionId'', ZString),
     (''interactionId'', ZString),
     (''response'', InteractionResponseSchema)]"

definition TerminalResizeParamsSchema :: schema where
  "TerminalResizeParamsSchema = ZObject [
     (''sessionId'', ZString),
     (''cols'', ZNumber),
     (''rows'', ZNumber)]"

definition DesktopRegisterParamsSchema :: schema where
  "DesktopRegisterParamsSchema = ZObject [
     (''desktopId'', ZString),
     (''desktopName'', ZString),
     (''platform'', ZString),
     (''appVersion'', ZString),
     (''offeredCapabilities'', ZOptional (ZArray ZString))]"

definition DesktopPairingCreateParamsSchema :: schema where
  "DesktopPairingCreateParamsSchema = ZObject [(''ttlSeconds'', ZNumber)]"

definition DesktopPairingCreateResultSchema :: schema where
  "DesktopPairingCreateResultSchema = ZObject [
     (''desktopId'', ZString),
     (''pairingCode'', ZString),
     (''expiresAt'', ZString),
     (''qrPayload'', QrPayloadSchema)]"

end
