(* ===== verification/Js_Date.thy ===== *)
theory Js_Date
  imports Js_Base
begin

section \<open>Dates\<close>

text \<open>
  \<open>Date.prototype.toISOString\<close> on an integral number of milliseconds since 1970: the proleptic
  Gregorian calendar by the days-in-400-years computation, the time of day, and the range check
  that raises \<open>RangeError\<close>.
\<close>

definition MAX_TIME :: int where
  "MAX_TIME = 8640000000000000"

definition civil_from_days :: "int \<Rightarrow> int \<times> int \<times> int" where
  "civil_from_days z =
     (let z = z + 719468;
          era = z div 146097;
          doe = z mod 146097;
          yoe = (doe - doe div 1460 + doe div 36524 - doe div 146096) div 365;
          doy = doe - (365 * yoe + yoe div 4 - yoe div 100);
          mp = (5 * doy + 2) div 153;
          d = doy - (153 * mp + 2) div 5 + 1;
          m = (if mp < 10 then mp + 3 else mp - 9);
          y = yoe + era * 400 + (if m \<le> 2 then 1 else 0)
      in (y, m, d))"

definition pad_int :: "nat \<Rightarrow> int \<Rightarrow> string" where
  "pad_int n i = pad_start n (digit 0) (show_nat (nat i))"

definition iso_year :: "int \<Rightarrow> string" where
  "iso_year y =
     (if 0 \<le> y \<and> y \<le> 9999 then pad_int 4 y
      else if y < 0 then CHR ''-'' # pad_int 6 (- y)
      else CHR ''+'' # pad_int 6 y)"

definition iso_string :: "int \<Rightarrow> string" where
  "iso_string t =
     (let days = t div 86400000; ms = t mod 86400000
      in case civil_from_days days of (y, m, d) \<Rightarrow>
           iso_year y @ ''-'' @ pad_int 2 m @ ''-'' @ pad_int 2 d @ ''T'' @
           pad_int 2 (ms div 3600000) @ '':'' @ pad_int 2 (ms div 60000 mod 60) @ '':'' @
           pad_int 2 (ms div 1000 mod 60) @ ''.'' @ pad_int 3 (ms mod 1000) @ ''Z'')"

text \<open>\<^const>\<open>None\<close> is the \<open>RangeError\<close> of an invalid time value.\<close>

definition toISOString :: "int \<Rightarrow> string option" where
  "toISOString t = (if \<bar>t\<bar> \<le> MAX_TIME then Some (iso_string t) else None)"

lemma toISOString_range: "toISOString t = None \<longleftrightarrow> \<bar>t\<bar> > MAX_TIME"
  by (auto simp: toISOString_def)

lemma iso_string_epoch: "iso_string 0 = ''1970-01-01T00:00:00.000Z''"
  by code_simp

lemma iso_string_leap: "iso_string 1709251199999 = ''2024-02-29T23:59:59.999Z''"
  by code_simp

end
