(* ===== verification/Envelope.thy ===== *)
theory Envelope
  imports Protocol Js_Date
begin

section \<open>Wire messages (packages/protocol/src/envelope.ts)\<close>

text \<open>
  The tagged union of the three messages, \<open>parseWireMessage\<close>, and the constructors of responses,
  errors and events.  What \<open>JSON.parse\<close> made of the received text is the argument of
  \<open>parseWireMessage\<close>: \<^const>\<open>None\<close> where it throws.
\<close>

subsection \<open>Messages\<close>

record protocol_error =
  pe_code :: error_code
  pe_message :: string
  pe_details :: "jobj option"

datatype wire_message =
    Request (msg_id: string) (msg_method: string) (msg_params: "jobj option") (msg_sentAt: string)
  | Response (msg_id: string) (msg_ok: bool) (msg_result: "jobj option")
      (msg_error: "protocol_error option") (msg_sentAt: string)
  | Event (msg_event: string) (msg_data: jobj) (msg_sentAt: string)

fun isRequest :: "wire_message \<Rightarrow> bool" where
  "isRequest (Request i m p t) = True"
| "isRequest (Response i ok r e t) = False"
| "isRequest (Event n d t) = False"

fun isResponse :: "wire_message \<Rightarrow> bool" where
  "isResponse (Request i m p t) = False"
| "isResponse (Response i ok r e t) = True"
| "isResponse (Event n d t) = False"

fun isEvent :: "wire_message \<Rightarrow> bool" where
  "isEvent (Request i m p t) = False"
| "isEvent (Response i ok r e t) = False"
| "isEvent (Event n d t) = True"

subsection \<open>Messages and their JSON values\<close>

definition opt_field :: "string \<Rightarrow> json option \<Rightarrow> jobj" where
  "opt_field k v = (case v of None \<Rightarrow> [] | Some x \<Rightarrow> [(k, x)])"

definition encode_error :: "protocol_error \<Rightarrow> json" where
  "encode_error e = JObj (
     [(''code'', JStr (error_code_str (pe_code e))), (''message'', JStr (pe_message e))] @
     opt_field ''details'' (map_option JObj (pe_details e)))"

text \<open>The value that \<open>JSON.stringify\<close> writes for a message: absent fields are not written.\<close>

fun encode_wire :: "wire_message \<Rightarrow> json" where
  "encode_wire (Request i m p t) = JObj (
     [(''version'', JStr PROTOCOL_VERSION), (''kind'', JStr ''request''), (''id'', JStr i),
      (''method'', JStr m)] @ opt_field ''params'' (map_option JObj p) @ [(''sentAt'', JStr t)])"
| "encode_wire (Response i ok r e t) = JObj (
     [(''version'', JStr PROTOCOL_VERSION), (''kind'', JStr ''response''), (''id'', JStr i),
      (''ok'', JBool ok)] @ opt_field ''result'' (map_option JObj r) @
     opt_field ''error'' (map_option encode_error e) @ [(''sentAt'', JStr t)])"
| "encode_wire (Event n d t) = JObj
     [(''version'', JStr PROTOCOL_VERSION), (''kind'', JStr ''event''), (''event'', JStr n),
      (''data'', JObj d), (''sentAt'', JStr t)]"

definition error_code_of :: "string \<Rightarrow> error_code" where
  "error_code_of s =
     (case filter (\<lambda>c. error_code_str c = s) ERROR_CODES of c # _ \<Rightarrow> c | [] \<Rightarrow> INTERNAL_ERROR)"

definition as_error :: "json \<Rightarrow> protocol_error" where
  "as_error v =
     \<lparr>pe_code = error_code_of (str_at ''code'' v), pe_message = str_at ''message'' v,
      pe_details = as_obj (prop_of ''details'' v)\<rparr>"

text \<open>A value that \<^const>\<open>WireMessageSchema\<close> has accepted, read at its TypeScript type: the
  discriminator selects the message.\<close>

definition as_wire :: "json \<Rightarrow> wire_message" where
  "as_wire v =
     (if prop_of ''kind'' v = Some (JStr ''request'') then
        Request (str_at ''id'' v) (str_at ''method'' v) (as_obj (prop_of ''params'' v)) (str_at ''sentAt'' v)
      else if prop_of ''kind'' v = Some (JStr ''response'') then
        Response (str_at ''id'' v) (as_bool (prop_of ''ok'' v) = Some True) (as_obj (prop_of ''result'' v))
          (map_option as_error (prop_of ''error'' v)) (str_at ''sentAt'' v)
      else
        Event (str_at ''event'' v) (case as_obj (prop_of ''data'' v) of Some d \<Rightarrow> d | None \<Rightarrow> [])
          (str_at ''sentAt'' v))"

subsection \<open>parseWireMessage\<close>

datatype parse_result =
    ParseOk wire_message
  | ParseErr string error_code string

definition json_id :: "json \<Rightarrow> string" where
  "json_id j =
     (if is_record j then (case prop_of ''id'' j of Some (JStr s) \<Rightarrow> s | _ \<Rightarrow> []) else [])"

definition parseWireMessage :: "zod \<Rightarrow> json option \<Rightarrow> parse_result" where
  "parseWireMessage safeParse raw =
     (case raw of
        None \<Rightarrow> ParseErr [] INVALID_MESSAGE ''payload is not valid JSON''
      | Some j \<Rightarrow>
          (let i = json_id j in
           if is_record j \<and> prop_of ''version'' j \<noteq> None \<and>
              prop_of ''version'' j \<noteq> Some (JStr PROTOCOL_VERSION)
           then ParseErr i UNSUPPORTED_PROTOCOL (''expected protocol '' @ PROTOCOL_VERSION)
           else
             (case safeParse WireMessageSchema (Some j) of
                Inl m \<Rightarrow> ParseErr i INVALID_MESSAGE m
              | Inr v \<Rightarrow> ParseOk (as_wire v))))"

subsection \<open>Constructors\<close>

definition makeResponse :: "int \<Rightarrow> string \<Rightarrow> jobj \<Rightarrow> wire_message" where
  "makeResponse now i result = Response i True (Some result) None (iso_string now)"

definition makeError :: "int \<Rightarrow> string \<Rightarrow> error_code \<Rightarrow> string \<Rightarrow> jobj option \<Rightarrow> wire_message" where
  "makeError now i code message details =
     Response i False None
       (Some \<lparr>pe_code = code, pe_message = message, pe_details = details\<rparr>) (iso_string now)"

definition makeEvent :: "int \<Rightarrow> string \<Rightarrow> jobj \<Rightarrow> wire_message" where
  "makeEvent now event data = Event event data (iso_string now)"

subsection \<open>The schema library's contract\<close>

fun is_optional :: "schema \<Rightarrow> bool" where
  "is_optional (ZOptional s) = True"
| "is_optional ZUnknown = True"
| "is_optional s = False"

lemma size_field_mem: "f \<in> set fs \<Longrightarrow> size (snd f) < size_list (\<lambda>x. Suc (size (snd x))) fs"
  by (induction fs) auto

lemma size_field_mem' [termination_simp]:
  "f \<in> set fs \<Longrightarrow> size (snd f) < Suc (Suc (Suc (n + size_list (\<lambda>x. Suc (size (snd x))) fs)))"
  by (drule size_field_mem) simp

text \<open>What the combinators accept: an object accepts unknown keys, an optional key may be absent
  (but not \<open>null\<close>), a discriminated union accepts what one of its options accepts.\<close>

fun conforms :: "schema \<Rightarrow> json \<Rightarrow> bool" where
  "conforms ZString v = (\<exists>s. v = JStr s)"
| "conforms ZNumber v = (\<exists>n. v = JNum n)"
| "conforms ZBoolean v = (\<exists>b. v = JBool b)"
| "conforms ZUnknown v = True"
| "conforms (ZLiteral l) v = (v = l)"
| "conforms (ZEnum names) v = (case v of JStr s \<Rightarrow> s \<in> set names | _ \<Rightarrow> False)"
| "conforms (ZArray s) v = (case v of JArr xs \<Rightarrow> list_all (\<lambda>x. conforms s x) xs | _ \<Rightarrow> False)"
| "conforms (ZRecord s) v = (case v of JObj m \<Rightarrow> list_all (\<lambda>e. conforms s (snd e)) m | _ \<Rightarrow> False)"
| "conforms (ZObject fs) v =
     (case v of
        JObj m \<Rightarrow> list_all (\<lambda>f. case map_of m (fst f) of
                              None \<Rightarrow> is_optional (snd f)
                            | Some x \<Rightarrow> conforms (snd f) x) fs
      | _ \<Rightarrow> False)"
| "conforms (ZOptional s) v = conforms s v"
| "conforms (ZUnion ss) v = list_ex (\<lambda>s. conforms s v) ss"
| "conforms (ZDiscriminatedUnion d ss) v = list_ex (\<lambda>s. conforms s v) ss"

text \<open>What they return: objects lose their unknown keys and take the order of the schema; a union
  parses with the first option that accepts.\<close>

fun strip_unknown :: "schema \<Rightarrow> json \<Rightarrow> json" where
  "strip_unknown (ZArray s) v = (case v of JArr xs \<Rightarrow> JArr (map (\<lambda>x. strip_unknown s x) xs) | _ \<Rightarrow> v)"
| "strip_unknown (ZRecord s) v =
     (case v of JObj m \<Rightarrow> JObj (map (\<lambda>e. (fst e, strip_unknown s (snd e))) m) | _ \<Rightarrow> v)"
| "strip_unknown (ZObject fs) v =
     (case v of
        JObj m \<Rightarrow> JObj (concat (map (\<lambda>f. case map_of m (fst f) of
                              None \<Rightarrow> []
                            | Some x \<Rightarrow> [(fst f, strip_unknown (snd f) x)]) fs))
      | _ \<Rightarrow> v)"
| "strip_unknown (ZOptional s) v = strip_unknown s v"
| "strip_unknown (ZUnion ss) v =
     foldr (\<lambda>s r. if conforms s v then strip_unknown s v else r) ss v"
| "strip_unknown (ZDiscriminatedUnion d ss) v =
     foldr (\<lambda>s r. if conforms s v then strip_unknown s v else r) ss v"
| "strip_unknown s v = v"

locale zod_contract =
  fixes safeParse :: zod
  assumes accepts: "conforms s v \<Longrightarrow> safeParse s (Some v) = Inr (strip_unknown s v)"
    and rejects: "\<not> conforms s v \<Longrightarrow> \<exists>m. safeParse s (Some v) = Inl m"
    and rejects_undefined: "\<not> is_optional s \<Longrightarrow> \<exists>m. safeParse s None = Inl m"
begin

lemma accepted_iff: "(\<exists>w. safeParse s (Some v) = Inr w) \<longleftrightarrow> conforms s v"
  using accepts rejects by fastforce

lemma accepted_value: "safeParse s (Some v) = Inr w \<Longrightarrow> conforms s v \<and> w = strip_unknown s v"
  using accepts rejects by (metis Inl_Inr_False Inr_inject)

lemma parse_ok:
  assumes "conforms WireMessageSchema j" and "prop_of ''version'' j = Some (JStr PROTOCOL_VERSION)"
  shows "parseWireMessage safeParse (Some j) = ParseOk (as_wire (strip_unknown WireMessageSchema j))"
  using assms by (simp add: parseWireMessage_def Let_def accepts)

end

text \<open>A reference implementation, which the contract's interpretation and the witnesses use.\<close>

definition zod_ref :: zod where
  "zod_ref s v =
     (case v of
        None \<Rightarrow> Inl ''Required''
      | Some j \<Rightarrow> if conforms s j then Inr (strip_unknown s j) else Inl ''invalid'')"

interpretation zr: zod_contract zod_ref
  by unfold_locales (auto simp: zod_ref_def)

subsection \<open>Encoded messages conform to the schema\<close>

lemmas wire_schema_defs =
  WireMessageSchema_def RequestMessageSchema_def ResponseMessageSchema_def EventMessageSchema_def
  VersionSchema_def ProtocolErrorSchema_def ErrorCodeSchema_def

lemma error_code_mem [simp]: "error_code_str c \<in> error_code_str ` set ERROR_CODES"
  by (cases c) (simp_all add: ERROR_CODES_def)

lemma error_code_of_str [simp]: "error_code_of (error_code_str c) = c"
  by (cases c) (simp_all add: error_code_of_def ERROR_CODES_def)

lemma opt_field_simps [simp]:
  "opt_field k None = []"
  "opt_field k (Some v) = [(k, v)]"
  by (simp_all add: opt_field_def)

lemma conforms_record_unknown [simp]: "conforms (ZRecord ZUnknown) (JObj m)"
  by (simp add: list_all_iff)

lemma strip_record_unknown [simp]: "strip_unknown (ZRecord ZUnknown) (JObj m) = JObj m"
  by (simp add: map_idI)

lemma conforms_encode_error [simp]: "conforms ProtocolErrorSchema (encode_error e)"
  by (cases "pe_details e") (simp_all add: ProtocolErrorSchema_def ErrorCodeSchema_def encode_error_def del: conforms.simps(8))

lemma strip_encode_error [simp]: "strip_unknown ProtocolErrorSchema (encode_error e) = encode_error e"
  by (cases "pe_details e")
    (simp_all add: ProtocolErrorSchema_def ErrorCodeSchema_def encode_error_def del: strip_unknown.simps(2))

lemma as_error_encode [simp]: "as_error (encode_error e) = e"
  by (cases "pe_details e") (simp_all add: as_error_def encode_error_def str_at_def)

lemma conforms_encode_wire: "conforms WireMessageSchema (encode_wire m)"
proof (cases m)
  case (Request i m' p t)
  then show ?thesis
    by (cases p) (simp_all add: WireMessageSchema_def RequestMessageSchema_def VersionSchema_def del: conforms.simps(8))
next
  case (Response i ok r e t)
  then show ?thesis
    by (cases r; cases e)
      (simp_all add: WireMessageSchema_def ResponseMessageSchema_def VersionSchema_def del: conforms.simps(8))
next
  case (Event n d t)
  then show ?thesis
    by (simp add: WireMessageSchema_def EventMessageSchema_def VersionSchema_def del: conforms.simps(8))
qed

lemma kind_mismatch [simp]:
  "prop_of ''kind'' v = Some (JStr k) \<Longrightarrow> k \<noteq> ''request'' \<Longrightarrow> \<not> conforms RequestMessageSchema v"
  "prop_of ''kind'' v = Some (JStr k) \<Longrightarrow> k \<noteq> ''response'' \<Longrightarrow> \<not> conforms ResponseMessageSchema v"
  by (cases v; simp add: RequestMessageSchema_def ResponseMessageSchema_def)+

lemma strip_encode_wire: "strip_unknown WireMessageSchema (encode_wire m) = encode_wire m"
proof (cases m)
  case (Request i m' p t)
  then show ?thesis
    by (cases p) (simp_all add: WireMessageSchema_def RequestMessageSchema_def VersionSchema_def
      del: conforms.simps(8) strip_unknown.simps(2))
next
  case (Response i ok r e t)
  then have "prop_of ''kind'' (encode_wire m) = Some (JStr ''response'')" by simp
  then have "\<not> conforms RequestMessageSchema (encode_wire m)" by (rule kind_mismatch) simp
  moreover have "strip_unknown ResponseMessageSchema (encode_wire m) = encode_wire m"
    and "conforms ResponseMessageSchema (encode_wire m)"
    using Response by (cases r; cases e; simp add: ResponseMessageSchema_def VersionSchema_def
      del: conforms.simps(8) strip_unknown.simps(2))+
  ultimately show ?thesis by (simp add: WireMessageSchema_def)
next
  case (Event n d t)
  then have "prop_of ''kind'' (encode_wire m) = Some (JStr ''event'')" by simp
  then have "\<not> conforms RequestMessageSchema (encode_wire m)" "\<not> conforms ResponseMessageSchema (encode_wire m)"
    by (auto dest: kind_mismatch)
  moreover have "strip_unknown EventMessageSchema (encode_wire m) = encode_wire m"
    and "conforms EventMessageSchema (encode_wire m)"
    using Event by (simp_all add: EventMessageSchema_def VersionSchema_def
      del: conforms.simps(8) strip_unknown.simps(2))
  ultimately show ?thesis by (simp add: WireMessageSchema_def)
qed

lemma as_wire_encode [simp]: "as_wire (encode_wire m) = m"
proof (cases m)
  case (Request i m' p t)
  then show ?thesis by (cases p) (simp_all add: as_wire_def str_at_def)
next
  case (Response i ok r e t)
  then show ?thesis by (cases r; cases e) (simp_all add: as_wire_def str_at_def)
next
  case (Event n d t)
  then show ?thesis by (simp add: as_wire_def str_at_def)
qed

lemma encode_wire_version [simp]: "prop_of ''version'' (encode_wire m) = Some (JStr PROTOCOL_VERSION)"
  by (cases m) auto

context zod_contract
begin

lemma parse_encode: "parseWireMessage safeParse (Some (encode_wire m)) = ParseOk m"
  using parse_ok [OF conforms_encode_wire] by (simp add: strip_encode_wire)

lemma parse_ok_conforms:
  assumes "parseWireMessage safeParse raw = ParseOk m"
  obtains j where "raw = Some j" and "conforms WireMessageSchema j"
    and "m = as_wire (strip_unknown WireMessageSchema j)"
  using assms
  by (auto simp: parseWireMessage_def Let_def split: option.splits if_splits sum.splits dest: accepted_value)

lemma conforms_version:
  "conforms WireMessageSchema j \<Longrightarrow> prop_of ''version'' j = Some (JStr PROTOCOL_VERSION)"
  by (cases j) (auto simp: WireMessageSchema_def RequestMessageSchema_def ResponseMessageSchema_def
      EventMessageSchema_def VersionSchema_def split: option.splits)

lemma parse_ok_iff: "(\<exists>m. parseWireMessage safeParse (Some j) = ParseOk m) \<longleftrightarrow> conforms WireMessageSchema j"
  by (metis option.inject parse_ok parse_ok_conforms conforms_version)

end

lemma prop_of_record: "prop_of k j = Some v \<Longrightarrow> is_record j"
  by (cases j) auto

subsection \<open>Properties\<close>

text \<open>C30: Whatever the relay, a desktop or a mobile sends, the receiver reads: parsing an encoded
  message gives back the message, whatever its fields, optional parts present or absent.\<close>

theorem wire_roundtrip:
  assumes "zod_contract sp"
  shows "parseWireMessage sp (Some (encode_wire m)) = ParseOk m"
  using assms by (rule zod_contract.parse_encode)

theorem wire_roundtrip_witness:
  "parseWireMessage zod_ref (Some (encode_wire (Request ''i'' ''session.list'' None ''t''))) =
     ParseOk (Request ''i'' ''session.list'' None ''t'')"
  by (rule wire_roundtrip) (rule zr.zod_contract_axioms)

text \<open>C31: The parser accepts exactly the JSON values that conform to the message schema; a value that
  names another protocol version is refused for that reason, under its own request id, and anything
  that is not JSON at all under the empty one; every other value is refused as invalid, under its id.\<close>

theorem parse_outcomes:
  assumes "zod_contract sp"
  shows "((\<exists>m. parseWireMessage sp (Some j) = ParseOk m) \<longleftrightarrow> conforms WireMessageSchema j) \<and>
         (\<forall>v. prop_of ''version'' j = Some v \<and> v \<noteq> JStr PROTOCOL_VERSION \<longrightarrow>
            parseWireMessage sp (Some j) =
              ParseErr (json_id j) UNSUPPORTED_PROTOCOL (''expected protocol '' @ PROTOCOL_VERSION)) \<and>
         (\<not> conforms WireMessageSchema j \<and> prop_of ''version'' j \<in> {None, Some (JStr PROTOCOL_VERSION)} \<longrightarrow>
            (\<exists>text. parseWireMessage sp (Some j) = ParseErr (json_id j) INVALID_MESSAGE text)) \<and>
         parseWireMessage sp None = ParseErr [] INVALID_MESSAGE ''payload is not valid JSON''"
  using zod_contract.parse_ok_iff [OF assms, of j] zod_contract.rejects [OF assms, of WireMessageSchema j]
  by (auto simp: parseWireMessage_def Let_def split: sum.splits dest: prop_of_record)

theorem parse_outcomes_witness:
  "parseWireMessage zod_ref (Some (JObj [(''version'', JStr ''old''), (''id'', JStr ''7'')])) =
     ParseErr ''7'' UNSUPPORTED_PROTOCOL ''expected protocol 2026-07-11''"
  using parse_outcomes [OF zr.zod_contract_axioms, of "JObj [(''version'', JStr ''old''), (''id'', JStr ''7'')]"]
  by (simp add: PROTOCOL_VERSION_def json_id_def)

end
