(* ===== verification/Request_Table.thy ===== *)
theory Request_Table
  imports Js_Base
begin

section \<open>A table of requests, each taken at most once\<close>

text \<open>The contract that whoever routes a response relies on, the relay's handlers and the mobile client alike: \<open>take\<close> returns what is
  stored under a request's key and removes exactly that entry.\<close>

locale request_table =
  fixes key :: "'k \<Rightarrow> 'i"
    and lookup :: "'s \<Rightarrow> 'k \<Rightarrow> 'v option"
    and take :: "'k \<Rightarrow> 's \<Rightarrow> 's \<times> 'v option"
  assumes take_result: "snd (take k s) = lookup s k"
    and take_lookup: "lookup (fst (take k s)) k' = (if key k' = key k then None else lookup s k')"
    and lookup_key: "key k' = key k \<Longrightarrow> lookup s k' = lookup s k"
begin

lemma take_twice: "key k' = key k \<Longrightarrow> snd (take k' (fst (take k s))) = None"
  by (simp add: take_result take_lookup)

lemma take_other: "key k' \<noteq> key k \<Longrightarrow> snd (take k' (fst (take k s))) = snd (take k' s)"
  by (simp add: take_result take_lookup)

primrec take_all :: "'k list \<Rightarrow> 's \<Rightarrow> 'v option list" where
  "take_all [] s = []"
| "take_all (k # ks) s = snd (take k s) # take_all ks (fst (take k s))"

lemma length_take_all [simp]: "length (take_all ks s) = length ks"
  by (induction ks arbitrary: s) auto

text \<open>In a run of takes, a request that is no longer in the table yields nothing: each request is
  answered at most once.\<close>

lemma take_all_taken:
  "lookup s k = None \<Longrightarrow> j < length ks \<Longrightarrow> key (ks ! j) = key k \<Longrightarrow> take_all ks s ! j = None"
proof (induction ks arbitrary: s j)
  case (Cons k0 ks)
  show ?case
  proof (cases j)
    case 0
    with Cons.prems have "lookup s k0 = None" using lookup_key [of k0 k s] by simp
    with 0 show ?thesis by (simp add: take_result)
  next
    case (Suc i)
    have "lookup (fst (take k0 s)) k = None" using Cons.prems(1) by (simp add: take_lookup)
    with Suc Cons.prems Cons.IH [of "fst (take k0 s)" i] show ?thesis by simp
  qed
qed simp

lemma take_all_once:
  "i < j \<Longrightarrow> j < length ks \<Longrightarrow> key (ks ! i) = key (ks ! j) \<Longrightarrow> take_all ks s ! j = None"
proof (induction ks arbitrary: s i j)
  case (Cons k0 ks)
  then obtain j' where j: "j = Suc j'" by (cases j) auto
  show ?case
  proof (cases i)
    case 0
    with Cons.prems j have eq: "key (ks ! j') = key k0" and len: "j' < length ks" by simp_all
    have "lookup (fst (take k0 s)) k0 = None" by (simp add: take_lookup)
    from take_all_taken [OF this len eq] j show ?thesis by simp
  next
    case (Suc i')
    with Cons.prems Cons.IH [of i' j' "fst (take k0 s)"] j show ?thesis by simp
  qed
qed simp

end

locale request_table_add = request_table key lookup take
  for key :: "'k \<Rightarrow> 'i" and lookup :: "'s \<Rightarrow> 'k \<Rightarrow> 'v option"
    and take :: "'k \<Rightarrow> 's \<Rightarrow> 's \<times> 'v option" +
  fixes add :: "'k \<Rightarrow> 'v \<Rightarrow> 's \<Rightarrow> 's \<times> bool"
  assumes add_fresh: "lookup s k = None \<Longrightarrow>
      snd (add k v s) \<and> lookup (fst (add k v s)) k = Some v"
    and add_other: "key k' \<noteq> key k \<Longrightarrow> lookup (fst (add k v s)) k' = lookup s k'"
    and add_used: "lookup s k \<noteq> None \<Longrightarrow> add k v s = (s, False)"
begin

lemma add_take: "lookup s k = None \<Longrightarrow> snd (take k (fst (add k v s))) = Some v"
  by (simp add: take_result add_fresh)

lemma add_twice: "lookup s k = None \<Longrightarrow> add k w (fst (add k v s)) = (fst (add k v s), False)"
  by (simp add: add_fresh add_used)

end

end
