(* ===== verification/Mobile_Client.thy ===== *)
theory Mobile_Client
  imports Envelope Request_Table
begin

section \<open>The mobile's protocol client (apps/mobile/src/protocol/mobileClient.ts)\<close>

text \<open>
  The variables that the closure of \<open>createMobileClient\<close> holds are the state; each function of the
  client and each handler of a socket is an operation that returns the new state and its effects in
  the order in which the code performs them.  Promises are numbered in the order of their creation.
  A connection attempt, its promise and the socket it creates share a number.  What the environment
  decides is an argument: whether the socket factory or \<open>send\<close> throws, the fresh request identifier
  and the time.  Listeners are numbers; a call of a listener is an effect.  Listeners do not call
  back into the client.
\<close>

datatype connection_state = Disconnected | Connecting | Connected

text \<open>The reasons with which promises are rejected; the last is \<open>ProtocolError\<close>.\<close>

datatype client_error =
    ConnectionSuperseded
  | ConnectionClosed
  | ConnectionFailed
  | NotConnected
  | Thrown string
  | ProtocolFailure error_code string "jobj option"

datatype client_effect =
    ConnectionListener nat connection_state
  | EventListener nat string jobj string
  | CreateSocket nat string
  | ConnectResolved nat
  | ConnectRejected nat client_error
  | RequestResolved nat jobj
  | RequestRejected nat client_error
  | SocketSend nat wire_message
  | SocketClose nat

record client_state =
  cl_pending :: "(string, nat) jsmap"
  cl_eventListeners :: "nat list"
  cl_connectionListeners :: "nat list"
  cl_socket :: "nat option"
  cl_state :: connection_state
  cl_cancelConnect :: "nat option"
  cl_sockets :: "nat list"
  cl_settled :: "nat list"
  cl_promises :: nat

definition initial_client :: client_state where
  "initial_client =
     \<lparr>cl_pending = [], cl_eventListeners = [], cl_connectionListeners = [], cl_socket = None,
      cl_state = Disconnected, cl_cancelConnect = None, cl_sockets = [], cl_settled = [],
      cl_promises = 0\<rparr>"

type_synonym client_outcome = "client_state \<times> client_effect list"

definition setState :: "connection_state \<Rightarrow> client_state \<Rightarrow> client_outcome" where
  "setState nextState s =
     (s\<lparr>cl_state := nextState\<rparr>, map (\<lambda>l. ConnectionListener l nextState) (cl_connectionListeners s))"

definition rejectPending :: "client_error \<Rightarrow> client_state \<Rightarrow> client_outcome" where
  "rejectPending reason s =
     (s\<lparr>cl_pending := []\<rparr>, map (\<lambda>(i, p). RequestRejected p reason) (cl_pending s))"

text \<open>\<open>pending.get\<close> and \<open>pending.delete\<close> of one identifier.\<close>

definition takeRequest :: "string \<Rightarrow> client_state \<Rightarrow> client_state \<times> nat option" where
  "takeRequest i s =
     (case map_of (cl_pending s) i of
        None \<Rightarrow> (s, None)
      | Some p \<Rightarrow> (s\<lparr>cl_pending := AList.delete i (cl_pending s)\<rparr>, Some p))"

definition handleResponse ::
  "string \<Rightarrow> bool \<Rightarrow> jobj option \<Rightarrow> protocol_error option \<Rightarrow> client_state \<Rightarrow> client_outcome" where
  "handleResponse i ok result err s =
     (case takeRequest i s of
        (s', None) \<Rightarrow> (s', [])
      | (s', Some p) \<Rightarrow>
          (s', if ok then [RequestResolved p (case result of Some r \<Rightarrow> r | None \<Rightarrow> [])]
               else
                 (case err of
                    Some e \<Rightarrow> [RequestRejected p (ProtocolFailure (pe_code e) (pe_message e) (pe_details e))]
                  | None \<Rightarrow> [RequestRejected p (ProtocolFailure INTERNAL_ERROR ''request failed'' None)])))"

definition handleMessage :: "zod \<Rightarrow> json option \<Rightarrow> client_state \<Rightarrow> client_outcome" where
  "handleMessage sp raw s =
     (case parseWireMessage sp raw of
        ParseErr i c m \<Rightarrow> (s, [])
      | ParseOk msg \<Rightarrow>
          (case msg of
             Response i ok result err sentAt \<Rightarrow> handleResponse i ok result err s
           | Event event data sentAt \<Rightarrow>
               (s, map (\<lambda>l. EventListener l event data sentAt) (cl_eventListeners s))
           | Request i m ps sentAt \<Rightarrow> (s, [])))"

definition handleClose :: "nat \<Rightarrow> client_state \<Rightarrow> client_outcome" where
  "handleClose closedSocket s =
     (if cl_socket s \<noteq> Some closedSocket then (s, [])
      else
        (case rejectPending ConnectionClosed (s\<lparr>cl_socket := None\<rparr>) of
           (s1, e1) \<Rightarrow> (case setState Disconnected s1 of (s2, e2) \<Rightarrow> (s2, e1 @ e2))))"

text \<open>The closure \<open>cancelAttempt\<close> of attempt \<open>a\<close>; \<open>cl_settled\<close> holds the attempts whose flag
  \<open>settled\<close> is set and \<open>cl_cancelConnect\<close> the attempt whose closure is in the variable.\<close>

definition cancelAttempt :: "nat \<Rightarrow> client_error \<Rightarrow> client_state \<Rightarrow> client_outcome" where
  "cancelAttempt a reason s =
     (if a \<in> set (cl_settled s) then (s, [])
      else
        (s\<lparr>cl_settled := a # cl_settled s,
           cl_cancelConnect := (if cl_cancelConnect s = Some a then None else cl_cancelConnect s)\<rparr>,
         [ConnectRejected a reason]))"

definition connect :: "string \<Rightarrow> string option \<Rightarrow> client_state \<Rightarrow> client_outcome" where
  "connect url factoryThrows s =
     (let a = cl_promises s in
      case (case cl_cancelConnect s of
              Some b \<Rightarrow> cancelAttempt b ConnectionSuperseded s
            | None \<Rightarrow> (s, [])) of
        (s1, e1) \<Rightarrow>
          (case setState Connecting s1 of
             (s2, e2) \<Rightarrow>
               (case factoryThrows of
                  None \<Rightarrow>
                    (s2\<lparr>cl_promises := Suc a, cl_sockets := a # cl_sockets s2, cl_cancelConnect := Some a,
                        cl_socket := Some a\<rparr>,
                     e1 @ e2 @ [CreateSocket a url])
                | Some err \<Rightarrow>
                    (case setState Disconnected (s2\<lparr>cl_promises := Suc a\<rparr>) of
                       (s3, e3) \<Rightarrow> (s3, e1 @ e2 @ e3 @ [ConnectRejected a (Thrown err)])))))"

definition socketOpen :: "nat \<Rightarrow> client_state \<Rightarrow> client_outcome" where
  "socketOpen a s =
     (if a \<in> set (cl_settled s) \<or> cl_socket s \<noteq> Some a then (s, [])
      else
        (case setState Connected
                (s\<lparr>cl_settled := a # cl_settled s,
                   cl_cancelConnect := (if cl_cancelConnect s = Some a then None else cl_cancelConnect s)\<rparr>) of
           (s', e) \<Rightarrow> (s', e @ [ConnectResolved a])))"

definition socketClose :: "nat \<Rightarrow> client_state \<Rightarrow> client_outcome" where
  "socketClose a s =
     (case cancelAttempt a ConnectionClosed s of
        (s1, e1) \<Rightarrow> (case handleClose a s1 of (s2, e2) \<Rightarrow> (s2, e1 @ e2)))"

definition socketError :: "nat \<Rightarrow> client_state \<Rightarrow> client_outcome" where
  "socketError a s =
     (if a \<notin> set (cl_settled s) \<and> cl_socket s = Some a
      then (case cancelAttempt a ConnectionFailed s of
              (s1, e1) \<Rightarrow> (case setState Disconnected s1 of (s2, e2) \<Rightarrow> (s2, e1 @ e2)))
      else (s, []))"

definition closeClient :: "client_state \<Rightarrow> client_outcome" where
  "closeClient s = (case cl_socket s of None \<Rightarrow> (s, []) | Some a \<Rightarrow> (s, [SocketClose a]))"

definition request ::
  "string \<Rightarrow> jobj \<Rightarrow> string \<Rightarrow> string \<Rightarrow> string option \<Rightarrow> client_state \<Rightarrow> client_outcome" where
  "request method params requestId now sendThrows s =
     (let p = cl_promises s; s0 = s\<lparr>cl_promises := Suc p\<rparr> in
      case cl_socket s of
        None \<Rightarrow> (s0, [RequestRejected p NotConnected])
      | Some activeSocket \<Rightarrow>
          if cl_state s \<noteq> Connected then (s0, [RequestRejected p NotConnected])
          else
            (let s1 = s0\<lparr>cl_pending := AList.update requestId p (cl_pending s)\<rparr> in
             case sendThrows of
               None \<Rightarrow> (s1, [SocketSend activeSocket (Request requestId method (Some params) now)])
             | Some err \<Rightarrow>
                 (s1\<lparr>cl_pending := AList.delete requestId (cl_pending s1)\<rparr>,
                  [RequestRejected p (Thrown err)])))"

text \<open>A \<open>Set\<close> of listeners, in insertion order.\<close>

definition add_listener :: "nat \<Rightarrow> nat list \<Rightarrow> nat list" where
  "add_listener l ls = (if l \<in> set ls then ls else ls @ [l])"

definition onEvent :: "nat \<Rightarrow> client_state \<Rightarrow> client_outcome" where
  "onEvent l s = (s\<lparr>cl_eventListeners := add_listener l (cl_eventListeners s)\<rparr>, [])"

definition offEvent :: "nat \<Rightarrow> client_state \<Rightarrow> client_outcome" where
  "offEvent l s = (s\<lparr>cl_eventListeners := remove1 l (cl_eventListeners s)\<rparr>, [])"

definition onConnection :: "nat \<Rightarrow> client_state \<Rightarrow> client_outcome" where
  "onConnection l s = (s\<lparr>cl_connectionListeners := add_listener l (cl_connectionListeners s)\<rparr>, [])"

definition offConnection :: "nat \<Rightarrow> client_state \<Rightarrow> client_outcome" where
  "offConnection l s = (s\<lparr>cl_connectionListeners := remove1 l (cl_connectionListeners s)\<rparr>, [])"

subsection \<open>Runs\<close>

datatype client_input =
    CallConnect string "string option"
  | CallClose
  | CallRequest string jobj string string "string option"
  | SocketOpened nat
  | SocketMessage nat "json option"
  | SocketClosed nat
  | SocketFailed nat
  | CallOnEvent nat
  | CallOffEvent nat
  | CallOnConnection nat
  | CallOffConnection nat

fun client_react :: "zod \<Rightarrow> client_state \<Rightarrow> client_input \<Rightarrow> client_outcome" where
  "client_react sp s (CallConnect url err) = connect url err s"
| "client_react sp s CallClose = closeClient s"
| "client_react sp s (CallRequest m ps i now err) = request m ps i now err s"
| "client_react sp s (SocketOpened a) = socketOpen a s"
| "client_react sp s (SocketMessage a raw) = handleMessage sp raw s"
| "client_react sp s (SocketClosed a) = socketClose a s"
| "client_react sp s (SocketFailed a) = socketError a s"
| "client_react sp s (CallOnEvent l) = onEvent l s"
| "client_react sp s (CallOffEvent l) = offEvent l s"
| "client_react sp s (CallOnConnection l) = onConnection l s"
| "client_react sp s (CallOffConnection l) = offConnection l s"

text \<open>What the environment guarantees: sockets that report were created by the client, and
  \<open>deps.id()\<close> does not repeat an identifier that is still pending.\<close>

fun possible :: "client_state \<Rightarrow> client_input \<Rightarrow> bool" where
  "possible s (CallRequest m ps i now err) = (i \<notin> fst ` set (cl_pending s))"
| "possible s (SocketOpened a) = (a \<in> set (cl_sockets s))"
| "possible s (SocketMessage a raw) = (a \<in> set (cl_sockets s))"
| "possible s (SocketClosed a) = (a \<in> set (cl_sockets s))"
| "possible s (SocketFailed a) = (a \<in> set (cl_sockets s))"
| "possible s i = True"

inductive client_reach :: "zod \<Rightarrow> client_state \<Rightarrow> client_effect list \<Rightarrow> bool" for sp where
  start: "client_reach sp initial_client []"
| react: "client_reach sp s trace \<Longrightarrow> possible s i \<Longrightarrow>
    client_reach sp (fst (client_react sp s i)) (trace @ snd (client_react sp s i))"

inductive_cases client_reachE: "client_reach sp s trace"

fun_cases possible_requestE: "possible s (CallRequest m ps i now err)"
  and possible_closedE: "possible s (SocketClosed a)"

end
