(* ===== verification/Pairing_Profile.thy ===== *)
theory Pairing_Profile
  imports Envelope
begin

section \<open>Pairing on the mobile (apps/mobile/src/pairing)\<close>

text \<open>
  The validation of what the user types or scans, the profile that a successful pairing stores, its
  repository and the device's identity.  \<open>new URL\<close> is an argument that returns the host name and the
  path or fails; \<open>JSON.parse\<close> and \<open>JSON.stringify\<close> are arguments, and so is the schema library; the
  secure storage is a map from keys to strings.  The Russian messages are named by constructors.
\<close>

datatype url_error = RelayUrlMissing | RelayUrlScheme | RelayUrlSuffix | RelayUrlInvalid

datatype pairing_error =
    NotJson
  | SchemaError string
  | InvalidQrPayload
  | InvalidProfile
  | InvalidProfileFields
  | InvalidProfileField string
  | InvalidRelayUrl url_error
  | InvalidPlatform
  | InvalidRequest
  | DesktopMismatch

type_synonym url_parser = "string \<Rightarrow> (string \<times> string) option"

record pairing_request =
  prq_relayWsUrl :: string
  prq_desktopId :: string
  prq_pairingCode :: string

record pairing_profile =
  pp_relayWsUrl :: string
  pp_desktopId :: string
  pp_desktopName :: string
  pp_mobileDeviceId :: string
  pp_mobileDeviceName :: string
  pp_mobilePlatform :: string
  pp_mobileSessionToken :: string
  pp_mobileSessionExpiresAt :: string

text \<open>The fields that an invalid request has a message for.\<close>

record manual_errors =
  me_relayWsUrl :: "url_error option"
  me_desktopId :: bool
  me_pairingCode :: bool

definition profileKeys :: "string list" where
  "profileKeys =
     [''relayWsUrl'', ''desktopId'', ''desktopName'', ''mobileDeviceId'', ''mobileDeviceName'',
      ''mobilePlatform'', ''mobileSessionToken'', ''mobileSessionExpiresAt'']"

subsection \<open>pairingProfile.ts\<close>

definition relayUrlError :: "url_parser \<Rightarrow> string \<Rightarrow> url_error option" where
  "relayUrlError url v =
     (if v = [] then Some RelayUrlMissing
      else if \<not> starts_with ''ws://'' v \<and> \<not> starts_with ''wss://'' v then Some RelayUrlScheme
      else if \<not> ends_with ''/v1/ws/mobile'' v then Some RelayUrlSuffix
      else
        (case url v of
           None \<Rightarrow> Some RelayUrlInvalid
         | Some (hostname, pathname) \<Rightarrow>
             if hostname = [] \<or> pathname \<noteq> ''/v1/ws/mobile'' then Some RelayUrlInvalid else None))"

definition validateManualPairingRequest ::
  "url_parser \<Rightarrow> pairing_request \<Rightarrow> manual_errors + pairing_request" where
  "validateManualPairingRequest url input =
     (let v = \<lparr>prq_relayWsUrl = js_trim (prq_relayWsUrl input), prq_desktopId = js_trim (prq_desktopId input),
               prq_pairingCode = js_trim (prq_pairingCode input)\<rparr>;
          errors = \<lparr>me_relayWsUrl = relayUrlError url (prq_relayWsUrl v), me_desktopId = (prq_desktopId v = []),
                    me_pairingCode = (prq_pairingCode v = [])\<rparr>
      in if me_relayWsUrl errors \<noteq> None \<or> me_desktopId errors \<or> me_pairingCode errors
         then Inl errors else Inr v)"

definition parseQrPairingRequest ::
  "zod \<Rightarrow> url_parser \<Rightarrow> (string \<Rightarrow> json option) \<Rightarrow> string \<Rightarrow> pairing_error + pairing_request" where
  "parseQrPairingRequest sp url jparse raw =
     (case jparse raw of
        None \<Rightarrow> Inl NotJson
      | Some j \<Rightarrow>
          (case sp QrPayloadSchema (Some j) of
             Inl m \<Rightarrow> Inl (SchemaError m)
           | Inr payload \<Rightarrow>
               (case validateManualPairingRequest url
                       \<lparr>prq_relayWsUrl = str_at ''relayUrl'' payload, prq_desktopId = str_at ''desktopId'' payload,
                        prq_pairingCode = str_at ''pairingCode'' payload\<rparr> of
                  Inl _ \<Rightarrow> Inl InvalidQrPayload
                | Inr v \<Rightarrow> Inr v)))"

text \<open>The loop over \<open>profileKeys\<close>: the first field, other than the platform, that is not a
  non-empty string.\<close>

fun bad_field :: "jobj \<Rightarrow> string list \<Rightarrow> string option" where
  "bad_field source [] = None"
| "bad_field source (key # keys) =
     (if key \<noteq> ''mobilePlatform'' \<and> (as_str (map_of source key) = None \<or> map_of source key = Some (JStr []))
      then Some key else bad_field source keys)"

definition as_profile :: "jobj \<Rightarrow> pairing_profile" where
  "as_profile source =
     \<lparr>pp_relayWsUrl = str_at ''relayWsUrl'' (JObj source), pp_desktopId = str_at ''desktopId'' (JObj source),
      pp_desktopName = str_at ''desktopName'' (JObj source), pp_mobileDeviceId = str_at ''mobileDeviceId'' (JObj source),
      pp_mobileDeviceName = str_at ''mobileDeviceName'' (JObj source),
      pp_mobilePlatform = str_at ''mobilePlatform'' (JObj source),
      pp_mobileSessionToken = str_at ''mobileSessionToken'' (JObj source),
      pp_mobileSessionExpiresAt = str_at ''mobileSessionExpiresAt'' (JObj source)\<rparr>"

definition profile_json :: "pairing_profile \<Rightarrow> jobj" where
  "profile_json p =
     [(''relayWsUrl'', JStr (pp_relayWsUrl p)), (''desktopId'', JStr (pp_desktopId p)),
      (''desktopName'', JStr (pp_desktopName p)), (''mobileDeviceId'', JStr (pp_mobileDeviceId p)),
      (''mobileDeviceName'', JStr (pp_mobileDeviceName p)), (''mobilePlatform'', JStr (pp_mobilePlatform p)),
      (''mobileSessionToken'', JStr (pp_mobileSessionToken p)),
      (''mobileSessionExpiresAt'', JStr (pp_mobileSessionExpiresAt p))]"

definition parsePairingProfile :: "url_parser \<Rightarrow> json option \<Rightarrow> pairing_error + pairing_profile" where
  "parsePairingProfile url input =
     (case input of
        Some (JObj source) \<Rightarrow>
          if length source \<noteq> length profileKeys \<or> list_ex (\<lambda>key. map_of source key = None) profileKeys
          then Inl InvalidProfileFields
          else
            (case bad_field source profileKeys of
               Some key \<Rightarrow> Inl (InvalidProfileField key)
             | None \<Rightarrow>
                 (case relayUrlError url (str_at ''relayWsUrl'' (JObj source)) of
                    Some err \<Rightarrow> Inl (InvalidRelayUrl err)
                  | None \<Rightarrow>
                      if map_of source ''mobilePlatform'' \<notin>
                           {Some (JStr ''ios''), Some (JStr ''android''), Some (JStr ''unknown'')}
                      then Inl InvalidPlatform
                      else Inr (as_profile source)))
      | _ \<Rightarrow> Inl InvalidProfile)"

definition buildPairingProfile ::
  "zod \<Rightarrow> url_parser \<Rightarrow> pairing_request \<Rightarrow> json \<Rightarrow> json \<Rightarrow> pairing_error + pairing_profile" where
  "buildPairingProfile sp url request mobileDeviceInput resultInput =
     (case validateManualPairingRequest url request of
        Inl _ \<Rightarrow> Inl InvalidRequest
      | Inr v \<Rightarrow>
          (case sp MobileDeviceSchema (Some mobileDeviceInput) of
             Inl m \<Rightarrow> Inl (SchemaError m)
           | Inr device \<Rightarrow>
               (case sp MobilePairResultSchema (Some resultInput) of
                  Inl m \<Rightarrow> Inl (SchemaError m)
                | Inr result \<Rightarrow>
                    if prq_desktopId request \<noteq> str_at ''desktopId'' result then Inl DesktopMismatch
                    else
                      parsePairingProfile url (Some (JObj
                        [(''relayWsUrl'', JStr (prq_relayWsUrl v)),
                         (''desktopId'', JStr (str_at ''desktopId'' result)),
                         (''desktopName'', JStr (str_at ''desktopName'' result)),
                         (''mobileDeviceId'', JStr (str_at ''id'' device)),
                         (''mobileDeviceName'', JStr (str_at ''name'' device)),
                         (''mobilePlatform'', JStr (str_at ''platform'' device)),
                         (''mobileSessionToken'', JStr (str_at ''mobileSessionToken'' result)),
                         (''mobileSessionExpiresAt'', JStr (str_at ''mobileSessionExpiresAt'' result))])))))"

subsection \<open>pairingRepository.ts and deviceIdentity.ts\<close>

type_synonym storage = "string \<rightharpoonup> string"

definition ACTIVE_PAIRING_PROFILE_KEY :: string where
  "ACTIVE_PAIRING_PROFILE_KEY = ''cucoudle.activePairingProfile.v1''"

definition repository_get ::
  "url_parser \<Rightarrow> (string \<Rightarrow> json option) \<Rightarrow> storage \<Rightarrow> pairing_profile option" where
  "repository_get url jparse st =
     (case st ACTIVE_PAIRING_PROFILE_KEY of
        None \<Rightarrow> None
      | Some raw \<Rightarrow>
          if raw = [] then None
          else
            (case jparse raw of
               None \<Rightarrow> None
             | Some j \<Rightarrow> (case parsePairingProfile url (Some j) of Inr p \<Rightarrow> Some p | Inl _ \<Rightarrow> None)))"

definition repository_replace ::
  "url_parser \<Rightarrow> (json \<Rightarrow> string) \<Rightarrow> jobj \<Rightarrow> storage \<Rightarrow> storage \<times> pairing_error option" where
  "repository_replace url jstringify profile st =
     (case parsePairingProfile url (Some (JObj profile)) of
        Inl err \<Rightarrow> (st, Some err)
      | Inr _ \<Rightarrow> (st(ACTIVE_PAIRING_PROFILE_KEY \<mapsto> jstringify (JObj profile)), None))"

definition repository_clear :: "storage \<Rightarrow> storage" where
  "repository_clear st = st(ACTIVE_PAIRING_PROFILE_KEY := None)"

definition DEVICE_IDENTITY_KEY :: string where
  "DEVICE_IDENTITY_KEY = ''cucoudle.mobileDeviceIdentity.v1''"

definition currentPlatform :: "string \<Rightarrow> string" where
  "currentPlatform os = (if os = ''ios'' \<or> os = ''android'' then os else ''unknown'')"

text \<open>The result is \<^const>\<open>Inl\<close> when the schema refuses the fresh identity.\<close>

definition getOrCreateDeviceIdentity ::
  "zod \<Rightarrow> (string \<Rightarrow> json option) \<Rightarrow> (json \<Rightarrow> string) \<Rightarrow> string \<Rightarrow> string \<Rightarrow> string \<Rightarrow> storage \<Rightarrow>
   storage \<times> (string + json)" where
  "getOrCreateDeviceIdentity sp jparse jstringify uuid deviceName platform st =
     (let stored =
        (case st DEVICE_IDENTITY_KEY of
           None \<Rightarrow> None
         | Some raw \<Rightarrow>
             if raw = [] then None
             else
               (case jparse raw of
                  None \<Rightarrow> None
                | Some j \<Rightarrow> (case sp MobileDeviceSchema (Some j) of Inr device \<Rightarrow> Some device | Inl _ \<Rightarrow> None)))
      in case stored of
           Some device \<Rightarrow> (st, Inr device)
         | None \<Rightarrow>
             (case sp MobileDeviceSchema (Some (JObj [(''id'', JStr uuid), (''name'', JStr deviceName),
                                                      (''platform'', JStr platform)])) of
                Inl m \<Rightarrow> (st, Inl m)
              | Inr identity \<Rightarrow> (st(DEVICE_IDENTITY_KEY \<mapsto> jstringify identity), Inr identity)))"

subsection \<open>What is accepted\<close>

lemma validate_ok:
  "validateManualPairingRequest url r = Inr v \<Longrightarrow>
     v = \<lparr>prq_relayWsUrl = js_trim (prq_relayWsUrl r), prq_desktopId = js_trim (prq_desktopId r),
          prq_pairingCode = js_trim (prq_pairingCode r)\<rparr> \<and>
     relayUrlError url (prq_relayWsUrl v) = None \<and> prq_desktopId v \<noteq> [] \<and> prq_pairingCode v \<noteq> []"
  by (auto simp: validateManualPairingRequest_def Let_def split: if_splits)

definition profile_ok :: "url_parser \<Rightarrow> pairing_profile \<Rightarrow> bool" where
  "profile_ok url p \<longleftrightarrow>
     relayUrlError url (pp_relayWsUrl p) = None \<and>
     pp_desktopId p \<noteq> [] \<and> pp_desktopName p \<noteq> [] \<and> pp_mobileDeviceId p \<noteq> [] \<and>
     pp_mobileDeviceName p \<noteq> [] \<and> pp_mobileSessionToken p \<noteq> [] \<and> pp_mobileSessionExpiresAt p \<noteq> [] \<and>
     pp_mobilePlatform p \<in> {''ios'', ''android'', ''unknown''}"

lemma url_ok_nonempty: "relayUrlError url v = None \<Longrightarrow> v \<noteq> []"
  by (auto simp: relayUrlError_def)

lemma as_profile_json [simp]: "as_profile (profile_json p) = p"
  by (simp add: as_profile_def profile_json_def)

lemma parse_profile_json: "profile_ok url p \<Longrightarrow> parsePairingProfile url (Some (JObj (profile_json p))) = Inr p"
  using url_ok_nonempty [of url "pp_relayWsUrl p"]
  by (auto simp: parsePairingProfile_def profile_ok_def profileKeys_def profile_json_def as_profile_def)

lemma bad_field_None:
  "bad_field m ks = None \<Longrightarrow> k \<in> set ks \<Longrightarrow> k \<noteq> ''mobilePlatform'' \<Longrightarrow> \<exists>s. map_of m k = Some (JStr s) \<and> s \<noteq> []"
  by (induction m ks rule: bad_field.induct) (auto split: if_splits option.splits)

lemma parse_profile_ok:
  assumes "parsePairingProfile url j = Inr p"
  obtains m where "j = Some (JObj m)" and "p = as_profile m" and "profile_ok url p"
proof -
  from assms obtain m where m: "j = Some (JObj m)" and b: "bad_field m profileKeys = None"
    and u: "relayUrlError url (str_at ''relayWsUrl'' (JObj m)) = None" and p: "p = as_profile m"
    and pl: "map_of m ''mobilePlatform'' \<in> {Some (JStr ''ios''), Some (JStr ''android''), Some (JStr ''unknown'')}"
    by (auto simp: parsePairingProfile_def split: option.splits json.splits if_splits)
  have ne: "str_at k (JObj m) \<noteq> []" if "k \<in> set profileKeys" "k \<noteq> ''mobilePlatform''" for k
    using bad_field_None [OF b that] by auto
  have "profile_ok url p"
    using u pl ne [of "''desktopId''"] ne [of "''desktopName''"] ne [of "''mobileDeviceId''"]
      ne [of "''mobileDeviceName''"] ne [of "''mobileSessionToken''"] ne [of "''mobileSessionExpiresAt''"]
    by (auto simp: profile_ok_def p as_profile_def profileKeys_def)
  with that m p show ?thesis by blast
qed

subsection \<open>Properties\<close>

text \<open>A request that passes validation has an identifier and a code without surrounding white
  space, an address that starts with \<open>ws://\<close> or \<open>wss://\<close>, ends with the relay's path and parses as a
  URL with a host and exactly that path, and validating it again changes nothing.\<close>

theorem validated_request:
  assumes "validateManualPairingRequest url r = Inr v"
  shows "validateManualPairingRequest url v = Inr v \<and>
         (prefix ''ws://'' (prq_relayWsUrl v) \<or> prefix ''wss://'' (prq_relayWsUrl v)) \<and>
         suffix ''/v1/ws/mobile'' (prq_relayWsUrl v) \<and>
         (\<exists>host. url (prq_relayWsUrl v) = Some (host, ''/v1/ws/mobile'') \<and> host \<noteq> []) \<and>
         prq_desktopId v = js_trim (prq_desktopId r) \<and> prq_desktopId v \<noteq> [] \<and>
         prq_pairingCode v = js_trim (prq_pairingCode r) \<and> prq_pairingCode v \<noteq> []"
proof -
  from validate_ok [OF assms] have v: "v = \<lparr>prq_relayWsUrl = js_trim (prq_relayWsUrl r),
      prq_desktopId = js_trim (prq_desktopId r), prq_pairingCode = js_trim (prq_pairingCode r)\<rparr>"
    and ok: "relayUrlError url (prq_relayWsUrl v) = None" "prq_desktopId v \<noteq> []" "prq_pairingCode v \<noteq> []" by blast+
  have t: "js_trim (prq_relayWsUrl v) = prq_relayWsUrl v" "js_trim (prq_desktopId v) = prq_desktopId v"
    "js_trim (prq_pairingCode v) = prq_pairingCode v" by (simp_all add: v)
  have "validateManualPairingRequest url v = Inr v"
    using ok by (simp add: validateManualPairingRequest_def Let_def t)
  with ok v show ?thesis
    by (auto simp: relayUrlError_def starts_with_def ends_with_def split: if_splits option.splits)
qed

lemma built_profile:
  assumes built: "buildPairingProfile sp url r device result = Inr p"
  shows "profile_ok url p \<and> pp_desktopId p = prq_desktopId r \<and> pp_relayWsUrl p = js_trim (prq_relayWsUrl r) \<and>
         (\<exists>res. sp MobilePairResultSchema (Some result) = Inr res \<and>
            pp_mobileSessionToken p = str_at ''mobileSessionToken'' res \<and>
            pp_mobileSessionExpiresAt p = str_at ''mobileSessionExpiresAt'' res)"
proof -
  from built obtain v dev res where v: "validateManualPairingRequest url r = Inr v"
    and res: "sp MobilePairResultSchema (Some result) = Inr res" "prq_desktopId r = str_at ''desktopId'' res"
    and pr: "parsePairingProfile url (Some (JObj
              [(''relayWsUrl'', JStr (prq_relayWsUrl v)), (''desktopId'', JStr (str_at ''desktopId'' res)),
               (''desktopName'', JStr (str_at ''desktopName'' res)), (''mobileDeviceId'', JStr (str_at ''id'' dev)),
               (''mobileDeviceName'', JStr (str_at ''name'' dev)), (''mobilePlatform'', JStr (str_at ''platform'' dev)),
               (''mobileSessionToken'', JStr (str_at ''mobileSessionToken'' res)),
               (''mobileSessionExpiresAt'', JStr (str_at ''mobileSessionExpiresAt'' res))])) = Inr p"
    by (auto simp: buildPairingProfile_def split: sum.splits if_splits)
  from pr obtain m where ok: "profile_ok url p" and p: "p = as_profile m"
    and m: "m = [(''relayWsUrl'', JStr (prq_relayWsUrl v)), (''desktopId'', JStr (str_at ''desktopId'' res)),
               (''desktopName'', JStr (str_at ''desktopName'' res)), (''mobileDeviceId'', JStr (str_at ''id'' dev)),
               (''mobileDeviceName'', JStr (str_at ''name'' dev)), (''mobilePlatform'', JStr (str_at ''platform'' dev)),
               (''mobileSessionToken'', JStr (str_at ''mobileSessionToken'' res)),
               (''mobileSessionExpiresAt'', JStr (str_at ''mobileSessionExpiresAt'' res))]"
    by (elim parse_profile_ok) blast
  have "prq_relayWsUrl v = js_trim (prq_relayWsUrl r)" using validate_ok [OF v] by simp
  then show ?thesis using ok res by (simp add: p m as_profile_def)
qed

text \<open>C32: A profile that is built from a pairing is for the requested desktop, has only non-empty
  fields and a valid address and platform, keeps the token and expiry of the pairing's result, and
  survives storage: what the repository reads back after storing it is the same profile, if what
  \<open>JSON.stringify\<close> writes for it is read back by \<open>JSON.parse\<close>.\<close>

theorem built_profile_stored:
  assumes built: "buildPairingProfile sp url r device result = Inr p"
    and json: "jparse (jstringify (JObj (profile_json p))) = Some (JObj (profile_json p))"
      "jstringify (JObj (profile_json p)) \<noteq> []"
  shows "profile_ok url p \<and> pp_desktopId p = prq_desktopId r \<and> pp_relayWsUrl p = js_trim (prq_relayWsUrl r) \<and>
         (\<exists>res. sp MobilePairResultSchema (Some result) = Inr res \<and>
            pp_mobileSessionToken p = str_at ''mobileSessionToken'' res \<and>
            pp_mobileSessionExpiresAt p = str_at ''mobileSessionExpiresAt'' res) \<and>
         repository_get url jparse (fst (repository_replace url jstringify (profile_json p) st)) = Some p"
proof -
  from built_profile [OF built] have ok: "profile_ok url p" by blast
  have "repository_get url jparse (fst (repository_replace url jstringify (profile_json p) st)) = Some p"
    by (simp add: repository_get_def repository_replace_def parse_profile_json [OF ok] json)
  with built_profile [OF built] show ?thesis by blast
qed

text \<open>A device keeps its identity: once an identity has been stored, every later start returns that
  identity and writes nothing, whatever identifier, name and platform it would otherwise have taken; and
  a start that finds no identity, or an unreadable one, stores the one that it returns.\<close>

theorem device_identity_stable:
  assumes sp: "zod_contract sp" and plat: "platform \<in> {''ios'', ''android'', ''unknown''}"
    and first: "getOrCreateDeviceIdentity sp jparse jstringify uuid name platform st = (st', Inr d)"
    and json: "jparse (jstringify d) = Some d" "jstringify d \<noteq> []"
  shows "getOrCreateDeviceIdentity sp jparse jstringify uuid' name' platform' st' = (st', Inr d) \<and>
         (st' = st \<or> st' = st(DEVICE_IDENTITY_KEY \<mapsto> jstringify d) \<and>
            d = JObj [(''id'', JStr uuid), (''name'', JStr name), (''platform'', JStr platform)])"
proof -
  let ?fresh = "JObj [(''id'', JStr uuid), (''name'', JStr name), (''platform'', JStr platform)]"
  have fresh: "sp MobileDeviceSchema (Some ?fresh) = Inr ?fresh"
    using plat by (subst zod_contract.accepts [OF sp])
      (auto simp: MobileDeviceSchema_def MobilePlatformSchema_def)
  define stored where "stored = (case st DEVICE_IDENTITY_KEY of
           None \<Rightarrow> None
         | Some raw \<Rightarrow>
             if raw = [] then None
             else
               (case jparse raw of
                  None \<Rightarrow> None
                | Some j \<Rightarrow> (case sp MobileDeviceSchema (Some j) of Inr device \<Rightarrow> Some device | Inl _ \<Rightarrow> None)))"
  note def = getOrCreateDeviceIdentity_def Let_def
  show ?thesis
  proof (cases stored)
    case (Some device)
    with first have "st' = st" "d = device" unfolding def stored_def [symmetric] by simp_all
    with Some show ?thesis unfolding def by (simp add: stored_def)
  next
    case None
    with first fresh have "st' = st(DEVICE_IDENTITY_KEY \<mapsto> jstringify d)" "d = ?fresh"
      unfolding def stored_def [symmetric] by auto
    with json fresh show ?thesis unfolding def by simp
  qed
qed

subsection \<open>Examples\<close>

definition sample_url :: url_parser where
  "sample_url v = Some (''h'', ''/v1/ws/mobile'')"

definition sample_request :: pairing_request where
  "sample_request = \<lparr>prq_relayWsUrl = '' ws://h/v1/ws/mobile'', prq_desktopId = ''d'', prq_pairingCode = ''000007 ''\<rparr>"

lemma sample_valid:
  "validateManualPairingRequest sample_url sample_request =
     Inr \<lparr>prq_relayWsUrl = ''ws://h/v1/ws/mobile'', prq_desktopId = ''d'', prq_pairingCode = ''000007''\<rparr>"
  by code_simp

theorem validated_request_witness:
  "validateManualPairingRequest sample_url
     \<lparr>prq_relayWsUrl = ''ws://h/v1/ws/mobile'', prq_desktopId = ''d'', prq_pairingCode = ''000007''\<rparr> =
   Inr \<lparr>prq_relayWsUrl = ''ws://h/v1/ws/mobile'', prq_desktopId = ''d'', prq_pairingCode = ''000007''\<rparr>"
  by (rule conjunct1 [OF validated_request [OF sample_valid]])

definition sample_device :: json where
  "sample_device = JObj [(''id'', JStr ''m''), (''name'', JStr ''x''), (''platform'', JStr ''ios'')]"

definition sample_result :: json where
  "sample_result = JObj [(''desktopId'', JStr ''d''), (''desktopName'', JStr ''n''), (''paired'', JBool True),
     (''mobileSessionToken'', JStr ''t''), (''mobileSessionExpiresAt'', JStr ''e'')]"

definition sample_profile :: pairing_profile where
  "sample_profile = \<lparr>pp_relayWsUrl = ''ws://h/v1/ws/mobile'', pp_desktopId = ''d'', pp_desktopName = ''n'',
     pp_mobileDeviceId = ''m'', pp_mobileDeviceName = ''x'', pp_mobilePlatform = ''ios'',
     pp_mobileSessionToken = ''t'', pp_mobileSessionExpiresAt = ''e''\<rparr>"

lemma sample_ok: "profile_ok sample_url sample_profile"
  by code_simp

lemma sample_built:
  "buildPairingProfile zod_ref sample_url sample_request sample_device sample_result = Inr sample_profile"
proof -
  have "zod_ref MobileDeviceSchema (Some sample_device) = Inr sample_device"
    "zod_ref MobilePairResultSchema (Some sample_result) = Inr sample_result"
    by (simp_all add: zod_ref_def MobileDeviceSchema_def MobilePlatformSchema_def MobilePairResultSchema_def
        sample_device_def sample_result_def)
  then show ?thesis
    using parse_profile_json [OF sample_ok] sample_valid
    by (simp add: buildPairingProfile_def sample_device_def sample_result_def sample_request_def
        sample_profile_def profile_json_def)
qed

theorem built_profile_stored_witness:
  "repository_get sample_url (\<lambda>_. Some (JObj (profile_json sample_profile)))
     (fst (repository_replace sample_url (\<lambda>_. ''x'') (profile_json sample_profile) (\<lambda>_. None))) = Some sample_profile"
  using built_profile_stored [OF sample_built, of "\<lambda>_. Some (JObj (profile_json sample_profile))" "\<lambda>_. ''x''"]
  by simp

theorem device_identity_stable_witness:
  "getOrCreateDeviceIdentity zod_ref (\<lambda>_. Some sample_device) (\<lambda>_. ''x'') ''other'' ''y'' ''android''
     [DEVICE_IDENTITY_KEY \<mapsto> ''x''] = ([DEVICE_IDENTITY_KEY \<mapsto> ''x''], Inr sample_device)"
proof -
  have "zod_ref MobileDeviceSchema (Some sample_device) = Inr sample_device"
    by (simp add: zod_ref_def MobileDeviceSchema_def MobilePlatformSchema_def sample_device_def)
  then have "getOrCreateDeviceIdentity zod_ref (\<lambda>_. Some sample_device) (\<lambda>_. ''x'') ''m'' ''x'' ''ios'' (\<lambda>_. None) =
      ([DEVICE_IDENTITY_KEY \<mapsto> ''x''], Inr sample_device)"
    by (simp add: getOrCreateDeviceIdentity_def sample_device_def)
  from conjunct1 [OF device_identity_stable [OF zr.zod_contract_axioms _ this]] show ?thesis by simp
qed

end
