(* ===== verification/Connection_Coordinator.thy ===== *)
theory Connection_Coordinator
  imports Mobile_Client Pairing_Profile Session_State
begin

section \<open>The connection coordinator (apps/mobile/src/application/connectionCoordinator.ts)\<close>

text \<open>
  The coordinator keeps the app's connection: it connects, resumes the mobile session, fetches the
  sessions, subscribes to the open one and starts again when something fails.  Its variables are the
  state.  \<open>synchronize\<close> is an asynchronous function: a call that waits is a run, with the version and
  profile it was started with and the \<open>await\<close> it has reached, and an input gives the run the answer or
  the error of what it waits for.  One input is one turn of the event loop.  Answers have the types
  that the code declares for them.
\<close>

datatype coord_status =
    StIdle | StConnecting | StOnline | StReconnecting | StResyncing | StRecovery | StPairingRequired

datatype sync_stage = AwaitConnect | AwaitResume | AwaitList | AwaitSubscribe | AwaitInvalidated

record sync_run =
  sy_version :: nat
  sy_profile :: pairing_profile
  sy_stage :: sync_stage

datatype coord_effect =
    StatusChanged coord_status
  | ProfileInvalidated pairing_profile
  | CapabilitiesChanged "string set option"
  | DispatchAction session_action
  | ClientConnect nat string
  | ClientClose
  | ClientRequest nat string jobj
  | SetTimer nat int
  | ClearTimer nat

text \<open>\<open>co_armed\<close> are the timers of the event loop, \<open>co_listening\<close> says whether the coordinator is
  subscribed to the client.\<close>

record coord_state =
  co_status :: coord_status
  co_profile :: "pairing_profile option"
  co_capabilities :: "string set option"
  co_reconnectTimer :: "nat option"
  co_disposed :: bool
  co_runVersion :: nat
  co_hasActiveTransport :: bool
  co_replacingTransport :: bool
  co_runs :: "sync_run list"
  co_armed :: "nat list"
  co_nextTimer :: nat
  co_listening :: bool

text \<open>The options: the delay, and whether the client's \<open>close\<close> reports the disconnection before it
  returns.\<close>

record coord_config =
  cfg_reconnectDelayMs :: "int option"
  cfg_closeReports :: bool

type_synonym coord_outcome = "coord_state \<times> coord_effect list"

definition initial_coord :: coord_state where
  "initial_coord =
     \<lparr>co_status = StIdle, co_profile = None, co_capabilities = None, co_reconnectTimer = None,
      co_disposed = False, co_runVersion = 0, co_hasActiveTransport = False,
      co_replacingTransport = False, co_runs = [], co_armed = [], co_nextTimer = 0, co_listening = True\<rparr>"

definition pairingRequiredCodes :: "string set" where
  "pairingRequiredCodes = {''UNAUTHORIZED'', ''PAIRING_EXPIRED'', ''PAIRING_NOT_FOUND'', ''MOBILE_NOT_PAIRED''}"

definition recoveryCodes :: "string set" where
  "recoveryCodes = {''DESKTOP_OFFLINE'', ''DAEMON_UNAVAILABLE''}"

definition MAX_DEMO_RECONNECT_DELAY_MS :: int where
  "MAX_DEMO_RECONNECT_DELAY_MS = 5000"

definition reconnectDelayMs :: "coord_config \<Rightarrow> int" where
  "reconnectDelayMs cfg =
     min MAX_DEMO_RECONNECT_DELAY_MS
       (max 0 (case cfg_reconnectDelayMs cfg of Some d \<Rightarrow> d | None \<Rightarrow> 1000))"

fun errorCode :: "client_error \<Rightarrow> string option" where
  "errorCode (ProtocolFailure code message details) = Some (error_code_str code)"
| "errorCode e = None"

definition negotiatedCapabilities :: "jobj \<Rightarrow> string set option" where
  "negotiatedCapabilities answer =
     (case as_arr (map_of answer ''negotiatedCapabilities'') of
        None \<Rightarrow> None
      | Some items \<Rightarrow>
          if list_all (\<lambda>v. as_str (Some v) \<noteq> None) items
          then Some (set (List.map_filter (\<lambda>v. as_str (Some v)) items)) else None)"

subsection \<open>Answers as typed values\<close>

definition sessions_of :: "jobj \<Rightarrow> session list" where
  "sessions_of answer =
     (case as_arr (map_of answer ''sessions'') of
        Some vs \<Rightarrow> List.map_filter (\<lambda>v. as_obj (Some v)) vs
      | None \<Rightarrow> [])"

definition as_event :: "json \<Rightarrow> event_message" where
  "as_event v =
     \<lparr>ev_event = str_at ''event'' v,
      ev_data = (case as_obj (prop_of ''data'' v) of Some m \<Rightarrow> m | None \<Rightarrow> []),
      ev_sentAt = str_at ''sentAt'' v\<rparr>"

definition lines_at :: "string \<Rightarrow> json \<Rightarrow> json list" where
  "lines_at k v = (case as_arr (prop_of k v) of Some vs \<Rightarrow> vs | None \<Rightarrow> [])"

definition as_subscribe_result :: "jobj \<Rightarrow> subscribe_result" where
  "as_subscribe_result m =
     \<lparr>sr_session = (case as_obj (map_of m ''session'') of Some x \<Rightarrow> x | None \<Rightarrow> []),
      sr_mode = (if map_of m ''mode'' = Some (JStr ''replay'') then ModeReplay
                 else if map_of m ''mode'' = Some (JStr ''snapshot'') then ModeSnapshot else ModeLive),
      sr_events = map_option (map as_event) (as_arr (map_of m ''events'')),
      sr_terminalBuffer = as_str (map_of m ''terminalBuffer''),
      sr_lastSeq = as_num (map_of m ''lastSeq''),
      sr_activeInteraction = as_obj (map_of m ''activeInteraction''),
      sr_terminalRender =
        map_option (\<lambda>v. \<lparr>rs_history = lines_at ''history'' (JObj v), rs_screen = lines_at ''screen'' (JObj v),
                         rs_lastSeq = num_at ''lastSeq'' (JObj v)\<rparr>) (as_obj (map_of m ''terminalRender''))\<rparr>"

subsection \<open>The helpers of the closure\<close>

definition andThen ::
  "(coord_state \<Rightarrow> coord_outcome) \<Rightarrow> (coord_state \<Rightarrow> coord_outcome) \<Rightarrow> coord_state \<Rightarrow> coord_outcome" where
  "andThen f g s = (case f s of (s1, e1) \<Rightarrow> (case g s1 of (s2, e2) \<Rightarrow> (s2, e1 @ e2)))"

definition setStatus :: "coord_status \<Rightarrow> coord_state \<Rightarrow> coord_outcome" where
  "setStatus nextStatus s =
     (if co_disposed s \<or> co_status s = nextStatus then (s, [])
      else (s\<lparr>co_status := nextStatus\<rparr>, [StatusChanged nextStatus]))"

definition setCapabilities :: "string set option \<Rightarrow> coord_state \<Rightarrow> coord_outcome" where
  "setCapabilities nxt s =
     (case nxt of
        None \<Rightarrow> (s, [])
      | Some c \<Rightarrow> (s\<lparr>co_capabilities := Some c\<rparr>, [CapabilitiesChanged (Some c)]))"

definition cancelReconnect :: "coord_state \<Rightarrow> coord_outcome" where
  "cancelReconnect s =
     (case co_reconnectTimer s of
        None \<Rightarrow> (s, [])
      | Some h \<Rightarrow> (s\<lparr>co_reconnectTimer := None, co_armed := removeAll h (co_armed s)\<rparr>, [ClearTimer h]))"

definition armReconnect :: "coord_config \<Rightarrow> coord_state \<Rightarrow> coord_outcome" where
  "armReconnect cfg s =
     (s\<lparr>co_reconnectTimer := Some (co_nextTimer s), co_armed := co_armed s @ [co_nextTimer s],
        co_nextTimer := Suc (co_nextTimer s)\<rparr>,
      [SetTimer (co_nextTimer s) (reconnectDelayMs cfg)])"

definition scheduleReconnect :: "coord_config \<Rightarrow> coord_state \<Rightarrow> coord_outcome" where
  "scheduleReconnect cfg s =
     (if co_disposed s \<or> co_profile s = None \<or> co_reconnectTimer s \<noteq> None then (s, [])
      else andThen (setStatus StReconnecting) (armReconnect cfg) s)"

text \<open>The listener of the client's connection.\<close>

definition connectionReported :: "coord_config \<Rightarrow> connection_state \<Rightarrow> coord_state \<Rightarrow> coord_outcome" where
  "connectionReported cfg connection s =
     (if \<not> co_listening s then (s, [])
      else
        (let s1 = (if connection = Disconnected then s\<lparr>co_hasActiveTransport := False\<rparr> else s)
         in if connection = Disconnected \<and> \<not> co_replacingTransport s1 \<and>
               co_status s1 \<notin> {StIdle, StRecovery, StPairingRequired}
            then scheduleReconnect cfg s1 else (s1, [])))"

definition closeActiveTransport :: "coord_config \<Rightarrow> coord_state \<Rightarrow> coord_outcome" where
  "closeActiveTransport cfg s =
     (if \<not> co_hasActiveTransport s then (s, [])
      else
        (case (if cfg_closeReports cfg
               then connectionReported cfg Disconnected (s\<lparr>co_replacingTransport := True\<rparr>)
               else (s\<lparr>co_replacingTransport := True\<rparr>, [])) of
           (s1, e1) \<Rightarrow>
             (s1\<lparr>co_hasActiveTransport := False, co_replacingTransport := False\<rparr>, ClientClose # e1)))"

definition await :: "nat \<Rightarrow> pairing_profile \<Rightarrow> sync_stage \<Rightarrow> coord_effect list \<Rightarrow> coord_state \<Rightarrow> coord_outcome" where
  "await version profile stage effs s =
     (s\<lparr>co_runs := co_runs s @ [\<lparr>sy_version = version, sy_profile = profile, sy_stage = stage\<rparr>]\<rparr>, effs)"

definition clearCapabilities :: "coord_state \<Rightarrow> coord_outcome" where
  "clearCapabilities s = (s\<lparr>co_capabilities := None\<rparr>, [CapabilitiesChanged None])"

definition handleFailure ::
  "coord_config \<Rightarrow> client_error \<Rightarrow> nat \<Rightarrow> pairing_profile \<Rightarrow> coord_state \<Rightarrow> coord_outcome" where
  "handleFailure cfg err version activeProfile s =
     (if co_disposed s then (s, [])
      else
        (case errorCode err of
           Some code \<Rightarrow>
             if code \<in> pairingRequiredCodes
             then andThen cancelReconnect
                    (andThen (\<lambda>s. clearCapabilities (s\<lparr>co_profile := None\<rparr>))
                       (await version activeProfile AwaitInvalidated [ProfileInvalidated activeProfile])) s
             else if code \<in> recoveryCodes then andThen cancelReconnect (setStatus StRecovery) s
             else scheduleReconnect cfg s
         | None \<Rightarrow> scheduleReconnect cfg s))"

subsection \<open>A synchronisation\<close>

definition synchronize :: "coord_config \<Rightarrow> coord_status \<Rightarrow> coord_state \<Rightarrow> coord_outcome" where
  "synchronize cfg entryStatus s =
     (case co_profile s of
        None \<Rightarrow> (s, [])
      | Some activeProfile \<Rightarrow>
          if co_disposed s then (s, [])
          else
            (let version = Suc (co_runVersion s)
             in andThen (setStatus entryStatus)
                  (andThen (closeActiveTransport cfg)
                     (await version activeProfile AwaitConnect [ClientConnect version (pp_relayWsUrl activeProfile)]))
                  (s\<lparr>co_runVersion := version\<rparr>)))"

definition stale :: "nat \<Rightarrow> coord_state \<Rightarrow> bool" where
  "stale version s \<longleftrightarrow> co_disposed s \<or> version \<noteq> co_runVersion s"

definition afterConnect :: "nat \<Rightarrow> pairing_profile \<Rightarrow> coord_state \<Rightarrow> coord_outcome" where
  "afterConnect version activeProfile s =
     (if stale version s then (s, [])
      else
        andThen (\<lambda>s. setStatus StResyncing (s\<lparr>co_hasActiveTransport := True\<rparr>))
          (andThen (\<lambda>s. if co_capabilities s \<noteq> None then clearCapabilities s else (s, []))
             (await version activeProfile AwaitResume
                [ClientRequest version ''mobile.resume'' [
                   (''desktopId'', JStr (pp_desktopId activeProfile)),
                   (''mobileDeviceId'', JStr (pp_mobileDeviceId activeProfile)),
                   (''mobileSessionToken'', JStr (pp_mobileSessionToken activeProfile)),
                   (''offeredCapabilities'', JArr [JStr ''interaction.structured''])]])) s)"

definition afterResume :: "nat \<Rightarrow> pairing_profile \<Rightarrow> jobj \<Rightarrow> coord_state \<Rightarrow> coord_outcome" where
  "afterResume version activeProfile answer s =
     (if stale version s then (s, [])
      else
        andThen (setCapabilities (negotiatedCapabilities answer))
          (await version activeProfile AwaitList [ClientRequest version ''session.list'' []]) s)"

definition finishSync :: "nat \<Rightarrow> coord_state \<Rightarrow> coord_outcome" where
  "finishSync version s = (if stale version s then (s, []) else setStatus StOnline s)"

text \<open>The last argument is what \<open>getOpenSession\<close> returns.\<close>

definition afterList ::
  "nat \<Rightarrow> pairing_profile \<Rightarrow> jobj \<Rightarrow> (string \<times> int option) option \<Rightarrow> coord_state \<Rightarrow> coord_outcome" where
  "afterList version activeProfile answer openSession s =
     (if stale version s then (s, [])
      else
        andThen (setCapabilities (negotiatedCapabilities answer))
          (andThen (\<lambda>s. (s, [DispatchAction (SessionListReceived (sessions_of answer))]))
             (case openSession of
                Some (sessionId, afterSeq) \<Rightarrow>
                  await version activeProfile AwaitSubscribe
                    [ClientRequest version ''session.subscribe''
                       ((''sessionId'', JStr sessionId) #
                        (case afterSeq of Some n \<Rightarrow> [(''afterSeq'', JNum n)] | None \<Rightarrow> []))]
              | None \<Rightarrow> finishSync version)) s)"

definition afterSubscribe :: "nat \<Rightarrow> jobj \<Rightarrow> coord_state \<Rightarrow> coord_outcome" where
  "afterSubscribe version answer s =
     (if stale version s then (s, [])
      else
        andThen (setCapabilities (negotiatedCapabilities answer))
          (andThen (\<lambda>s. (s, [DispatchAction (SessionSubscribeReceived (as_subscribe_result answer))]))
             (finishSync version)) s)"

text \<open>After \<open>await onProfileInvalidated\<close>: the version is not looked at.\<close>

definition afterInvalidated :: "coord_state \<Rightarrow> coord_outcome" where
  "afterInvalidated s = (if co_disposed s then (s, []) else setStatus StPairingRequired s)"

definition eventReported :: "event_message \<Rightarrow> coord_state \<Rightarrow> coord_outcome" where
  "eventReported event s =
     (if co_listening s \<and> \<not> co_disposed s \<and> co_status s = StOnline
      then (s, [DispatchAction (EventReceived event)]) else (s, []))"

subsection \<open>The interface\<close>

definition startCoordinator :: "coord_config \<Rightarrow> pairing_profile option \<Rightarrow> coord_state \<Rightarrow> coord_outcome" where
  "startCoordinator cfg nextProfile s =
     andThen cancelReconnect
       (\<lambda>s. case nextProfile of
              None \<Rightarrow> andThen clearCapabilities (setStatus StPairingRequired) (s\<lparr>co_profile := None\<rparr>)
            | Some p \<Rightarrow> synchronize cfg StConnecting (s\<lparr>co_profile := Some p\<rparr>)) s"

definition retryCoordinator :: "coord_config \<Rightarrow> coord_state \<Rightarrow> coord_outcome" where
  "retryCoordinator cfg s =
     (if co_disposed s \<or> co_profile s = None then (s, [])
      else andThen cancelReconnect (synchronize cfg StReconnecting) s)"

definition disposeCoordinator :: "coord_state \<Rightarrow> coord_outcome" where
  "disposeCoordinator s =
     (if co_disposed s then (s, [])
      else
        andThen (\<lambda>s. cancelReconnect (s\<lparr>co_disposed := True, co_runVersion := Suc (co_runVersion s)\<rparr>))
          (\<lambda>s. (s\<lparr>co_listening := False\<rparr>, [ClientClose])) s)"

definition canMutate :: "coord_state \<Rightarrow> bool" where
  "canMutate s \<longleftrightarrow> co_status s = StOnline"

text \<open>The callback of the reconnection timer.\<close>

definition timerFired :: "coord_config \<Rightarrow> nat \<Rightarrow> coord_state \<Rightarrow> coord_outcome" where
  "timerFired cfg h s =
     (if h \<notin> set (co_armed s) then (s, [])
      else synchronize cfg StReconnecting
             (s\<lparr>co_armed := removeAll h (co_armed s), co_reconnectTimer := None\<rparr>))"

subsection \<open>Turns of the event loop\<close>

datatype coord_input =
    Start "pairing_profile option"
  | Retry
  | Dispose
  | TimerFires nat
  | ConnectionChanges connection_state
  | EventArrives event_message
  | Answered nat jobj "(string \<times> int option) option"
  | Failed nat client_error

definition find_run :: "nat \<Rightarrow> coord_state \<Rightarrow> sync_run option" where
  "find_run version s = List.find (\<lambda>r. sy_version r = version) (co_runs s)"

definition drop_run :: "nat \<Rightarrow> coord_state \<Rightarrow> coord_state" where
  "drop_run version s = s\<lparr>co_runs := filter (\<lambda>r. sy_version r \<noteq> version) (co_runs s)\<rparr>"

definition answered ::
  "nat \<Rightarrow> jobj \<Rightarrow> (string \<times> int option) option \<Rightarrow> coord_state \<Rightarrow> coord_outcome" where
  "answered version answer openSession s =
     (case find_run version s of
        None \<Rightarrow> (s, [])
      | Some r \<Rightarrow>
          (case sy_stage r of
             AwaitConnect \<Rightarrow> afterConnect version (sy_profile r)
           | AwaitResume \<Rightarrow> afterResume version (sy_profile r) answer
           | AwaitList \<Rightarrow> afterList version (sy_profile r) answer openSession
           | AwaitSubscribe \<Rightarrow> afterSubscribe version answer
           | AwaitInvalidated \<Rightarrow> afterInvalidated) (drop_run version s))"

text \<open>The \<open>catch\<close> clause; a failure of \<open>onProfileInvalidated\<close> itself ends the run.\<close>

definition failed :: "coord_config \<Rightarrow> nat \<Rightarrow> client_error \<Rightarrow> coord_state \<Rightarrow> coord_outcome" where
  "failed cfg version err s =
     (case find_run version s of
        None \<Rightarrow> (s, [])
      | Some r \<Rightarrow>
          if sy_stage r = AwaitInvalidated \<or> version \<noteq> co_runVersion s then (drop_run version s, [])
          else handleFailure cfg err version (sy_profile r) (drop_run version s))"

text \<open>What \<open>getSnapshot\<close> shows of the closure.\<close>

record coord_snapshot =
  sn_status :: coord_status
  sn_profile :: "pairing_profile option"
  sn_canMutate :: bool
  sn_negotiatedCapabilities :: "string set option"

definition getSnapshot :: "coord_state \<Rightarrow> coord_snapshot" where
  "getSnapshot s =
     \<lparr>sn_status = co_status s, sn_profile = co_profile s, sn_canMutate = canMutate s,
      sn_negotiatedCapabilities = co_capabilities s\<rparr>"

fun coord_react :: "coord_config \<Rightarrow> coord_state \<Rightarrow> coord_input \<Rightarrow> coord_outcome" where
  "coord_react cfg s (Start p) = startCoordinator cfg p s"
| "coord_react cfg s Retry = retryCoordinator cfg s"
| "coord_react cfg s Dispose = disposeCoordinator s"
| "coord_react cfg s (TimerFires h) = timerFired cfg h s"
| "coord_react cfg s (ConnectionChanges c) = connectionReported cfg c s"
| "coord_react cfg s (EventArrives ev) = eventReported ev s"
| "coord_react cfg s (Answered v a os) = answered v a os s"
| "coord_react cfg s (Failed v err) = failed cfg v err s"

definition coord_step :: "coord_config \<Rightarrow> coord_state \<Rightarrow> coord_input \<Rightarrow> coord_state" where
  "coord_step cfg s i = fst (coord_react cfg s i)"

fun coord_run :: "coord_config \<Rightarrow> coord_state \<Rightarrow> coord_input list \<Rightarrow> coord_outcome" where
  "coord_run cfg s [] = (s, [])"
| "coord_run cfg s (i # is) = andThen (\<lambda>s. coord_react cfg s i) (\<lambda>s. coord_run cfg s is) s"

end
