(* ===== verification/Coordinator_Props.thy ===== *)
theory Coordinator_Props
  imports Connection_Coordinator
begin

section \<open>What the connection coordinator guarantees\<close>

subsection \<open>The helpers\<close>

lemma fst_andThen [simp]: "fst (andThen f g s) = fst (g (fst (f s)))"
  and snd_andThen [simp]: "snd (andThen f g s) = snd (f s) @ snd (g (fst (f s)))"
  by (simp_all add: andThen_def split: prod.split)

lemma setStatus_simps [simp]:
  "co_profile (fst (setStatus st s)) = co_profile s"
  "co_capabilities (fst (setStatus st s)) = co_capabilities s"
  "co_reconnectTimer (fst (setStatus st s)) = co_reconnectTimer s"
  "co_disposed (fst (setStatus st s)) = co_disposed s"
  "co_runVersion (fst (setStatus st s)) = co_runVersion s"
  "co_hasActiveTransport (fst (setStatus st s)) = co_hasActiveTransport s"
  "co_replacingTransport (fst (setStatus st s)) = co_replacingTransport s"
  "co_runs (fst (setStatus st s)) = co_runs s"
  "co_armed (fst (setStatus st s)) = co_armed s"
  "co_nextTimer (fst (setStatus st s)) = co_nextTimer s"
  "co_listening (fst (setStatus st s)) = co_listening s"
  "co_status (fst (setStatus st s)) = (if co_disposed s then co_status s else st)"
  by (simp_all add: setStatus_def)

lemma setCapabilities_simps [simp]:
  "co_profile (fst (setCapabilities c s)) = co_profile s"
  "co_reconnectTimer (fst (setCapabilities c s)) = co_reconnectTimer s"
  "co_disposed (fst (setCapabilities c s)) = co_disposed s"
  "co_runVersion (fst (setCapabilities c s)) = co_runVersion s"
  "co_runs (fst (setCapabilities c s)) = co_runs s"
  "co_armed (fst (setCapabilities c s)) = co_armed s"
  "co_nextTimer (fst (setCapabilities c s)) = co_nextTimer s"
  "co_listening (fst (setCapabilities c s)) = co_listening s"
  "co_status (fst (setCapabilities c s)) = co_status s"
  "co_replacingTransport (fst (setCapabilities c s)) = co_replacingTransport s"
  by (cases c; simp add: setCapabilities_def)+

lemma cancelReconnect_simps [simp]:
  "co_profile (fst (cancelReconnect s)) = co_profile s"
  "co_capabilities (fst (cancelReconnect s)) = co_capabilities s"
  "co_reconnectTimer (fst (cancelReconnect s)) = None"
  "co_disposed (fst (cancelReconnect s)) = co_disposed s"
  "co_runVersion (fst (cancelReconnect s)) = co_runVersion s"
  "co_hasActiveTransport (fst (cancelReconnect s)) = co_hasActiveTransport s"
  "co_replacingTransport (fst (cancelReconnect s)) = co_replacingTransport s"
  "co_runs (fst (cancelReconnect s)) = co_runs s"
  "co_nextTimer (fst (cancelReconnect s)) = co_nextTimer s"
  "co_listening (fst (cancelReconnect s)) = co_listening s"
  "co_status (fst (cancelReconnect s)) = co_status s"
  by (simp_all add: cancelReconnect_def split: option.split)

lemma await_simps [simp]:
  "fst (await v p st effs s) = s\<lparr>co_runs := co_runs s @ [\<lparr>sy_version = v, sy_profile = p, sy_stage = st\<rparr>]\<rparr>"
  "snd (await v p st effs s) = effs"
  by (simp_all add: await_def)

lemma clearCapabilities_simps [simp]:
  "fst (clearCapabilities s) = s\<lparr>co_capabilities := None\<rparr>"
  "snd (clearCapabilities s) = [CapabilitiesChanged None]"
  by (simp_all add: clearCapabilities_def)

lemma armReconnect_simps [simp]:
  "fst (armReconnect cfg s) = s\<lparr>co_reconnectTimer := Some (co_nextTimer s),
      co_armed := co_armed s @ [co_nextTimer s], co_nextTimer := Suc (co_nextTimer s)\<rparr>"
  "snd (armReconnect cfg s) = [SetTimer (co_nextTimer s) (reconnectDelayMs cfg)]"
  by (simp_all add: armReconnect_def)

subsection \<open>The invariant\<close>

definition waiting_run :: "coord_state \<Rightarrow> bool" where
  "waiting_run s \<longleftrightarrow> (\<exists>r \<in> set (co_runs s). sy_version r = co_runVersion s \<and> sy_stage r \<noteq> AwaitInvalidated)"

definition timers_ok :: "coord_state \<Rightarrow> bool" where
  "timers_ok s \<longleftrightarrow>
     co_armed s = (case co_reconnectTimer s of Some h \<Rightarrow> [h] | None \<Rightarrow> []) \<and>
     (\<forall>h. co_reconnectTimer s = Some h \<longrightarrow> h < co_nextTimer s)"

definition runs_ok :: "coord_state \<Rightarrow> bool" where
  "runs_ok s \<longleftrightarrow> distinct (map sy_version (co_runs s)) \<and> (\<forall>r \<in> set (co_runs s). sy_version r \<le> co_runVersion s)"

definition disposed_ok :: "coord_state \<Rightarrow> bool" where
  "disposed_ok s \<longleftrightarrow> (co_disposed s \<longrightarrow>
     co_reconnectTimer s = None \<and> \<not> co_listening s \<and> (\<forall>r \<in> set (co_runs s). sy_version r < co_runVersion s))"

definition progress_ok :: "coord_state \<Rightarrow> bool" where
  "progress_ok s \<longleftrightarrow>
     (\<not> co_disposed s \<and> co_profile s \<noteq> None \<and> co_status s \<in> {StConnecting, StReconnecting, StResyncing} \<longrightarrow>
      co_reconnectTimer s \<noteq> None \<or> waiting_run s)"

definition coord_inv :: "coord_state \<Rightarrow> bool" where
  "coord_inv s \<longleftrightarrow> timers_ok s \<and> runs_ok s \<and> disposed_ok s \<and> progress_ok s \<and> \<not> co_replacingTransport s"

lemmas inv_parts = timers_ok_def runs_ok_def disposed_ok_def progress_ok_def waiting_run_def

lemma coord_inv_initial: "coord_inv initial_coord"
  by (simp add: coord_inv_def inv_parts initial_coord_def)

lemma timers_cancel [simp]: "timers_ok s \<Longrightarrow> timers_ok (fst (cancelReconnect s))"
  by (auto simp: timers_ok_def cancelReconnect_def split: option.splits)

text \<open>Connections and scheduling.\<close>

lemma scheduleReconnect_inv:
  "coord_inv s \<Longrightarrow> coord_inv (fst (scheduleReconnect cfg s))"
  by (auto simp: scheduleReconnect_def coord_inv_def inv_parts split: option.splits)

lemma scheduleReconnect_fields [simp]:
  "co_disposed (fst (scheduleReconnect cfg s)) = co_disposed s"
  "co_runVersion (fst (scheduleReconnect cfg s)) = co_runVersion s"
  "co_runs (fst (scheduleReconnect cfg s)) = co_runs s"
  "co_profile (fst (scheduleReconnect cfg s)) = co_profile s"
  "co_listening (fst (scheduleReconnect cfg s)) = co_listening s"
  by (simp_all add: scheduleReconnect_def)

lemma connectionReported_inv: "coord_inv s \<Longrightarrow> coord_inv (fst (connectionReported cfg c s))"
proof -
  assume "coord_inv s"
  moreover from this have "coord_inv (s\<lparr>co_hasActiveTransport := False\<rparr>)"
    by (simp add: coord_inv_def inv_parts)
  ultimately show ?thesis by (simp add: connectionReported_def Let_def scheduleReconnect_inv)
qed

lemma closeActiveTransport_fields [simp]:
  "co_disposed (fst (closeActiveTransport cfg s)) = co_disposed s"
  "co_runVersion (fst (closeActiveTransport cfg s)) = co_runVersion s"
  "co_runs (fst (closeActiveTransport cfg s)) = co_runs s"
  "co_profile (fst (closeActiveTransport cfg s)) = co_profile s"
  "co_listening (fst (closeActiveTransport cfg s)) = co_listening s"
  "co_reconnectTimer (fst (closeActiveTransport cfg s)) = co_reconnectTimer s"
  "co_armed (fst (closeActiveTransport cfg s)) = co_armed s"
  "co_nextTimer (fst (closeActiveTransport cfg s)) = co_nextTimer s"
  "co_status (fst (closeActiveTransport cfg s)) = co_status s"
  "co_replacingTransport s = False \<Longrightarrow> co_replacingTransport (fst (closeActiveTransport cfg s)) = False"
  "set (snd (closeActiveTransport cfg s)) \<subseteq> {ClientClose}"
  by (auto simp: closeActiveTransport_def connectionReported_def Let_def)

text \<open>Starting a run.\<close>

lemma synchronize_inv:
  assumes "timers_ok s" "runs_ok s" "disposed_ok s" "\<not> co_replacingTransport s"
    and "co_profile s = None \<or> co_disposed s \<Longrightarrow> progress_ok s"
  shows "coord_inv (fst (synchronize cfg st s))"
  using assms
  by (cases "co_profile s") (auto simp: synchronize_def Let_def coord_inv_def inv_parts split: option.splits)

text \<open>Ending or continuing a run.\<close>

lemma drop_run_fields [simp]:
  "co_disposed (drop_run v s) = co_disposed s" "co_runVersion (drop_run v s) = co_runVersion s"
  "co_profile (drop_run v s) = co_profile s" "co_listening (drop_run v s) = co_listening s"
  "co_reconnectTimer (drop_run v s) = co_reconnectTimer s" "co_armed (drop_run v s) = co_armed s"
  "co_nextTimer (drop_run v s) = co_nextTimer s" "co_status (drop_run v s) = co_status s"
  "co_replacingTransport (drop_run v s) = co_replacingTransport s" "co_capabilities (drop_run v s) = co_capabilities s"
  "co_runs (drop_run v s) = filter (\<lambda>r. sy_version r \<noteq> v) (co_runs s)"
  by (simp_all add: drop_run_def)

text \<open>A state in which the run of version \<open>v\<close> has been taken out.\<close>

definition taken :: "nat \<Rightarrow> coord_state \<Rightarrow> bool" where
  "taken v s \<longleftrightarrow> timers_ok s \<and> runs_ok s \<and> disposed_ok s \<and> \<not> co_replacingTransport s \<and>
     v \<notin> sy_version ` set (co_runs s) \<and> v \<le> co_runVersion s \<and> (co_disposed s \<longrightarrow> v < co_runVersion s) \<and>
     (v \<noteq> co_runVersion s \<longrightarrow> progress_ok s)"

lemma distinct_map_filter_version:
  "distinct (map sy_version rs) \<Longrightarrow> distinct (map sy_version (filter P rs))"
  by (induction rs) auto

lemma find_run_mem: "find_run v s = Some r \<Longrightarrow> r \<in> set (co_runs s) \<and> sy_version r = v"
  by (auto simp: find_run_def find_Some_iff)

lemma taken_drop:
  assumes inv: "coord_inv s" and r: "find_run v s = Some r"
  shows "taken v (drop_run v s)"
proof -
  note m = find_run_mem [OF r]
  have "runs_ok (drop_run v s)"
    using inv by (auto simp: coord_inv_def runs_ok_def distinct_map_filter_version)
  moreover have "v \<noteq> co_runVersion s \<Longrightarrow> progress_ok (drop_run v s)"
    using inv unfolding coord_inv_def progress_ok_def waiting_run_def by auto
  ultimately show ?thesis
    using inv m by (auto simp: taken_def coord_inv_def timers_ok_def disposed_ok_def runs_ok_def)
qed

lemma taken_stale: "taken v s \<Longrightarrow> stale v s \<Longrightarrow> coord_inv s"
  by (auto simp: taken_def stale_def coord_inv_def progress_ok_def)

lemma taken_await:
  assumes "taken v s" and "\<not> stale v s" and "stage \<noteq> AwaitInvalidated"
  shows "coord_inv (fst (await v p stage effs s))"
  using assms by (auto simp: taken_def stale_def coord_inv_def inv_parts)

text \<open>Fields that \<open>taken\<close> does not look at, unless the run is current.\<close>

lemma taken_cong:
  assumes "taken v s" and "\<not> stale v s"
    and "co_reconnectTimer s' = co_reconnectTimer s" "co_armed s' = co_armed s" "co_nextTimer s' = co_nextTimer s"
      "co_runs s' = co_runs s" "co_runVersion s' = co_runVersion s" "co_disposed s' = co_disposed s"
      "co_replacingTransport s' = co_replacingTransport s" "co_listening s' = co_listening s"
  shows "taken v s' \<and> \<not> stale v s'"
  using assms by (auto simp: taken_def stale_def timers_ok_def runs_ok_def disposed_ok_def)

lemma afterConnect_inv: "taken v s \<Longrightarrow> coord_inv (fst (afterConnect v p s))"
proof (cases "stale v s")
  case True
  then show "taken v s \<Longrightarrow> coord_inv (fst (afterConnect v p s))" by (simp add: afterConnect_def taken_stale)
next
  case False
  assume t: "taken v s"
  define s1 where "s1 = fst (setStatus StResyncing (s\<lparr>co_hasActiveTransport := True\<rparr>))"
  define s2 where "s2 = fst (if co_capabilities s1 \<noteq> None then clearCapabilities s1 else (s1, []))"
  have "taken v s2 \<and> \<not> stale v s2"
    by (rule taken_cong [OF t False]) (simp_all add: s1_def s2_def)
  then have "coord_inv (fst (await v p AwaitResume effs s2))" for effs
    by (intro taken_await) auto
  with False show ?thesis
    by (cases "co_capabilities s") (simp_all add: afterConnect_def s1_def s2_def del: await_simps)
qed

lemma afterResume_inv: "taken v s \<Longrightarrow> coord_inv (fst (afterResume v p a s))"
proof (cases "stale v s")
  case True
  then show "taken v s \<Longrightarrow> coord_inv (fst (afterResume v p a s))" by (simp add: afterResume_def taken_stale)
next
  case False
  assume t: "taken v s"
  have "taken v (fst (setCapabilities (negotiatedCapabilities a) s)) \<and> \<not> stale v (fst (setCapabilities (negotiatedCapabilities a) s))"
    by (rule taken_cong [OF t False]) simp_all
  with False show ?thesis by (simp add: afterResume_def taken_await del: await_simps)
qed

lemma finishSync_inv: "taken v s \<Longrightarrow> coord_inv (fst (finishSync v s))"
  by (cases "stale v s")
    (auto simp: finishSync_def taken_stale, auto simp: taken_def stale_def coord_inv_def inv_parts)

lemma afterList_inv: "taken v s \<Longrightarrow> coord_inv (fst (afterList v p a os s))"
proof (cases "stale v s")
  case True
  then show "taken v s \<Longrightarrow> coord_inv (fst (afterList v p a os s))" by (simp add: afterList_def taken_stale)
next
  case False
  assume t: "taken v s"
  have "taken v (fst (setCapabilities (negotiatedCapabilities a) s)) \<and> \<not> stale v (fst (setCapabilities (negotiatedCapabilities a) s))"
    by (rule taken_cong [OF t False]) simp_all
  with False show ?thesis
    by (auto simp: afterList_def taken_await finishSync_inv simp del: await_simps split: option.split)
qed

lemma afterSubscribe_inv: "taken v s \<Longrightarrow> coord_inv (fst (afterSubscribe v a s))"
proof (cases "stale v s")
  case True
  then show "taken v s \<Longrightarrow> coord_inv (fst (afterSubscribe v a s))" by (simp add: afterSubscribe_def taken_stale)
next
  case False
  assume t: "taken v s"
  have "taken v (fst (setCapabilities (negotiatedCapabilities a) s)) \<and> \<not> stale v (fst (setCapabilities (negotiatedCapabilities a) s))"
    by (rule taken_cong [OF t False]) simp_all
  with False show ?thesis by (simp add: afterSubscribe_def finishSync_inv)
qed

text \<open>A run that waits for the invalidation is not one that progress relies on.\<close>

lemma progress_invalidated:
  assumes inv: "coord_inv s" and r: "find_run v s = Some r" "sy_stage r = AwaitInvalidated"
  shows "coord_inv (drop_run v s)"
proof -
  note m = find_run_mem [OF r(1)]
  have "distinct (map sy_version (co_runs s))" using inv by (simp add: coord_inv_def runs_ok_def)
  then have u: "r' = r" if "r' \<in> set (co_runs s)" "sy_version r' = v" for r'
    using m that by (auto simp: distinct_map inj_on_def)
  have "waiting_run s \<Longrightarrow> waiting_run (drop_run v s)"
    using u r(2) by (auto simp: waiting_run_def)
  moreover have "taken v (drop_run v s)" by (rule taken_drop [OF inv r(1)])
  ultimately show ?thesis using inv by (auto simp: coord_inv_def taken_def progress_ok_def)
qed

lemma afterInvalidated_inv: "coord_inv s \<Longrightarrow> coord_inv (fst (afterInvalidated s))"
  by (auto simp: afterInvalidated_def coord_inv_def inv_parts)

lemma answered_inv: "coord_inv s \<Longrightarrow> coord_inv (fst (answered v a os s))"
proof (cases "find_run v s")
  case (Some r)
  assume inv: "coord_inv s"
  note t = taken_drop [OF inv Some]
  show ?thesis
  proof (cases "sy_stage r")
    case AwaitInvalidated
    with Some progress_invalidated [OF inv Some] show ?thesis by (simp add: answered_def afterInvalidated_inv)
  qed (use Some t in \<open>simp_all add: answered_def afterConnect_inv afterResume_inv afterList_inv afterSubscribe_inv\<close>)
qed (simp add: answered_def)

lemma handleFailure_inv:
  assumes "taken v s" and "v = co_runVersion s"
  shows "coord_inv (fst (handleFailure cfg err v p s))"
proof (cases "co_disposed s")
  case True
  with assms show ?thesis by (simp add: taken_def)
next
  case False
  have sched: "coord_inv (fst (scheduleReconnect cfg s))"
    using assms False by (auto simp: taken_def scheduleReconnect_def coord_inv_def inv_parts split: option.splits)
  show ?thesis
  proof (cases "errorCode err")
    case (Some code)
    have t: "timers_ok (fst (cancelReconnect s))" using assms by (simp add: taken_def)
    have rec: "coord_inv (fst (setStatus StRecovery (fst (cancelReconnect s))))"
      using assms t by (auto simp: taken_def coord_inv_def inv_parts)
    have "coord_inv (fst (cancelReconnect s)\<lparr>co_profile := None, co_capabilities := None,
        co_runs := co_runs s @ [\<lparr>sy_version = v, sy_profile = p, sy_stage = AwaitInvalidated\<rparr>]\<rparr>)"
      using assms t False by (auto simp: taken_def coord_inv_def inv_parts)
    with Some sched rec False show ?thesis by (simp add: handleFailure_def)
  qed (use sched False in \<open>simp add: handleFailure_def\<close>)
qed

lemma failed_inv: "coord_inv s \<Longrightarrow> coord_inv (fst (failed cfg v err s))"
proof (cases "find_run v s")
  case (Some r)
  assume inv: "coord_inv s"
  note t = taken_drop [OF inv Some]
  show ?thesis
  proof (cases "sy_stage r = AwaitInvalidated")
    case True
    with Some progress_invalidated [OF inv Some] show ?thesis by (simp add: failed_def)
  next
    case False
    show ?thesis
    proof (cases "v = co_runVersion s")
      case True
      with handleFailure_inv [OF t] Some False show ?thesis by (simp add: failed_def)
    next
      case ne: False
      then have "stale v (drop_run v s)" by (simp add: stale_def)
      with taken_stale [OF t this] Some ne show ?thesis by (simp add: failed_def)
    qed
  qed
qed (simp add: failed_def)

lemma start_inv: "coord_inv s \<Longrightarrow> coord_inv (fst (startCoordinator cfg p s))"
proof (cases p)
  case None
  assume "coord_inv s"
  with None show ?thesis
    using timers_cancel [of s] by (auto simp: startCoordinator_def coord_inv_def inv_parts)
next
  case (Some q)
  assume inv: "coord_inv s"
  have "timers_ok (fst (cancelReconnect s)\<lparr>co_profile := Some q\<rparr>)"
    using timers_cancel [of s] inv by (simp add: coord_inv_def timers_ok_def)
  then have "coord_inv (fst (synchronize cfg StConnecting (fst (cancelReconnect s)\<lparr>co_profile := Some q\<rparr>)))"
    using inv by (intro synchronize_inv) (auto simp: coord_inv_def runs_ok_def disposed_ok_def progress_ok_def)
  with Some show ?thesis by (simp add: startCoordinator_def)
qed

lemma retry_inv: "coord_inv s \<Longrightarrow> coord_inv (fst (retryCoordinator cfg s))"
proof -
  assume inv: "coord_inv s"
  have "coord_inv (fst (synchronize cfg StReconnecting (fst (cancelReconnect s))))"
    if "\<not> co_disposed s" "co_profile s \<noteq> None"
    using inv that by (intro synchronize_inv) (auto simp: coord_inv_def runs_ok_def disposed_ok_def)
  with inv show ?thesis by (simp add: retryCoordinator_def)
qed

lemma timerFired_inv: "coord_inv s \<Longrightarrow> coord_inv (fst (timerFired cfg h s))"
proof -
  assume inv: "coord_inv s"
  show ?thesis
  proof (cases "h \<in> set (co_armed s)")
    case True
    with inv have "co_reconnectTimer s = Some h" "co_armed s = [h]"
      by (auto simp: coord_inv_def timers_ok_def split: option.splits)
    with inv have "coord_inv (fst (synchronize cfg StReconnecting
        (s\<lparr>co_armed := removeAll h (co_armed s), co_reconnectTimer := None\<rparr>)))"
      by (intro synchronize_inv) (auto simp: coord_inv_def inv_parts)
    with True show ?thesis by (simp add: timerFired_def)
  qed (simp add: timerFired_def inv)
qed

lemma dispose_inv: "coord_inv s \<Longrightarrow> coord_inv (fst (disposeCoordinator s))"
proof -
  assume inv: "coord_inv s"
  define s1 where "s1 = s\<lparr>co_disposed := True, co_runVersion := Suc (co_runVersion s)\<rparr>"
  have "timers_ok (fst (cancelReconnect s1))" by (rule timers_cancel) (use inv in \<open>simp add: s1_def coord_inv_def timers_ok_def\<close>)
  then have "coord_inv ((fst (cancelReconnect s1))\<lparr>co_listening := False\<rparr>)"
    using inv by (auto simp: s1_def coord_inv_def inv_parts less_Suc_eq_le le_SucI)
  with inv show ?thesis by (simp add: disposeCoordinator_def s1_def)
qed

lemma coord_step_inv: "coord_inv s \<Longrightarrow> coord_inv (coord_step cfg s i)"
  by (cases i) (simp_all add: coord_step_def start_inv retry_inv dispose_inv timerFired_inv connectionReported_inv
      answered_inv failed_inv eventReported_def)

interpretation coordinator: machine "coord_step cfg" coord_inv for cfg
  by unfold_locales (rule coord_step_inv)

lemma reachable_inv: "coord_inv (foldl (coord_step cfg) initial_coord is)"
  by (rule coordinator.run_inv) (rule coord_inv_initial)

subsection \<open>Properties\<close>

text \<open>C12: The coordinator never gets stuck: in every state that it can reach, not disposed, with a
  profile, and connecting, reconnecting or resynchronising, either its reconnection timer is armed or
  the current synchronisation is waiting for an answer.\<close>

theorem coordinator_never_stuck:
  assumes "s = foldl (coord_step cfg) initial_coord is"
    and "\<not> co_disposed s" and "co_profile s \<noteq> None"
    and "co_status s \<in> {StConnecting, StReconnecting, StResyncing}"
  shows "(\<exists>h. co_reconnectTimer s = Some h \<and> co_armed s = [h]) \<or>
         (\<exists>r \<in> set (co_runs s). sy_version r = co_runVersion s \<and> sy_stage r \<noteq> AwaitInvalidated)"
  using reachable_inv [of cfg "is"] assms
  by (auto simp: coord_inv_def progress_ok_def waiting_run_def timers_ok_def)

text \<open>At most one reconnection timer is armed at any time, it is the one the coordinator knows of,
  none is armed once the coordinator is disposed, and at most one run of each version is under way.\<close>

theorem coordinator_single_timer:
  "length (co_armed (foldl (coord_step cfg) initial_coord is)) \<le> 1 \<and>
   set (co_armed (foldl (coord_step cfg) initial_coord is)) =
     set_option (co_reconnectTimer (foldl (coord_step cfg) initial_coord is)) \<and>
   (co_armed (foldl (coord_step cfg) initial_coord is) = [] \<or> \<not> co_disposed (foldl (coord_step cfg) initial_coord is)) \<and>
   distinct (map sy_version (co_runs (foldl (coord_step cfg) initial_coord is)))"
  using reachable_inv [of cfg "is"]
  by (auto simp: coord_inv_def timers_ok_def disposed_ok_def runs_ok_def split: option.splits)


text \<open>Effects that a disposed coordinator must not have.\<close>

fun is_action :: "coord_effect \<Rightarrow> bool" where
  "is_action (CapabilitiesChanged c) = False"
| "is_action e = True"

lemma disposed_quiet [simp]:
  "co_disposed s \<Longrightarrow> setStatus st s = (s, [])"
  "co_disposed s \<Longrightarrow> scheduleReconnect cfg s = (s, [])"
  "co_disposed s \<Longrightarrow> synchronize cfg st s = (s, [])"
  "co_disposed s \<Longrightarrow> stale v s"
  by (simp_all add: setStatus_def scheduleReconnect_def synchronize_def stale_def split: option.split)

lemma disposed_react:
  assumes "coord_inv s" and "co_disposed s"
  shows "list_all (\<lambda>e. \<not> is_action e) (snd (coord_react cfg s i)) \<and> co_disposed (fst (coord_react cfg s i))"
proof (cases i)
  case (Answered v a os)
  then show ?thesis using assms
    by (simp add: answered_def afterConnect_def afterResume_def afterList_def afterSubscribe_def
        afterInvalidated_def split: option.split sync_stage.split)
next
  case (Start p)
  have "cancelReconnect s = (s, [])" using assms by (simp add: coord_inv_def disposed_ok_def cancelReconnect_def)
  with Start assms show ?thesis by (simp add: startCoordinator_def split: option.split)
next
  case (TimerFires h)
  have "co_armed s = []" using assms by (simp add: coord_inv_def disposed_ok_def timers_ok_def)
  with TimerFires assms show ?thesis by (simp add: timerFired_def)
next
  case (ConnectionChanges c)
  with assms show ?thesis by (simp add: connectionReported_def coord_inv_def disposed_ok_def)
next
  case (Failed v err)
  with assms show ?thesis by (simp add: failed_def handleFailure_def split: option.split)
qed (use assms in \<open>simp_all add: retryCoordinator_def disposeCoordinator_def eventReported_def\<close>)

lemma disposed_run:
  "coord_inv s \<Longrightarrow> co_disposed s \<Longrightarrow>
   list_all (\<lambda>e. \<not> is_action e) (snd (coord_run cfg s is)) \<and> co_disposed (fst (coord_run cfg s is))"
proof (induction "is" arbitrary: s)
  case (Cons i "is")
  from disposed_react [OF Cons.prems, of cfg i] coord_step_inv [OF Cons.prems(1), of cfg i]
  show ?case using Cons.IH [of "fst (coord_react cfg s i)"] by (simp add: coord_step_def)
qed simp

text \<open>Once it has been disposed, the coordinator does nothing any more: whatever is answered, fails,
  fires or is called afterwards, it connects, closes, requests, dispatches, schedules and reports
  nothing, except that \<open>start\<close> without a profile announces that there are no capabilities.\<close>

theorem disposed_is_silent:
  "list_all (\<lambda>e. \<not> is_action e)
     (snd (coord_run cfg (coord_step cfg (foldl (coord_step cfg) initial_coord before) Dispose) after)) \<and>
   co_disposed (fst (coord_run cfg (coord_step cfg (foldl (coord_step cfg) initial_coord before) Dispose) after))"
proof (rule disposed_run)
  have inv: "coord_inv (foldl (coord_step cfg) initial_coord before)" by (rule reachable_inv)
  then show "coord_inv (coord_step cfg (foldl (coord_step cfg) initial_coord before) Dispose)" by (rule coord_step_inv)
  show "co_disposed (coord_step cfg (foldl (coord_step cfg) initial_coord before) Dispose)"
    by (simp add: coord_step_def disposeCoordinator_def)
qed

text \<open>An event of a desktop reaches the app's state only while the coordinator is online, so that no
  event is applied before the state it builds on has been fetched.\<close>

theorem events_only_online:
  assumes "DispatchAction (EventReceived ev) \<in> set (snd (coord_react cfg s i))"
  shows "i = EventArrives ev \<and> co_status s = StOnline \<and> \<not> co_disposed s"
proof -
  let ?e = "DispatchAction (EventReceived ev)"
  have st: "?e \<notin> set (snd (setStatus st s))" for st s by (simp add: setStatus_def)
  have ca: "?e \<notin> set (snd (setCapabilities c s))" for c s by (simp add: setCapabilities_def split: option.split)
  have cr: "?e \<notin> set (snd (cancelReconnect s))" for s by (simp add: cancelReconnect_def split: option.split)
  have sc: "?e \<notin> set (snd (scheduleReconnect cfg s))" for s by (simp add: scheduleReconnect_def st)
  have fi: "?e \<notin> set (snd (finishSync v s))" for v s by (simp add: finishSync_def st)
  have cl: "?e \<notin> set (snd (closeActiveTransport cfg s))" for s
    by (rule notI) (drule subsetD [OF closeActiveTransport_fields(11)], simp)
  have sy: "?e \<notin> set (snd (synchronize cfg st s))" for st s'' s by (simp add: synchronize_def st cl split: option.split)
  show ?thesis
  proof (cases i)
    case (Answered v a os)
    then show ?thesis using assms
      by (auto simp: answered_def afterConnect_def afterResume_def afterList_def afterSubscribe_def
          afterInvalidated_def st ca fi split: option.splits sync_stage.splits if_splits)
  next
    case (Failed v err)
    then show ?thesis using assms
      by (auto simp: failed_def handleFailure_def st cr sc split: option.splits if_splits)
  next
    case (ConnectionChanges c)
    then show ?thesis using assms by (auto simp: connectionReported_def Let_def sc split: if_splits)
  qed (use assms in \<open>auto simp: startCoordinator_def retryCoordinator_def disposeCoordinator_def timerFired_def
      eventReported_def st cr sy split: option.splits if_splits\<close>)
qed

subsection \<open>The course of a synchronisation\<close>

definition capability_effects :: "jobj \<Rightarrow> coord_effect list" where
  "capability_effects answer =
     (case negotiatedCapabilities answer of Some c \<Rightarrow> [CapabilitiesChanged (Some c)] | None \<Rightarrow> [])"

lemma setCapabilities_effects [simp]:
  "snd (setCapabilities (negotiatedCapabilities a) s) = capability_effects a"
  by (simp add: setCapabilities_def capability_effects_def split: option.split)

lemma answered_find:
  "find_run v s = Some r \<Longrightarrow> sy_stage r = AwaitConnect \<Longrightarrow> answered v a os s = afterConnect v (sy_profile r) (drop_run v s)"
  "find_run v s = Some r \<Longrightarrow> sy_stage r = AwaitResume \<Longrightarrow> answered v a os s = afterResume v (sy_profile r) a (drop_run v s)"
  "find_run v s = Some r \<Longrightarrow> sy_stage r = AwaitList \<Longrightarrow> answered v a os s = afterList v (sy_profile r) a os (drop_run v s)"
  "find_run v s = Some r \<Longrightarrow> sy_stage r = AwaitSubscribe \<Longrightarrow> answered v a os s = afterSubscribe v a (drop_run v s)"
  "find_run v s = Some r \<Longrightarrow> sy_stage r = AwaitInvalidated \<Longrightarrow> answered v a os s = afterInvalidated (drop_run v s)"
  by (simp_all add: answered_def)

definition resume_params :: "pairing_profile \<Rightarrow> jobj" where
  "resume_params p =
     [(''desktopId'', JStr (pp_desktopId p)), (''mobileDeviceId'', JStr (pp_mobileDeviceId p)),
      (''mobileSessionToken'', JStr (pp_mobileSessionToken p)),
      (''offeredCapabilities'', JArr [JStr ''interaction.structured''])]"

lemmas sync_defs = startCoordinator_def synchronize_def answered_def find_run_def drop_run_def
  afterConnect_def afterResume_def afterList_def afterSubscribe_def afterInvalidated_def finishSync_def stale_def
  setStatus_def cancelReconnect_def closeActiveTransport_def clearCapabilities_def await_def andThen_def
  initial_coord_def

text \<open>A synchronisation that meets no failure does its steps in this order and no others: it
  connects, resumes the mobile session with the profile's token, fetches the sessions and stores them,
  subscribes to the open session from the last number seen and stores the result, and only then reports
  that it is online.\<close>

theorem synchronisation_order:
  "snd (coord_run cfg initial_coord
     [Start (Some p), Answered 1 [] None, Answered 1 resumed None, Answered 1 sessions (Some (i, Some n)),
      Answered 1 result None]) =
   [StatusChanged StConnecting, ClientConnect 1 (pp_relayWsUrl p),
    StatusChanged StResyncing, ClientRequest 1 ''mobile.resume'' (resume_params p)] @
   capability_effects resumed @ [ClientRequest 1 ''session.list'' []] @
   capability_effects sessions @
   [DispatchAction (SessionListReceived (sessions_of sessions)),
    ClientRequest 1 ''session.subscribe'' [(''sessionId'', JStr i), (''afterSeq'', JNum n)]] @
   capability_effects result @
   [DispatchAction (SessionSubscribeReceived (as_subscribe_result result)), StatusChanged StOnline]"
  by (simp add: sync_defs resume_params_def capability_effects_def setCapabilities_def split: option.split)

text \<open>C29: When the current synchronisation fails for a reason that neither calls for a new pairing nor
  for the user, the coordinator reports that it is reconnecting, a timer of at most five seconds is
  armed, and when it fires a new synchronisation with the next version begins with the same profile.\<close>

theorem transient_failure_retries:
  assumes inv: "coord_inv s" and run: "find_run (co_runVersion s) s = Some r" "sy_stage r \<noteq> AwaitInvalidated"
    and live: "\<not> co_disposed s" "co_profile s = Some p" "co_reconnectTimer s = None"
    and err: "errorCode err = None \<or> the (errorCode err) \<notin> pairingRequiredCodes \<union> recoveryCodes"
  shows "\<exists>h d. co_reconnectTimer (coord_step cfg s (Failed (co_runVersion s) err)) = Some h \<and>
           co_status (coord_step cfg s (Failed (co_runVersion s) err)) = StReconnecting \<and>
           SetTimer h d \<in> set (snd (coord_react cfg s (Failed (co_runVersion s) err))) \<and> 0 \<le> d \<and> d \<le> 5000 \<and>
           ClientConnect (Suc (co_runVersion s)) (pp_relayWsUrl p) \<in>
             set (snd (coord_react cfg (coord_step cfg s (Failed (co_runVersion s) err)) (TimerFires h)))"
proof -
  let ?v = "co_runVersion s"
  have "failed cfg ?v err s = scheduleReconnect cfg (drop_run ?v s)"
    using run live err by (auto simp: failed_def handleFailure_def split: option.split)
  also have "\<dots> = andThen (setStatus StReconnecting) (armReconnect cfg) (drop_run ?v s)"
    using live by (simp add: scheduleReconnect_def)
  finally have f: "failed cfg ?v err s = andThen (setStatus StReconnecting) (armReconnect cfg) (drop_run ?v s)" .
  have d: "0 \<le> reconnectDelayMs cfg" "reconnectDelayMs cfg \<le> 5000"
    by (simp_all add: reconnectDelayMs_def MAX_DEMO_RECONNECT_DELAY_MS_def split: option.split)
  show ?thesis
    using live d by (intro exI [of _ "co_nextTimer s"] exI [of _ "reconnectDelayMs cfg"])
      (simp add: coord_step_def f timerFired_def synchronize_def Let_def)
qed

text \<open>When the relay no longer accepts the mobile's token or pairing, the profile and the
  capabilities are dropped and the app is told so, no reconnection is scheduled, neither a retry nor a
  lost connection starts one, and the coordinator then reports that a new pairing is required.\<close>

theorem invalid_pairing_stops:
  assumes inv: "coord_inv s" and run: "find_run (co_runVersion s) s = Some r" "sy_stage r \<noteq> AwaitInvalidated"
    and live: "\<not> co_disposed s"
    and err: "errorCode err = Some code" "code \<in> pairingRequiredCodes"
    and s': "s' = coord_step cfg s (Failed (co_runVersion s) err)"
  shows "co_profile s' = None \<and> co_capabilities s' = None \<and> co_reconnectTimer s' = None \<and>
         ProfileInvalidated (sy_profile r) \<in> set (snd (coord_react cfg s (Failed (co_runVersion s) err))) \<and>
         coord_react cfg s' Retry = (s', []) \<and>
         co_reconnectTimer (coord_step cfg s' (ConnectionChanges c)) = None \<and>
         co_status (coord_step cfg s' (Answered (co_runVersion s) [] None)) = StPairingRequired"
proof -
  let ?v = "co_runVersion s"
  have f: "failed cfg ?v err s = andThen cancelReconnect
                    (andThen (\<lambda>s. clearCapabilities (s\<lparr>co_profile := None\<rparr>))
                       (await ?v (sy_profile r) AwaitInvalidated [ProfileInvalidated (sy_profile r)])) (drop_run ?v s)"
    using run live err by (simp add: failed_def handleFailure_def)
  then have s'_eq: "s' = (fst (cancelReconnect (drop_run ?v s)))\<lparr>co_profile := None, co_capabilities := None,
      co_runs := filter (\<lambda>r. sy_version r \<noteq> ?v) (co_runs s) @
        [\<lparr>sy_version = ?v, sy_profile = sy_profile r, sy_stage = AwaitInvalidated\<rparr>]\<rparr>"
    by (simp add: s' coord_step_def)
  have find: "find_run ?v s' = Some \<lparr>sy_version = ?v, sy_profile = sy_profile r, sy_stage = AwaitInvalidated\<rparr>"
  proof -
    have "List.find (\<lambda>r. sy_version r = ?v) (filter (\<lambda>r. sy_version r \<noteq> ?v) rs @ [x]) = Some x"
      if "sy_version x = ?v" for rs :: "sync_run list" and x
      using that by (induction rs) auto
    then show ?thesis by (simp add: find_run_def s'_eq)
  qed
  have "co_disposed s' = False" "co_profile s' = None" "co_reconnectTimer s' = None" "co_capabilities s' = None"
    using live by (simp_all add: s'_eq)
  moreover from this have "co_reconnectTimer (coord_step cfg s' (ConnectionChanges c)) = None"
    by (simp add: coord_step_def connectionReported_def scheduleReconnect_def Let_def)
  moreover from find \<open>co_disposed s' = False\<close>
  have "co_status (coord_step cfg s' (Answered ?v [] None)) = StPairingRequired"
    by (simp add: coord_step_def answered_def afterInvalidated_def)
  ultimately show ?thesis by (simp add: f retryCoordinator_def)
qed

text \<open>Starting without a profile does not stop a synchronisation that is under way: if its last
  answer still arrives, the coordinator goes online, and allows input, although it has no profile.\<close>

theorem start_without_profile_goes_online:
  "canMutate (fst (coord_run cfg initial_coord
     [Start (Some p), Answered 1 [] None, Answered 1 resumed None, Start None, Answered 1 sessions None])) \<and>
   co_profile (fst (coord_run cfg initial_coord
     [Start (Some p), Answered 1 [] None, Answered 1 resumed None, Start None, Answered 1 sessions None])) = None"
  by (simp add: sync_defs canMutate_def setCapabilities_def split: option.split)

text \<open>The end of the invalidation of an old profile is reported even when a new profile has been
  started meanwhile: the coordinator says that a pairing is required while it connects with the new one.\<close>

theorem stale_invalidation_reported:
  "co_status (fst (coord_run cfg initial_coord
     [Start (Some p), Failed 1 (ProtocolFailure UNAUTHORIZED m d), Start (Some q), Answered 1 [] None])) = StPairingRequired \<and>
   co_profile (fst (coord_run cfg initial_coord
     [Start (Some p), Failed 1 (ProtocolFailure UNAUTHORIZED m d), Start (Some q), Answered 1 [] None])) = Some q \<and>
   co_runs (fst (coord_run cfg initial_coord
     [Start (Some p), Failed 1 (ProtocolFailure UNAUTHORIZED m d), Start (Some q), Answered 1 [] None])) =
     [\<lparr>sy_version = 2, sy_profile = q, sy_stage = AwaitConnect\<rparr>]"
  by (simp add: sync_defs failed_def handleFailure_def pairingRequiredCodes_def)

subsection \<open>Examples\<close>

definition connecting1 :: "coord_config \<Rightarrow> coord_state" where
  "connecting1 cfg = coord_step cfg initial_coord (Start (Some sample_profile))"

lemma connecting1_facts:
  "coord_inv (connecting1 cfg)" "co_runVersion (connecting1 cfg) = 1" "\<not> co_disposed (connecting1 cfg)"
  "co_profile (connecting1 cfg) = Some sample_profile" "co_reconnectTimer (connecting1 cfg) = None"
  "find_run 1 (connecting1 cfg) = Some \<lparr>sy_version = 1, sy_profile = sample_profile, sy_stage = AwaitConnect\<rparr>"
  "co_status (connecting1 cfg) = StConnecting"
  using coord_step_inv [OF coord_inv_initial]
  by (simp_all add: connecting1_def) (simp_all add: coord_step_def sync_defs)

definition cfg0 :: coord_config where
  "cfg0 = \<lparr>cfg_reconnectDelayMs = None, cfg_closeReports = False\<rparr>"

lemma connecting1_run: "connecting1 cfg = foldl (coord_step cfg) initial_coord [Start (Some sample_profile)]"
  by (simp add: connecting1_def)

theorem coordinator_never_stuck_witness:
  "(\<exists>h. co_reconnectTimer (connecting1 cfg0) = Some h \<and> co_armed (connecting1 cfg0) = [h]) \<or>
   (\<exists>r \<in> set (co_runs (connecting1 cfg0)). sy_version r = co_runVersion (connecting1 cfg0) \<and>
      sy_stage r \<noteq> AwaitInvalidated)"
  by (rule coordinator_never_stuck [OF connecting1_run]) (simp_all add: connecting1_facts)


definition online1 :: coord_state where
  "online1 = initial_coord\<lparr>co_status := StOnline\<rparr>"

theorem events_only_online_witness: "co_status online1 = StOnline \<and> \<not> co_disposed online1"
proof -
  have "DispatchAction (EventReceived \<lparr>ev_event = ''e'', ev_data = [], ev_sentAt = ''t''\<rparr>) \<in>
      set (snd (coord_react cfg0 online1 (EventArrives \<lparr>ev_event = ''e'', ev_data = [], ev_sentAt = ''t''\<rparr>)))"
    by (simp add: eventReported_def online1_def initial_coord_def)
  from events_only_online [OF this] show ?thesis by simp
qed

lemma connecting1_current:
  "find_run (co_runVersion (connecting1 cfg)) (connecting1 cfg) =
     Some \<lparr>sy_version = 1, sy_profile = sample_profile, sy_stage = AwaitConnect\<rparr>"
  using connecting1_facts(2,6) by simp

theorem transient_failure_retries_witness:
  "co_status (coord_step cfg0 (connecting1 cfg0) (Failed (co_runVersion (connecting1 cfg0)) ConnectionFailed)) =
     StReconnecting"
  using transient_failure_retries [OF connecting1_facts(1) connecting1_current _ connecting1_facts(3,4,5),
      of ConnectionFailed cfg0] by auto

theorem invalid_pairing_stops_witness:
  "co_profile (coord_step cfg0 (connecting1 cfg0)
     (Failed (co_runVersion (connecting1 cfg0)) (ProtocolFailure UNAUTHORIZED ''m'' None))) = None"
  by (rule conjunct1 [OF invalid_pairing_stops [OF connecting1_facts(1) connecting1_current _ connecting1_facts(3)
      _ _ refl, of _ "''UNAUTHORIZED''"]]) (simp_all add: pairingRequiredCodes_def)

end
