(* ===== verification/Mobile_Runtime.thy ===== *)
theory Mobile_Runtime
  imports Coordinator_Props
begin

section \<open>The mobile's runtime (apps/mobile/src/application/createMobileRuntime.ts)\<close>

text \<open>
  The runtime owns the connection coordinator and a second client that is used for pairing only.  Its
  state is the coordinator's and the variables of the closure, with the calls of \<open>openSession\<close> and
  \<open>pair\<close> that wait for an answer; calls are numbered.  An input is one turn of the event loop: a call,
  or the answer or failure of what a call waits for.  What \<open>getOpenSession\<close> returns is an argument.
\<close>

datatype pair_stage = PairConnecting | PairRequesting

record transport_request =
  tr_relayWsUrl :: string
  tr_desktopId :: string
  tr_pairingCode :: string
  tr_mobileDevice :: json

record pair_call =
  pc_call :: nat
  pc_request :: transport_request
  pc_stage :: pair_stage

record open_call =
  oc_call :: nat
  oc_session :: string

datatype runtime_effect =
    CoordEffect coord_effect
  | RtDispatch session_action
  | NavigationPush string
  | RuntimeRequest nat string jobj
  | RuntimeClientClose
  | PairingConnect nat string
  | PairingSend nat string jobj
  | PairingClose
  | PairResolved nat jobj
  | PairRejected nat client_error

text \<open>\<open>rt_closing\<close> counts the calls of \<open>start(null)\<close> that have not yet gone on after their \<open>await\<close>.\<close>

record runtime_state =
  rt_coord :: coord_state
  rt_subscribingSessionIds :: "string set"
  rt_latestOpenSessionId :: "string option"
  rt_disposed :: bool
  rt_opens :: "open_call list"
  rt_pairs :: "pair_call list"
  rt_closing :: nat
  rt_calls :: nat

type_synonym runtime_outcome = "runtime_state \<times> runtime_effect list"

definition initial_runtime :: runtime_state where
  "initial_runtime =
     \<lparr>rt_coord = initial_coord, rt_subscribingSessionIds = {}, rt_latestOpenSessionId = None,
      rt_disposed = False, rt_opens = [], rt_pairs = [], rt_closing = 0, rt_calls = 0\<rparr>"

text \<open>A turn of the coordinator inside the runtime.\<close>

definition with_coord :: "(coord_state \<Rightarrow> coord_outcome) \<Rightarrow> runtime_state \<Rightarrow> runtime_outcome" where
  "with_coord f s = (case f (rt_coord s) of (c, effs) \<Rightarrow> (s\<lparr>rt_coord := c\<rparr>, map CoordEffect effs))"

subsection \<open>start, retry, dispose\<close>

definition startRuntime :: "coord_config \<Rightarrow> pairing_profile option \<Rightarrow> runtime_state \<Rightarrow> runtime_outcome" where
  "startRuntime cfg profile s =
     with_coord (startCoordinator cfg profile)
       (if profile = None then s\<lparr>rt_closing := Suc (rt_closing s)\<rparr> else s)"

text \<open>After \<open>await coordinator.start(null)\<close>.\<close>

definition startReturned :: "runtime_state \<Rightarrow> runtime_outcome" where
  "startReturned s =
     (if rt_closing s = 0 then (s, [])
      else (s\<lparr>rt_closing := rt_closing s - 1\<rparr>, [RuntimeClientClose]))"

definition retryRuntime :: "coord_config \<Rightarrow> runtime_state \<Rightarrow> runtime_outcome" where
  "retryRuntime cfg = with_coord (retryCoordinator cfg)"

definition disposeRuntime :: "runtime_state \<Rightarrow> runtime_outcome" where
  "disposeRuntime s =
     (if rt_disposed s then (s, [])
      else
        (case with_coord disposeCoordinator (s\<lparr>rt_disposed := True\<rparr>) of
           (s', effs) \<Rightarrow> (s', effs @ [PairingClose])))"

subsection \<open>pair\<close>

definition pairRuntime :: "transport_request \<Rightarrow> runtime_state \<Rightarrow> runtime_outcome" where
  "pairRuntime req s =
     (let n = rt_calls s
      in (s\<lparr>rt_calls := Suc n,
           rt_pairs := rt_pairs s @ [\<lparr>pc_call = n, pc_request = req, pc_stage = PairConnecting\<rparr>]\<rparr>,
          [PairingConnect n (tr_relayWsUrl req)]))"

definition find_pair :: "nat \<Rightarrow> runtime_state \<Rightarrow> pair_call option" where
  "find_pair n s = List.find (\<lambda>c. pc_call c = n) (rt_pairs s)"

definition drop_pair :: "nat \<Rightarrow> runtime_state \<Rightarrow> runtime_state" where
  "drop_pair n s = s\<lparr>rt_pairs := filter (\<lambda>c. pc_call c \<noteq> n) (rt_pairs s)\<rparr>"

text \<open>What the pairing client answers the call: the connection is there, or the result.\<close>

definition pairAnswered :: "nat \<Rightarrow> jobj \<Rightarrow> runtime_state \<Rightarrow> runtime_outcome" where
  "pairAnswered n answer s =
     (case find_pair n s of
        None \<Rightarrow> (s, [])
      | Some c \<Rightarrow>
          (case pc_stage c of
             PairConnecting \<Rightarrow>
               ((drop_pair n s)\<lparr>rt_pairs := rt_pairs (drop_pair n s) @ [c\<lparr>pc_stage := PairRequesting\<rparr>]\<rparr>,
                [PairingSend n ''mobile.pair'' [
                   (''desktopId'', JStr (tr_desktopId (pc_request c))),
                   (''pairingCode'', JStr (tr_pairingCode (pc_request c))),
                   (''mobileDevice'', tr_mobileDevice (pc_request c)),
                   (''offeredCapabilities'', JArr [JStr ''interaction.structured''])]])
           | PairRequesting \<Rightarrow> (drop_pair n s, [PairingClose, PairResolved n answer])))"

definition pairFailed :: "nat \<Rightarrow> client_error \<Rightarrow> runtime_state \<Rightarrow> runtime_outcome" where
  "pairFailed n err s =
     (case find_pair n s of
        None \<Rightarrow> (s, [])
      | Some c \<Rightarrow> (drop_pair n s, [PairingClose, PairRejected n err]))"

subsection \<open>openSession\<close>

definition openSession :: "string \<Rightarrow> (string \<times> int option) option \<Rightarrow> runtime_state \<Rightarrow> runtime_outcome" where
  "openSession sessionId opened s =
     (let s1 = s\<lparr>rt_latestOpenSessionId := Some sessionId\<rparr>;
          e1 = [RtDispatch (SessionOpened (Some sessionId)), NavigationPush (''/session/'' @ sessionId)]
      in if rt_disposed s \<or> co_status (rt_coord s) \<noteq> StOnline \<or> sessionId \<in> rt_subscribingSessionIds s
         then (s1, e1)
         else
           (let n = rt_calls s;
                afterSeq = (case opened of
                              Some (i, Some k) \<Rightarrow> if i = sessionId then [(''afterSeq'', JNum k)] else []
                            | _ \<Rightarrow> [])
            in (s1\<lparr>rt_calls := Suc n,
                  rt_subscribingSessionIds := insert sessionId (rt_subscribingSessionIds s),
                  rt_opens := rt_opens s @ [\<lparr>oc_call = n, oc_session = sessionId\<rparr>]\<rparr>,
                e1 @ [RuntimeRequest n ''session.subscribe'' ((''sessionId'', JStr sessionId) # afterSeq)])))"

definition find_open :: "nat \<Rightarrow> runtime_state \<Rightarrow> open_call option" where
  "find_open n s = List.find (\<lambda>c. oc_call c = n) (rt_opens s)"

text \<open>The \<open>finally\<close> clause.\<close>

definition end_open :: "open_call \<Rightarrow> runtime_state \<Rightarrow> runtime_state" where
  "end_open c s =
     s\<lparr>rt_subscribingSessionIds := rt_subscribingSessionIds s - {oc_session c},
       rt_opens := filter (\<lambda>d. oc_call d \<noteq> oc_call c) (rt_opens s)\<rparr>"

definition openAnswered :: "nat \<Rightarrow> jobj \<Rightarrow> runtime_state \<Rightarrow> runtime_outcome" where
  "openAnswered n answer s =
     (case find_open n s of
        None \<Rightarrow> (s, [])
      | Some c \<Rightarrow>
          (end_open c s,
           if \<not> rt_disposed s \<and> rt_latestOpenSessionId s = Some (oc_session c)
           then [RtDispatch (SessionSubscribeReceived (as_subscribe_result answer))] else []))"

definition openFailed :: "nat \<Rightarrow> runtime_state \<Rightarrow> runtime_outcome" where
  "openFailed n s = (case find_open n s of None \<Rightarrow> (s, []) | Some c \<Rightarrow> (end_open c s, []))"

subsection \<open>Requests that are passed on\<close>

definition passRequest :: "string \<Rightarrow> jobj \<Rightarrow> runtime_state \<Rightarrow> runtime_outcome" where
  "passRequest m params s = (s\<lparr>rt_calls := Suc (rt_calls s)\<rparr>, [RuntimeRequest (rt_calls s) m params])"

definition sendInput :: "jobj \<Rightarrow> runtime_state \<Rightarrow> runtime_outcome" where
  "sendInput = passRequest ''session.input''"

definition interrupt :: "jobj \<Rightarrow> runtime_state \<Rightarrow> runtime_outcome" where
  "interrupt = passRequest ''session.interrupt''"

definition respondInteraction :: "jobj \<Rightarrow> runtime_state \<Rightarrow> runtime_outcome" where
  "respondInteraction = passRequest ''interaction.respond''"

subsection \<open>Turns of the event loop\<close>

text \<open>What the environment tells the coordinator: the rest of its inputs are calls of the runtime.\<close>

fun environment :: "coord_input \<Rightarrow> bool" where
  "environment (Start p) = False"
| "environment Retry = False"
| "environment Dispose = False"
| "environment i = True"

datatype runtime_input =
    RtStart "pairing_profile option"
  | RtStartReturned
  | RtRetry
  | RtDispose
  | RtPair transport_request
  | RtPairAnswered nat jobj
  | RtPairFailed nat client_error
  | RtOpen string "(string \<times> int option) option"
  | RtOpenAnswered nat jobj
  | RtOpenFailed nat
  | RtSendInput jobj
  | RtInterrupt jobj
  | RtRespond jobj
  | RtEnvironment coord_input

fun runtime_react :: "coord_config \<Rightarrow> runtime_state \<Rightarrow> runtime_input \<Rightarrow> runtime_outcome" where
  "runtime_react cfg s (RtStart p) = startRuntime cfg p s"
| "runtime_react cfg s RtStartReturned = startReturned s"
| "runtime_react cfg s RtRetry = retryRuntime cfg s"
| "runtime_react cfg s RtDispose = disposeRuntime s"
| "runtime_react cfg s (RtPair req) = pairRuntime req s"
| "runtime_react cfg s (RtPairAnswered n a) = pairAnswered n a s"
| "runtime_react cfg s (RtPairFailed n err) = pairFailed n err s"
| "runtime_react cfg s (RtOpen i opened) = openSession i opened s"
| "runtime_react cfg s (RtOpenAnswered n a) = openAnswered n a s"
| "runtime_react cfg s (RtOpenFailed n) = openFailed n s"
| "runtime_react cfg s (RtSendInput ps) = sendInput ps s"
| "runtime_react cfg s (RtInterrupt ps) = interrupt ps s"
| "runtime_react cfg s (RtRespond ps) = respondInteraction ps s"
| "runtime_react cfg s (RtEnvironment i) =
     (if environment i then with_coord (\<lambda>c. coord_react cfg c i) s else (s, []))"

definition runtime_step :: "coord_config \<Rightarrow> runtime_state \<Rightarrow> runtime_input \<Rightarrow> runtime_state" where
  "runtime_step cfg s i = fst (runtime_react cfg s i)"

text \<open>A run: the states that follow each other and everything that is done.\<close>

inductive runtime_reach :: "coord_config \<Rightarrow> runtime_state \<Rightarrow> runtime_effect list \<Rightarrow> bool" for cfg where
  rt_start: "runtime_reach cfg initial_runtime []"
| rt_react: "runtime_reach cfg s trace \<Longrightarrow>
    runtime_reach cfg (fst (runtime_react cfg s i)) (trace @ snd (runtime_react cfg s i))"

end
