(* ===== verification/Runtime_Props.thy ===== *)
theory Runtime_Props
  imports Mobile_Runtime
begin

section \<open>What the runtime guarantees\<close>

text \<open>
  The runtime drives the coordinator exactly as the coordinator may be driven, keeps at most one
  subscription per session under way, shows only the result for the session that was opened last, and
  closes the pairing client before any pairing settles.
\<close>

subsection \<open>The coordinator inside the runtime\<close>

lemma with_coord_simps [simp]:
  "fst (with_coord f s) = s\<lparr>rt_coord := fst (f (rt_coord s))\<rparr>"
  "snd (with_coord f s) = map CoordEffect (snd (f (rt_coord s)))"
  by (simp_all add: with_coord_def split: prod.split)

fun coord_inputs :: "runtime_input \<Rightarrow> coord_input list" where
  "coord_inputs (RtStart p) = [Start p]"
| "coord_inputs RtRetry = [Retry]"
| "coord_inputs RtDispose = [Dispose]"
| "coord_inputs (RtEnvironment i) = (if environment i then [i] else [])"
| "coord_inputs i = []"

fun coord_effect_of :: "runtime_effect \<Rightarrow> coord_effect option" where
  "coord_effect_of (CoordEffect e) = Some e"
| "coord_effect_of e = None"

definition coord_effects :: "runtime_effect list \<Rightarrow> coord_effect list" where
  "coord_effects effs = List.map_filter coord_effect_of effs"

lemma coord_effects_simps [simp]:
  "coord_effects [] = []"
  "coord_effects (e # effs) = (case coord_effect_of e of Some c \<Rightarrow> [c] | None \<Rightarrow> []) @ coord_effects effs"
  by (simp_all add: coord_effects_def map_filter_simps split: option.split)

lemma coord_effects_append [simp]: "coord_effects (xs @ ys) = coord_effects xs @ coord_effects ys"
  by (induction xs) simp_all

lemma coord_effects_map [simp]: "coord_effects (map CoordEffect effs) = effs"
  by (induction effs) simp_all

fun runtime_run :: "coord_config \<Rightarrow> runtime_state \<Rightarrow> runtime_input list \<Rightarrow> runtime_outcome" where
  "runtime_run cfg s [] = (s, [])"
| "runtime_run cfg s (i # is) =
     (case runtime_react cfg s i of
        (s1, e1) \<Rightarrow> (case runtime_run cfg s1 is of (s2, e2) \<Rightarrow> (s2, e1 @ e2)))"

lemma coord_run_append:
  "coord_run cfg s (xs @ ys) = andThen (\<lambda>s. coord_run cfg s xs) (\<lambda>s. coord_run cfg s ys) s"
  by (induction xs arbitrary: s) (simp_all add: andThen_def split: prod.split)

definition disposed_agree :: "runtime_state \<Rightarrow> bool" where
  "disposed_agree s \<longleftrightarrow> rt_disposed s = co_disposed (rt_coord s)"

lemma setStatus_disposed: "co_disposed (fst (setStatus st s)) = co_disposed s"
  by simp

lemma handleFailure_disposed [simp]:
  "co_disposed (fst (handleFailure cfg err v p s)) = co_disposed s"
  by (simp add: handleFailure_def split: option.split)

lemma synchronize_disposed [simp]: "co_disposed (fst (synchronize cfg st s)) = co_disposed s"
  by (simp add: synchronize_def Let_def split: option.split)

lemma finishSync_disposed [simp]: "co_disposed (fst (finishSync v s)) = co_disposed s"
  by (simp add: finishSync_def)

lemma answered_disposed [simp]: "co_disposed (fst (answered v a os s)) = co_disposed s"
  by (simp add: answered_def afterConnect_def afterResume_def afterList_def afterSubscribe_def
      afterInvalidated_def split: option.split sync_stage.split)

lemma coord_disposed:
  "co_disposed (fst (coord_react cfg s i)) = (co_disposed s \<or> i = Dispose)"
proof (cases i)
  case (Start p)
  then show ?thesis by (simp add: startCoordinator_def split: option.split)
next
  case Dispose
  then show ?thesis by (simp add: disposeCoordinator_def)
qed (simp_all add: retryCoordinator_def timerFired_def connectionReported_def Let_def eventReported_def failed_def
      split: option.split)

lemma coord_disposed_parts [simp]:
  "co_disposed (fst (startCoordinator cfg p s)) = co_disposed s"
  "co_disposed (fst (retryCoordinator cfg s)) = co_disposed s"
  "co_disposed (fst (disposeCoordinator s))"
  using coord_disposed [of cfg s "Start p"] coord_disposed [of cfg s Retry] coord_disposed [of cfg s Dispose]
  by simp_all

text \<open>The definitions of the runtime's operations, and lookups of calls.\<close>

lemmas runtime_ops = startRuntime_def startReturned_def retryRuntime_def disposeRuntime_def pairRuntime_def
  pairAnswered_def pairFailed_def openSession_def openAnswered_def openFailed_def passRequest_def
  sendInput_def interrupt_def respondInteraction_def end_open_def drop_pair_def

lemma find_pair_mem: "find_pair n s = Some c \<Longrightarrow> c \<in> set (rt_pairs s) \<and> pc_call c = n"
  by (auto simp: find_pair_def find_Some_iff)

lemma find_open_mem: "find_open n s = Some c \<Longrightarrow> c \<in> set (rt_opens s) \<and> oc_call c = n"
  by (auto simp: find_open_def find_Some_iff)

lemma disposed_agree_react: "disposed_agree s \<Longrightarrow> disposed_agree (fst (runtime_react cfg s i))"
  by (cases i)
    (auto simp: disposed_agree_def runtime_ops Let_def coord_disposed case_prod_beta' split: option.split pair_stage.split)

lemma dispose_again: "co_disposed s \<Longrightarrow> disposeCoordinator s = (s, [])"
  by (simp add: disposeCoordinator_def)

lemma runtime_react_coord:
  assumes "disposed_agree s"
  shows "rt_coord (fst (runtime_react cfg s i)) = fst (coord_run cfg (rt_coord s) (coord_inputs i)) \<and>
         coord_effects (snd (runtime_react cfg s i)) = snd (coord_run cfg (rt_coord s) (coord_inputs i))"
  using assms
  by (cases i)
    (auto simp: disposed_agree_def runtime_ops Let_def dispose_again case_prod_beta'
      split: option.split pair_stage.split)

lemma runtime_run_coord:
  "disposed_agree s \<Longrightarrow>
   rt_coord (fst (runtime_run cfg s is)) = fst (coord_run cfg (rt_coord s) (concat (map coord_inputs is))) \<and>
   coord_effects (snd (runtime_run cfg s is)) = snd (coord_run cfg (rt_coord s) (concat (map coord_inputs is)))"
proof (induction "is" arbitrary: s)
  case (Cons i "is")
  let ?s1 = "fst (runtime_react cfg s i)"
  note hd = runtime_react_coord [OF Cons.prems, of cfg i]
  note tl = Cons.IH [OF disposed_agree_react [OF Cons.prems, of cfg i]]
  show ?case using hd tl by (simp add: coord_run_append case_prod_beta')
qed simp

text \<open>C35: The runtime is a refinement of the coordinator: whatever calls it gets and whatever the
  environment answers, its coordinator is in the state, and has done exactly the actions in exactly the
  order, of a coordinator that is given the corresponding calls and answers alone; so everything that
  is proved of the coordinator holds of it inside the runtime.\<close>

theorem runtime_refines_coordinator:
  "rt_coord (fst (runtime_run cfg initial_runtime is)) =
     fst (coord_run cfg initial_coord (concat (map coord_inputs is))) \<and>
   coord_effects (snd (runtime_run cfg initial_runtime is)) =
     snd (coord_run cfg initial_coord (concat (map coord_inputs is)))"
  using runtime_run_coord [of initial_runtime cfg "is"]
  by (simp add: disposed_agree_def initial_runtime_def initial_coord_def)

subsection \<open>Sessions being opened\<close>

definition opens_ok :: "runtime_state \<Rightarrow> bool" where
  "opens_ok s \<longleftrightarrow> distinct (map oc_call (rt_opens s)) \<and> (\<forall>c \<in> set (rt_opens s). oc_call c < rt_calls s) \<and>
     distinct (map oc_session (rt_opens s)) \<and> rt_subscribingSessionIds s = oc_session ` set (rt_opens s)"

definition pairs_ok :: "runtime_state \<Rightarrow> bool" where
  "pairs_ok s \<longleftrightarrow> distinct (map pc_call (rt_pairs s)) \<and> (\<forall>c \<in> set (rt_pairs s). pc_call c < rt_calls s)"

definition runtime_inv :: "runtime_state \<Rightarrow> bool" where
  "runtime_inv s \<longleftrightarrow> coord_inv (rt_coord s) \<and> disposed_agree s \<and> opens_ok s \<and> pairs_ok s"

lemma runtime_inv_initial: "runtime_inv initial_runtime"
  using coord_inv_initial
  by (simp add: runtime_inv_def disposed_agree_def opens_ok_def pairs_ok_def initial_runtime_def)
     (simp add: initial_coord_def)

lemma opens_ok_cong:
  "opens_ok s \<Longrightarrow> rt_opens s' = rt_opens s \<Longrightarrow> rt_subscribingSessionIds s' = rt_subscribingSessionIds s \<Longrightarrow>
   rt_calls s \<le> rt_calls s' \<Longrightarrow> opens_ok s'"
  by (auto simp: opens_ok_def)

lemma pairs_ok_cong:
  "pairs_ok s \<Longrightarrow> rt_pairs s' = rt_pairs s \<Longrightarrow> rt_calls s \<le> rt_calls s' \<Longrightarrow> pairs_ok s'"
  by (auto simp: pairs_ok_def)

lemma opens_ok_end:
  assumes "opens_ok s" and c: "c \<in> set (rt_opens s)"
  shows "opens_ok (end_open c s)"
proof -
  have d: "distinct (map oc_call (rt_opens s))" "distinct (map oc_session (rt_opens s))"
    using assms by (simp_all add: opens_ok_def)
  have "oc_call d \<noteq> oc_call c \<longleftrightarrow> oc_session d \<noteq> oc_session c" if "d \<in> set (rt_opens s)" for d
    using d c that by (metis distinct_map inj_onD)
  then have "oc_session ` {d \<in> set (rt_opens s). oc_call d \<noteq> oc_call c} =
      oc_session ` set (rt_opens s) - {oc_session c}" by (auto intro: rev_image_eqI)
  with d assms(1) show ?thesis
    by (simp add: opens_ok_def end_open_def distinct_map_filter)
qed

lemma opens_ok_add:
  assumes "opens_ok s" and "i \<notin> rt_subscribingSessionIds s"
    and "rt_opens s' = rt_opens s @ [\<lparr>oc_call = rt_calls s, oc_session = i\<rparr>]"
    and "rt_subscribingSessionIds s' = insert i (rt_subscribingSessionIds s)" and "rt_calls s' = Suc (rt_calls s)"
  shows "opens_ok s'"
  using assms by (auto simp: opens_ok_def less_Suc_eq)

lemma opens_ok_react: "opens_ok s \<Longrightarrow> opens_ok (fst (runtime_react cfg s i))"
proof (cases i)
  case (RtOpen sid opened)
  assume ok: "opens_ok s"
  with RtOpen show ?thesis
    by (simp add: openSession_def Let_def opens_ok_cong [OF ok] del: de_Morgan_disj) (intro impI opens_ok_add [OF ok, of sid]; simp)
next
  case (RtOpenAnswered n a)
  assume "opens_ok s"
  with RtOpenAnswered show ?thesis
    by (auto simp: openAnswered_def dest: find_open_mem intro: opens_ok_end split: option.split)
next
  case (RtOpenFailed n)
  assume "opens_ok s"
  with RtOpenFailed show ?thesis
    by (auto simp: openFailed_def dest: find_open_mem intro: opens_ok_end split: option.split)
qed (simp_all add: startRuntime_def startReturned_def retryRuntime_def disposeRuntime_def pairRuntime_def
      pairAnswered_def pairFailed_def passRequest_def sendInput_def interrupt_def respondInteraction_def
      drop_pair_def Let_def case_prod_beta' opens_ok_cong split: option.split pair_stage.split)

lemma pairs_ok_drop: "pairs_ok s \<Longrightarrow> pairs_ok (drop_pair n s)"
  by (auto simp: pairs_ok_def drop_pair_def distinct_map_filter)

lemma pairs_ok_react: "pairs_ok s \<Longrightarrow> pairs_ok (fst (runtime_react cfg s i))"
proof (cases i)
  case (RtPair req)
  assume "pairs_ok s"
  with RtPair show ?thesis by (auto simp: pairs_ok_def pairRuntime_def Let_def less_Suc_eq)
next
  case (RtPairAnswered n a)
  assume ok: "pairs_ok s"
  have "pairs_ok ((drop_pair n s)\<lparr>rt_pairs := rt_pairs (drop_pair n s) @ [c\<lparr>pc_stage := PairRequesting\<rparr>]\<rparr>)"
    if "find_pair n s = Some c" for c
    using pairs_ok_drop [OF ok, of n] find_pair_mem [OF that] ok by (auto simp: pairs_ok_def drop_pair_def)
  with RtPairAnswered pairs_ok_drop [OF ok] ok show ?thesis
    by (auto simp: pairAnswered_def split: option.split pair_stage.split)
next
  case (RtPairFailed n err)
  assume ok: "pairs_ok s"
  with RtPairFailed pairs_ok_drop [OF ok] show ?thesis by (simp add: pairFailed_def split: option.split)
qed (simp_all add: startRuntime_def startReturned_def retryRuntime_def disposeRuntime_def openSession_def openAnswered_def
      openFailed_def end_open_def passRequest_def sendInput_def interrupt_def respondInteraction_def
      Let_def case_prod_beta' pairs_ok_cong split: option.split)

lemma coord_run_inv: "coord_inv s \<Longrightarrow> coord_inv (fst (coord_run cfg s is))"
  using coord_step_inv by (induction "is" arbitrary: s) (simp_all add: coord_step_def)

lemma runtime_inv_react: "runtime_inv s \<Longrightarrow> runtime_inv (fst (runtime_react cfg s i))"
  using runtime_react_coord [of s cfg i] coord_run_inv [of "rt_coord s" cfg "coord_inputs i"]
  by (simp add: runtime_inv_def opens_ok_react pairs_ok_react disposed_agree_react)

interpretation mobile_runtime: machine "runtime_step cfg" runtime_inv for cfg
  by unfold_locales (simp add: runtime_step_def runtime_inv_react)

lemma runtime_reach_inv: "runtime_reach cfg s trace \<Longrightarrow> runtime_inv s"
  by (induction rule: runtime_reach.induct) (simp_all add: runtime_inv_initial runtime_inv_react)

text \<open>The runtime never asks twice for the same session: at any time the sessions with a
  subscription under way are different, they are exactly those it remembers, and opening a session asks
  for it if and only if the runtime is not disposed, the connection is online and no request for that
  session is under way.  Opening is recorded and shown in any case.\<close>

theorem single_subscription:
  assumes "runtime_reach cfg s trace"
  shows "distinct (map oc_session (rt_opens s)) \<and> rt_subscribingSessionIds s = oc_session ` set (rt_opens s) \<and>
         take 2 (snd (runtime_react cfg s (RtOpen i opened))) =
           [RtDispatch (SessionOpened (Some i)), NavigationPush (''/session/'' @ i)] \<and>
         (length (snd (runtime_react cfg s (RtOpen i opened))) = 3 \<longleftrightarrow>
            \<not> rt_disposed s \<and> co_status (rt_coord s) = StOnline \<and> i \<notin> oc_session ` set (rt_opens s))"
  using runtime_reach_inv [OF assms] by (auto simp: runtime_inv_def opens_ok_def openSession_def Let_def)

text \<open>The session that was opened last, read off what has been done.\<close>

fun opened_by :: "runtime_effect \<Rightarrow> string option" where
  "opened_by (RtDispatch (SessionOpened i)) = i"
| "opened_by e = None"

definition last_opened :: "runtime_effect list \<Rightarrow> string option" where
  "last_opened trace = foldl (\<lambda>acc e. case opened_by e of Some i \<Rightarrow> Some i | None \<Rightarrow> acc) None trace"

lemma last_opened_quiet:
  "list_all (\<lambda>e. opened_by e = None) effs \<Longrightarrow> last_opened (trace @ effs) = last_opened trace"
proof -
  have "list_all (\<lambda>e. opened_by e = None) effs \<Longrightarrow>
      foldl (\<lambda>acc e. case opened_by e of Some i \<Rightarrow> Some i | None \<Rightarrow> acc) x effs = x" for x
    by (induction effs) simp_all
  then show "list_all (\<lambda>e. opened_by e = None) effs \<Longrightarrow> last_opened (trace @ effs) = last_opened trace"
    by (simp add: last_opened_def)
qed

lemma quiet_coord [simp]: "list_all (\<lambda>e. opened_by e = None) (map CoordEffect effs)"
  by (simp add: list_all_iff)

definition asked :: "runtime_effect list \<Rightarrow> open_call \<Rightarrow> bool" where
  "asked trace c \<longleftrightarrow> (\<exists>rest. RuntimeRequest (oc_call c) ''session.subscribe''
      ((''sessionId'', JStr (oc_session c)) # rest) \<in> set trace)"

lemma asked_mono: "asked trace c \<Longrightarrow> asked (trace @ effs) c"
  by (auto simp: asked_def)

lemma asked_new: "RuntimeRequest n ''session.subscribe'' ((''sessionId'', JStr i) # rest) \<in> set effs \<Longrightarrow>
    asked (trace @ effs) \<lparr>oc_call = n, oc_session = i\<rparr>"
  by (auto simp: asked_def)

lemma react_opens:
  "c \<in> set (rt_opens (fst (runtime_react cfg s i))) \<Longrightarrow> c \<in> set (rt_opens s) \<or> asked (snd (runtime_react cfg s i)) c"
proof (cases i)
  case (RtOpen sid opened)
  then show "c \<in> set (rt_opens (fst (runtime_react cfg s i))) \<Longrightarrow>
      c \<in> set (rt_opens s) \<or> asked (snd (runtime_react cfg s i)) c"
    by (auto simp: openSession_def Let_def asked_def)
qed (auto simp: startRuntime_def startReturned_def retryRuntime_def disposeRuntime_def pairRuntime_def
      pairAnswered_def pairFailed_def openAnswered_def openFailed_def end_open_def passRequest_def sendInput_def
      interrupt_def respondInteraction_def drop_pair_def Let_def case_prod_beta' split: option.splits pair_stage.splits)

lemma react_latest:
  "rt_latestOpenSessionId (fst (runtime_react cfg s i)) =
     (case i of RtOpen sid opened \<Rightarrow> Some sid | _ \<Rightarrow> rt_latestOpenSessionId s)"
  by (cases i) (simp_all add: runtime_ops Let_def case_prod_beta' split: option.split pair_stage.split)

lemma react_opened:
  "last_opened (trace @ snd (runtime_react cfg s i)) =
     (case i of RtOpen sid opened \<Rightarrow> Some sid | _ \<Rightarrow> last_opened trace)"
proof (cases i)
  case (RtOpen sid opened)
  then show ?thesis by (simp add: openSession_def Let_def last_opened_def)
qed (simp_all add: runtime_ops Let_def case_prod_beta' last_opened_quiet split: option.split pair_stage.split)

lemma reach_opens:
  "runtime_reach cfg s trace \<Longrightarrow>
   rt_latestOpenSessionId s = last_opened trace \<and> (\<forall>c \<in> set (rt_opens s). asked trace c)"
proof (induction rule: runtime_reach.induct)
  case rt_start
  show ?case by (simp add: initial_runtime_def last_opened_def)
next
  case (rt_react s trace i)
  have "asked (trace @ snd (runtime_react cfg s i)) c" if "c \<in> set (rt_opens (fst (runtime_react cfg s i)))" for c
    using react_opens [OF that] rt_react.IH by (auto intro: asked_mono simp: asked_def)
  with rt_react.IH show ?case by (simp add: react_latest react_opened split: runtime_input.split)
qed


subsection \<open>Pairings\<close>

fun pair_settles :: "runtime_effect \<Rightarrow> nat option" where
  "pair_settles (PairResolved n a) = Some n"
| "pair_settles (PairRejected n err) = Some n"
| "pair_settles e = None"

fun pair_starts :: "runtime_effect \<Rightarrow> nat option" where
  "pair_starts (PairingConnect n url) = Some n"
| "pair_starts e = None"

text \<open>Every settling is directly after a close of the pairing client; \<open>closed\<close> says that the effect
  before the list was one.\<close>

fun settles_closed :: "bool \<Rightarrow> runtime_effect list \<Rightarrow> bool" where
  "settles_closed closed [] = True"
| "settles_closed closed (e # es) =
     ((pair_settles e \<noteq> None \<longrightarrow> closed) \<and> settles_closed (e = PairingClose) es)"

lemma settles_closed_mono: "settles_closed False es \<Longrightarrow> settles_closed b es"
  by (cases es) auto

lemma settles_closed_append: "settles_closed b xs \<Longrightarrow> settles_closed False ys \<Longrightarrow> settles_closed b (xs @ ys)"
  by (induction xs arbitrary: b) (auto intro: settles_closed_mono)

lemma settles_closed_quiet: "list_all (\<lambda>e. pair_settles e = None) es \<Longrightarrow> settles_closed b es"
  by (induction es arbitrary: b) auto

lemma settles_closed_coord [simp]: "settles_closed b (map CoordEffect es @ xs) = (if es = [] then settles_closed b xs else settles_closed False xs)"
  by (induction es arbitrary: b) auto

lemma react_closed: "settles_closed False (snd (runtime_react cfg s i))"
proof (cases i)
  case RtDispose
  then show ?thesis by (simp add: disposeRuntime_def case_prod_beta' settles_closed_append settles_closed_quiet list_all_iff)
qed (simp_all add: startRuntime_def startReturned_def retryRuntime_def pairRuntime_def pairAnswered_def pairFailed_def
      openSession_def openAnswered_def openFailed_def passRequest_def sendInput_def interrupt_def
      respondInteraction_def Let_def settles_closed_quiet list_all_iff split: option.split pair_stage.split)

definition pair_settled :: "runtime_effect list \<Rightarrow> nat list" where
  "pair_settled trace = List.map_filter pair_settles trace"

definition pair_started :: "runtime_effect list \<Rightarrow> nat set" where
  "pair_started trace = {n. \<exists>url. PairingConnect n url \<in> set trace}"

lemma pair_settled_simps [simp]:
  "pair_settled [] = []"
  "pair_settled (e # es) = (case pair_settles e of Some n \<Rightarrow> [n] | None \<Rightarrow> []) @ pair_settled es"
  by (simp_all add: pair_settled_def map_filter_simps split: option.split)

lemma pair_settled_append [simp]: "pair_settled (xs @ ys) = pair_settled xs @ pair_settled ys"
  by (induction xs) simp_all

lemma pair_settled_coord [simp]: "pair_settled (map CoordEffect es) = []"
  by (induction es) simp_all

lemma pair_started_simps [simp]:
  "pair_started [] = {}"
  "pair_started (e # es) = set_option (pair_starts e) \<union> pair_started es"
  by (cases e; auto simp: pair_started_def)+

lemma pair_started_append [simp]: "pair_started (xs @ ys) = pair_started xs \<union> pair_started ys"
  by (auto simp: pair_started_def)

lemma pair_started_coord [simp]: "pair_started (map CoordEffect es) = {}"
  by (auto simp: pair_started_def)

definition pairs_account :: "runtime_state \<Rightarrow> runtime_effect list \<Rightarrow> bool" where
  "pairs_account s trace \<longleftrightarrow> distinct (pair_settled trace) \<and>
     pair_started trace = set (pair_settled trace) \<union> pc_call ` set (rt_pairs s) \<and>
     set (pair_settled trace) \<inter> pc_call ` set (rt_pairs s) = {} \<and>
     (\<forall>n \<in> pair_started trace. n < rt_calls s) \<and> distinct (map pc_call (rt_pairs s))"

lemma pairs_account_cong:
  "pairs_account s trace \<Longrightarrow> rt_pairs s' = rt_pairs s \<Longrightarrow> rt_calls s \<le> rt_calls s' \<Longrightarrow>
   pair_settled effs = [] \<Longrightarrow> pair_started effs = {} \<Longrightarrow> pairs_account s' (trace @ effs)"
  by (simp add: pairs_account_def) (blast intro: less_le_trans)

lemma drop_pair_calls: "pc_call ` set (rt_pairs (drop_pair n s)) = pc_call ` set (rt_pairs s) - {n}"
  by (auto simp: drop_pair_def)

lemma pairs_account_settle:
  assumes "pairs_account s trace" and "find_pair n s = Some c"
    and "pair_settled effs = [n]" and "pair_started effs = {}"
  shows "pairs_account (drop_pair n s) (trace @ effs)"
proof -
  have "n \<in> pc_call ` set (rt_pairs s)" using find_pair_mem [OF assms(2)] by auto
  moreover have "rt_calls (drop_pair n s) = rt_calls s" "distinct (map pc_call (rt_pairs (drop_pair n s)))"
    using assms(1) by (simp_all add: drop_pair_def pairs_account_def distinct_map_filter)
  ultimately show ?thesis using assms unfolding pairs_account_def drop_pair_calls by auto
qed

lemma pairs_account_stage:
  assumes "pairs_account s trace" and "find_pair n s = Some c"
  shows "pairs_account ((drop_pair n s)\<lparr>rt_pairs := rt_pairs (drop_pair n s) @ [c\<lparr>pc_stage := st\<rparr>]\<rparr>)
           (trace @ [PairingSend n m ps])"
proof -
  have c: "n \<in> pc_call ` set (rt_pairs s)" "pc_call c = n" using find_pair_mem [OF assms(2)] by auto
  have "distinct (map pc_call (rt_pairs (drop_pair n s)))" "n \<notin> pc_call ` set (rt_pairs (drop_pair n s))"
    using assms(1) by (auto simp: drop_pair_def pairs_account_def distinct_map_filter)
  moreover have "rt_calls (drop_pair n s) = rt_calls s" by (simp add: drop_pair_def)
  moreover have "pc_call ` set (rt_pairs (drop_pair n s) @ [c\<lparr>pc_stage := st\<rparr>]) = pc_call ` set (rt_pairs s)"
    using c drop_pair_calls [of n s] by auto
  ultimately show ?thesis using assms(1) c unfolding pairs_account_def by simp
qed

lemma pairs_account_react:
  assumes "pairs_account s trace"
  shows "pairs_account (fst (runtime_react cfg s i)) (trace @ snd (runtime_react cfg s i))"
proof (cases i)
  case (RtPair req)
  with assms show ?thesis by (auto simp: pairs_account_def pairRuntime_def Let_def less_Suc_eq)
next
  case (RtPairAnswered n a)
  with assms pairs_account_settle [OF assms, of n] pairs_account_stage [OF assms, of n] show ?thesis
    by (simp add: pairAnswered_def split: option.split pair_stage.split)
next
  case (RtPairFailed n err)
  with assms pairs_account_settle [OF assms, of n] show ?thesis
    by (simp add: pairFailed_def split: option.split)
qed (use assms in \<open>simp_all add: startRuntime_def startReturned_def retryRuntime_def disposeRuntime_def openSession_def
      openAnswered_def openFailed_def end_open_def passRequest_def sendInput_def interrupt_def respondInteraction_def
      Let_def case_prod_beta' pairs_account_cong [OF assms] split: option.split\<close>)

lemma reach_pairs:
  "runtime_reach cfg s trace \<Longrightarrow> pairs_account s trace \<and> settles_closed False trace"
  by (induction rule: runtime_reach.induct)
    (simp_all add: pairs_account_react settles_closed_append react_closed,
     simp add: pairs_account_def initial_runtime_def)

text \<open>However a pairing goes, its promise settles at most once; until then the call is under way;
  and at every settling, by success or by failure of either step, the pairing client has been closed
  just before.\<close>

theorem pairing_client_closed:
  assumes "runtime_reach cfg s trace"
  shows "distinct (pair_settled trace) \<and>
         pair_started trace = set (pair_settled trace) \<union> pc_call ` set (rt_pairs s) \<and>
         set (pair_settled trace) \<inter> pc_call ` set (rt_pairs s) = {} \<and>
         settles_closed False trace"
  using reach_pairs [OF assms] by (simp add: pairs_account_def)

subsection \<open>Examples\<close>

definition opening_inputs :: "pairing_profile \<Rightarrow> runtime_input list" where
  "opening_inputs p = [RtStart (Some p), RtEnvironment (Answered 1 [] None), RtEnvironment (Answered 1 [] None),
     RtEnvironment (Answered 1 [] None), RtOpen ''a'' None]"

definition cfg_runtime :: coord_config where
  "cfg_runtime = \<lparr>cfg_reconnectDelayMs = None, cfg_closeReports = False\<rparr>"

lemma runtime_run_reach: "runtime_reach cfg s trace \<Longrightarrow>
    runtime_reach cfg (fst (runtime_run cfg s is)) (trace @ snd (runtime_run cfg s is))"
proof (induction "is" arbitrary: s trace)
  case (Cons i "is")
  from Cons.IH [OF rt_react [OF Cons.prems, of i]] show ?case by (simp add: case_prod_beta')
qed simp

lemma initial_run_reach: "runtime_reach cfg (fst (runtime_run cfg initial_runtime is)) (snd (runtime_run cfg initial_runtime is))"
  using runtime_run_reach [OF rt_start] by simp

lemma opening_state:
  "co_status (rt_coord (fst (runtime_run cfg_runtime initial_runtime (opening_inputs sample_profile)))) = StOnline"
  "rt_opens (fst (runtime_run cfg_runtime initial_runtime (opening_inputs sample_profile))) =
     [\<lparr>oc_call = 0, oc_session = ''a''\<rparr>]"
  "rt_disposed (fst (runtime_run cfg_runtime initial_runtime (opening_inputs sample_profile))) = False"
  "rt_latestOpenSessionId (fst (runtime_run cfg_runtime initial_runtime (opening_inputs sample_profile))) = Some ''a''"
  by (simp_all add: opening_inputs_def case_prod_beta' startRuntime_def openSession_def Let_def sync_defs
      negotiatedCapabilities_def setCapabilities_def initial_runtime_def)

theorem single_subscription_witness:
  "length (snd (runtime_react cfg_runtime
     (fst (runtime_run cfg_runtime initial_runtime (opening_inputs sample_profile))) (RtOpen ''b'' None))) = 3"
  using single_subscription [OF initial_run_reach, of cfg_runtime "opening_inputs sample_profile" "''b''" None]
  by (simp add: opening_state del: runtime_run.simps runtime_react.simps)


definition pairing_inputs :: "runtime_input list" where
  "pairing_inputs = [RtPair \<lparr>tr_relayWsUrl = ''u'', tr_desktopId = ''d'', tr_pairingCode = ''c'', tr_mobileDevice = JNull\<rparr>,
     RtPairAnswered 0 [], RtPairFailed 0 ConnectionClosed]"

theorem pairing_client_closed_witness:
  "settles_closed False (snd (runtime_run cfg_runtime initial_runtime pairing_inputs)) \<and>
   pair_settled (snd (runtime_run cfg_runtime initial_runtime pairing_inputs)) = [0]"
proof -
  have "pair_settled (snd (runtime_run cfg_runtime initial_runtime pairing_inputs)) = [0]"
    by (simp add: pairing_inputs_def case_prod_beta' pairRuntime_def pairAnswered_def pairFailed_def find_pair_def
        drop_pair_def initial_runtime_def)
  with pairing_client_closed [OF initial_run_reach, of cfg_runtime pairing_inputs] show ?thesis by blast
qed

end
