(* ===== verification/App_Provider.thy ===== *)
theory App_Provider
  imports Runtime_Props Session_Invariant
begin

section \<open>The app's provider (apps/mobile/src/application/AppProvider.tsx, useApp.ts)\<close>

text \<open>
  \<open>AppProvider\<close> puts the parts of the app together: the reducer's state, the runtime, the pairing
  repository and the navigation.  Its hooks are the state: what \<open>useReducer\<close> and \<open>useState\<close> hold after
  all updates so far, and the references.  \<open>ap_rendered\<close> is what \<open>sessionStateRef\<close> holds, which is
  assigned when the component renders.  The callbacks that the runtime is given are run on the runtime's
  effects in their order; the other effects go on to the clients and the timers.  Operations of the
  secure storage end in a later turn; the counters say which are under way.
\<close>

datatype app_status =
    AppIdle | AppReconnecting | AppResyncing | AppOnline | AppOffline | AppRecovery | AppPairingRequired

datatype bootstrap_status = BootLoading | BootReady

datatype app_effect =
    NavReplace string
  | NavPush string
  | StoreClear
  | StoreSave jobj
  | RuntimeOut runtime_effect

record app_state =
  ap_sessionState :: session_state
  ap_rendered :: session_state
  ap_profile :: "pairing_profile option"
  ap_bootstrapStatus :: bootstrap_status
  ap_connectionStatus :: app_status
  ap_hasLoadedSessionList :: bool
  ap_negotiatedCapabilities :: "string set option"
  ap_exitRecoveryOnOnline :: bool
  ap_active :: bool
  ap_runtime :: runtime_state
  ap_storage :: storage
  ap_clears :: nat
  ap_saves :: "jobj list"
  ap_clearReturned :: nat

type_synonym app_outcome = "app_state \<times> app_effect list"

definition initial_app :: "storage \<Rightarrow> app_state" where
  "initial_app st =
     \<lparr>ap_sessionState = createInitialSessionState, ap_rendered = createInitialSessionState, ap_profile = None,
      ap_bootstrapStatus = BootLoading, ap_connectionStatus = AppIdle, ap_hasLoadedSessionList = False,
      ap_negotiatedCapabilities = None, ap_exitRecoveryOnOnline = False, ap_active = True,
      ap_runtime = initial_runtime, ap_storage = st, ap_clears = 0, ap_saves = [], ap_clearReturned = 0\<rparr>"

subsection \<open>The callbacks that the runtime is given\<close>

definition appDispatch :: "session_action \<Rightarrow> app_state \<Rightarrow> app_state" where
  "appDispatch a s =
     (let s1 = s\<lparr>ap_sessionState := sessionReducer (ap_sessionState s) a\<rparr>
      in case a of SessionListReceived xs \<Rightarrow> s1\<lparr>ap_hasLoadedSessionList := True\<rparr> | _ \<Rightarrow> s1)"

definition getOpenSession :: "app_state \<Rightarrow> (string \<times> int option) option" where
  "getOpenSession s =
     (case openSessionId (ap_rendered s) of
        None \<Rightarrow> None
      | Some sessionId \<Rightarrow>
          if sessionId = [] then None
          else Some (sessionId, map_option tb_lastSeq (terminalBySessionId (ap_rendered s) sessionId)))"

fun appStatus :: "coord_status \<Rightarrow> app_status" where
  "appStatus StConnecting = AppReconnecting"
| "appStatus StIdle = AppIdle"
| "appStatus StOnline = AppOnline"
| "appStatus StReconnecting = AppReconnecting"
| "appStatus StResyncing = AppResyncing"
| "appStatus StRecovery = AppRecovery"
| "appStatus StPairingRequired = AppPairingRequired"

definition onStatusChange :: "coord_status \<Rightarrow> app_state \<Rightarrow> app_outcome" where
  "onStatusChange status s =
     (let s1 = s\<lparr>ap_connectionStatus := appStatus status\<rparr>
      in if status = StRecovery then (s1\<lparr>ap_exitRecoveryOnOnline := True\<rparr>, [NavReplace ''/recovery''])
         else if status = StPairingRequired
              then (s1\<lparr>ap_exitRecoveryOnOnline := False\<rparr>, [NavReplace ''/pairing''])
         else if status = StOnline \<and> ap_exitRecoveryOnOnline s1
              then (s1\<lparr>ap_exitRecoveryOnOnline := False\<rparr>, [NavReplace ''/(tabs)/inbox''])
         else (s1, []))"

text \<open>\<open>onProfileInvalidated\<close> up to its \<open>await\<close>; what follows is \<open>storeCleared\<close>.\<close>

definition onProfileInvalidated :: "app_state \<Rightarrow> app_outcome" where
  "onProfileInvalidated s = (s\<lparr>ap_clears := Suc (ap_clears s)\<rparr>, [StoreClear])"

fun onEffect :: "runtime_effect \<Rightarrow> app_state \<Rightarrow> app_outcome" where
  "onEffect (CoordEffect (StatusChanged st)) s = onStatusChange st s"
| "onEffect (CoordEffect (CapabilitiesChanged c)) s = (s\<lparr>ap_negotiatedCapabilities := c\<rparr>, [])"
| "onEffect (CoordEffect (DispatchAction a)) s = (appDispatch a s, [])"
| "onEffect (CoordEffect (ProfileInvalidated p)) s = onProfileInvalidated s"
| "onEffect (RtDispatch a) s = (appDispatch a s, [])"
| "onEffect (NavigationPush path) s = (s, [NavPush path])"
| "onEffect e s = (s, [RuntimeOut e])"

fun onEffects :: "runtime_effect list \<Rightarrow> app_state \<Rightarrow> app_outcome" where
  "onEffects [] s = (s, [])"
| "onEffects (e # es) s =
     (case onEffect e s of (s1, e1) \<Rightarrow> (case onEffects es s1 of (s2, e2) \<Rightarrow> (s2, e1 @ e2)))"

text \<open>A turn of the runtime inside the app.\<close>

definition with_runtime :: "coord_config \<Rightarrow> runtime_input \<Rightarrow> app_state \<Rightarrow> app_outcome" where
  "with_runtime cfg i s =
     (case runtime_react cfg (ap_runtime s) i of (r, effs) \<Rightarrow> onEffects effs (s\<lparr>ap_runtime := r\<rparr>))"

subsection \<open>Starting\<close>

text \<open>The effect that restores the profile, when \<open>profileRepository.get()\<close> has answered.\<close>

definition restored :: "coord_config \<Rightarrow> pairing_profile option \<Rightarrow> app_state \<Rightarrow> app_outcome" where
  "restored cfg p s =
     (if \<not> ap_active s then (s, [])
      else
        (let s1 = s\<lparr>ap_profile := p, ap_connectionStatus := (if p \<noteq> None then AppReconnecting else AppIdle),
                    ap_bootstrapStatus := BootReady\<rparr>;
             nav = NavReplace (if p \<noteq> None then ''/(tabs)/inbox'' else ''/pairing'')
         in case p of
              None \<Rightarrow> (s1, [nav])
            | Some q \<Rightarrow> (case with_runtime cfg (RtStart (Some q)) s1 of (s2, e2) \<Rightarrow> (s2, nav # e2))))"

definition restoreFailed :: "app_state \<Rightarrow> app_outcome" where
  "restoreFailed s =
     (if \<not> ap_active s then (s, [])
      else (s\<lparr>ap_profile := None, ap_connectionStatus := AppIdle, ap_bootstrapStatus := BootReady\<rparr>,
            [NavReplace ''/pairing'']))"

text \<open>The clean-up functions of both effects.\<close>

definition unmounted :: "coord_config \<Rightarrow> app_state \<Rightarrow> app_outcome" where
  "unmounted cfg s = with_runtime cfg RtDispose (s\<lparr>ap_active := False\<rparr>)"

subsection \<open>The context's functions\<close>

definition onPaired :: "coord_config \<Rightarrow> pairing_profile \<Rightarrow> app_state \<Rightarrow> app_outcome" where
  "onPaired cfg p s =
     (case with_runtime cfg (RtStart (Some p)) (s\<lparr>ap_profile := Some p, ap_connectionStatus := AppReconnecting\<rparr>) of
        (s1, e1) \<Rightarrow> (s1, NavReplace ''/(tabs)/inbox'' # e1))"

definition dismissAttention :: "string \<Rightarrow> app_state \<Rightarrow> app_outcome" where
  "dismissAttention key s =
     (s\<lparr>ap_sessionState := sessionReducer (ap_sessionState s) (AttentionDismissed key)\<rparr>, [])"

definition openSessionDetail :: "coord_config \<Rightarrow> string \<Rightarrow> app_state \<Rightarrow> app_outcome" where
  "openSessionDetail cfg sessionId s = with_runtime cfg (RtOpen sessionId (getOpenSession s)) s"

definition pairAnotherComputer :: "app_state \<Rightarrow> app_outcome" where
  "pairAnotherComputer s = (s, [NavPush ''/pairing''])"

definition saveProfile :: "jobj \<Rightarrow> app_state \<Rightarrow> app_outcome" where
  "saveProfile p s = (s\<lparr>ap_saves := ap_saves s @ [p]\<rparr>, [StoreSave p])"

text \<open>\<open>clearPairing\<close> waits for \<open>runtime.start(null)\<close>, then for the storage.\<close>

definition clearPairing :: "coord_config \<Rightarrow> app_state \<Rightarrow> app_outcome" where
  "clearPairing cfg s = with_runtime cfg (RtStart None) s"

definition startReturnedApp :: "coord_config \<Rightarrow> app_state \<Rightarrow> app_outcome" where
  "startReturnedApp cfg s =
     with_runtime cfg RtStartReturned
       (if rt_closing (ap_runtime s) = 0 then s else s\<lparr>ap_clearReturned := Suc (ap_clearReturned s)\<rparr>)"

definition clearContinues :: "app_state \<Rightarrow> app_outcome" where
  "clearContinues s =
     (if ap_clearReturned s = 0 then (s, [])
      else (s\<lparr>ap_clearReturned := ap_clearReturned s - 1, ap_clears := Suc (ap_clears s)\<rparr>, [StoreClear]))"

text \<open>The storage has done what it was asked, or has failed; then both \<open>onProfileInvalidated\<close> and
  \<open>clearPairing\<close> go on with \<open>setProfile(null)\<close>.\<close>

definition storeCleared :: "app_state \<Rightarrow> app_outcome" where
  "storeCleared s =
     (if ap_clears s = 0 then (s, [])
      else (s\<lparr>ap_clears := ap_clears s - 1, ap_storage := repository_clear (ap_storage s), ap_profile := None\<rparr>, []))"

definition storeClearFailed :: "app_state \<Rightarrow> app_outcome" where
  "storeClearFailed s = (s\<lparr>ap_clears := ap_clears s - 1\<rparr>, [])"

definition storeSaved :: "url_parser \<Rightarrow> (json \<Rightarrow> string) \<Rightarrow> app_state \<Rightarrow> app_outcome" where
  "storeSaved url jstringify s =
     (case ap_saves s of
        [] \<Rightarrow> (s, [])
      | p # ps \<Rightarrow> (s\<lparr>ap_saves := ps, ap_storage := fst (repository_replace url jstringify p (ap_storage s))\<rparr>, []))"

text \<open>\<open>useApp\<close> outside the provider raises.\<close>

definition useApp :: "'v option \<Rightarrow> string + 'v" where
  "useApp v = (case v of None \<Rightarrow> Inl ''useApp must be used inside AppProvider'' | Some app \<Rightarrow> Inr app)"

subsection \<open>Turns of the event loop\<close>

datatype app_input =
    Restored "pairing_profile option"
  | RestoreFailed
  | Rendered
  | Unmounted
  | UiPaired pairing_profile
  | UiSaveProfile jobj
  | UiDismiss string
  | UiOpenSession string
  | UiRetry
  | UiPairAnother
  | UiClearPairing
  | UiRuntime runtime_input
  | StartReturned
  | ClearContinues
  | StoreCleared
  | StoreClearFailed
  | StoreSaved
  | CoordAnswered nat jobj
  | OutsideRuntime runtime_input

text \<open>Requests that the screens pass on, and what the clients and timers report.\<close>

fun passed_on :: "runtime_input \<Rightarrow> bool" where
  "passed_on (RtPair req) = True"
| "passed_on (RtSendInput ps) = True"
| "passed_on (RtInterrupt ps) = True"
| "passed_on (RtRespond ps) = True"
| "passed_on i = False"

fun from_outside :: "runtime_input \<Rightarrow> bool" where
  "from_outside (RtPairAnswered n a) = True"
| "from_outside (RtPairFailed n err) = True"
| "from_outside (RtOpenAnswered n a) = True"
| "from_outside (RtOpenFailed n) = True"
| "from_outside (RtEnvironment (Answered v a os)) = False"
| "from_outside (RtEnvironment i) = True"
| "from_outside i = False"

fun app_react :: "coord_config \<Rightarrow> url_parser \<Rightarrow> (json \<Rightarrow> string) \<Rightarrow> app_state \<Rightarrow> app_input \<Rightarrow> app_outcome" where
  "app_react cfg url js s (Restored p) = restored cfg p s"
| "app_react cfg url js s RestoreFailed = restoreFailed s"
| "app_react cfg url js s Rendered = (s\<lparr>ap_rendered := ap_sessionState s\<rparr>, [])"
| "app_react cfg url js s Unmounted = unmounted cfg s"
| "app_react cfg url js s (UiPaired p) = onPaired cfg p s"
| "app_react cfg url js s (UiSaveProfile p) = saveProfile p s"
| "app_react cfg url js s (UiDismiss key) = dismissAttention key s"
| "app_react cfg url js s (UiOpenSession i) = openSessionDetail cfg i s"
| "app_react cfg url js s UiRetry = with_runtime cfg RtRetry s"
| "app_react cfg url js s UiPairAnother = pairAnotherComputer s"
| "app_react cfg url js s UiClearPairing = clearPairing cfg s"
| "app_react cfg url js s (UiRuntime i) = (if passed_on i then with_runtime cfg i s else (s, []))"
| "app_react cfg url js s StartReturned = startReturnedApp cfg s"
| "app_react cfg url js s ClearContinues = clearContinues s"
| "app_react cfg url js s StoreCleared = storeCleared s"
| "app_react cfg url js s StoreClearFailed = storeClearFailed s"
| "app_react cfg url js s StoreSaved = storeSaved url js s"
| "app_react cfg url js s (CoordAnswered v a) =
     with_runtime cfg (RtEnvironment (Answered v a (getOpenSession s))) s"
| "app_react cfg url js s (OutsideRuntime i) = (if from_outside i then with_runtime cfg i s else (s, []))"

text \<open>What the surroundings guarantee: the stored profile is restored once, and the screens that call
  the context's functions are shown only after that (before it there is the splash screen).\<close>

fun app_possible :: "app_state \<Rightarrow> app_input \<Rightarrow> bool" where
  "app_possible s (Restored p) = (ap_bootstrapStatus s = BootLoading)"
| "app_possible s RestoreFailed = (ap_bootstrapStatus s = BootLoading)"
| "app_possible s (UiPaired p) = (ap_bootstrapStatus s = BootReady \<and> ap_active s)"
| "app_possible s UiClearPairing = (ap_bootstrapStatus s = BootReady)"
| "app_possible s i = True"

inductive app_reach :: "coord_config \<Rightarrow> url_parser \<Rightarrow> (json \<Rightarrow> string) \<Rightarrow> storage \<Rightarrow> app_state \<Rightarrow> app_effect list \<Rightarrow> bool"
  for cfg url js st where
  ap_start: "app_reach cfg url js st (initial_app st) []"
| ap_react: "app_reach cfg url js st s trace \<Longrightarrow> app_possible s i \<Longrightarrow>
    app_reach cfg url js st (fst (app_react cfg url js s i)) (trace @ snd (app_react cfg url js s i))"

inductive_cases app_reachE: "app_reach cfg url js st s trace"

end
