(* ===== verification/App_Props.thy ===== *)
theory App_Props
  imports App_Provider
begin

section \<open>What the app guarantees\<close>

text \<open>
  The parts that the provider puts together agree: what the screens see of the connection is what the
  coordinator has, the state behind them is always consistent, and the connection is online only when
  the list of sessions has been loaded.
\<close>

subsection \<open>What the coordinator has reported\<close>

fun reported_status :: "coord_effect \<Rightarrow> coord_status option" where
  "reported_status (StatusChanged st) = Some st"
| "reported_status e = None"

fun caps_of :: "coord_effect \<Rightarrow> string set option option" where
  "caps_of (CapabilitiesChanged c) = Some c"
| "caps_of e = None"

definition newest :: "('e \<Rightarrow> 'v option) \<Rightarrow> 'v \<Rightarrow> 'e list \<Rightarrow> 'v" where
  "newest f v effs = foldl (\<lambda>v e. case f e of Some w \<Rightarrow> w | None \<Rightarrow> v) v effs"

lemma newest_simps [simp]:
  "newest f v [] = v"
  "newest f v (e # effs) = newest f (case f e of Some w \<Rightarrow> w | None \<Rightarrow> v) effs"
  "newest f v (xs @ ys) = newest f (newest f v xs) ys"
  by (simp_all add: newest_def)

lemma newest_quiet: "list_all (\<lambda>e. f e = None) effs \<Longrightarrow> newest f v effs = v"
  by (induction effs arbitrary: v) auto

lemma newest_any: "e \<in> set effs \<Longrightarrow> f e \<noteq> None \<Longrightarrow> newest f v effs = newest f w effs"
proof (induction effs arbitrary: v w)
  case (Cons a effs)
  show ?case
  proof (cases "f a")
    case None
    with Cons.prems have "e \<in> set effs" by auto
    with Cons.IH [OF this Cons.prems(2)] None show ?thesis by simp
  qed simp
qed simp

text \<open>An outcome, reached from \<open>s\<close>, that reports every change of the status and of the capabilities.\<close>

definition told :: "coord_state \<Rightarrow> coord_outcome \<Rightarrow> bool" where
  "told s r \<longleftrightarrow> newest reported_status (co_status s) (snd r) = co_status (fst r) \<and>
                newest caps_of (co_capabilities s) (snd r) = co_capabilities (fst r)"

named_theorems telling \<open>operations of the coordinator that report their changes\<close>

lemma toldD:
  "told s r \<Longrightarrow> newest reported_status (co_status s) (snd r) = co_status (fst r)"
  "told s r \<Longrightarrow> newest caps_of (co_capabilities s) (snd r) = co_capabilities (fst r)"
  by (simp_all add: told_def)

lemma told_andThen [telling]:
  "told s (f s') \<Longrightarrow> told (fst (f s')) (g (fst (f s'))) \<Longrightarrow> told s (andThen f g s')"
  by (simp add: told_def)

lemma told_same [telling]:
  "co_status s' = co_status s \<Longrightarrow> co_capabilities s' = co_capabilities s \<Longrightarrow> told s (s', [])"
  by (simp add: told_def)

lemma told_cong:
  "told s' r \<Longrightarrow> co_status s' = co_status s \<Longrightarrow> co_capabilities s' = co_capabilities s \<Longrightarrow> told s r"
  by (simp add: told_def)

lemma told_if [telling]: "(b \<Longrightarrow> told s x) \<Longrightarrow> (\<not> b \<Longrightarrow> told s y) \<Longrightarrow> told s (if b then x else y)"
  by simp

lemma told_setStatus [telling]: "told s (setStatus st s)"
  by (simp add: told_def setStatus_def)

lemma told_setCapabilities [telling]: "told s (setCapabilities c s)"
  by (simp add: told_def setCapabilities_def split: option.split)

lemma told_clear [telling]:
  "co_status s' = co_status s \<Longrightarrow> told s (clearCapabilities s')"
  by (simp add: told_def clearCapabilities_def)

lemma told_cancel [telling]:
  "co_status s' = co_status s \<Longrightarrow> co_capabilities s' = co_capabilities s \<Longrightarrow> told s (cancelReconnect s')"
  by (simp add: told_def cancelReconnect_def split: option.split)

lemma told_arm [telling]: "told s (armReconnect cfg s)"
  by (simp add: told_def armReconnect_def)

lemma told_await [telling]:
  "list_all (\<lambda>e. reported_status e = None \<and> caps_of e = None) effs \<Longrightarrow> told s (await v p st effs s)"
  by (simp add: told_def await_def newest_quiet list_all_iff)

lemma told_schedule [telling]: "told s (scheduleReconnect cfg s)"
  unfolding scheduleReconnect_def by (intro telling) simp_all

lemma told_connection [telling]: "told s (connectionReported cfg c s)"
  unfolding connectionReported_def Let_def
  by (intro telling told_cong [OF told_schedule]) simp_all

lemma told_close [telling]: "told s (closeActiveTransport cfg s)"
  by (simp add: told_def closeActiveTransport_def connectionReported_def Let_def)

lemma told_synchronize [telling]: "told s (synchronize cfg st s)"
proof (cases "co_profile s")
  case (Some p)
  show ?thesis
    unfolding synchronize_def Some option.case Let_def
    by (intro telling told_cong [OF told_setStatus]) simp_all
qed (simp add: synchronize_def told_same)

lemma told_failure [telling]: "told s (handleFailure cfg err v p s)"
proof (cases "errorCode err")
  case (Some code)
  show ?thesis unfolding handleFailure_def Some option.case by (intro telling) simp_all
qed (simp add: handleFailure_def told_same told_schedule)

lemma told_start [telling]: "told s (startCoordinator cfg p s)"
proof (cases p)
  case (Some q)
  show ?thesis unfolding startCoordinator_def Some option.case
    by (intro telling told_cong [OF told_synchronize]) simp_all
next
  case None
  have "told s (andThen clearCapabilities (setStatus StPairingRequired) (s\<lparr>co_profile := None\<rparr>))" for s
    by (intro telling) simp
  then show ?thesis unfolding startCoordinator_def None option.case by (intro telling) simp_all
qed

lemma told_dispose [telling]: "told s (disposeCoordinator s)"
  unfolding disposeCoordinator_def
  by (intro telling) (simp_all add: told_def)

lemma told_finish [telling]: "told s (finishSync v s)"
  unfolding finishSync_def by (intro telling) simp_all

lemma told_stages:
  "told s (afterConnect v p s)" "told s (afterResume v p a s)" "told s (afterList v p a os s)"
  "told s (afterSubscribe v a s)" "told s (afterInvalidated s)"
proof -
  show "told s (afterConnect v p s)"
    unfolding afterConnect_def by (intro telling told_cong [OF told_setStatus]) simp_all
  show "told s (afterResume v p a s)"
    unfolding afterResume_def by (intro telling) simp_all
  show "told s (afterList v p a os s)"
  proof -
    have "told s (s, [DispatchAction x])" for s x by (simp add: told_def)
    then show ?thesis
      unfolding afterList_def by (cases os) (auto intro!: telling split: prod.split option.split)
  qed
  show "told s (afterSubscribe v a s)"
    unfolding afterSubscribe_def by (intro telling) (simp_all add: told_def)
  show "told s (afterInvalidated s)"
    unfolding afterInvalidated_def by (intro telling) simp_all
qed

lemma told_react: "told s (coord_react cfg s i)"
proof (cases i)
  case (Answered v a os)
  show ?thesis
  proof (cases "find_run v s")
    case (Some r)
    note st = told_stages [THEN told_cong, of "drop_run v s" s]
    show ?thesis unfolding Answered coord_react.simps answered_def Some option.case
      by (cases "sy_stage r") (simp_all add: st)
  qed (simp add: Answered answered_def told_same)
next
  case (Failed v err)
  show ?thesis
  proof (cases "find_run v s")
    case (Some r)
    show ?thesis unfolding Failed coord_react.simps failed_def Some option.case
      by (intro telling told_cong [OF told_failure]) simp_all
  qed (simp add: Failed failed_def told_same)
next
  case Retry
  show ?thesis unfolding Retry coord_react.simps retryCoordinator_def by (intro telling) simp_all
next
  case (TimerFires h)
  show ?thesis unfolding TimerFires coord_react.simps timerFired_def
    by (intro telling told_cong [OF told_synchronize]) simp_all
qed (simp_all add: told_start told_dispose told_connection eventReported_def, simp add: told_def)

lemma told_run: "told s (coord_run cfg s is)"
  by (induction "is" arbitrary: s) (auto intro: told_same told_andThen told_react)

subsection \<open>The callbacks\<close>

text \<open>What the callbacks make of a list of effects.\<close>

fun action_of :: "runtime_effect \<Rightarrow> session_action option" where
  "action_of (CoordEffect (DispatchAction a)) = Some a"
| "action_of (RtDispatch a) = Some a"
| "action_of e = None"

definition actions :: "runtime_effect list \<Rightarrow> session_action list" where
  "actions effs = List.map_filter action_of effs"

lemma actions_simps [simp]:
  "actions [] = []"
  "actions (e # effs) = (case action_of e of Some a \<Rightarrow> [a] | None \<Rightarrow> []) @ actions effs"
  by (simp_all add: actions_def map_filter_simps split: option.split)

definition list_received :: "session_action list \<Rightarrow> bool" where
  "list_received as \<longleftrightarrow> (\<exists>xs. SessionListReceived xs \<in> set as)"

lemma list_received_simps [simp]:
  "\<not> list_received []"
  "list_received (a # as) \<longleftrightarrow> (\<exists>xs. a = SessionListReceived xs) \<or> list_received as"
  by (auto simp: list_received_def)

lemma appDispatch_fields [simp]:
  "ap_sessionState (appDispatch a s) = sessionReducer (ap_sessionState s) a"
  "ap_hasLoadedSessionList (appDispatch a s) \<longleftrightarrow> ap_hasLoadedSessionList s \<or> (\<exists>xs. a = SessionListReceived xs)"
  "ap_runtime (appDispatch a s) = ap_runtime s" "ap_rendered (appDispatch a s) = ap_rendered s"
  "ap_connectionStatus (appDispatch a s) = ap_connectionStatus s"
  "ap_negotiatedCapabilities (appDispatch a s) = ap_negotiatedCapabilities s"
  "ap_bootstrapStatus (appDispatch a s) = ap_bootstrapStatus s" "ap_active (appDispatch a s) = ap_active s"
  "ap_storage (appDispatch a s) = ap_storage s" "ap_exitRecoveryOnOnline (appDispatch a s) = ap_exitRecoveryOnOnline s"
  "ap_profile (appDispatch a s) = ap_profile s"
  by (cases a; simp add: appDispatch_def)+

lemma onEffect_fields [simp]:
  "ap_runtime (fst (onEffect e s)) = ap_runtime s" "ap_rendered (fst (onEffect e s)) = ap_rendered s"
  "ap_bootstrapStatus (fst (onEffect e s)) = ap_bootstrapStatus s" "ap_active (fst (onEffect e s)) = ap_active s"
  "ap_storage (fst (onEffect e s)) = ap_storage s" "ap_profile (fst (onEffect e s)) = ap_profile s"
  by (cases e rule: action_of.cases; simp add: onStatusChange_def onProfileInvalidated_def Let_def)+

lemma onEffect_state:
  "ap_sessionState (fst (onEffect e s)) = foldl sessionReducer (ap_sessionState s) (actions [e])"
  "ap_hasLoadedSessionList (fst (onEffect e s)) \<longleftrightarrow> ap_hasLoadedSessionList s \<or> list_received (actions [e])"
  by (cases "(e, s)" rule: onEffect.cases; simp add: onStatusChange_def onProfileInvalidated_def Let_def)+

lemma onEffect_status:
  "ap_connectionStatus s = appStatus st \<Longrightarrow>
   ap_connectionStatus (fst (onEffect e s)) = appStatus (newest reported_status st (coord_effects [e]))"
  by (cases "(e, s)" rule: onEffect.cases) (simp_all add: onStatusChange_def onProfileInvalidated_def Let_def)

lemma onEffect_caps:
  "ap_negotiatedCapabilities (fst (onEffect e s)) = newest caps_of (ap_negotiatedCapabilities s) (coord_effects [e])"
  by (cases "(e, s)" rule: onEffect.cases) (simp_all add: onStatusChange_def onProfileInvalidated_def Let_def)

lemma onEffects_fields [simp]:
  "ap_runtime (fst (onEffects effs s)) = ap_runtime s" "ap_rendered (fst (onEffects effs s)) = ap_rendered s"
  "ap_bootstrapStatus (fst (onEffects effs s)) = ap_bootstrapStatus s" "ap_active (fst (onEffects effs s)) = ap_active s"
  "ap_storage (fst (onEffects effs s)) = ap_storage s" "ap_profile (fst (onEffects effs s)) = ap_profile s"
  by (induction effs arbitrary: s) (simp_all add: case_prod_beta')

lemma onEffects_state:
  "ap_sessionState (fst (onEffects effs s)) = foldl sessionReducer (ap_sessionState s) (actions effs)"
  "ap_hasLoadedSessionList (fst (onEffects effs s)) \<longleftrightarrow> ap_hasLoadedSessionList s \<or> list_received (actions effs)"
proof (induction effs arbitrary: s)
  case (Cons e effs)
  {
    case 1
    show ?case by (simp add: case_prod_beta' Cons.IH onEffect_state split: option.split)
  next
    case 2
    show ?case by (auto simp: case_prod_beta' Cons.IH onEffect_state split: option.split)
  }
qed simp_all

lemma onEffects_status:
  "ap_connectionStatus s = appStatus st \<Longrightarrow>
   ap_connectionStatus (fst (onEffects effs s)) = appStatus (newest reported_status st (coord_effects effs))"
proof (induction effs arbitrary: s st)
  case (Cons e effs)
  from Cons.IH [OF onEffect_status [OF Cons.prems, of e]] show ?case
    by (simp add: case_prod_beta' split: option.splits)
qed simp

lemma onEffects_caps:
  "ap_negotiatedCapabilities (fst (onEffects effs s)) = newest caps_of (ap_negotiatedCapabilities s) (coord_effects effs)"
proof (induction effs arbitrary: s)
  case (Cons e effs)
  show ?case by (simp add: case_prod_beta' Cons.IH onEffect_caps split: option.splits)
qed simp

lemma with_runtime_fields [simp]:
  "ap_runtime (fst (with_runtime cfg i s)) = fst (runtime_react cfg (ap_runtime s) i)"
  "ap_rendered (fst (with_runtime cfg i s)) = ap_rendered s"
  "ap_bootstrapStatus (fst (with_runtime cfg i s)) = ap_bootstrapStatus s"
  "ap_active (fst (with_runtime cfg i s)) = ap_active s"
  "ap_storage (fst (with_runtime cfg i s)) = ap_storage s"
  "ap_profile (fst (with_runtime cfg i s)) = ap_profile s"
  "ap_sessionState (fst (with_runtime cfg i s)) =
     foldl sessionReducer (ap_sessionState s) (actions (snd (runtime_react cfg (ap_runtime s) i)))"
  by (simp_all add: with_runtime_def case_prod_beta' onEffects_state)

subsection \<open>The state of the sessions\<close>

lemma with_runtime_session:
  "session_inv (ap_sessionState s) \<Longrightarrow> session_inv (ap_sessionState (fst (with_runtime cfg i s)))"
  by (simp add: sessions.run_inv)

lemma dismiss_session: "session_inv s \<Longrightarrow> session_inv (sessionReducer s a)"
  by (rule sessions.step_inv)

definition parts_inv :: "app_state \<Rightarrow> bool" where
  "parts_inv s \<longleftrightarrow> session_inv (ap_sessionState s) \<and> session_inv (ap_rendered s) \<and> runtime_inv (ap_runtime s)"

lemma with_runtime_parts: "parts_inv s \<Longrightarrow> parts_inv (fst (with_runtime cfg i s))"
  using with_runtime_session [of s cfg i] by (simp add: parts_inv_def runtime_inv_react)

lemma parts_cong:
  "parts_inv s \<Longrightarrow> ap_sessionState s' = ap_sessionState s \<Longrightarrow> ap_rendered s' = ap_rendered s \<Longrightarrow>
   ap_runtime s' = ap_runtime s \<Longrightarrow> parts_inv s'"
  by (simp add: parts_inv_def)

lemmas app_ops = restored_def restoreFailed_def unmounted_def onPaired_def dismissAttention_def
  openSessionDetail_def pairAnotherComputer_def saveProfile_def clearPairing_def startReturnedApp_def
  clearContinues_def storeCleared_def storeClearFailed_def storeSaved_def

lemma parts_react:
  assumes "parts_inv s"
  shows "parts_inv (fst (app_react cfg url js s i))"
proof -
  have rt: "parts_inv s' \<Longrightarrow> parts_inv (fst (with_runtime cfg i s'))" for i s' by (rule with_runtime_parts)
  have up: "ap_sessionState s' = ap_sessionState s \<Longrightarrow> ap_rendered s' = ap_rendered s \<Longrightarrow>
      ap_runtime s' = ap_runtime s \<Longrightarrow> parts_inv s'" for s' using assms by (rule parts_cong)
  show ?thesis
  proof (cases i)
    case (UiDismiss key)
    with assms show ?thesis by (simp add: dismissAttention_def parts_inv_def dismiss_session del: sessionReducer.simps)
  next
    case Rendered
    with assms show ?thesis by (simp add: parts_inv_def)
  qed (use assms in \<open>simp_all add: app_ops case_prod_beta' rt up Let_def split: option.split list.split\<close>)
qed

subsection \<open>The list of sessions\<close>

text \<open>States of the coordinator that come after the list of sessions.\<close>

definition after_list :: "coord_state \<Rightarrow> bool" where
  "after_list c \<longleftrightarrow> co_status c = StOnline \<or> (\<exists>r \<in> set (co_runs c). sy_stage r = AwaitSubscribe)"

definition list_dispatched :: "coord_effect list \<Rightarrow> bool" where
  "list_dispatched effs \<longleftrightarrow> (\<exists>xs. DispatchAction (SessionListReceived xs) \<in> set effs)"

lemma listed_simps [simp]:
  "\<not> list_dispatched []" "list_dispatched (xs @ ys) \<longleftrightarrow> list_dispatched xs \<or> list_dispatched ys"
  "list_dispatched (e # es) \<longleftrightarrow> (\<exists>xs. e = DispatchAction (SessionListReceived xs)) \<or> list_dispatched es"
  by (auto simp: list_dispatched_def)

text \<open>An outcome, reached from \<open>s\<close>, that comes after the list only if \<open>s\<close> did or the list was
  dispatched.\<close>

definition list_first :: "coord_state \<Rightarrow> coord_outcome \<Rightarrow> bool" where
  "list_first s r \<longleftrightarrow> (after_list (fst r) \<longrightarrow> after_list s \<or> list_dispatched (snd r))"

named_theorems listing \<open>operations of the coordinator that do not overtake the list of sessions\<close>

lemma list_first_andThen [listing]:
  "list_first s (f s') \<Longrightarrow> list_first (fst (f s')) (g (fst (f s'))) \<Longrightarrow> list_first s (andThen f g s')"
  by (auto simp: list_first_def)

lemma list_first_same [listing]:
  "co_status s' = co_status s \<Longrightarrow> set (co_runs s') \<subseteq> set (co_runs s) \<Longrightarrow> list_first s (s', effs)"
  by (auto simp: list_first_def after_list_def)

lemma list_first_cong:
  "list_first s' r \<Longrightarrow> co_status s' = co_status s \<Longrightarrow> set (co_runs s') \<subseteq> set (co_runs s) \<Longrightarrow> list_first s r"
  by (auto simp: list_first_def after_list_def)

lemma list_first_if [listing]:
  "(b \<Longrightarrow> list_first s x) \<Longrightarrow> (\<not> b \<Longrightarrow> list_first s y) \<Longrightarrow> list_first s (if b then x else y)"
  by simp

lemma list_first_setStatus [listing]:
  "st \<noteq> StOnline \<Longrightarrow> list_first s (setStatus st s)"
  by (simp add: list_first_def after_list_def setStatus_def)

lemma list_first_setCapabilities [listing]: "list_first s (setCapabilities c s)"
  by (simp add: list_first_def after_list_def setCapabilities_def split: option.split)

lemma list_first_clear [listing]:
  "co_status s' = co_status s \<Longrightarrow> co_runs s' = co_runs s \<Longrightarrow> list_first s (clearCapabilities s')"
  by (simp add: list_first_def after_list_def)

lemma list_first_cancel [listing]:
  "co_status s' = co_status s \<Longrightarrow> co_runs s' = co_runs s \<Longrightarrow> list_first s (cancelReconnect s')"
  by (simp add: list_first_def after_list_def cancelReconnect_def split: option.split)

lemma list_first_arm [listing]: "list_first s (armReconnect cfg s)"
  by (simp add: list_first_def after_list_def)

lemma list_first_await [listing]: "stage \<noteq> AwaitSubscribe \<Longrightarrow> list_first s (await v p stage effs s)"
  by (auto simp: list_first_def after_list_def await_def)

lemma list_first_listed [listing]: "list_first s (s', [DispatchAction (SessionListReceived xs)])"
  by (simp add: list_first_def)

lemma list_first_schedule [listing]: "list_first s (scheduleReconnect cfg s)"
  unfolding scheduleReconnect_def by (intro listing) simp_all

lemma list_first_connection [listing]: "list_first s (connectionReported cfg c s)"
  unfolding connectionReported_def Let_def
  by (intro listing list_first_cong [OF list_first_schedule]) simp_all

lemma list_first_close [listing]: "list_first s (closeActiveTransport cfg s)"
  by (simp add: list_first_def after_list_def)

lemma list_first_synchronize [listing]: "st \<noteq> StOnline \<Longrightarrow> list_first s (synchronize cfg st s)"
proof (cases "co_profile s")
  case (Some p)
  assume "st \<noteq> StOnline"
  then show ?thesis
    unfolding synchronize_def Some option.case Let_def
    by (intro listing list_first_cong [OF list_first_setStatus]) simp_all
qed (simp add: synchronize_def list_first_same)

lemma list_first_failure [listing]: "list_first s (handleFailure cfg err v p s)"
proof (cases "errorCode err")
  case (Some code)
  show ?thesis unfolding handleFailure_def Some option.case by (intro listing) simp_all
qed (simp add: handleFailure_def list_first_same list_first_schedule)

lemma list_first_start: "list_first s (startCoordinator cfg p s)"
proof (cases p)
  case (Some q)
  show ?thesis unfolding startCoordinator_def Some option.case
    by (intro listing list_first_cong [OF list_first_synchronize]) simp_all
next
  case None
  have "list_first s (andThen clearCapabilities (setStatus StPairingRequired) (s\<lparr>co_profile := None\<rparr>))" for s
    by (intro listing) simp_all
  then show ?thesis unfolding startCoordinator_def None option.case by (intro listing) simp_all
qed

lemma list_first_dispose: "list_first s (disposeCoordinator s)"
  unfolding disposeCoordinator_def by (intro listing) simp_all

lemma list_first_stages:
  "list_first s (afterConnect v p s)" "list_first s (afterResume v p a s)" "list_first s (afterInvalidated s)"
proof -
  show "list_first s (afterConnect v p s)"
    unfolding afterConnect_def by (intro listing list_first_cong [OF list_first_setStatus]) simp_all
  show "list_first s (afterResume v p a s)"
    unfolding afterResume_def by (intro listing) simp_all
  show "list_first s (afterInvalidated s)"
    unfolding afterInvalidated_def by (intro listing) simp_all
qed

lemma list_first_list: "list_first s (afterList v p a os s)"
  by (cases "stale v s") (simp_all add: afterList_def list_first_same, simp add: list_first_def)

lemma list_first_answered: "list_first s (answered v a os s)"
proof (cases "find_run v s")
  case (Some r)
  have d: "list_first (drop_run v s) x \<Longrightarrow> list_first s x" for x
    by (erule list_first_cong) auto
  show ?thesis
  proof (cases "sy_stage r")
    case AwaitSubscribe
    with find_run_mem [OF Some] have "after_list s" by (auto simp: after_list_def)
    then show ?thesis by (simp add: list_first_def)
  qed (use Some in \<open>simp_all add: answered_def d list_first_stages list_first_list\<close>)
qed (simp add: answered_def list_first_same)

lemma list_first_react: "list_first s (coord_react cfg s i)"
proof (cases i)
  case Retry
  show ?thesis unfolding Retry coord_react.simps retryCoordinator_def by (intro listing) simp_all
next
  case (TimerFires h)
  show ?thesis unfolding TimerFires coord_react.simps timerFired_def
    by (intro listing list_first_cong [OF list_first_synchronize]) simp_all
next
  case (Failed v err)
  show ?thesis
  proof (cases "find_run v s")
    case (Some r)
    show ?thesis unfolding Failed coord_react.simps failed_def Some option.case
      by (intro listing list_first_cong [OF list_first_failure]) auto
  qed (simp add: Failed failed_def list_first_same)
qed (simp_all add: list_first_start list_first_dispose list_first_connection list_first_answered
      eventReported_def list_first_same)

lemma list_first_run: "list_first s (coord_run cfg s is)"
  by (induction "is" arbitrary: s) (auto intro: list_first_same list_first_andThen list_first_react)

subsection \<open>The app's invariant\<close>

definition idle_coord :: "coord_state \<Rightarrow> bool" where
  "idle_coord c \<longleftrightarrow> co_status c = StIdle \<and> co_profile c = None \<and> co_runs c = [] \<and> co_armed c = [] \<and>
     co_reconnectTimer c = None"

lemma idle_environment: "environment i \<or> i = Dispose \<Longrightarrow> idle_coord c \<Longrightarrow> idle_coord (fst (coord_react cfg c i))"
  by (cases i) (simp_all add: idle_coord_def disposeCoordinator_def timerFired_def connectionReported_def Let_def
      eventReported_def answered_def failed_def find_run_def cancelReconnect_def)

abbreviation ap_coord :: "app_state \<Rightarrow> coord_state" where
  "ap_coord s \<equiv> rt_coord (ap_runtime s)"

definition mirror_inv :: "app_state \<Rightarrow> bool" where
  "mirror_inv s \<longleftrightarrow>
     (ap_bootstrapStatus s = BootLoading \<longrightarrow> idle_coord (ap_coord s)) \<and>
     (\<not> rt_disposed (ap_runtime s) \<longrightarrow> ap_connectionStatus s = appStatus (co_status (ap_coord s))) \<and>
     ap_negotiatedCapabilities s = co_capabilities (ap_coord s) \<and>
     (after_list (ap_coord s) \<longrightarrow> ap_hasLoadedSessionList s) \<and>
     ap_active s = (\<not> rt_disposed (ap_runtime s)) \<and> ap_connectionStatus s \<noteq> AppOffline"

lemma appStatus_online [simp]: "appStatus st \<noteq> AppOffline"
  by (cases st) simp_all

lemma list_received_append [simp]: "list_received (xs @ ys) \<longleftrightarrow> list_received xs \<or> list_received ys"
  by (auto simp: list_received_def)

lemma listed_actions: "list_dispatched (coord_effects effs) \<Longrightarrow> list_received (actions effs)"
proof (induction effs)
  case (Cons e effs)
  then show ?case by (cases e) auto
qed simp

text \<open>What a turn of the runtime leaves to the app, for a runtime that is in order.\<close>

lemma with_runtime_mirror:
  fixes cfg and i
  assumes "disposed_agree (ap_runtime s)"
  defines "c' \<equiv> fst (coord_run cfg (ap_coord s) (coord_inputs i))"
  shows "ap_coord (fst (with_runtime cfg i s)) = c'"
    and "ap_connectionStatus s = appStatus (co_status (ap_coord s)) \<Longrightarrow>
         ap_connectionStatus (fst (with_runtime cfg i s)) = appStatus (co_status c')"
    and "ap_negotiatedCapabilities s = co_capabilities (ap_coord s) \<Longrightarrow>
         ap_negotiatedCapabilities (fst (with_runtime cfg i s)) = co_capabilities c'"
    and "(after_list (ap_coord s) \<longrightarrow> ap_hasLoadedSessionList s) \<Longrightarrow>
         after_list c' \<longrightarrow> ap_hasLoadedSessionList (fst (with_runtime cfg i s))"
proof -
  let ?effs = "snd (runtime_react cfg (ap_runtime s) i)" and ?r = "coord_run cfg (ap_coord s) (coord_inputs i)"
  have c: "rt_coord (fst (runtime_react cfg (ap_runtime s) i)) = c'" and e: "coord_effects ?effs = snd ?r"
    using runtime_react_coord [OF assms(1), of cfg i] by (simp_all add: c'_def)
  then show "ap_coord (fst (with_runtime cfg i s)) = c'" by simp
  note told = told_run [of "ap_coord s" cfg "coord_inputs i"]
  show "ap_connectionStatus (fst (with_runtime cfg i s)) = appStatus (co_status c')"
    if "ap_connectionStatus s = appStatus (co_status (ap_coord s))"
    using that toldD(1) [OF told] by (simp add: with_runtime_def case_prod_beta' onEffects_status [of _ "co_status (ap_coord s)"] e c'_def)
  show "ap_negotiatedCapabilities (fst (with_runtime cfg i s)) = co_capabilities c'"
    if "ap_negotiatedCapabilities s = co_capabilities (ap_coord s)"
    using that toldD(2) [OF told] by (simp add: with_runtime_def case_prod_beta' onEffects_caps e c'_def)
  show "after_list c' \<longrightarrow> ap_hasLoadedSessionList (fst (with_runtime cfg i s))"
    if "after_list (ap_coord s) \<longrightarrow> ap_hasLoadedSessionList s"
  proof
    assume "after_list c'"
    with list_first_run [of "ap_coord s" cfg "coord_inputs i"] have "after_list (ap_coord s) \<or> list_dispatched (coord_effects ?effs)"
      by (simp add: list_first_def c'_def e)
    with that listed_actions [of ?effs] show "ap_hasLoadedSessionList (fst (with_runtime cfg i s))"
      by (auto simp: with_runtime_def case_prod_beta' onEffects_state)
  qed
qed

lemma rt_disposed_react:
  "rt_disposed (fst (runtime_react cfg s i)) = (rt_disposed s \<or> i = RtDispose)"
  by (cases i) (simp_all add: runtime_ops Let_def case_prod_beta' split: option.split pair_stage.split)

lemma onEffects_offline:
  "ap_connectionStatus s \<noteq> AppOffline \<Longrightarrow> ap_connectionStatus (fst (onEffects effs s)) \<noteq> AppOffline"
proof (induction effs arbitrary: s)
  case (Cons e effs)
  have "ap_connectionStatus (fst (onEffect e s)) \<noteq> AppOffline"
    using Cons.prems by (cases "(e, s)" rule: onEffect.cases) (simp_all add: onStatusChange_def onProfileInvalidated_def Let_def)
  from Cons.IH [OF this] show ?case by (simp add: case_prod_beta')
qed simp

text \<open>Turns of the runtime that change nothing that the bootstrap relies on.\<close>

lemma with_runtime_inv:
  assumes "parts_inv s" and "mirror_inv s" and "i \<noteq> RtDispose"
    and "ap_bootstrapStatus s = BootLoading \<Longrightarrow> idle_coord (fst (coord_run cfg (ap_coord s) (coord_inputs i)))"
  shows "mirror_inv (fst (with_runtime cfg i s))"
proof -
  have a: "disposed_agree (ap_runtime s)" using assms(1) by (simp add: parts_inv_def runtime_inv_def)
  note m = with_runtime_mirror [OF a, of cfg i]
  have "ap_connectionStatus (fst (with_runtime cfg i s)) \<noteq> AppOffline"
    using assms(2) by (simp add: with_runtime_def case_prod_beta' onEffects_offline mirror_inv_def)
  with m assms show ?thesis by (simp add: mirror_inv_def rt_disposed_react)
qed

lemma coord_inputs_env:
  "from_outside i \<or> passed_on i \<or> i = RtStartReturned \<or> i = RtDispose \<or> (\<exists>sid opened. i = RtOpen sid opened) \<or>
   (\<exists>v a os. i = RtEnvironment (Answered v a os)) \<Longrightarrow>
   idle_coord c \<Longrightarrow> idle_coord (fst (coord_run cfg c (coord_inputs i)))"
  using idle_environment [of _ c cfg] idle_environment [of Dispose c cfg] by (cases i) auto

lemma coord_inputs_retry: "idle_coord c \<Longrightarrow> idle_coord (fst (coord_run cfg c (coord_inputs RtRetry)))"
  by (simp add: retryCoordinator_def idle_coord_def)

text \<open>Starting with a profile: the status that the app sets itself is the one that follows.\<close>

lemma start_reports:
  assumes "\<not> co_disposed c"
  shows "co_status (fst (startCoordinator cfg (Some p) c)) = StConnecting"
    and "newest reported_status StConnecting (snd (startCoordinator cfg (Some p) c)) = StConnecting"
proof -
  show s: "co_status (fst (startCoordinator cfg (Some p) c)) = StConnecting"
    using assms by (simp add: startCoordinator_def synchronize_def Let_def setStatus_def)
  note t = toldD(1) [OF told_start, of c cfg "Some p"]
  show "newest reported_status StConnecting (snd (startCoordinator cfg (Some p) c)) = StConnecting"
  proof (cases "co_status c = StConnecting")
    case True
    with t s show ?thesis by simp
  next
    case False
    then have "StatusChanged StConnecting \<in> set (snd (startCoordinator cfg (Some p) c))"
      using assms by (simp add: startCoordinator_def synchronize_def Let_def setStatus_def)
    from newest_any [OF this, of reported_status StConnecting "co_status c"] t s show ?thesis by simp
  qed
qed

lemma start_mirror:
  assumes parts: "parts_inv s" and inv: "mirror_inv s" and act: "ap_active s"
    and upd: "s' = s\<lparr>ap_profile := q, ap_connectionStatus := AppReconnecting, ap_bootstrapStatus := BootReady\<rparr>"
  shows "mirror_inv (fst (with_runtime cfg (RtStart (Some p)) s'))"
proof -
  have a: "disposed_agree (ap_runtime s')" and d: "\<not> co_disposed (ap_coord s)"
    using parts inv act by (auto simp: parts_inv_def runtime_inv_def mirror_inv_def disposed_agree_def upd)
  note m = with_runtime_mirror [OF a, of cfg "RtStart (Some p)"]
  have c: "fst (coord_run cfg (ap_coord s') (coord_inputs (RtStart (Some p)))) = fst (startCoordinator cfg (Some p) (ap_coord s))"
    and e: "coord_effects (snd (runtime_react cfg (ap_runtime s') (RtStart (Some p)))) =
      snd (startCoordinator cfg (Some p) (ap_coord s))"
    using runtime_react_coord [OF a, of cfg "RtStart (Some p)"] by (simp_all add: upd)
  have "ap_connectionStatus (fst (with_runtime cfg (RtStart (Some p)) s')) =
      appStatus (newest reported_status StConnecting (snd (startCoordinator cfg (Some p) (ap_coord s))))"
    unfolding e [symmetric] with_runtime_def case_prod_beta' by (rule onEffects_status) (simp add: upd)
  with start_reports [OF d, of cfg p] have
    "ap_connectionStatus (fst (with_runtime cfg (RtStart (Some p)) s')) = appStatus StConnecting" by simp
  with m(3,4) c start_reports(1) [OF d, of cfg p] inv act show ?thesis
    by (simp add: mirror_inv_def rt_disposed_react upd startRuntime_def)
qed

text \<open>Fields that the invariant does not look at.\<close>

lemma mirror_cong:
  "mirror_inv s \<Longrightarrow> ap_bootstrapStatus s' = ap_bootstrapStatus s \<Longrightarrow> ap_runtime s' = ap_runtime s \<Longrightarrow>
   ap_connectionStatus s' = ap_connectionStatus s \<Longrightarrow> ap_negotiatedCapabilities s' = ap_negotiatedCapabilities s \<Longrightarrow>
   ap_hasLoadedSessionList s' = ap_hasLoadedSessionList s \<Longrightarrow> ap_active s' = ap_active s \<Longrightarrow> mirror_inv s'"
  by (simp add: mirror_inv_def)

lemma unmount_mirror:
  assumes "parts_inv s" and inv: "mirror_inv s"
  shows "mirror_inv (fst (unmounted cfg s))"
proof -
  define s' where "s' = s\<lparr>ap_active := False\<rparr>"
  have a: "disposed_agree (ap_runtime s')" using assms(1) by (simp add: s'_def parts_inv_def runtime_inv_def)
  note m = with_runtime_mirror [OF a, of cfg RtDispose]
  have "ap_connectionStatus (fst (with_runtime cfg RtDispose s')) \<noteq> AppOffline"
    using inv by (simp add: with_runtime_def case_prod_beta' onEffects_offline mirror_inv_def s'_def)
  with m(1,3,4) inv coord_inputs_env [of RtDispose "ap_coord s" cfg] show ?thesis
    by (simp add: unmounted_def mirror_inv_def rt_disposed_react s'_def [symmetric] del: runtime_react.simps)
       (simp add: s'_def)
qed

lemma restored_mirror:
  assumes "parts_inv s" and "mirror_inv s" and "ap_bootstrapStatus s = BootLoading"
  shows "mirror_inv (fst (restored cfg p s))"
proof (cases "ap_active s")
  case act: True
  show ?thesis
  proof (cases p)
    case None
    with assms(2,3) show ?thesis by (simp add: restored_def Let_def mirror_inv_def idle_coord_def)
  next
    case (Some q)
    from start_mirror [OF assms(1,2) act refl, of cfg q p] Some act show ?thesis
      by (simp add: restored_def Let_def case_prod_beta')
  qed
qed (simp add: restored_def assms)

definition harmless :: "runtime_input \<Rightarrow> bool" where
  "harmless j \<longleftrightarrow> from_outside j \<or> passed_on j \<or> j = RtStartReturned \<or> (\<exists>sid opened. j = RtOpen sid opened) \<or>
     (\<exists>v a os. j = RtEnvironment (Answered v a os))"

lemma harmless_simps [simp]:
  "from_outside j \<Longrightarrow> harmless j" "passed_on j \<Longrightarrow> harmless j" "harmless RtStartReturned"
  "harmless (RtOpen sid opened)" "harmless (RtEnvironment (Answered v a os))"
  by (simp_all add: harmless_def)

lemma harmless_mirror:
  assumes "parts_inv s" and inv: "mirror_inv s" and h: "harmless j"
  shows "mirror_inv (fst (with_runtime cfg j s))"
proof (rule with_runtime_inv [OF assms(1,2)])
  show "j \<noteq> RtDispose" using h by (auto simp: harmless_def)
  show "idle_coord (fst (coord_run cfg (ap_coord s) (coord_inputs j)))" if "ap_bootstrapStatus s = BootLoading"
  proof (rule coord_inputs_env)
    show "idle_coord (ap_coord s)" using inv that by (simp add: mirror_inv_def)
  qed (use h in \<open>auto simp: harmless_def\<close>)
qed

lemma start_returned_mirror:
  assumes "parts_inv s" and "mirror_inv s"
  shows "mirror_inv (fst (startReturnedApp cfg s))"
proof -
  define s' where "s' = (if rt_closing (ap_runtime s) = 0 then s else s\<lparr>ap_clearReturned := Suc (ap_clearReturned s)\<rparr>)"
  have "parts_inv s'" by (rule parts_cong [OF assms(1)]) (simp_all add: s'_def)
  moreover have "mirror_inv s'" by (rule mirror_cong [OF assms(2)]) (simp_all add: s'_def)
  ultimately show ?thesis unfolding startReturnedApp_def s'_def [symmetric] by (intro harmless_mirror) simp_all
qed

lemma retry_mirror:
  assumes "parts_inv s" and "mirror_inv s"
  shows "mirror_inv (fst (with_runtime cfg RtRetry s))"
  by (rule with_runtime_inv [OF assms]) (use assms(2) in \<open>simp_all add: coord_inputs_retry mirror_inv_def del: coord_inputs.simps\<close>)

lemma paired_mirror:
  assumes "parts_inv s" and "mirror_inv s" and "ap_active s" and "ap_bootstrapStatus s = BootReady"
  shows "mirror_inv (fst (onPaired cfg p s))"
proof -
  have "s\<lparr>ap_profile := Some p, ap_connectionStatus := AppReconnecting\<rparr> =
      s\<lparr>ap_profile := Some p, ap_connectionStatus := AppReconnecting, ap_bootstrapStatus := BootReady\<rparr>"
    using assms(4) by simp
  from start_mirror [OF assms(1-3) this] show ?thesis by (simp add: onPaired_def case_prod_beta')
qed

lemma clear_mirror:
  assumes "parts_inv s" and "mirror_inv s" and "ap_bootstrapStatus s = BootReady"
  shows "mirror_inv (fst (clearPairing cfg s))"
  unfolding clearPairing_def by (rule with_runtime_inv [OF assms(1,2)]) (simp_all add: assms(3))

lemma mirror_react:
  assumes parts: "parts_inv s" and inv: "mirror_inv s" and pos: "app_possible s i"
  shows "mirror_inv (fst (app_react cfg url js s i))"
proof (cases i)
  case (Restored p)
  with restored_mirror [OF parts inv] pos show ?thesis by simp
next
  case RestoreFailed
  with inv pos show ?thesis by (simp add: restoreFailed_def mirror_inv_def idle_coord_def)
next
  case Unmounted
  with unmount_mirror [OF parts inv] show ?thesis by simp
next
  case (UiPaired p)
  with paired_mirror [OF parts inv] pos show ?thesis by simp
next
  case (UiRuntime j)
  with harmless_mirror [OF parts inv, of j] inv show ?thesis by simp
next
  case (OutsideRuntime j)
  with harmless_mirror [OF parts inv, of j] inv show ?thesis by simp
next
  case (CoordAnswered v a)
  with harmless_mirror [OF parts inv, of "RtEnvironment (Answered v a (getOpenSession s))"] show ?thesis by simp
next
  case (UiOpenSession sid)
  with harmless_mirror [OF parts inv, of "RtOpen sid (getOpenSession s)"] show ?thesis
    by (simp add: openSessionDetail_def)
next
  case UiRetry
  with retry_mirror [OF parts inv] show ?thesis by simp
next
  case UiClearPairing
  with clear_mirror [OF parts inv] pos show ?thesis by simp
next
  case StartReturned
  with start_returned_mirror [OF parts inv] show ?thesis by simp
qed (use inv in \<open>auto simp: dismissAttention_def pairAnotherComputer_def saveProfile_def clearContinues_def
        storeCleared_def storeClearFailed_def storeSaved_def intro: mirror_cong split: list.split\<close>)

lemma app_initial: "parts_inv (initial_app st) \<and> mirror_inv (initial_app st)"
  using runtime_inv_initial inv_initial
  by (simp add: parts_inv_def mirror_inv_def initial_app_def idle_coord_def after_list_def)
     (simp add: initial_runtime_def initial_coord_def)

lemma app_reach_inv: "app_reach cfg url js st s trace \<Longrightarrow> parts_inv s \<and> mirror_inv s"
proof (induction rule: app_reach.induct)
  case ap_start
  show ?case by (rule app_initial)
next
  case (ap_react s trace i)
  then show ?case using parts_react [of s cfg url js i] mirror_react [of s i cfg url js] by blast
qed

text \<open>What the user, the relay, the storage and the timers do in whatever order, the app's state
  stays consistent: the sessions, terminals and activity that the reducer holds, and those the screens
  were last rendered with, satisfy the invariant of the session state, and the runtime and its
  coordinator satisfy theirs.\<close>

theorem app_state_consistent:
  assumes "app_reach cfg url js st s trace"
  shows "session_inv (ap_sessionState s) \<and> session_inv (ap_rendered s) \<and> runtime_inv (ap_runtime s)"
  using app_reach_inv [OF assms] by (simp add: parts_inv_def)

text \<open>C36: The connection status and the capabilities that the screens are given are, until the app is
  closed, those of the coordinator (connecting is shown as reconnecting); the status \<open>offline\<close>, for which
  the screens have texts of their own, is never given.\<close>

theorem app_mirrors_coordinator:
  assumes "app_reach cfg url js st s trace"
  shows "(ap_active s \<longrightarrow> ap_connectionStatus s = appStatus (co_status (ap_coord s))) \<and>
         ap_negotiatedCapabilities s = co_capabilities (ap_coord s) \<and>
         ap_connectionStatus s \<noteq> AppOffline"
  using app_reach_inv [OF assms] by (simp add: mirror_inv_def)

text \<open>The screens are told that the connection is online only when a list of sessions has been
  received, so that the list is never shown as loading while input is allowed.\<close>

theorem online_only_with_sessions:
  assumes "app_reach cfg url js st s trace" and "ap_active s" and "ap_connectionStatus s = AppOnline"
  shows "ap_hasLoadedSessionList s \<and> canMutate (ap_coord s)"
proof -
  from app_reach_inv [OF assms(1)] assms(2,3) have "appStatus (co_status (ap_coord s)) = AppOnline"
    "after_list (ap_coord s) \<longrightarrow> ap_hasLoadedSessionList s" by (simp_all add: mirror_inv_def)
  then show ?thesis by (cases "co_status (ap_coord s)") (simp_all add: after_list_def canMutate_def)
qed

lemma onEffects_passed:
  "RuntimeOut (RuntimeRequest n m ps) \<in> set (snd (onEffects effs s)) \<Longrightarrow> RuntimeRequest n m ps \<in> set effs"
proof (induction effs arbitrary: s)
  case (Cons e effs)
  have "RuntimeOut (RuntimeRequest n m ps) \<in> set (snd (onEffect e s)) \<Longrightarrow> e = RuntimeRequest n m ps"
    by (cases "(e, s)" rule: onEffect.cases)
      (auto simp: onStatusChange_def onProfileInvalidated_def Let_def split: if_splits)
  with Cons show ?case by (auto simp: case_prod_beta')
qed simp

text \<open>A session that the user opens is asked for from the last number seen only if it already was the
  open session when the app was last rendered; the session that has just been dispatched as opened is
  not looked at, so that coming back to a session asks for all of its output although its terminal and
  the last number are still held.\<close>

theorem resumes_only_rendered_session:
  assumes "RuntimeOut (RuntimeRequest n m ps) \<in> set (snd (app_react cfg url js s (UiOpenSession i)))"
  shows "m = ''session.subscribe'' \<and>
         ps = (''sessionId'', JStr i) #
           (if openSessionId (ap_rendered s) = Some i \<and> i \<noteq> []
            then (case terminalBySessionId (ap_rendered s) i of
                    Some b \<Rightarrow> [(''afterSeq'', JNum (tb_lastSeq b))] | None \<Rightarrow> [])
            else [])"
proof -
  have "RuntimeRequest n m ps \<in> set (snd (openSession i (getOpenSession s) (ap_runtime s)))"
    using assms by (auto simp: openSessionDetail_def with_runtime_def case_prod_beta' dest: onEffects_passed)
  then show ?thesis
    by (auto simp: openSession_def Let_def getOpenSession_def split: if_splits option.splits)
qed

subsection \<open>Examples\<close>

fun app_run :: "coord_config \<Rightarrow> url_parser \<Rightarrow> (json \<Rightarrow> string) \<Rightarrow> app_state \<Rightarrow> app_input list \<Rightarrow> app_outcome" where
  "app_run cfg url js s [] = (s, [])"
| "app_run cfg url js s (i # is) =
     (case app_react cfg url js s i of
        (s1, e1) \<Rightarrow> (case app_run cfg url js s1 is of (s2, e2) \<Rightarrow> (s2, e1 @ e2)))"

definition no_storage :: storage where
  "no_storage = (\<lambda>_. None)"

definition js0 :: "json \<Rightarrow> string" where
  "js0 v = ''x''"

definition going_online :: "app_input list" where
  "going_online = [Restored (Some sample_profile), CoordAnswered 1 [], CoordAnswered 1 [], CoordAnswered 1 []]"

definition online_app :: app_state where
  "online_app = fst (app_run cfg_runtime sample_url js0 (initial_app no_storage) going_online)"

lemma online_app_reach: "\<exists>trace. app_reach cfg_runtime sample_url js0 no_storage online_app trace"
proof -
  let ?react = "app_react cfg_runtime sample_url js0"
  note step = ap_react [of cfg_runtime sample_url js0 no_storage]
  have 1: "app_possible (initial_app no_storage) (Restored (Some sample_profile))" by (simp add: initial_app_def)
  note r1 = step [OF ap_start 1]
  note r2 = step [OF r1, of "CoordAnswered 1 []"]
  note r3 = step [OF r2, of "CoordAnswered 1 []"]
  note r4 = step [OF r3, of "CoordAnswered 1 []"]
  have "online_app = fst (?react (fst (?react (fst (?react (fst (?react (initial_app no_storage)
      (Restored (Some sample_profile)))) (CoordAnswered 1 []))) (CoordAnswered 1 []))) (CoordAnswered 1 []))"
    by (simp add: online_app_def going_online_def case_prod_beta' del: app_react.simps)
  with r4 show ?thesis by (auto simp del: app_react.simps)
qed

lemma online_app_fields:
  "ap_active online_app" "ap_connectionStatus online_app = AppOnline"
  "rt_subscribingSessionIds (ap_runtime online_app) = {}" "rt_disposed (ap_runtime online_app) = False"
  "co_status (ap_coord online_app) = StOnline" "openSessionId (ap_rendered online_app) = None"
  "rt_calls (ap_runtime online_app) = 0"
  by code_simp+

theorem app_state_consistent_witness: "session_inv (ap_sessionState online_app)"
proof -
  from online_app_reach obtain trace where "app_reach cfg_runtime sample_url js0 no_storage online_app trace" by blast
  from app_state_consistent [OF this] show ?thesis by blast
qed

theorem app_mirrors_coordinator_witness:
  "ap_connectionStatus online_app = appStatus (co_status (ap_coord online_app))"
proof -
  from online_app_reach obtain trace where "app_reach cfg_runtime sample_url js0 no_storage online_app trace" by blast
  from app_mirrors_coordinator [OF this] online_app_fields(1) show ?thesis by blast
qed

theorem online_only_with_sessions_witness: "ap_hasLoadedSessionList online_app"
proof -
  from online_app_reach obtain trace where "app_reach cfg_runtime sample_url js0 no_storage online_app trace" by blast
  from online_only_with_sessions [OF this online_app_fields(1,2)] show ?thesis by blast
qed

theorem resumes_only_rendered_session_witness:
  "RuntimeOut (RuntimeRequest 0 ''session.subscribe'' [(''sessionId'', JStr ''a'')]) \<in>
     set (snd (app_react cfg_runtime sample_url js0 online_app (UiOpenSession ''a'')))"
proof -
  have "\<exists>ps. RuntimeOut (RuntimeRequest 0 ''session.subscribe'' ps) \<in>
      set (snd (app_react cfg_runtime sample_url js0 online_app (UiOpenSession ''a'')))"
    by (simp add: openSessionDetail_def with_runtime_def case_prod_beta' openSession_def online_app_fields Let_def)
  then obtain ps where ps: "RuntimeOut (RuntimeRequest 0 ''session.subscribe'' ps) \<in>
      set (snd (app_react cfg_runtime sample_url js0 online_app (UiOpenSession ''a'')))" by blast
  from resumes_only_rendered_session [OF this] have "ps = [(''sessionId'', JStr ''a'')]"
    by (simp add: online_app_fields)
  with ps show ?thesis by simp
qed

definition rejected_app :: "url_parser \<Rightarrow> (json \<Rightarrow> string) \<Rightarrow> pairing_profile \<Rightarrow> string \<Rightarrow> jobj option \<Rightarrow> app_state" where
  "rejected_app url js p m d = fst (app_run cfg_runtime url js (initial_app no_storage)
     [Restored (Some p), OutsideRuntime (RtEnvironment (Failed 1 (ProtocolFailure UNAUTHORIZED m d)))])"

definition late_clear ::
  "url_parser \<Rightarrow> (json \<Rightarrow> string) \<Rightarrow> pairing_profile \<Rightarrow> pairing_profile \<Rightarrow> string \<Rightarrow> jobj option \<Rightarrow> app_state" where
  "late_clear url js p q m d = fst (app_run cfg_runtime url js (rejected_app url js p m d)
     [UiSaveProfile (profile_json q), StoreSaved, UiPaired q, StoreCleared])"

lemma rejected_app_fields:
  "ap_clears (rejected_app url js p m d) = 1" "ap_profile (rejected_app url js p m d) = Some p"
  "co_disposed (ap_coord (rejected_app url js p m d)) = False" "ap_saves (rejected_app url js p m d) = []"
  "co_profile (ap_coord (rejected_app url js p m d)) = None"
  by (simp_all add: rejected_app_def restored_def with_runtime_def startRuntime_def case_prod_beta' Let_def
      startCoordinator_def synchronize_def cancelReconnect_def closeActiveTransport_def failed_def find_run_def
      drop_run_def handleFailure_def pairingRequiredCodes_def initial_app_def initial_runtime_def initial_coord_def
      onStatusChange_def onProfileInvalidated_def setStatus_def)

lemma onEffects_clears:
  "\<forall>p. CoordEffect (ProfileInvalidated p) \<notin> set effs \<Longrightarrow> ap_clears (fst (onEffects effs s)) = ap_clears s"
proof (induction effs arbitrary: s)
  case (Cons e effs)
  then have "ap_clears (fst (onEffect e s)) = ap_clears s"
    by (cases "(e, s)" rule: onEffect.cases) (auto simp: onStatusChange_def appDispatch_def Let_def split: session_action.split)
  with Cons show ?case by (simp add: case_prod_beta')
qed simp

lemma start_no_invalidation: "ProfileInvalidated x \<notin> set (snd (startCoordinator cfg (Some q) c))"
proof -
  have cl: "ProfileInvalidated x \<notin> set (snd (closeActiveTransport cfg s))" for s
    by (rule notI) (drule subsetD [OF closeActiveTransport_fields(11)], simp)
  have st: "ProfileInvalidated x \<notin> set (snd (setStatus y s))" for y s by (simp add: setStatus_def)
  have cr: "ProfileInvalidated x \<notin> set (snd (cancelReconnect s))" for s by (simp add: cancelReconnect_def split: option.split)
  show ?thesis by (simp add: startCoordinator_def synchronize_def Let_def cl st cr)
qed

lemma paired_app:
  assumes "\<not> co_disposed (ap_coord s)"
  shows "ap_clears (fst (onPaired cfg q s)) = ap_clears s" "co_profile (ap_coord (fst (onPaired cfg q s))) = Some q"
    "co_status (ap_coord (fst (onPaired cfg q s))) = StConnecting"
proof -
  have "CoordEffect (ProfileInvalidated x) \<notin> set (map CoordEffect (snd (startCoordinator cfg (Some q) c)))" for x c
    using start_no_invalidation [of x cfg q c] by auto
  then show "ap_clears (fst (onPaired cfg q s)) = ap_clears s"
    by (simp add: onPaired_def with_runtime_def case_prod_beta' startRuntime_def onEffects_clears)
  show "co_profile (ap_coord (fst (onPaired cfg q s))) = Some q"
    by (simp add: onPaired_def case_prod_beta' startRuntime_def startCoordinator_def synchronize_def Let_def)
  show "co_status (ap_coord (fst (onPaired cfg q s))) = StConnecting"
    using start_reports(1) [OF assms] by (simp add: onPaired_def case_prod_beta' startRuntime_def)
qed

text \<open>When the pairing is rejected and the user pairs anew before the storage has deleted the old profile,
  the deletion takes the new profile with it: it is gone from the storage and from the screens, while the
  coordinator connects with it.\<close>

theorem late_clear_drops_new_profile:
  "ap_profile (late_clear url js p q m d) = None \<and>
   ap_storage (late_clear url js p q m d) ACTIVE_PAIRING_PROFILE_KEY = None \<and>
   co_profile (ap_coord (late_clear url js p q m d)) = Some q \<and>
   co_status (ap_coord (late_clear url js p q m d)) = StConnecting"
proof -
  let ?s = "rejected_app url js p m d"
  define s1 where "s1 = fst (storeSaved url js (fst (saveProfile (profile_json q) ?s)))"
  have "ap_runtime s1 = ap_runtime ?s" "ap_clears s1 = 1"
    by (simp_all add: s1_def saveProfile_def storeSaved_def rejected_app_fields)
  moreover have "late_clear url js p q m d = fst (storeCleared (fst (onPaired cfg_runtime q s1)))"
    by (simp add: late_clear_def case_prod_beta' s1_def)
  ultimately show ?thesis
    using paired_app [of s1 cfg_runtime q] by (simp add: storeCleared_def repository_clear_def rejected_app_fields)
qed

end
