(* ===== verification/Session_Screen.thy ===== *)
theory Session_Screen
  imports Session_List Structured_Actions Styled_Terminal App_Props
begin

section \<open>The screen of a session (features/session/SessionScreen.tsx, app/session/[id].tsx)\<close>

text \<open>
  The screen puts together the terminal, the structured actions and the composer; the values of their
  hooks are arguments of its view.  The actions of the parts are actions of the screen.  The route reads
  the screen's props from the app.  The objects of the active interactions are told apart by numbers,
  which the argument \<open>ident\<close> gives.
\<close>

subsection \<open>SessionScreen\<close>

datatype session_connection =
  SessionOnline | SessionReconnecting | SessionResyncing | SessionOffline | SessionRecovery

datatype screen_action =
    ScreenBack
  | ScreenTerminal styled_action
  | ScreenZone zone_action
  | ScreenComposer composer_action

record session_props =
  sp_sessionId :: string
  sp_state :: session_state
  sp_connectionStatus :: session_connection
  sp_onSendInput :: bool
  sp_actionArea :: "screen_action view option"
  sp_negotiatedCapabilities :: "string set option"
  sp_structuredInteraction :: "interaction_object option"
  sp_onBack :: bool

text \<open>The hooks of the parts.\<close>

record session_hooks =
  sh_composer :: composer
  sh_zone :: zone
  sh_terminal :: styled_terminal

fun connectionLabel :: "session_connection \<Rightarrow> string" where
  "connectionLabel SessionOnline = ''Connected''"
| "connectionLabel SessionReconnecting = ''Reconnecting''"
| "connectionLabel SessionResyncing = ''Synchronising''"
| "connectionLabel SessionOffline = ''Offline''"
| "connectionLabel SessionRecovery = ''Restoring the connection''"

text \<open>\<open>sessionKeyboardBehavior\<close>; a platform is its name.\<close>

definition sessionKeyboardBehavior :: "string \<Rightarrow> string option" where
  "sessionKeyboardBehavior platform = (if platform = ''ios'' then Some ''padding'' else None)"

definition SessionKeyboardFrame :: "'a view list \<Rightarrow> 'a view" where
  "SessionKeyboardFrame children = Box ''session-keyboard-frame'' children"

text \<open>Reading the lines of a stored frame, whose types the schema has established.\<close>

fun as_run :: "json \<Rightarrow> styled_run" where
  "as_run (JObj m) =
     \<lparr>rn_t = map of_char (str_at ''t'' (JObj m)),
      rn_style = \<lparr>rn_fg = as_str (map_of m ''fg''), rn_bg = as_str (map_of m ''bg''),
                  rn_b = (map_of m ''b'' = Some (JBool True)), rn_i = (map_of m ''i'' = Some (JBool True)),
                  rn_u = (map_of m ''u'' = Some (JBool True)), rn_d = (map_of m ''d'' = Some (JBool True))\<rparr>\<rparr>"
| "as_run v =
     \<lparr>rn_t = [], rn_style = \<lparr>rn_fg = None, rn_bg = None, rn_b = False, rn_i = False, rn_u = False, rn_d = False\<rparr>\<rparr>"

fun as_line :: "json \<Rightarrow> styled_line" where
  "as_line (JArr runs) = map as_run runs"
| "as_line v = []"

definition styled_buffer :: "json render_buffer \<Rightarrow> styled_line render_buffer" where
  "styled_buffer b =
     \<lparr>rb_history = map as_line (rb_history b), rb_screen = map as_line (rb_screen b), rb_lastSeq = rb_lastSeq b\<rparr>"

definition session_stopped :: "session \<Rightarrow> bool" where
  "session_stopped session \<longleftrightarrow> status_of session = ''stopped'' \<or> status_of session = ''error''"

definition ended_note :: "session \<Rightarrow> copy" where
  "ended_note session =
     (case map_of session ''exitCode'' of
        None \<Rightarrow> Msg ''Session ended''
      | Some code \<Rightarrow> Parts [Msg ''Session ended, code'', Words (js_string code)])"

text \<open>The three parts of the screen of a session that is there.\<close>

definition terminal_part :: "session_props \<Rightarrow> styled_terminal \<Rightarrow> screen_action view" where
  "terminal_part p st =
     (let terminal = (case terminalBySessionId (sp_state p) (sp_sessionId p) of None \<Rightarrow> [] | Some b \<Rightarrow> tb_text b);
          render = map_option styled_buffer (renderBySessionId (sp_state p) (sp_sessionId p))
      in case (hasRenderContent render, render) of
           (True, Some b) \<Rightarrow> map_view ScreenTerminal (StyledTerminal b st)
         | _ \<Rightarrow> PlainTerminal terminal)"

definition zone_props_of :: "session_props \<Rightarrow> interaction_object \<Rightarrow> zone_props" where
  "zone_props_of p interaction =
     \<lparr>zp_sessionId = sp_sessionId p, zp_canMutate = (sp_connectionStatus p = SessionOnline),
      zp_negotiatedCapabilities = sp_negotiatedCapabilities p, zp_interaction = Some interaction\<rparr>"

definition action_part :: "session_props \<Rightarrow> zone \<Rightarrow> screen_action view" where
  "action_part p z =
     Box ''session-action-area''
       (case sp_actionArea p of
          Some v \<Rightarrow> [v]
        | None \<Rightarrow>
            (case sp_structuredInteraction p of
               None \<Rightarrow> []
             | Some interaction \<Rightarrow> [map_view ScreenZone (StructuredActionZone (zone_props_of p interaction) z)]))"

definition composer_part :: "session_props \<Rightarrow> session \<Rightarrow> composer \<Rightarrow> screen_action view" where
  "composer_part p session c =
     (let online = (sp_connectionStatus p = SessionOnline);
          controlsDisabled = (session_stopped session \<or> \<not> online)
      in map_view ScreenComposer
           (SessionComposer (sp_sessionId p) (if sp_onSendInput p then controlsDisabled else True) c))"

definition session_header :: "session_props \<Rightarrow> session \<Rightarrow> 'a view" where
  "session_header p session =
     Box [] [Box [] [Txt (Words (session_text ''agent'' session)), Txt (Words (session_text ''title'' session)),
                     Txt (Words (projectLabel (session_text ''cwd'' session)))],
             Box [] [Txt (Words (status_of session)), Txt (Msg (connectionLabel (sp_connectionStatus p)))]]"

definition SessionScreen :: "session_props \<Rightarrow> session_hooks \<Rightarrow> screen_action view" where
  "SessionScreen p h =
     (let backButton =
            (if sp_onBack p then [Pressable (Msg ''Back to the sessions'') False ScreenBack [Txt (Msg ''Back to the sessions'')]]
             else [])
      in case sessionsById (sp_state p) (sp_sessionId p) of
           None \<Rightarrow>
             SessionKeyboardFrame [AppScreen ''session-screen''
               (backButton @ [Box [] [EmptyState (Msg ''Session unavailable'')
                  (Msg ''It has ended, was removed or is not loaded yet'') None None]])]
         | Some session \<Rightarrow>
             SessionKeyboardFrame [AppScreen ''session-screen''
               (backButton @
                [session_header p session, terminal_part p (sh_terminal h)] @
                (if session_stopped session then [Txt (ended_note session)] else []) @
                [action_part p (sh_zone h), composer_part p session (sh_composer h)])])"

subsection \<open>The route\<close>

datatype route_param = NoParam | OneParam string | ManyParams "string list"

definition normalizeSessionRouteId :: "route_param \<Rightarrow> string" where
  "normalizeSessionRouteId v =
     (let candidates = (case v of NoParam \<Rightarrow> [] | OneParam x \<Rightarrow> [x] | ManyParams xs \<Rightarrow> xs)
      in case List.find (\<lambda>candidate. js_trim candidate \<noteq> []) candidates of
           None \<Rightarrow> []
         | Some candidate \<Rightarrow> js_trim candidate)"

fun session_status :: "app_status \<Rightarrow> session_connection" where
  "session_status AppOnline = SessionOnline"
| "session_status AppOffline = SessionOffline"
| "session_status AppResyncing = SessionResyncing"
| "session_status AppRecovery = SessionRecovery"
| "session_status AppIdle = SessionReconnecting"
| "session_status AppReconnecting = SessionReconnecting"
| "session_status AppPairingRequired = SessionReconnecting"

definition SessionRoute :: "route_param \<Rightarrow> (string \<Rightarrow> nat) \<Rightarrow> app_state \<Rightarrow> session_hooks \<Rightarrow> screen_action view" where
  "SessionRoute i ident app h =
     (let sessionId = normalizeSessionRouteId i
      in SessionScreen
           \<lparr>sp_sessionId = sessionId, sp_state = ap_sessionState app,
            sp_connectionStatus = session_status (ap_connectionStatus app), sp_onSendInput = True,
            sp_actionArea = None, sp_negotiatedCapabilities = ap_negotiatedCapabilities app,
            sp_structuredInteraction =
              map_option (Pair (ident sessionId)) (activeInteractionsBySessionId (ap_sessionState app) sessionId),
            sp_onBack = True\<rparr> h)"

datatype back_effect = RouterBack | RouterReplace string

definition onBack :: "bool \<Rightarrow> back_effect" where
  "onBack canGoBack = (if canGoBack then RouterBack else RouterReplace ''/(tabs)/sessions'')"

text \<open>What the effects of the parts ask of the app.\<close>

fun composer_request :: "composer_effect \<Rightarrow> app_input" where
  "composer_request (OnSendInput ps) = UiRuntime (RtSendInput ps)"

fun zone_request :: "zone_effect \<Rightarrow> app_input" where
  "zone_request (OnRespond ps) = UiRuntime (RtRespond ps)"
| "zone_request (OnOpenSession i) = UiOpenSession i"


subsection \<open>Properties\<close>

lemma terminal_part_offers [view_simps]: "offers (terminal_part p st) a \<Longrightarrow> \<exists>b. a = ScreenTerminal b"
  by (auto simp: terminal_part_def view_simps Let_def split: bool.splits option.splits)

lemma session_header_offers [view_simps]: "offers (session_header p session) a \<longleftrightarrow> False"
  by (simp add: session_header_def view_simps)

lemma composer_part_offers [view_simps]:
  "offers (composer_part p session c) (ScreenComposer b) \<longleftrightarrow>
     offers (SessionComposer (sp_sessionId p) (\<not> sp_onSendInput p \<or> session_stopped session \<or> sp_connectionStatus p \<noteq> SessionOnline) c) b"
  "offers (composer_part p session c) (ScreenZone z) \<longleftrightarrow> False" "offers (composer_part p session c) ScreenBack \<longleftrightarrow> False"
  by (auto simp: composer_part_def view_simps Let_def split: if_splits)

lemma action_part_offers [view_simps]:
  assumes "sp_actionArea p = None"
  shows "offers (action_part p z) (ScreenZone b) \<longleftrightarrow>
     (\<exists>i. sp_structuredInteraction p = Some i \<and> offers (StructuredActionZone (zone_props_of p i) z) b)"
    "offers (action_part p z) (ScreenComposer c) \<longleftrightarrow> False" "offers (action_part p z) ScreenBack \<longleftrightarrow> False"
  using assms
  by (cases "sp_structuredInteraction p"; auto simp: action_part_def view_simps; fail)+

lemma SessionScreen_offers:
  assumes "sp_actionArea p = None"
  shows "offers (SessionScreen p h) (ScreenComposer b) \<longleftrightarrow>
      (\<exists>session. sessionsById (sp_state p) (sp_sessionId p) = Some session \<and>
        offers (composer_part p session (sh_composer h)) (ScreenComposer b))"
    "offers (SessionScreen p h) (ScreenZone c) \<longleftrightarrow>
      (\<exists>session. sessionsById (sp_state p) (sp_sessionId p) = Some session \<and>
        offers (action_part p (sh_zone h)) (ScreenZone c))"
  using assms
  by (auto simp: SessionScreen_def SessionKeyboardFrame_def view_simps Let_def split: option.splits
      dest!: terminal_part_offers)

lemma session_status_online [simp]: "session_status st = SessionOnline \<longleftrightarrow> st = AppOnline"
  by (cases st) simp_all

text \<open>The identifier that the route passes on never has white space at its ends, is empty only if no
  candidate has anything else, and otherwise is the first candidate that has, trimmed.\<close>

theorem route_id_normal:
  "js_trim (normalizeSessionRouteId v) = normalizeSessionRouteId v \<and>
   (let candidates = (case v of NoParam \<Rightarrow> [] | OneParam x \<Rightarrow> [x] | ManyParams xs \<Rightarrow> xs)
    in case filter (\<lambda>x. js_trim x \<noteq> []) candidates of
         [] \<Rightarrow> normalizeSessionRouteId v = []
       | x # _ \<Rightarrow> normalizeSessionRouteId v = js_trim x)"
proof -
  have find: "List.find P xs = (case filter P xs of [] \<Rightarrow> None | x # _ \<Rightarrow> Some x)" for P and xs :: "string list"
    by (induction xs) simp_all
  have nil: "js_trim [] = []" by (simp add: js_trim_def)
  show ?thesis
    by (auto simp: normalizeSessionRouteId_def find Let_def nil split: list.splits)
qed

end
