(* ===== verification/Inbox_Screen.thy ===== *)
theory Inbox_Screen
  imports Session_Screen
begin

section \<open>The inbox (features/inbox, app/(tabs)/inbox.tsx)\<close>

text \<open>
  The cards of the sessions that need attention, the recent activity and the screen with both.  The cards
  are the children of a list with keys: React keeps the hooks of a card as long as there is a card with
  its key, and mounts a new one otherwise.  So the hooks of the zones are a map from keys.
\<close>

subsection \<open>AttentionCard.tsx\<close>

datatype inbox_action =
    InboxOpen string
  | InboxView string
  | InboxDismiss string
  | InboxZone string zone_action

record card_content =
  cc_eyebrow :: string
  cc_message :: string
  cc_action :: string

definition cardContent :: "string \<Rightarrow> card_content option" where
  "cardContent status =
     (if status = ''waiting'' then
        Some \<lparr>cc_eyebrow = ''Answer needed'', cc_message = ''The agent waits for your answer'', cc_action = ''Open session''\<rparr>
      else if status = ''error'' then
        Some \<lparr>cc_eyebrow = ''Error'', cc_message = ''The session ended with an error'', cc_action = ''View the terminal''\<rparr>
      else if status = ''stopped'' then
        Some \<lparr>cc_eyebrow = ''Done'', cc_message = ''Session ended'', cc_action = ''View the result''\<rparr>
      else None)"

text \<open>The key of a card in \<open>InboxScreen.tsx\<close>.\<close>

definition card_key :: "session \<Rightarrow> string" where
  "card_key item =
     to_key (map_of item ''id'') @ '':'' @ to_key (map_of item ''status'') @ '':'' @
     to_key (map_of item ''lastActivityAt'') @ '':'' @
     (case map_of item ''exitCode'' of None \<Rightarrow> [] | Some code \<Rightarrow> if code = JNull then [] else js_string code)"

definition handlePrimaryAction :: "session \<Rightarrow> inbox_action" where
  "handlePrimaryAction session =
     (if status_of session = ''waiting'' then InboxOpen (sess_id session) else InboxView (sess_id session))"

text \<open>The props that the card gives its zone.\<close>

definition card_zone ::
  "bool \<Rightarrow> string set option \<Rightarrow> interaction_object option \<Rightarrow> session \<Rightarrow> zone_props" where
  "card_zone mayMutate caps interaction session =
     \<lparr>zp_sessionId = sess_id session, zp_canMutate = mayMutate, zp_negotiatedCapabilities = caps,
      zp_interaction = interaction\<rparr>"

text \<open>\<open>AttentionCard\<close>, nothing for other statuses; the zone's \<open>onOpenSession\<close> is \<open>onOpen\<close>.\<close>

definition AttentionCard ::
  "bool \<Rightarrow> string set option \<Rightarrow> interaction_object option \<Rightarrow> session \<Rightarrow> zone \<Rightarrow> inbox_action view list" where
  "AttentionCard mayMutate caps interaction session z =
     (case cardContent (status_of session) of
        None \<Rightarrow> []
      | Some content \<Rightarrow>
          [Pressable (Parts [Msg (cc_message content), Words (session_text ''title'' session)]) False
             (handlePrimaryAction session)
             [Box [] [Box [] [Txt (Msg (cc_eyebrow content)), Txt (Msg (cc_message content)),
                              Txt (Words (session_text ''title'' session))],
                      Pressable (Msg ''Hide the notification'') False (InboxDismiss (makeDismissalKey session))
                        [Txt (Msg ''Hide'')]],
              (if status_of session = ''waiting''
               then map_view (InboxZone (card_key session)) (StructuredActionZone (card_zone mayMutate caps interaction session) z)
               else button (cc_action content) (handlePrimaryAction session))]])"

subsection \<open>ActivityRow.tsx\<close>

fun activity_label :: "activity_type \<Rightarrow> string" where
  "activity_label ActCreated = ''Session created''"
| "activity_label ActUpdated = ''Session updated''"
| "activity_label ActEnded = ''Session ended''"
| "activity_label ActRemoved = ''Session removed''"

definition activity_title :: "activity_fact \<Rightarrow> string" where
  "activity_title item =
     (case af_title item of None \<Rightarrow> af_sessionId item | Some v \<Rightarrow> if v = JNull then af_sessionId item else js_string v)"

definition ActivityRow :: "activity_fact \<Rightarrow> 'a option \<Rightarrow> 'a view" where
  "ActivityRow item onPress =
     (let content = [Box [] [], Box [] [Txt (Msg (activity_label (af_type item))), Txt (Words (activity_title item))]]
      in case onPress of
           None \<Rightarrow> Box (''activity-'' @ af_id item) content
         | Some a \<Rightarrow>
             Pressable (Parts [Msg (activity_label (af_type item)), Words (activity_title item)]) False a content)"

subsection \<open>InboxScreen.tsx\<close>

datatype inbox_connection = InboxConnected | InboxBanner banner_status

record inbox_props =
  ip_state :: session_state
  ip_connectionStatus :: inbox_connection
  ip_negotiatedCapabilities :: "string set option"
  ip_activeInteractions :: "string \<Rightarrow> interaction_object option"
  ip_canMutate :: bool

definition attentionCountLabel :: "nat \<Rightarrow> copy" where
  "attentionCountLabel n =
     Parts [Words (show_nat n),
            Msg (if n mod 10 = 1 \<and> n mod 100 \<noteq> 11 then ''needs attention'' else ''need attention'')]"

text \<open>The hooks of the zone of a card; a card that was not there is mounted.\<close>

definition zone_at :: "(string, zone) jsmap \<Rightarrow> inbox_props \<Rightarrow> session \<Rightarrow> zone" where
  "zone_at zones p session =
     (case map_of zones (card_key session) of
        Some z \<Rightarrow> z
      | None \<Rightarrow> zone_mounted (ip_activeInteractions p (sess_id session)))"

definition attention_section :: "session list \<Rightarrow> inbox_props \<Rightarrow> (string, zone) jsmap \<Rightarrow> inbox_action view list" where
  "attention_section attention p zones =
     (if length attention > 0
      then [Box [] ([Txt (Msg ''Needs attention'')] @
              concat (map (\<lambda>item. AttentionCard (ip_canMutate p) (ip_negotiatedCapabilities p)
                 (ip_activeInteractions p (sess_id item)) item (zone_at zones p item)) attention))]
      else [])"

definition activity_section :: "activity_fact list \<Rightarrow> inbox_action view list" where
  "activity_section facts =
     (if length facts > 0
      then [Box [] ([Txt (Msg ''Recent activity'')] @
              map (\<lambda>item. ActivityRow item
                 (if af_type item = ActRemoved then None else Some (InboxView (af_sessionId item)))) facts)]
      else [])"

definition InboxScreen :: "date_parse \<Rightarrow> inbox_props \<Rightarrow> (string, zone) jsmap \<Rightarrow> inbox_action view" where
  "InboxScreen dp p zones =
     (let attention = selectAttentionCards dp (ip_state p);
          activity = selectRecentActivity dp (ip_state p);
          hasContent = (length attention > 0 \<or> length activity > 0);
          isWaitingForData = (ip_connectionStatus p = InboxBanner BannerReconnecting \<and> \<not> hasContent)
      in AppScreen ''inbox-screen'' [Box ''inbox-content''
           ([Box [] [Txt (Msg ''Inbox''), Txt (attentionCountLabel (length attention))]] @
            (case ip_connectionStatus p of InboxConnected \<Rightarrow> [] | InboxBanner st \<Rightarrow> [ConnectionBanner st]) @
            (if ip_connectionStatus p = InboxBanner BannerOffline \<and> hasContent
             then [Txt (Msg ''Saved data are shown'')] else []) @
            (if isWaitingForData
             then [EmptyState (Msg ''Waiting for current data'') (Msg ''The list is updated when the connection is restored'') None None]
             else []) @
            attention_section attention p zones @
            activity_section activity @
            (if ip_connectionStatus p = InboxConnected \<and> \<not> hasContent
             then [EmptyState (Msg ''The inbox is empty'') (Msg ''Events that need attention appear here'') None None]
             else []))])"

text \<open>The zones after a rendering and its effects: those of the cards that are there.\<close>

definition zones_after :: "date_parse \<Rightarrow> inbox_props \<Rightarrow> (string, zone) jsmap \<Rightarrow> (string, zone) jsmap" where
  "zones_after dp p zones =
     map (\<lambda>session. (card_key session,
            useInteractionEffect (ip_activeInteractions p (sess_id session)) (zone_at zones p session)))
       (filter (\<lambda>session. status_of session = ''waiting'') (selectAttentionCards dp (ip_state p)))"

subsection \<open>The route and its events\<close>

fun inbox_status :: "app_status \<Rightarrow> inbox_connection" where
  "inbox_status AppOnline = InboxConnected"
| "inbox_status AppOffline = InboxBanner BannerOffline"
| "inbox_status AppResyncing = InboxBanner BannerResyncing"
| "inbox_status AppRecovery = InboxBanner BannerRecovery"
| "inbox_status AppIdle = InboxBanner BannerReconnecting"
| "inbox_status AppReconnecting = InboxBanner BannerReconnecting"
| "inbox_status AppPairingRequired = InboxBanner BannerReconnecting"

definition inbox_route :: "(string \<Rightarrow> nat) \<Rightarrow> app_state \<Rightarrow> inbox_props" where
  "inbox_route ident app =
     \<lparr>ip_state = ap_sessionState app, ip_connectionStatus = inbox_status (ap_connectionStatus app),
      ip_negotiatedCapabilities = ap_negotiatedCapabilities app,
      ip_activeInteractions =
        (\<lambda>i. map_option (Pair (ident i)) (activeInteractionsBySessionId (ap_sessionState app) i)),
      ip_canMutate = (ap_connectionStatus app = AppOnline)\<rparr>"

definition InboxRoute :: "date_parse \<Rightarrow> (string \<Rightarrow> nat) \<Rightarrow> app_state \<Rightarrow> (string, zone) jsmap \<Rightarrow> inbox_action view" where
  "InboxRoute dp ident app zones = InboxScreen dp (inbox_route ident app) zones"

record inbox_ui =
  iu_zones :: "(string, zone) jsmap"
  iu_shown :: "inbox_action view"

datatype inbox_input =
    InboxRender inbox_props
  | InboxDo inbox_action
  | InboxAnswered string nat
  | InboxFailed string nat thrown

text \<open>A change of the hooks of the zone with a key; of a card that is gone nothing is changed.\<close>

definition with_zone :: "string \<Rightarrow> (zone \<Rightarrow> zone_outcome) \<Rightarrow> inbox_ui \<Rightarrow> inbox_ui \<times> app_input list" where
  "with_zone key f u =
     (case map_of (iu_zones u) key of
        None \<Rightarrow> (u, [])
      | Some z \<Rightarrow>
          (case f z of
             (z', effs) \<Rightarrow> (u\<lparr>iu_zones := AList.update key z' (iu_zones u)\<rparr>, map zone_request effs)))"

text \<open>A promise settles only for the zone that waits for it.\<close>

definition when_waiting :: "nat \<Rightarrow> (zone \<Rightarrow> zone) \<Rightarrow> zone \<Rightarrow> zone_outcome" where
  "when_waiting n f z = (if n < length (zn_waiting z) then f z else z, [])"

text \<open>What the actions ask of the app; an action of a zone goes to its hooks.\<close>

fun inbox_react :: "date_parse \<Rightarrow> inbox_ui \<Rightarrow> inbox_input \<Rightarrow> inbox_ui \<times> app_input list" where
  "inbox_react dp u (InboxRender p) =
     (\<lparr>iu_zones = zones_after dp p (iu_zones u), iu_shown = InboxScreen dp p (iu_zones u)\<rparr>, [])"
| "inbox_react dp u (InboxDo (InboxOpen i)) = (u, [UiOpenSession i])"
| "inbox_react dp u (InboxDo (InboxView i)) = (u, [UiOpenSession i])"
| "inbox_react dp u (InboxDo (InboxDismiss key)) = (u, [UiDismiss key])"
| "inbox_react dp u (InboxDo (InboxZone key a)) = with_zone key (zone_act a) u"
| "inbox_react dp u (InboxAnswered key n) = with_zone key (when_waiting n (submitAnswered n)) u"
| "inbox_react dp u (InboxFailed key n err) = with_zone key (when_waiting n (submitFailed n err)) u"


subsection \<open>What the inbox offers\<close>

lemma cardContent_attention: "cardContent (status_of x) \<noteq> None \<longleftrightarrow> ATTENTION_PRIORITY (status_of x) \<noteq> None"
  by (simp add: cardContent_def ATTENTION_PRIORITY_def)

lemma AttentionCard_offers:
  assumes "ATTENTION_PRIORITY (status_of x) \<noteq> None"
  shows "(\<exists>v\<in>set (AttentionCard may caps it x z). offers v a) \<longleftrightarrow>
    a = handlePrimaryAction x \<or> a = InboxDismiss (makeDismissalKey x) \<or>
    (status_of x = ''waiting'' \<and>
     (\<exists>b. a = InboxZone (card_key x) b \<and> offers (StructuredActionZone (card_zone may caps it x) z) b))"
proof -
  from assms cardContent_attention [of x] obtain c where "cardContent (status_of x) = Some c" by auto
  then show ?thesis by (auto simp: AttentionCard_def view_simps)
qed

lemma ActivityRow_offers [view_simps]: "offers (ActivityRow item onPress) a \<longleftrightarrow> onPress = Some a"
  by (auto simp: ActivityRow_def view_simps Let_def split: option.splits)

lemma cards_attention: "x \<in> set (selectAttentionCards dp state) \<Longrightarrow> ATTENTION_PRIORITY (status_of x) \<noteq> None"
  by (simp add: selectAttentionCards_def needs_attention_def)

lemma attention_section_offers:
  "(\<exists>v\<in>set (attention_section cards p zones). offers v a) \<longleftrightarrow>
     (\<exists>x\<in>set cards. \<exists>v\<in>set (AttentionCard (ip_canMutate p) (ip_negotiatedCapabilities p)
        (ip_activeInteractions p (sess_id x)) x (zone_at zones p x)). offers v a)"
  by (cases cards) (auto simp: attention_section_def view_simps)

lemma activity_section_offers:
  "(\<exists>v\<in>set (activity_section acts). offers v a) \<longleftrightarrow>
     (\<exists>item\<in>set acts. af_type item \<noteq> ActRemoved \<and> a = InboxView (af_sessionId item))"
  by (cases acts) (auto simp: activity_section_def view_simps split: if_splits)

lemma banner_offers: "v \<in> set (case c of InboxConnected \<Rightarrow> [] | InboxBanner st \<Rightarrow> [ConnectionBanner st]) \<Longrightarrow> \<not> offers v a"
  by (cases c) (auto simp: view_simps)

lemma InboxScreen_offers:
  "offers (InboxScreen dp p zones) a \<longleftrightarrow>
     (\<exists>v\<in>set (attention_section (selectAttentionCards dp (ip_state p)) p zones). offers v a) \<or>
     (\<exists>v\<in>set (activity_section (selectRecentActivity dp (ip_state p))). offers v a)"
proof -
  have empty: "v \<in> set (if b then [x] else []) \<Longrightarrow> \<not> offers x a \<Longrightarrow> \<not> offers v a" for v b x
    by (cases b) auto
  show ?thesis
    unfolding InboxScreen_def Let_def kit_offers offers_simps list.set set_append bex_Un bex_simps
    by (auto simp: view_simps dest: banner_offers empty)
qed

text \<open>C24: In the inbox every session that needs attention has a card that opens it when it waits and shows it
  when it has ended, and that can be hidden; recent activity can be opened except of removed sessions; and
  an answer can be given only to the interaction of a waiting session's card.  Nothing else is offered.\<close>

theorem inbox_screen_offers:
  "offers (InboxScreen dp p zones) a \<longleftrightarrow>
     (case a of
        InboxOpen i \<Rightarrow> \<exists>x. x \<in> set (selectAttentionCards dp (ip_state p)) \<and> status_of x = ''waiting'' \<and> i = sess_id x
      | InboxView i \<Rightarrow>
          (\<exists>x. x \<in> set (selectAttentionCards dp (ip_state p)) \<and> status_of x \<noteq> ''waiting'' \<and> i = sess_id x) \<or>
          (\<exists>f. f \<in> set (selectRecentActivity dp (ip_state p)) \<and> af_type f \<noteq> ActRemoved \<and> i = af_sessionId f)
      | InboxDismiss key \<Rightarrow> \<exists>x. x \<in> set (selectAttentionCards dp (ip_state p)) \<and> key = makeDismissalKey x
      | InboxZone key b \<Rightarrow> \<exists>x. x \<in> set (selectAttentionCards dp (ip_state p)) \<and> status_of x = ''waiting'' \<and>
          key = card_key x \<and>
          offers (StructuredActionZone (card_zone (ip_canMutate p) (ip_negotiatedCapabilities p)
             (ip_activeInteractions p (sess_id x)) x) (zone_at zones p x)) b)"
proof -
  let ?zone = "\<lambda>x. StructuredActionZone (card_zone (ip_canMutate p) (ip_negotiatedCapabilities p)
      (ip_activeInteractions p (sess_id x)) x) (zone_at zones p x)"
  have "(\<exists>v\<in>set (attention_section (selectAttentionCards dp (ip_state p)) p zones). offers v a) \<longleftrightarrow>
      (\<exists>x\<in>set (selectAttentionCards dp (ip_state p)). a = handlePrimaryAction x \<or> a = InboxDismiss (makeDismissalKey x) \<or>
        (status_of x = ''waiting'' \<and> (\<exists>b. a = InboxZone (card_key x) b \<and> offers (?zone x) b)))"
    unfolding attention_section_offers by (rule bex_cong [OF refl AttentionCard_offers [OF cards_attention]])
  then show ?thesis
    unfolding InboxScreen_offers activity_section_offers
    by (cases a) (auto simp: handlePrimaryAction_def split: if_splits)
qed


subsection \<open>Examples\<close>

definition waiting_session :: "string \<Rightarrow> session" where
  "waiting_session tm =
     [(''id'', JStr ''s''), (''title'', JStr ''t''), (''status'', JStr ''waiting''), (''lastActivityAt'', JStr tm)]"

definition waiting_props :: "string \<Rightarrow> inbox_props" where
  "waiting_props tm =
     \<lparr>ip_state = createInitialSessionState
        \<lparr>sessionsById := [''s'' \<mapsto> waiting_session tm], sessionIds := [''s'']\<rparr>,
      ip_connectionStatus = InboxConnected, ip_negotiatedCapabilities = Some {''interaction.structured''},
      ip_activeInteractions = [''s'' \<mapsto> (1, approval ''a'')], ip_canMutate = True\<rparr>"

definition waiting_key_at :: "string \<Rightarrow> string" where
  "waiting_key_at tm = ''s:waiting:'' @ tm @ '':''"

lemma waiting_key_at_inj [simp]: "waiting_key_at tm = waiting_key_at tm' \<longleftrightarrow> tm = tm'"
  by (simp add: waiting_key_at_def)

lemma waiting_fields [simp]:
  "selectAttentionCards dp (ip_state (waiting_props tm)) = [waiting_session tm]"
  "status_of (waiting_session tm) = ''waiting''" "sess_id (waiting_session tm) = ''s''"
  "card_key (waiting_session tm) = waiting_key_at tm"
  "ip_activeInteractions (waiting_props tm) ''s'' = Some (1, approval ''a'')"
  "card_zone (ip_canMutate (waiting_props tm)) (ip_negotiatedCapabilities (waiting_props tm)) (Some (1, approval ''a''))
     (waiting_session tm) = approval_props 1 ''a''"
  by (simp_all add: waiting_props_def waiting_session_def selectAttentionCards_def listed_def List.map_filter_def
      needs_attention_def ATTENTION_PRIORITY_def createInitialSessionState_def js_sort_def str_at_def sess_id_def
      card_key_def to_key_def card_zone_def approval_props_def waiting_key_at_def)

definition empty_inbox :: inbox_ui where
  "empty_inbox = \<lparr>iu_zones = [], iu_shown = Box [] []\<rparr>"

definition inbox_run :: "date_parse \<Rightarrow> inbox_ui \<Rightarrow> inbox_input list \<Rightarrow> inbox_ui" where
  "inbox_run dp u is = foldl (\<lambda>u i. fst (inbox_react dp u i)) u is"

lemma waiting_zones:
  "zones_after dp (waiting_props tm) zones =
     [(waiting_key_at tm, useInteractionEffect (Some (1, approval ''a''))
        (case map_of zones (waiting_key_at tm) of Some z \<Rightarrow> z | None \<Rightarrow> zone_mounted (Some (1, approval ''a''))))]"
  by (simp add: zones_after_def zone_at_def cong: option.case_cong)

text \<open>The key of a card changes with the time of the last activity.  When a session whose answer has just been
  sent is active once more, its card is mounted anew, and the same answer to the same interaction can be
  given, and is sent, a second time.\<close>

theorem remounted_card_answers_again:
  fixes dp :: date_parse
  assumes "tm \<noteq> tm'"
  defines "u1 \<equiv> inbox_run dp empty_inbox [InboxRender (waiting_props tm)]"
  defines "u2 \<equiv> inbox_run dp u1 [InboxDo (InboxZone (waiting_key_at tm) (approve ''a'')), InboxRender (waiting_props tm')]"
  shows "snd (inbox_react dp u1 (InboxDo (InboxZone (waiting_key_at tm) (approve ''a'')))) =
           [UiRuntime (RtRespond (respond_params ''s'' (approval ''a'') (options_response ''y'')))] \<and>
         snd (inbox_react dp u2 (InboxDo (InboxZone (waiting_key_at tm') (approve ''a'')))) =
           [UiRuntime (RtRespond (respond_params ''s'' (approval ''a'') (options_response ''y'')))]"
  using assms(1)
  by (simp add: u1_def u2_def inbox_run_def waiting_zones empty_inbox_def with_zone_def useInteractionEffect_def
      zone_mounted_def submit_def)

end
