(* ===== verification/Pairing_Screen.thy ===== *)
theory Pairing_Screen
  imports App_Provider Ui_View
begin

section \<open>The pairing screen (apps/mobile/src/features/pairing)\<close>

text \<open>
  The screen on which the user scans a code or types the data of a computer.  The record holds the hooks'
  values of the screen and of its form, the reference \<open>pairingInProgress\<close>, and the calls of \<open>submit\<close> that
  wait, numbered, each with what it waits for.  The camera is a field: what is scanned is what is typed
  into it.  The identity of the device, the connection and the storage answer in later turns.
\<close>

subsection \<open>Errors\<close>

datatype pair_failure = FromClient client_error | OtherFailure

fun pairingErrors :: "error_code \<Rightarrow> copy option" where
  "pairingErrors PAIRING_EXPIRED = Some (Msg ''The code has expired. Create a new code on the computer.'')"
| "pairingErrors PAIRING_NOT_FOUND = Some (Msg ''The code was not found. Check the data or create a new code.'')"
| "pairingErrors DESKTOP_OFFLINE = Some (Msg ''The computer is not online. Start Cucoudle on it and try again.'')"
| "pairingErrors code = None"

definition pairing_failed :: copy where
  "pairing_failed = Msg ''Could not connect. Check the connection and try again.''"

fun errorCopy :: "pair_failure \<Rightarrow> copy" where
  "errorCopy (FromClient (ProtocolFailure code m d)) =
     (case pairingErrors code of Some c \<Rightarrow> c | None \<Rightarrow> pairing_failed)"
| "errorCopy err = pairing_failed"

subsection \<open>The state\<close>

datatype pairing_stage =
    AwaitIdentity
  | AwaitResult json
  | AwaitSaved pairing_profile

record pairing_run =
  pu_call :: nat
  pu_request :: pairing_request
  pu_stage :: pairing_stage

record pairing_screen =
  ps_selectedLens :: "string option"
  ps_manual :: bool
  ps_loading :: bool
  ps_error :: "copy option"
  ps_pairingInProgress :: bool
  ps_values :: pairing_request
  ps_errors :: manual_errors
  ps_runs :: "pairing_run list"
  ps_calls :: nat

definition empty_values :: pairing_request where
  "empty_values = \<lparr>prq_relayWsUrl = [], prq_desktopId = [], prq_pairingCode = []\<rparr>"

definition no_errors :: manual_errors where
  "no_errors = \<lparr>me_relayWsUrl = None, me_desktopId = False, me_pairingCode = False\<rparr>"

definition initial_pairing_screen :: pairing_screen where
  "initial_pairing_screen =
     \<lparr>ps_selectedLens = None, ps_manual = False, ps_loading = False, ps_error = None, ps_pairingInProgress = False,
      ps_values = empty_values, ps_errors = no_errors, ps_runs = [], ps_calls = 0\<rparr>"

datatype pairing_effect =
    GetDeviceIdentity nat
  | CallPair nat transport_request
  | CallSaveProfile nat pairing_profile
  | CallOnPaired pairing_profile
  | RequestPermission

type_synonym pairing_outcome = "pairing_screen \<times> pairing_effect list"

subsection \<open>submit, cut at its awaits\<close>

definition submitPairing :: "pairing_request \<Rightarrow> pairing_screen \<Rightarrow> pairing_outcome" where
  "submitPairing req s =
     (if ps_pairingInProgress s then (s, [])
      else
        (let n = ps_calls s
         in (s\<lparr>ps_pairingInProgress := True, ps_loading := True, ps_error := None, ps_calls := Suc n,
               ps_runs := ps_runs s @ [\<lparr>pu_call = n, pu_request = req, pu_stage = AwaitIdentity\<rparr>]\<rparr>,
             [GetDeviceIdentity n])))"

definition find_pairing :: "nat \<Rightarrow> pairing_screen \<Rightarrow> pairing_run option" where
  "find_pairing n s = List.find (\<lambda>r. pu_call r = n) (ps_runs s)"

definition drop_pairing :: "nat \<Rightarrow> pairing_screen \<Rightarrow> pairing_screen" where
  "drop_pairing n s = s\<lparr>ps_runs := filter (\<lambda>r. pu_call r \<noteq> n) (ps_runs s)\<rparr>"

definition wait_for :: "pairing_run \<Rightarrow> pairing_stage \<Rightarrow> pairing_screen \<Rightarrow> pairing_screen" where
  "wait_for r stage s = s\<lparr>ps_runs := map (\<lambda>q. if pu_call q = pu_call r then q\<lparr>pu_stage := stage\<rparr> else q) (ps_runs s)\<rparr>"

text \<open>The \<open>finally\<close> clause, and the \<open>catch\<close> clause before it.\<close>

definition end_pairing :: "pairing_run \<Rightarrow> pairing_screen \<Rightarrow> pairing_screen" where
  "end_pairing r s = (drop_pairing (pu_call r) s)\<lparr>ps_pairingInProgress := False, ps_loading := False\<rparr>"

definition fail_pairing :: "pairing_run \<Rightarrow> pair_failure \<Rightarrow> pairing_screen \<Rightarrow> pairing_outcome" where
  "fail_pairing r err s = (end_pairing r (s\<lparr>ps_error := Some (errorCopy err)\<rparr>), [])"

definition with_run :: "nat \<Rightarrow> (pairing_run \<Rightarrow> pairing_outcome) \<Rightarrow> pairing_screen \<Rightarrow> pairing_outcome" where
  "with_run n f s = (case find_pairing n s of None \<Rightarrow> (s, []) | Some r \<Rightarrow> f r)"

text \<open>After \<open>await getDeviceIdentity()\<close>.\<close>

definition gotIdentity :: "zod \<Rightarrow> nat \<Rightarrow> json \<Rightarrow> pairing_screen \<Rightarrow> pairing_outcome" where
  "gotIdentity sp n mobileDevice s = with_run n (\<lambda>r.
     if pu_stage r \<noteq> AwaitIdentity then (s, [])
     else
       (case sp MobilePairParamsSchema (Some (JObj
               [(''desktopId'', JStr (prq_desktopId (pu_request r))),
                (''pairingCode'', JStr (prq_pairingCode (pu_request r))),
                (''mobileDevice'', mobileDevice)])) of
          Inl m \<Rightarrow> fail_pairing r OtherFailure s
        | Inr params \<Rightarrow>
            (wait_for r (AwaitResult mobileDevice) s,
             [CallPair n \<lparr>tr_relayWsUrl = prq_relayWsUrl (pu_request r), tr_desktopId = str_at ''desktopId'' params,
                         tr_pairingCode = str_at ''pairingCode'' params,
                         tr_mobileDevice = (case prop_of ''mobileDevice'' params of Some d \<Rightarrow> d | None \<Rightarrow> JNull)\<rparr>]))) s"

text \<open>After \<open>await pair(...)\<close>.\<close>

definition gotResult :: "zod \<Rightarrow> url_parser \<Rightarrow> nat \<Rightarrow> json \<Rightarrow> pairing_screen \<Rightarrow> pairing_outcome" where
  "gotResult sp url n result s = with_run n (\<lambda>r.
     case pu_stage r of
       AwaitResult mobileDevice \<Rightarrow>
         (case buildPairingProfile sp url (pu_request r) mobileDevice result of
            Inl err \<Rightarrow> fail_pairing r OtherFailure s
          | Inr profile \<Rightarrow> (wait_for r (AwaitSaved profile) s, [CallSaveProfile n profile]))
     | _ \<Rightarrow> (s, [])) s"

text \<open>After \<open>await saveProfile(profile)\<close>.\<close>

definition profileSaved :: "nat \<Rightarrow> pairing_screen \<Rightarrow> pairing_outcome" where
  "profileSaved n s = with_run n (\<lambda>r.
     case pu_stage r of
       AwaitSaved profile \<Rightarrow> (end_pairing r s, [CallOnPaired profile])
     | _ \<Rightarrow> (s, [])) s"

definition stepFailed :: "nat \<Rightarrow> pair_failure \<Rightarrow> pairing_screen \<Rightarrow> pairing_outcome" where
  "stepFailed n err s = with_run n (\<lambda>r. fail_pairing r err s) s"

subsection \<open>The other handlers\<close>

text \<open>\<open>pickWideLens\<close> with the lenses that the camera has, or nothing when it fails or has no list.\<close>

definition pickWideLens :: "string list option \<Rightarrow> pairing_screen \<Rightarrow> pairing_screen" where
  "pickWideLens lenses s =
     (case lenses of
        None \<Rightarrow> s
      | Some ls \<Rightarrow>
          if length ls = 0 then s
          else s\<lparr>ps_selectedLens := Some (hd (js_sort (\<lambda>a b. int (length a) - int (length b)) ls))\<rparr>)"

definition scan :: "zod \<Rightarrow> url_parser \<Rightarrow> (string \<Rightarrow> json option) \<Rightarrow> string \<Rightarrow> pairing_screen \<Rightarrow> pairing_outcome" where
  "scan sp url jparse code s =
     (case parseQrPairingRequest sp url jparse code of
        Inl err \<Rightarrow> (s\<lparr>ps_error := Some (Msg ''Could not read the QR code'')\<rparr>, [])
      | Inr req \<Rightarrow> submitPairing req s)"

datatype form_key = RelayWsUrlKey | DesktopIdKey | PairingCodeKey

text \<open>\<open>update\<close> and \<open>submit\<close> of \<open>ManualPairingForm\<close>; the values that \<open>submit\<close> has captured are an argument.\<close>

fun updateField :: "form_key \<Rightarrow> string \<Rightarrow> pairing_screen \<Rightarrow> pairing_screen" where
  "updateField RelayWsUrlKey v s =
     s\<lparr>ps_values := (ps_values s)\<lparr>prq_relayWsUrl := v\<rparr>, ps_errors := (ps_errors s)\<lparr>me_relayWsUrl := None\<rparr>\<rparr>"
| "updateField DesktopIdKey v s =
     s\<lparr>ps_values := (ps_values s)\<lparr>prq_desktopId := v\<rparr>, ps_errors := (ps_errors s)\<lparr>me_desktopId := False\<rparr>\<rparr>"
| "updateField PairingCodeKey v s =
     s\<lparr>ps_values := (ps_values s)\<lparr>prq_pairingCode := v\<rparr>, ps_errors := (ps_errors s)\<lparr>me_pairingCode := False\<rparr>\<rparr>"

definition submitForm :: "url_parser \<Rightarrow> pairing_request \<Rightarrow> pairing_screen \<Rightarrow> pairing_outcome" where
  "submitForm url values s =
     (case validateManualPairingRequest url values of
        Inl errors \<Rightarrow> (s\<lparr>ps_errors := errors\<rparr>, [])
      | Inr req \<Rightarrow> submitPairing req s)"

text \<open>The form is mounted when the user goes to it, and unmounted when he goes back.\<close>

definition showManual :: "bool \<Rightarrow> pairing_screen \<Rightarrow> pairing_screen" where
  "showManual b s = s\<lparr>ps_error := None, ps_manual := b, ps_values := empty_values, ps_errors := no_errors\<rparr>"


subsection \<open>What it renders\<close>

datatype pairing_action =
    Scan string
  | AskPermission
  | GoManual bool
  | TypeField form_key string
  | SubmitForm pairing_request

fun url_error_copy :: "url_error \<Rightarrow> copy" where
  "url_error_copy RelayUrlMissing = Msg ''Enter the address of the relay''"
| "url_error_copy RelayUrlScheme = Msg ''The address must begin with ws:// or wss://''"
| "url_error_copy RelayUrlSuffix = Msg ''The address must end with /v1/ws/mobile''"
| "url_error_copy RelayUrlInvalid = Msg ''Enter a correct address of the relay''"

definition FormField :: "string \<Rightarrow> string \<Rightarrow> (string \<Rightarrow> 'a) \<Rightarrow> copy option \<Rightarrow> 'a view" where
  "FormField label v onChangeText err =
     Box [] ([Txt (Msg label), Field (Msg label) True v onChangeText] @
             (case err of None \<Rightarrow> [] | Some e \<Rightarrow> [Txt e]))"

definition ManualPairingForm :: "bool \<Rightarrow> pairing_request \<Rightarrow> manual_errors \<Rightarrow> pairing_action view" where
  "ManualPairingForm loading values errors =
     Box [] [FormField ''Address of the relay'' (prq_relayWsUrl values) (TypeField RelayWsUrlKey)
               (map_option url_error_copy (me_relayWsUrl errors)),
             FormField ''Computer ID'' (prq_desktopId values) (TypeField DesktopIdKey)
               (if me_desktopId errors then Some (Msg ''Enter the ID of the computer'') else None),
             FormField ''Pairing code'' (prq_pairingCode values) (TypeField PairingCodeKey)
               (if me_pairingCode errors then Some (Msg ''Enter the pairing code'') else None),
             AppButton (Msg ''Connect'') False loading (Msg ''Connecting'') (SubmitForm values)]"

text \<open>\<open>useCameraPermissions\<close>: whether access is granted and can be asked for again; at first unknown.\<close>

type_synonym camera_permission = "(bool \<times> bool) option"

definition camera_area :: "camera_permission \<Rightarrow> pairing_screen \<Rightarrow> pairing_action view" where
  "camera_area permission s =
     Box [] [(case permission of
                Some (granted, canAskAgain) \<Rightarrow>
                  if granted then Field (Msg ''camera'') (\<not> ps_loading s) [] Scan
                  else Box [] ([Txt (Msg ''No access to the camera''),
                                Txt (Msg ''Allow access to the camera or connect manually'')] @
                               (if canAskAgain then [button ''Allow the camera'' AskPermission] else []))
              | None \<Rightarrow> Txt (Msg ''Checking the access to the camera'')),
             button ''Enter the data manually'' (GoManual True)]"

definition PairingScreen :: "camera_permission \<Rightarrow> pairing_screen \<Rightarrow> pairing_action view" where
  "PairingScreen permission s =
     AppScreen ''pairing-screen''
       ([Box [] [Txt (Msg ''Connect a computer''), Txt (Msg ''Scan the QR code of Cucoudle on the computer'')],
         (if ps_manual s then ManualPairingForm (ps_loading s) (ps_values s) (ps_errors s) else camera_area permission s)] @
        (case ps_error s of None \<Rightarrow> [] | Some err \<Rightarrow> [Txt err]) @
        (if ps_manual s
         then [AppButton (Msg ''Back to the QR code'') (ps_loading s) False (Msg ''Loading'') (GoManual False)]
         else []))"

lemma FormField_offers [view_simps]: "offers (FormField l v f err) a \<longleftrightarrow> a \<in> range f"
  by (auto simp: FormField_def view_simps split: option.splits)

lemma PairingScreen_offers:
  "offers (PairingScreen permission s) a \<longleftrightarrow>
     (if ps_manual s
      then (\<exists>k v. a = TypeField k v) \<or> \<not> ps_loading s \<and> (a = SubmitForm (ps_values s) \<or> a = GoManual False)
      else a = GoManual True \<or>
        (\<exists>c. permission = Some (True, c)) \<and> \<not> ps_loading s \<and> (\<exists>code. a = Scan code) \<or>
        permission = Some (False, True) \<and> a = AskPermission)"
proof -
  have "(\<exists>k v. a = TypeField k v) \<longleftrightarrow>
      (\<exists>v. a = TypeField RelayWsUrlKey v) \<or> (\<exists>v. a = TypeField DesktopIdKey v) \<or> (\<exists>v. a = TypeField PairingCodeKey v)"
    by (metis form_key.exhaust)
  then show ?thesis
    by (auto simp: PairingScreen_def ManualPairingForm_def camera_area_def view_simps split: option.splits prod.splits if_splits)
qed

subsection \<open>Its events\<close>

datatype pairing_input =
    PairingDo pairing_action
  | CameraReady "string list option"
  | GotIdentity nat json
  | GotResult nat json
  | ProfileSaved nat
  | StepFailed nat pair_failure

record pairing_env =
  pe_zod :: zod
  pe_url :: url_parser
  pe_jparse :: "string \<Rightarrow> json option"

fun pairing_react :: "pairing_env \<Rightarrow> pairing_screen \<Rightarrow> pairing_input \<Rightarrow> pairing_outcome" where
  "pairing_react env s (PairingDo (Scan code)) = scan (pe_zod env) (pe_url env) (pe_jparse env) code s"
| "pairing_react env s (PairingDo AskPermission) = (s, [RequestPermission])"
| "pairing_react env s (PairingDo (GoManual b)) = (showManual b s, [])"
| "pairing_react env s (PairingDo (TypeField k v)) = (updateField k v s, [])"
| "pairing_react env s (PairingDo (SubmitForm values)) = submitForm (pe_url env) values s"
| "pairing_react env s (CameraReady lenses) = (pickWideLens lenses s, [])"
| "pairing_react env s (GotIdentity n d) = gotIdentity (pe_zod env) n d s"
| "pairing_react env s (GotResult n result) = gotResult (pe_zod env) (pe_url env) n result s"
| "pairing_react env s (ProfileSaved n) = profileSaved n s"
| "pairing_react env s (StepFailed n err) = stepFailed n err s"

inductive pairing_reach :: "pairing_env \<Rightarrow> pairing_screen \<Rightarrow> pairing_effect list \<Rightarrow> bool" for env where
  screen_start: "pairing_reach env initial_pairing_screen []"
| screen_react: "pairing_reach env s trace \<Longrightarrow>
    pairing_reach env (fst (pairing_react env s i)) (trace @ snd (pairing_react env s i))"


subsection \<open>One pairing at a time\<close>

definition pairing_inv :: "pairing_screen \<Rightarrow> bool" where
  "pairing_inv s \<longleftrightarrow>
     ps_loading s = ps_pairingInProgress s \<and> length (ps_runs s) = (if ps_pairingInProgress s then 1 else 0)"

lemma pairing_inv_runs: "pairing_inv s \<Longrightarrow> ps_runs s = [] \<and> \<not> ps_pairingInProgress s \<or> (\<exists>r. ps_runs s = [r]) \<and> ps_pairingInProgress s"
  by (auto simp: pairing_inv_def length_Suc_conv split: if_splits)

lemma find_pairing_mem: "find_pairing n s = Some r \<Longrightarrow> r \<in> set (ps_runs s) \<and> pu_call r = n"
  by (auto simp: find_pairing_def find_Some_iff)

lemma pairing_inv_submit: "pairing_inv s \<Longrightarrow> pairing_inv (fst (submitPairing req s))"
  by (auto simp: pairing_inv_def submitPairing_def Let_def)

lemma pairing_inv_wait: "pairing_inv s \<Longrightarrow> pairing_inv (wait_for r stage s)"
  by (simp add: pairing_inv_def wait_for_def)

lemma pairing_inv_end:
  assumes "pairing_inv s" "r \<in> set (ps_runs s)"
  shows "pairing_inv (end_pairing r s)"
  using pairing_inv_runs [OF assms(1)] assms(2) by (auto simp: pairing_inv_def end_pairing_def drop_pairing_def)

lemma pairing_inv_error:
  "pairing_inv (s\<lparr>ps_error := e\<rparr>) = pairing_inv s" "pairing_inv (s\<lparr>ps_errors := es\<rparr>) = pairing_inv s"
  "pairing_inv (s\<lparr>ps_selectedLens := l\<rparr>) = pairing_inv s"
  "pairing_inv (s\<lparr>ps_error := e, ps_manual := b, ps_values := v\<rparr>) = pairing_inv s"
  by (simp_all add: pairing_inv_def)

lemma pairing_inv_fail:
  "pairing_inv s \<Longrightarrow> r \<in> set (ps_runs s) \<Longrightarrow> pairing_inv (fst (fail_pairing r err s))"
  by (simp add: fail_pairing_def pairing_inv_end pairing_inv_error)

lemma pairing_inv_field: "pairing_inv (updateField k v s) = pairing_inv s"
  by (cases k) (simp_all add: pairing_inv_def)

lemmas pairing_inv_intros = pairing_inv_submit pairing_inv_wait pairing_inv_end pairing_inv_fail

definition pairing_step :: "pairing_env \<Rightarrow> pairing_screen \<Rightarrow> pairing_input \<Rightarrow> pairing_screen" where
  "pairing_step env s i = fst (pairing_react env s i)"

lemma pairing_inv_react:
  assumes "pairing_inv s"
  shows "pairing_inv (fst (pairing_react env s i))"
  using assms
  by (cases "(env, s, i)" rule: pairing_react.cases)
    (auto simp: scan_def submitForm_def showManual_def pickWideLens_def gotIdentity_def gotResult_def profileSaved_def
      stepFailed_def with_run_def pairing_inv_field pairing_inv_error
      intro!: pairing_inv_intros dest!: find_pairing_mem split: sum.splits option.splits pairing_stage.splits)


interpretation pairing_screen: machine "pairing_step env" pairing_inv for env
  by unfold_locales (simp add: pairing_step_def pairing_inv_react)

lemma pairing_reach_inv: "pairing_reach env s trace \<Longrightarrow> pairing_inv s"
proof (induction rule: pairing_reach.induct)
  case screen_start
  show ?case by (simp add: pairing_inv_def initial_pairing_screen_def)
qed (simp add: pairing_inv_react)

text \<open>C20: At most one pairing is under way, exactly while the screen says so and scans nothing; and when the
  step it waits for fails, whichever it is, the screen shows why and is ready for another attempt.\<close>

theorem pairing_one_at_a_time:
  assumes "pairing_reach env s trace"
  shows "ps_runs s = [] \<and> \<not> ps_loading s \<or>
         (\<exists>r. ps_runs s = [r] \<and> ps_loading s \<and>
            (let s' = fst (pairing_react env s (StepFailed (pu_call r) err))
             in ps_runs s' = [] \<and> \<not> ps_loading s' \<and> ps_error s' = Some (errorCopy err) \<and>
                (case snd (submitPairing req s') of [GetDeviceIdentity n] \<Rightarrow> True | _ \<Rightarrow> False)))"
proof -
  have inv: "pairing_inv s" by (rule pairing_reach_inv [OF assms])
  from pairing_inv_runs [OF inv] show ?thesis
  proof (elim disjE conjE exE)
    fix r assume "ps_runs s = [r]" "ps_pairingInProgress s"
    with inv show ?thesis
      by (simp add: pairing_inv_def stepFailed_def with_run_def find_pairing_def fail_pairing_def end_pairing_def
          drop_pairing_def Let_def submitPairing_def)
  qed (use inv in \<open>simp add: pairing_inv_def\<close>)
qed

subsection \<open>What the app is told\<close>

text \<open>A profile that was made from a request and the result of pairing for it.\<close>

definition made_from :: "pairing_env \<Rightarrow> pairing_effect list \<Rightarrow> nat \<Rightarrow> pairing_request \<Rightarrow> pairing_profile \<Rightarrow> bool" where
  "made_from env trace n req p \<longleftrightarrow>
     (\<exists>tr d result. CallPair n tr \<in> set trace \<and> tr_relayWsUrl tr = prq_relayWsUrl req \<and>
        buildPairingProfile (pe_zod env) (pe_url env) req d result = Inr p) \<and>
     CallSaveProfile n p \<in> set trace"

definition run_ok :: "pairing_env \<Rightarrow> pairing_effect list \<Rightarrow> pairing_run \<Rightarrow> bool" where
  "run_ok env trace r \<longleftrightarrow>
     (case pu_stage r of
        AwaitIdentity \<Rightarrow> True
      | AwaitResult d \<Rightarrow> \<exists>tr. CallPair (pu_call r) tr \<in> set trace \<and> tr_relayWsUrl tr = prq_relayWsUrl (pu_request r)
      | AwaitSaved p \<Rightarrow> made_from env trace (pu_call r) (pu_request r) p)"

lemma run_ok_mono: "run_ok env trace r \<Longrightarrow> run_ok env (trace @ rest) r"
  by (auto simp: run_ok_def made_from_def split: pairing_stage.splits)

lemma made_from_mono: "made_from env trace n req p \<Longrightarrow> made_from env (trace @ rest) n req p"
  by (auto simp: made_from_def)


definition outcome_ok :: "pairing_env \<Rightarrow> pairing_effect list \<Rightarrow> pairing_outcome \<Rightarrow> bool" where
  "outcome_ok env trace x \<longleftrightarrow>
     list_all (run_ok env (trace @ snd x)) (ps_runs (fst x)) \<and>
     (\<forall>p. CallOnPaired p \<in> set (snd x) \<longrightarrow> (\<exists>n req. made_from env (trace @ snd x) n req p))"

lemma outcome_quiet:
  "list_all (run_ok env trace) (ps_runs s) \<Longrightarrow> ps_runs s' = ps_runs s \<Longrightarrow> effs = [] \<or> effs = [RequestPermission] \<Longrightarrow>
   outcome_ok env trace (s', effs)"
  using run_ok_mono by (auto simp: outcome_ok_def list_all_iff)

lemma outcome_submit: "list_all (run_ok env trace) (ps_runs s) \<Longrightarrow> outcome_ok env trace (submitPairing req s)"
  using run_ok_mono by (auto simp: outcome_ok_def submitPairing_def Let_def list_all_iff) (auto simp: run_ok_def)

lemma outcome_fail: "list_all (run_ok env trace) (ps_runs s) \<Longrightarrow> outcome_ok env trace (fail_pairing r err s)"
  by (auto simp: outcome_ok_def fail_pairing_def end_pairing_def drop_pairing_def list_all_iff)

text \<open>Going on to the next await: the run has what it needs there.\<close>

lemma outcome_wait:
  assumes "list_all (run_ok env trace) (ps_runs s)" and "\<And>p. CallOnPaired p \<notin> set effs"
    and "\<And>q. q \<in> set (ps_runs s) \<Longrightarrow> pu_call q = pu_call r \<Longrightarrow> run_ok env (trace @ effs) (q\<lparr>pu_stage := stage\<rparr>)"
  shows "outcome_ok env trace (wait_for r stage s, effs)"
  using assms run_ok_mono by (auto simp: outcome_ok_def wait_for_def list_all_iff)

lemma same_run: "pairing_inv s \<Longrightarrow> find_pairing n s = Some r \<Longrightarrow> q \<in> set (ps_runs s) \<Longrightarrow> q = r"
  using pairing_inv_runs [of s] find_pairing_mem [of n s r] by auto

lemma outcome_identity:
  assumes "pairing_inv s" "list_all (run_ok env trace) (ps_runs s)"
  shows "outcome_ok env trace (gotIdentity sp n d s)"
proof -
  have "outcome_ok env trace
      (wait_for r (AwaitResult d) s, [CallPair n \<lparr>tr_relayWsUrl = prq_relayWsUrl (pu_request r), tr_desktopId = i,
         tr_pairingCode = c, tr_mobileDevice = m\<rparr>])" if "find_pairing n s = Some r" for r i c m
    using find_pairing_mem [OF that]
    by (intro outcome_wait assms) (auto simp: run_ok_def dest!: same_run [OF assms(1) that])
  then show ?thesis
    using assms(2)
    by (auto simp: gotIdentity_def with_run_def outcome_quiet outcome_fail split: option.splits sum.splits)
qed

lemma outcome_result:
  assumes "pairing_inv s" "list_all (run_ok env trace) (ps_runs s)"
  shows "outcome_ok env trace (gotResult (pe_zod env) (pe_url env) n result s)"
proof -
  have "outcome_ok env trace (wait_for r (AwaitSaved p) s, [CallSaveProfile n p])"
    if r: "find_pairing n s = Some r" "pu_stage r = AwaitResult d"
      and built: "buildPairingProfile (pe_zod env) (pe_url env) (pu_request r) d result = Inr p" for r d p
  proof -
    from find_pairing_mem [OF r(1)] assms(2) have n: "pu_call r = n" and ok: "run_ok env trace r"
      by (auto simp: list_all_iff)
    from ok r(2) obtain tr where "CallPair n tr \<in> set trace" "tr_relayWsUrl tr = prq_relayWsUrl (pu_request r)"
      by (auto simp: run_ok_def n)
    with built have "made_from env (trace @ [CallSaveProfile n p]) n (pu_request r) p" by (auto simp: made_from_def)
    with n show ?thesis
      by (intro outcome_wait assms) (auto simp: run_ok_def dest!: same_run [OF assms(1) r(1)])
  qed
  then show ?thesis
    using assms(2)
    by (auto simp: gotResult_def with_run_def outcome_quiet outcome_fail split: option.splits sum.splits pairing_stage.splits)
qed

lemma outcome_saved:
  assumes "list_all (run_ok env trace) (ps_runs s)"
  shows "outcome_ok env trace (profileSaved n s)"
proof -
  have "outcome_ok env trace (end_pairing r s, [CallOnPaired p])"
    if "find_pairing n s = Some r" "pu_stage r = AwaitSaved p" for r p
  proof -
    from find_pairing_mem [OF that(1)] assms have "run_ok env trace r" by (auto simp: list_all_iff)
    with that(2) have "made_from env trace (pu_call r) (pu_request r) p" by (simp add: run_ok_def)
    with assms run_ok_mono made_from_mono show ?thesis
      by (fastforce simp: outcome_ok_def end_pairing_def drop_pairing_def list_all_iff)
  qed
  with assms show ?thesis
    by (auto simp: profileSaved_def with_run_def outcome_quiet split: option.splits pairing_stage.splits)
qed

lemma updateField_runs [simp]: "ps_runs (updateField k v s) = ps_runs s"
  by (cases k) simp_all

lemma outcome_react:
  assumes "pairing_inv s" "list_all (run_ok env trace) (ps_runs s)"
  shows "outcome_ok env trace (pairing_react env s i)"
  using assms
  by (cases "(env, s, i)" rule: pairing_react.cases)
    (auto simp: scan_def submitForm_def showManual_def pickWideLens_def stepFailed_def with_run_def outcome_identity
      outcome_result outcome_saved outcome_submit outcome_fail outcome_quiet split: sum.splits option.splits)

lemma pairing_reach_made:
  "pairing_reach env s trace \<Longrightarrow>
   list_all (run_ok env trace) (ps_runs s) \<and> (\<forall>p. CallOnPaired p \<in> set trace \<longrightarrow> (\<exists>n req. made_from env trace n req p))"
proof (induction rule: pairing_reach.induct)
  case screen_start
  show ?case by (simp add: initial_pairing_screen_def)
next
  case (screen_react s trace i)
  then have "outcome_ok env trace (pairing_react env s i)"
    using outcome_react pairing_reach_inv by blast
  with screen_react.IH made_from_mono show ?case
    by (fastforce simp: outcome_ok_def)
qed



subsection \<open>Examples\<close>

definition sample_env :: pairing_env where
  "sample_env = \<lparr>pe_zod = zod_ref, pe_url = sample_url, pe_jparse = (\<lambda>_. None)\<rparr>"

definition sample_inputs :: "pairing_input list" where
  "sample_inputs = [PairingDo (SubmitForm sample_request), GotIdentity 0 sample_device, GotResult 0 sample_result, ProfileSaved 0]"

definition pairing_run_of :: "pairing_env \<Rightarrow> pairing_screen \<times> pairing_effect list \<Rightarrow> pairing_input list \<Rightarrow> pairing_outcome" where
  "pairing_run_of env x is = foldl (\<lambda>(s, trace) i. (fst (pairing_react env s i), trace @ snd (pairing_react env s i))) x is"

lemma pairing_run_reach:
  "pairing_reach env s trace \<Longrightarrow>
   pairing_reach env (fst (pairing_run_of env (s, trace) is)) (snd (pairing_run_of env (s, trace) is))"
  by (induction "is" arbitrary: s trace) (simp_all add: pairing_run_of_def screen_react)

lemma sample_params:
  "\<exists>params. zod_ref MobilePairParamsSchema (Some (JObj [(''desktopId'', JStr ''d''), (''pairingCode'', JStr ''000007''),
     (''mobileDevice'', sample_device)])) = Inr params"
  by (simp add: zod_ref_def MobilePairParamsSchema_def MobileDeviceSchema_def MobilePlatformSchema_def sample_device_def)

definition trimmed_request :: pairing_request where
  "trimmed_request = \<lparr>prq_relayWsUrl = ''ws://h/v1/ws/mobile'', prq_desktopId = ''d'', prq_pairingCode = ''000007''\<rparr>"

lemma same_profile:
  "validateManualPairingRequest url r = validateManualPairingRequest url r' \<Longrightarrow> prq_desktopId r = prq_desktopId r' \<Longrightarrow>
   buildPairingProfile sp url r d res = buildPairingProfile sp url r' d res"
  by (simp add: buildPairingProfile_def cong: sum.case_cong)

lemma trimmed_built:
  "buildPairingProfile zod_ref sample_url trimmed_request sample_device sample_result = Inr sample_profile"
proof -
  have "validateManualPairingRequest sample_url trimmed_request = validateManualPairingRequest sample_url sample_request"
    unfolding sample_valid unfolding trimmed_request_def by code_simp
  moreover have "prq_desktopId trimmed_request = prq_desktopId sample_request"
    by (simp add: trimmed_request_def sample_request_def)
  ultimately show ?thesis
    using sample_built by (simp only: same_profile [of _ trimmed_request sample_request])
qed

lemma sample_run:
  "pairing_reach sample_env (fst (pairing_run_of sample_env (initial_pairing_screen, []) sample_inputs))
     (snd (pairing_run_of sample_env (initial_pairing_screen, []) sample_inputs))"
  by (rule pairing_run_reach [OF screen_start])

lemma sample_told: "CallOnPaired sample_profile \<in> set (snd (pairing_run_of sample_env (initial_pairing_screen, []) sample_inputs))"
proof -
  from sample_params obtain params where p: "zod_ref MobilePairParamsSchema (Some (JObj [(''desktopId'', JStr ''d''),
      (''pairingCode'', JStr ''000007''), (''mobileDevice'', sample_device)])) = Inr params" by blast
  show ?thesis
    using trimmed_built
    by (simp add: pairing_run_of_def sample_inputs_def sample_env_def initial_pairing_screen_def submitForm_def sample_valid
        submitPairing_def gotIdentity_def gotResult_def profileSaved_def with_run_def find_pairing_def wait_for_def p
        trimmed_request_def)
qed


theorem pairing_one_at_a_time_witness:
  "ps_runs (fst (pairing_run_of sample_env (initial_pairing_screen, []) sample_inputs)) = [] \<or>
   ps_loading (fst (pairing_run_of sample_env (initial_pairing_screen, []) sample_inputs))"
  using pairing_one_at_a_time [OF sample_run] by blast

end
