(* ===== verification/Other_Screens.thy ===== *)
theory Other_Screens
  imports Inbox_Screen Pairing_Screen
begin

section \<open>The other screens and the routes (features/new, features/settings, app)\<close>

text \<open>
  The tabs for a new computer and the settings, the screen for a lost connection, and the routes of all
  screens, which read the props from the app.  A native alert is shown by an effect; its buttons are
  actions.
\<close>

subsection \<open>Alerts\<close>

datatype 'a alert_button = AlertCancel copy | AlertDestructive copy 'a

datatype 'a alert = Alert copy copy "'a alert_button list"

fun alert_actions :: "'a alert \<Rightarrow> 'a list" where
  "alert_actions (Alert title message bs) =
     List.map_filter (\<lambda>b. case b of AlertCancel c \<Rightarrow> None | AlertDestructive c a \<Rightarrow> Some a) bs"

subsection \<open>NewScreen.tsx\<close>

type_synonym active_computer = "string \<times> string"

datatype new_action = PairComputer "active_computer option" | StartSession

datatype new_effect = OnPairComputer | NewAlert "unit alert"

fun new_act :: "new_action \<Rightarrow> new_effect list" where
  "new_act (PairComputer None) = [OnPairComputer]"
| "new_act (PairComputer (Some (i, name))) =
     [NewAlert (Alert (Msg ''Replace the connected computer?'')
        (Parts [Words name, Msg ''is active. The new connection replaces it.''])
        [AlertCancel (Msg ''Cancel''), AlertDestructive (Msg ''Replace'') ()])]"
| "new_act StartSession = []"

definition NewScreen :: "active_computer option \<Rightarrow> new_action view" where
  "NewScreen activeComputer =
     AppScreen ''new-screen''
       [Txt (Msg ''New''),
        Box [] ([Txt (Msg ''Connect a computer''), Txt (Msg ''Scan the QR code of the computer to steer its sessions'')] @
                (case activeComputer of
                   None \<Rightarrow> []
                 | Some (i, name) \<Rightarrow> [Txt (Parts [Msg ''Active computer'', Words name])]) @
                [button ''Connect a computer'' (PairComputer activeComputer)]),
        Box [] [Txt (Msg ''Start a session''), Txt (Msg ''Planned: there is no contract for starting yet''),
                AppButton (Msg ''Start a session'') True False (Msg ''Loading'') StartSession]]"

definition NewRoute :: "app_state \<Rightarrow> new_action view" where
  "NewRoute app = NewScreen (map_option (\<lambda>p. (pp_desktopId p, pp_desktopName p)) (ap_profile app))"

subsection \<open>SettingsScreen.tsx\<close>

fun settings_label :: "app_status \<Rightarrow> string" where
  "settings_label AppIdle = ''Not connected''"
| "settings_label AppReconnecting = ''Reconnecting''"
| "settings_label AppResyncing = ''Synchronising''"
| "settings_label AppOnline = ''Connected''"
| "settings_label AppOffline = ''Not in the network''"
| "settings_label AppRecovery = ''Connection restored''"
| "settings_label AppPairingRequired = ''Pairing needed''"

datatype settings_action = RetryPressed | RePairPressed | ReplacePressed

text \<open>What a confirmed alert does, and what is done at once.\<close>

datatype settings_request = OnRetry | OnRePair | OnReplaceComputer

datatype settings_effect = SettingsDo settings_request | SettingsAlert "settings_request alert"

definition Detail :: "string \<Rightarrow> copy \<Rightarrow> 'a view" where
  "Detail label v = Box [] [Txt (Msg label), Txt v]"

definition confirmAction :: "string \<Rightarrow> string \<Rightarrow> string \<Rightarrow> settings_request \<Rightarrow> settings_effect" where
  "confirmAction title message confirmLabel onConfirm =
     SettingsAlert (Alert (Msg title) (Msg message)
       [AlertCancel (Msg ''Cancel''), AlertDestructive (Msg confirmLabel) onConfirm])"

fun settings_act :: "settings_action \<Rightarrow> settings_effect list" where
  "settings_act RetryPressed = [SettingsDo OnRetry]"
| "settings_act RePairPressed =
     [confirmAction ''Connect the computer anew?'' ''The current profile is deleted only after confirmation''
        ''Connect anew'' OnRePair]"
| "settings_act ReplacePressed =
     [confirmAction ''Replace the active computer?''
        ''The current connection is deleted, then another computer can be connected'' ''Replace'' OnReplaceComputer]"

definition SettingsScreen :: "pairing_profile option \<Rightarrow> app_status \<Rightarrow> string \<Rightarrow> string \<Rightarrow> settings_action view" where
  "SettingsScreen profile connectionStatus protocolVersion appVersion =
     (let text = (\<lambda>f fallback. case profile of None \<Rightarrow> Msg fallback | Some p \<Rightarrow> Words (f p))
      in AppScreen ''settings-screen'' [Box []
           [Txt (Msg ''Settings''),
            Box [] [Txt (Msg ''Connection''), Detail ''State'' (Msg (settings_label connectionStatus)),
                    Detail ''Computer'' (text pp_desktopName ''Not connected''), Detail ''Computer ID'' (text pp_desktopId ''-''),
                    Detail ''Mobile device'' (text pp_mobileDeviceName ''-''), Detail ''Device ID'' (text pp_mobileDeviceId ''-'')],
            Box [] [Txt (Msg ''Versions''), Detail ''Protocol'' (Words protocolVersion), Detail ''App'' (Words appVersion)],
            Box [] [button ''Try to connect again'' RetryPressed, button ''Connect anew'' RePairPressed,
                    button ''Replace the computer'' ReplacePressed],
            Txt (Msg ''The secret of the session is kept in the secure storage of the device'')]])"

definition SettingsRoute :: "string \<Rightarrow> app_state \<Rightarrow> settings_action view" where
  "SettingsRoute appVersion app = SettingsScreen (ap_profile app) (ap_connectionStatus app) PROTOCOL_VERSION appVersion"

text \<open>The callbacks that the route gives.\<close>

fun settings_input :: "settings_request \<Rightarrow> app_input" where
  "settings_input OnRetry = UiRetry"
| "settings_input OnRePair = UiClearPairing"
| "settings_input OnReplaceComputer = UiClearPairing"

subsection \<open>ConnectionRecoveryScreen.tsx\<close>

datatype recovery_action = RecoveryRetry | RecoveryPairAnother

definition ConnectionRecoveryScreen :: "recovery_action view" where
  "ConnectionRecoveryScreen =
     AppScreen ''connection-recovery-screen''
       [Box [] [Txt (Msg ''The connection is saved''), Txt (Msg ''The computer is not available''),
                Txt (Msg ''Cucoudle on the computer or its daemon does not answer now. Start it and try again.''),
                Txt (Msg ''The saved connection stays on this device'')],
        Box [] [button ''Try again'' RecoveryRetry, button ''Connect another computer'' RecoveryPairAnother]]"

fun recovery_input :: "recovery_action \<Rightarrow> app_input" where
  "recovery_input RecoveryRetry = UiRetry"
| "recovery_input RecoveryPairAnother = UiPairAnother"

subsection \<open>The remaining routes\<close>

fun sessions_status :: "app_status \<Rightarrow> sessions_connection" where
  "sessions_status AppOnline = SessionsOnline"
| "sessions_status AppOffline = SessionsOffline"
| "sessions_status AppIdle = SessionsReconnecting"
| "sessions_status AppReconnecting = SessionsReconnecting"
| "sessions_status AppResyncing = SessionsReconnecting"
| "sessions_status AppRecovery = SessionsReconnecting"
| "sessions_status AppPairingRequired = SessionsReconnecting"

definition SessionsRoute :: "date_parse \<Rightarrow> (int \<Rightarrow> string) \<Rightarrow> app_state \<Rightarrow> session_filter \<Rightarrow> sessions_action view" where
  "SessionsRoute dp fmt app f =
     SessionsScreen dp fmt (ap_sessionState app) (sessions_status (ap_connectionStatus app)) (ap_hasLoadedSessionList app) f"

text \<open>\<open>app/(tabs)/_layout.tsx\<close>: the tabs with their titles, the first is the initial one; an icon for each.\<close>

definition tabs :: "(string \<times> string) list" where
  "tabs = [(''inbox'', ''Inbox''), (''sessions'', ''Sessions''), (''new'', ''New''), (''settings'', ''Settings'')]"

text \<open>The symbols, as code points, and their sizes; a route without one has a bullet.\<close>

definition icons :: "(string \<times> nat) list" where
  "icons = [(''inbox'', 0x25CF), (''sessions'', 0x25A4), (''new'', 0x2B), (''settings'', 0x2699)]"

definition tabBarIcon :: "string \<Rightarrow> nat \<times> nat" where
  "tabBarIcon name = (case map_of icons name of Some c \<Rightarrow> c | None \<Rightarrow> 0x2022, if name = ''new'' then 28 else 18)"

lemma tabs_have_icons: "list_all (\<lambda>t. map_of icons (fst t) \<noteq> None) tabs" "distinct (map (fst \<circ> tabBarIcon \<circ> fst) tabs)"
  by (simp_all add: tabs_def icons_def tabBarIcon_def)

definition IndexRoute :: "'a view" where
  "IndexRoute = SplashScreen"

definition RecoveryRoute :: "recovery_action view" where
  "RecoveryRoute = ConnectionRecoveryScreen"

text \<open>What the effects of the pairing screen ask of the app; the identity and the permission are the
  platform's.\<close>

fun pairing_input_of :: "pairing_effect \<Rightarrow> app_input option" where
  "pairing_input_of (CallPair n tr) = Some (UiRuntime (RtPair tr))"
| "pairing_input_of (CallSaveProfile n p) = Some (UiSaveProfile (profile_json p))"
| "pairing_input_of (CallOnPaired p) = Some (UiPaired p)"
| "pairing_input_of e = None"

end
