(* ===== verification/Screens_Props.thy ===== *)
theory Screens_Props
  imports Other_Screens
begin

section \<open>What the screens let the user do and see\<close>

text \<open>
  The screens over the app: the props of every screen come from a state that the app reaches, so what is
  proved of these states shows what the screens offer and which of their texts can appear.
\<close>

subsection \<open>Input is offered only online\<close>

lemma route_props:
  "SessionRoute i ident app h = SessionScreen
     \<lparr>sp_sessionId = normalizeSessionRouteId i, sp_state = ap_sessionState app,
      sp_connectionStatus = session_status (ap_connectionStatus app), sp_onSendInput = True, sp_actionArea = None,
      sp_negotiatedCapabilities = ap_negotiatedCapabilities app,
      sp_structuredInteraction =
        map_option (Pair (ident (normalizeSessionRouteId i)))
          (activeInteractionsBySessionId (ap_sessionState app) (normalizeSessionRouteId i)),
      sp_onBack = True\<rparr> h"
  by (simp add: SessionRoute_def Let_def)

lemma route_send:
  assumes "offers (SessionRoute i ident app h) (ScreenComposer (Send sid dis draft))"
  shows "ap_connectionStatus app = AppOnline \<and> draft \<noteq> [] \<and>
    (\<exists>session. sessionsById (ap_sessionState app) sid = Some session \<and> \<not> session_stopped session)"
  using assms by (auto simp: route_props SessionScreen_offers composer_part_offers SessionComposer_offers)

lemma route_submit:
  assumes "offers (SessionRoute i ident app h) (ScreenZone (ZoneSubmit sid interaction off response))"
  shows "ap_connectionStatus app = AppOnline \<and> (\<exists>session. sessionsById (ap_sessionState app) sid = Some session)"
  using assms
  by (auto simp: route_props SessionScreen_offers action_part_offers zone_props_of_def dest!: zone_offers_submit)

lemma listed_by_id:
  assumes "session_inv s" "x \<in> set (selectAttentionCards dp s)"
  shows "sessionsById s (sess_id x) = Some x"
proof -
  from assms(2) obtain i where "sessionsById s i = Some x"
    by (auto simp: selectAttentionCards_def listed_def List.map_filter_def split: option.splits)
  with assms(1) show ?thesis by (auto simp: session_inv_def filed_ok_def)
qed

lemma inbox_submit:
  assumes "session_inv (ap_sessionState app)"
    and "offers (InboxRoute dp ident app zones) (InboxZone key (ZoneSubmit sid interaction off response))"
  shows "ap_connectionStatus app = AppOnline \<and> (\<exists>session. sessionsById (ap_sessionState app) sid = Some session)"
proof -
  from assms(2) obtain x where x: "x \<in> set (selectAttentionCards dp (ap_sessionState app))"
    and z: "offers (StructuredActionZone (card_zone (ap_connectionStatus app = AppOnline) (ap_negotiatedCapabilities app)
       (ip_activeInteractions (inbox_route ident app) (sess_id x)) x) (zone_at zones (inbox_route ident app) x))
       (ZoneSubmit sid interaction off response)"
    using AttentionCard_offers [OF cards_attention]
    by (auto simp: InboxRoute_def InboxScreen_offers attention_section_offers activity_section_offers handlePrimaryAction_def
        inbox_route_def split: if_splits)
  from zone_offers_submit [OF z] listed_by_id [OF assms(1) x] show ?thesis
    by (simp add: card_zone_def)
qed

text \<open>The actions that send something to a computer.\<close>

definition offers_input ::
  "date_parse \<Rightarrow> (string \<Rightarrow> nat) \<Rightarrow> app_state \<Rightarrow> route_param \<Rightarrow> session_hooks \<Rightarrow> (string, zone) jsmap \<Rightarrow> string \<Rightarrow> bool" where
  "offers_input dp ident app i h zones sid \<longleftrightarrow>
     (\<exists>dis draft. offers (SessionRoute i ident app h) (ScreenComposer (Send sid dis draft))) \<or>
     (\<exists>interaction off r. offers (SessionRoute i ident app h) (ScreenZone (ZoneSubmit sid interaction off r))) \<or>
     (\<exists>key interaction off r. offers (InboxRoute dp ident app zones) (InboxZone key (ZoneSubmit sid interaction off r)))"

text \<open>C15: Whatever the hooks of the screens hold, neither the screen of a session nor the inbox offers to send a
  command or an answer unless the coordinator lets requests through, the list of sessions is loaded and
  the session is among them.\<close>

theorem input_only_online:
  assumes "app_reach cfg url js st app trace" and "ap_active app"
    and "offers_input dp ident app i h zones sid"
  shows "canMutate (ap_coord app) \<and> ap_hasLoadedSessionList app \<and> sessionsById (ap_sessionState app) sid \<noteq> None"
proof -
  from app_reach_inv [OF assms(1)] have inv: "session_inv (ap_sessionState app)" and m: "mirror_inv app"
    by (simp_all add: parts_inv_def)
  have online: "ap_connectionStatus app = AppOnline \<and> (\<exists>x. sessionsById (ap_sessionState app) sid = Some x)"
    using assms(3) unfolding offers_input_def
    by (elim disjE exE) (blast dest: route_send, blast dest: route_submit, blast dest: inbox_submit [OF inv])
  with m assms(2) have "appStatus (co_status (ap_coord app)) = AppOnline"
    "after_list (ap_coord app) \<longrightarrow> ap_hasLoadedSessionList app" by (simp_all add: mirror_inv_def)
  with online show ?thesis
    by (cases "co_status (ap_coord app)") (simp_all add: after_list_def canMutate_def)
qed

subsection \<open>Hiding a card\<close>

text \<open>Hiding a card takes away the cards with its key and no others: all other sessions that needed
  attention still have their cards, and the list of sessions is what it was.\<close>

theorem hiding_a_card:
  "set (selectAttentionCards dp (ap_sessionState (fst (app_react cfg url js app (UiDismiss key))))) =
     {x. x \<in> set (selectAttentionCards dp (ap_sessionState app)) \<and> makeDismissalKey x \<noteq> key} \<and>
   selectSessions dp (ap_sessionState (fst (app_react cfg url js app (UiDismiss key)))) f =
     selectSessions dp (ap_sessionState app) f"
  by (auto simp: dismissAttention_def selectAttentionCards_def selectSessions_def listed_def needs_attention_def)

subsection \<open>Texts that cannot appear, and one that should not\<close>

lemma texts_row: "Msg t \<in> set (texts (SessionRow dp fmt x a)) \<Longrightarrow> t = ''Waits for your answer''"
  by (auto simp: SessionRow_def statusLabel_def Let_def split: if_splits)

lemma texts_filter: "Msg t \<in> set (texts (SessionFilter f g)) \<Longrightarrow> t \<in> {''All'', ''Active'', ''Completed''}"
  by (auto simp: SessionFilter_def filter_options_def)

text \<open>The list of sessions never says that it is loading, nor that the computer is offline: while the app is
  open these texts, and the states of the screen that they are for, do not occur.\<close>

theorem sessions_never_loading:
  assumes "app_reach cfg url js st app trace" and "ap_active app"
  shows "Msg ''Loading the sessions'' \<notin> set (texts (SessionsRoute dp fmt app f)) \<and>
         Msg ''Computer is offline'' \<notin> set (texts (SessionsRoute dp fmt app f))"
proof -
  from app_reach_inv [OF assms(1)] assms(2)
  have m: "ap_connectionStatus app = appStatus (co_status (ap_coord app))" "after_list (ap_coord app) \<longrightarrow> ap_hasLoadedSessionList app"
    by (simp_all add: mirror_inv_def)
  then have e: "fst (sessions_empty (ap_sessionState app) dp (sessions_status (ap_connectionStatus app)) (ap_hasLoadedSessionList app)) \<in>
      {''Reconnecting'', ''No matching sessions'', ''No sessions yet''}"
    by (cases "co_status (ap_coord app)") (simp_all add: sessions_empty_def after_list_def)
  have "snd (sessions_empty (ap_sessionState app) dp (sessions_status (ap_connectionStatus app)) (ap_hasLoadedSessionList app)) \<notin>
      {''Loading the sessions'', ''Computer is offline''}"
    by (simp add: sessions_empty_def)
  with e show ?thesis
    by (auto simp: SessionsRoute_def SessionsScreen_def AppScreen_def EmptyState_def Let_def dest!: texts_row texts_filter
        split: if_splits)
qed

text \<open>When the computer cannot be reached, the inbox and the settings say that the connection is restored.\<close>

theorem recovery_shown_as_restored:
  assumes "app_reach cfg url js st app trace" and "ap_active app" and "co_status (ap_coord app) = StRecovery"
  shows "Msg ''Connection restored'' \<in> set (texts (InboxRoute dp ident app zones)) \<and>
         Msg ''Connection restored'' \<in> set (texts (SettingsRoute v app)) \<and> \<not> canMutate (ap_coord app)"
proof -
  from app_reach_inv [OF assms(1)] assms(2,3) have "ap_connectionStatus app = AppRecovery"
    by (simp add: mirror_inv_def)
  then show ?thesis
    using assms(3)
    by (simp add: InboxRoute_def inbox_route_def InboxScreen_def AppScreen_def ConnectionBanner_def SettingsRoute_def
        SettingsScreen_def Detail_def canMutate_def Let_def)
qed


subsection \<open>Examples\<close>

text \<open>An app that has gone online and has received a session.\<close>

definition receiving_list :: "app_input list" where
  "receiving_list = [Restored (Some sample_profile), CoordAnswered 1 [], CoordAnswered 1 [],
     CoordAnswered 1 [(''sessions'', JArr [JObj (waiting_session ''t'')])]]"

definition listed_app :: app_state where
  "listed_app = fst (app_run cfg_runtime sample_url js0 (initial_app no_storage) receiving_list)"

fun inputs_possible :: "coord_config \<Rightarrow> url_parser \<Rightarrow> (json \<Rightarrow> string) \<Rightarrow> app_state \<Rightarrow> app_input list \<Rightarrow> bool" where
  "inputs_possible cfg url js s [] = True"
| "inputs_possible cfg url js s (i # is) =
     (app_possible s i \<and> inputs_possible cfg url js (fst (app_react cfg url js s i)) is)"

lemma app_run_reach:
  "app_reach cfg url js st s trace \<Longrightarrow> inputs_possible cfg url js s is \<Longrightarrow>
   \<exists>trace. app_reach cfg url js st (fst (app_run cfg url js s is)) trace"
proof (induction "is" arbitrary: s trace)
  case (Cons i "is")
  then show ?case using ap_react [of cfg url js st s trace i] by (auto simp: case_prod_beta')
qed auto

lemma listed_app_reach: "\<exists>trace. app_reach cfg_runtime sample_url js0 no_storage listed_app trace"
  unfolding listed_app_def by (rule app_run_reach [OF ap_start]) (simp add: receiving_list_def initial_app_def)

lemma listed_app_fields:
  "ap_active listed_app" "ap_connectionStatus listed_app = AppOnline"
  "sessionsById (ap_sessionState listed_app) ''s'' = Some (waiting_session ''t'')"
  by code_simp+

definition typed_hooks :: session_hooks where
  "typed_hooks = \<lparr>sh_composer = initial_composer\<lparr>cm_draft := ''ls''\<rparr>, sh_zone = zone_mounted None, sh_terminal = initial_styled\<rparr>"

lemma listed_offers: "offers_input dp ident listed_app (OneParam ''s'') typed_hooks [] ''s''"
proof -
  have "normalizeSessionRouteId (OneParam ''s'') = ''s''" by code_simp
  then have "offers (SessionRoute (OneParam ''s'') ident listed_app typed_hooks) (ScreenComposer (Send ''s'' False ''ls''))"
    by (simp add: route_props SessionScreen_offers composer_part_offers SessionComposer_offers listed_app_fields
        typed_hooks_def initial_composer_def session_stopped_def)
  then show ?thesis by (auto simp: offers_input_def)
qed

theorem input_only_online_witness:
  "canMutate (ap_coord listed_app) \<and> ap_hasLoadedSessionList listed_app \<and> sessionsById (ap_sessionState listed_app) ''s'' \<noteq> None"
proof -
  from listed_app_reach obtain trace where "app_reach cfg_runtime sample_url js0 no_storage listed_app trace" by blast
  from input_only_online [OF this listed_app_fields(1) listed_offers] show ?thesis .
qed

theorem sessions_never_loading_witness:
  "Msg ''Loading the sessions'' \<notin> set (texts (SessionsRoute (\<lambda>_. None) (\<lambda>_. []) listed_app FilterAll))"
proof -
  from listed_app_reach obtain trace where "app_reach cfg_runtime sample_url js0 no_storage listed_app trace" by blast
  from sessions_never_loading [OF this listed_app_fields(1)] show ?thesis by blast
qed

end
