(* ===== verification/Relay_State.thy ===== *)
theory Relay_State
  imports Envelope
begin

section \<open>The relay's state (apps/relay/src/state.ts)\<close>

text \<open>
  The five maps of \<open>RelayState\<close> and its operations.  A socket is a number (its identity).  The
  timers that the event loop has armed are part of the state, because \<open>addPending\<close> arms one and
  four operations clear them; a timer carries the closure that \<open>setTimeout\<close> was given.
  An operation returns the new state with what it returns in the source.
\<close>

type_synonym socket = nat

record mobile_device =
  md_id :: string
  md_name :: string
  md_platform :: string

record desktop_conn =
  dc_desktopId :: string
  dc_name :: string
  dc_platform :: string
  dc_appVersion :: string
  dc_offeredCapabilities :: "string list"
  dc_socket :: socket

record mobile_conn =
  mc_mobileDeviceId :: string
  mc_mobileDevice :: mobile_device
  mc_desktopId :: string
  mc_token :: string
  mc_offeredCapabilities :: "string list"
  mc_socket :: socket

record pairing =
  pr_desktopId :: string
  pr_expiresAt :: int

record mobile_session =
  ms_desktopId :: string
  ms_mobileDeviceId :: string
  ms_expiresAt :: int

record pending_request =
  pq_desktopId :: string
  pq_requestId :: string
  pq_method :: string
  pq_mobile :: mobile_conn
  pq_timeout :: nat

text \<open>An armed timer: its handle, the key that its callback looks up, its delay, and the values
  that the \<open>onTimeout\<close> closure has captured.\<close>

record timer =
  tm_id :: nat
  tm_key :: string
  tm_ms :: int
  tm_desktopId :: string
  tm_requestId :: string
  tm_method :: string
  tm_params :: "jobj option"

record relay_state =
  desktops :: "(string, desktop_conn) jsmap"
  pairings :: "(string, pairing) jsmap"
  mobileSessions :: "(string, mobile_session) jsmap"
  links :: "(string, mobile_conn list) jsmap"
  pending :: "(string, pending_request) jsmap"
  timers :: "timer list"
  next_timer :: nat

definition initial_relay_state :: relay_state where
  "initial_relay_state =
     \<lparr>desktops = [], pairings = [], mobileSessions = [], links = [], pending = [], timers = [],
      next_timer = 0\<rparr>"

subsection \<open>Capabilities, codes and identifiers\<close>

definition RELAY_CAPABILITIES :: "string list" where
  "RELAY_CAPABILITIES = PROTOCOL_CAPABILITIES"

definition negotiateCapabilities :: "string list \<Rightarrow> string list \<Rightarrow> string list" where
  "negotiateCapabilities mobileOffered desktopOffered =
     filter (\<lambda>c. c \<in> set RELAY_CAPABILITIES \<and> c \<in> set desktopOffered) mobileOffered"

text \<open>The argument is what \<open>randomInt(0, 1_000_000)\<close> returned.\<close>

definition generatePairingCode :: "nat \<Rightarrow> string" where
  "generatePairingCode n = pad_start 6 (digit 0) (show_nat n)"

text \<open>The second argument is what \<open>randomUUID()\<close> returned.\<close>

definition newId :: "string \<Rightarrow> string \<Rightarrow> string" where
  "newId p uuid = p @ ''_'' @ take 12 (filter (\<lambda>c. c \<noteq> CHR ''-'') uuid)"

definition pendingKey :: "string \<Rightarrow> string \<Rightarrow> string" where
  "pendingKey desktopId requestId = desktopId @ [CHR 0x00] @ requestId"

subsection \<open>Desktops\<close>

datatype relay_effect =
    Send socket wire_message
  | CloseSocket socket int string
  | Audit string "(string \<times> json option) list"

definition registerDesktop ::
  "string \<Rightarrow> string \<Rightarrow> string \<Rightarrow> string \<Rightarrow> string list option \<Rightarrow> socket \<Rightarrow> relay_state \<Rightarrow>
   relay_state \<times> relay_effect list" where
  "registerDesktop desktopId desktopName platform appVersion offered sock s =
     (let kept = filter (\<lambda>(i, c). \<not> (dc_socket c = sock \<and> i \<noteq> desktopId)) (desktops s);
          closes = (case map_of kept desktopId of
                      Some existing \<Rightarrow>
                        if dc_socket existing \<noteq> sock
                        then [CloseSocket (dc_socket existing) 4001 ''replaced by a new connection'']
                        else []
                    | None \<Rightarrow> []);
          conn = \<lparr>dc_desktopId = desktopId, dc_name = desktopName, dc_platform = platform,
                  dc_appVersion = appVersion,
                  dc_offeredCapabilities = (case offered of Some cs \<Rightarrow> cs | None \<Rightarrow> []),
                  dc_socket = sock\<rparr>
      in (s\<lparr>desktops := AList.update desktopId conn kept\<rparr>, closes))"

definition getDesktop :: "string \<Rightarrow> relay_state \<Rightarrow> desktop_conn option" where
  "getDesktop desktopId s = map_of (desktops s) desktopId"

fun find_desktop_key :: "socket \<Rightarrow> (string, desktop_conn) jsmap \<Rightarrow> string option" where
  "find_desktop_key sock [] = None"
| "find_desktop_key sock ((i, c) # ds) =
     (if dc_socket c = sock then Some i else find_desktop_key sock ds)"

definition removeDesktopBySocket :: "socket \<Rightarrow> relay_state \<Rightarrow> relay_state \<times> string option" where
  "removeDesktopBySocket sock s =
     (case find_desktop_key sock (desktops s) of
        Some i \<Rightarrow> (s\<lparr>desktops := AList.delete i (desktops s)\<rparr>, Some i)
      | None \<Rightarrow> (s, None))"

subsection \<open>Pairing codes\<close>

text \<open>The do-while loop draws until a code is not in use; the draws that the random source
  delivers are the argument, and \<^const>\<open>None\<close> says that the loop has used them all and goes on.\<close>

fun draw_code :: "nat list \<Rightarrow> (string, pairing) jsmap \<Rightarrow> string option" where
  "draw_code [] ps = None"
| "draw_code (n # ns) ps =
     (let code = generatePairingCode n
      in if map_of ps code \<noteq> None then draw_code ns ps else Some code)"

record qr_payload =
  qr_relayUrl :: string
  qr_desktopId :: string
  qr_pairingCode :: string
  qr_expiresAt :: string

datatype create_result =
    Created string string qr_payload
  | CreateRangeError
  | StillDrawing

definition createPairing ::
  "string \<Rightarrow> int \<Rightarrow> string \<Rightarrow> int \<Rightarrow> nat list \<Rightarrow> relay_state \<Rightarrow> relay_state \<times> create_result" where
  "createPairing desktopId ttlSeconds relayMobileUrl now draws s =
     (let kept = filter (\<lambda>(code, p). pr_desktopId p \<noteq> desktopId) (pairings s)
      in case draw_code draws kept of
           None \<Rightarrow> (s\<lparr>pairings := kept\<rparr>, StillDrawing)
         | Some pairingCode \<Rightarrow>
             (let expiresAtMs = now + ttlSeconds * 1000;
                  s' = s\<lparr>pairings := AList.update pairingCode
                           \<lparr>pr_desktopId = desktopId, pr_expiresAt = expiresAtMs\<rparr> kept\<rparr>
              in case toISOString expiresAtMs of
                   None \<Rightarrow> (s', CreateRangeError)
                 | Some expiresAt \<Rightarrow>
                     (s', Created pairingCode expiresAt
                            \<lparr>qr_relayUrl = relayMobileUrl, qr_desktopId = desktopId,
                             qr_pairingCode = pairingCode, qr_expiresAt = expiresAt\<rparr>)))"

definition consumePairing ::
  "string \<Rightarrow> string \<Rightarrow> int \<Rightarrow> relay_state \<Rightarrow> relay_state \<times> (error_code + unit)" where
  "consumePairing desktopId code now s =
     (case map_of (pairings s) code of
        None \<Rightarrow> (s, Inl PAIRING_NOT_FOUND)
      | Some p \<Rightarrow>
          if pr_desktopId p \<noteq> desktopId then (s, Inl PAIRING_NOT_FOUND)
          else if now > pr_expiresAt p
          then (s\<lparr>pairings := AList.delete code (pairings s)\<rparr>, Inl PAIRING_EXPIRED)
          else (s\<lparr>pairings := AList.delete code (pairings s)\<rparr>, Inr ()))"

subsection \<open>Mobile sessions\<close>

text \<open>The token's random part is the argument \<open>uuid\<close>; the second component is \<^const>\<open>None\<close> for
  the token's expiry when formatting it raises.\<close>

definition issueMobileSession ::
  "string \<Rightarrow> string \<Rightarrow> int \<Rightarrow> int \<Rightarrow> string \<Rightarrow> relay_state \<Rightarrow>
   relay_state \<times> (string \<times> string) option" where
  "issueMobileSession desktopId mobileDeviceId ttlMs now uuid s =
     (let token = ''mst_'' @ filter (\<lambda>c. c \<noteq> CHR ''-'') uuid;
          expiresAtMs = now + ttlMs;
          s' = s\<lparr>mobileSessions := AList.update token
                   \<lparr>ms_desktopId = desktopId, ms_mobileDeviceId = mobileDeviceId,
                    ms_expiresAt = expiresAtMs\<rparr> (mobileSessions s)\<rparr>
      in (s', map_option (\<lambda>e. (token, e)) (toISOString expiresAtMs)))"

definition resumeMobile ::
  "string \<Rightarrow> string \<Rightarrow> string \<Rightarrow> int \<Rightarrow> relay_state \<Rightarrow> relay_state \<times> (error_code + unit)" where
  "resumeMobile desktopId mobileDeviceId token now s =
     (case map_of (mobileSessions s) token of
        None \<Rightarrow> (s, Inl UNAUTHORIZED)
      | Some m \<Rightarrow>
          if ms_desktopId m \<noteq> desktopId \<or> ms_mobileDeviceId m \<noteq> mobileDeviceId
          then (s, Inl UNAUTHORIZED)
          else if now > ms_expiresAt m
          then (s\<lparr>mobileSessions := AList.delete token (mobileSessions s)\<rparr>, Inl PAIRING_EXPIRED)
          else (s, Inr ()))"

subsection \<open>Links\<close>

definition mobilesForDesktop :: "string \<Rightarrow> relay_state \<Rightarrow> mobile_conn list" where
  "mobilesForDesktop desktopId s =
     (case map_of (links s) desktopId of Some cs \<Rightarrow> cs | None \<Rightarrow> [])"

definition linkMobile :: "mobile_conn \<Rightarrow> relay_state \<Rightarrow> relay_state" where
  "linkMobile conn s =
     s\<lparr>links := AList.update (mc_desktopId conn)
        (mobilesForDesktop (mc_desktopId conn) s @ [conn]) (links s)\<rparr>"

text \<open>The nested loops that look for the first connection of a socket.\<close>

fun find_link :: "socket \<Rightarrow> (string, mobile_conn list) jsmap \<Rightarrow> (string \<times> mobile_conn) option" where
  "find_link sock [] = None"
| "find_link sock ((d, cs) # ls) =
     (case filter (\<lambda>c. mc_socket c = sock) cs of
        c # _ \<Rightarrow> Some (d, c)
      | [] \<Rightarrow> find_link sock ls)"

fun delete_first :: "('a \<Rightarrow> bool) \<Rightarrow> 'a list \<Rightarrow> 'a list" where
  "delete_first P [] = []"
| "delete_first P (x # xs) = (if P x then xs else x # delete_first P xs)"

definition clear_timers :: "nat set \<Rightarrow> timer list \<Rightarrow> timer list" where
  "clear_timers ids ts = filter (\<lambda>t. tm_id t \<notin> ids) ts"

text \<open>Remove every pending request that satisfies a test, clearing its timer.\<close>

definition drop_pending :: "(pending_request \<Rightarrow> bool) \<Rightarrow> relay_state \<Rightarrow> relay_state" where
  "drop_pending P s =
     s\<lparr>pending := filter (\<lambda>(k, p). \<not> P p) (pending s),
       timers := clear_timers (set (map (\<lambda>(k, p). pq_timeout p) (filter (\<lambda>(k, p). P p) (pending s))))
                   (timers s)\<rparr>"

definition unlinkMobileBySocket ::
  "socket \<Rightarrow> relay_state \<Rightarrow> relay_state \<times> (string \<times> string) option" where
  "unlinkMobileBySocket sock s =
     (case find_link sock (links s) of
        None \<Rightarrow> (s, None)
      | Some (desktopId, conn) \<Rightarrow>
          (let cs = delete_first (\<lambda>c. mc_socket c = sock) (mobilesForDesktop desktopId s);
               ls = (if cs = [] then AList.delete desktopId (links s)
                     else AList.update desktopId cs (links s))
           in (drop_pending (\<lambda>p. mc_socket (pq_mobile p) = sock) (s\<lparr>links := ls\<rparr>),
               Some (mc_mobileDeviceId conn, desktopId))))"

subsection \<open>Pending requests and their timers\<close>

definition addPending ::
  "string \<Rightarrow> string \<Rightarrow> string \<Rightarrow> mobile_conn \<Rightarrow> int \<Rightarrow> jobj option \<Rightarrow> relay_state \<Rightarrow> relay_state \<times> bool" where
  "addPending desktopId requestId method mobile timeoutMs params s =
     (let key = pendingKey desktopId requestId
      in if map_of (pending s) key \<noteq> None then (s, False)
         else
           (let t = \<lparr>tm_id = next_timer s, tm_key = key, tm_ms = timeoutMs, tm_desktopId = desktopId,
                     tm_requestId = requestId, tm_method = method, tm_params = params\<rparr>;
                p = \<lparr>pq_desktopId = desktopId, pq_requestId = requestId, pq_method = method,
                     pq_mobile = mobile, pq_timeout = next_timer s\<rparr>
            in (s\<lparr>timers := timers s @ [t], next_timer := Suc (next_timer s),
                  pending := AList.update key p (pending s)\<rparr>, True)))"

definition takePending ::
  "string \<Rightarrow> string \<Rightarrow> relay_state \<Rightarrow> relay_state \<times> (mobile_conn \<times> string) option" where
  "takePending desktopId requestId s =
     (let key = pendingKey desktopId requestId
      in case map_of (pending s) key of
           None \<Rightarrow> (s, None)
         | Some p \<Rightarrow>
             (s\<lparr>timers := clear_timers {pq_timeout p} (timers s),
                pending := AList.delete key (pending s)\<rparr>, Some (pq_mobile p, pq_method p)))"

definition removePendingForDesktop ::
  "string \<Rightarrow> relay_state \<Rightarrow> relay_state \<times> (string \<times> mobile_conn) list" where
  "removePendingForDesktop desktopId s =
     (drop_pending (\<lambda>p. pq_desktopId p = desktopId) s,
      map (\<lambda>(k, p). (pq_requestId p, pq_mobile p))
        (filter (\<lambda>(k, p). pq_desktopId p = desktopId) (pending s)))"

text \<open>The callback of an armed timer: the event loop forgets the timer, and the callback takes the
  pending request of its key, if there is one.\<close>

definition fireTimer :: "timer \<Rightarrow> relay_state \<Rightarrow> relay_state \<times> mobile_conn option" where
  "fireTimer t s =
     (let s' = s\<lparr>timers := clear_timers {tm_id t} (timers s)\<rparr>
      in case map_of (pending s') (tm_key t) of
           None \<Rightarrow> (s', None)
         | Some p \<Rightarrow> (s'\<lparr>pending := AList.delete (tm_key t) (pending s')\<rparr>, Some (pq_mobile p)))"

end
