(* ===== verification/Relay_Invariant.thy ===== *)
theory Relay_Invariant
  imports Relay_State Request_Table
begin

section \<open>The relay's state: invariant and laws of the operations\<close>

text \<open>
  The well-formedness invariant of the relay's maps, that every operation keeps it, and what each
  operation returns.  The pending requests are shown to be a \<^theory_text>\<open>Request_Table\<close>.
\<close>

named_theorems relay_ops \<open>unfoldings of the relay's operations\<close>

lemmas [relay_ops] =
  registerDesktop_def getDesktop_def removeDesktopBySocket_def createPairing_def
  consumePairing_def issueMobileSession_def resumeMobile_def linkMobile_def
  mobilesForDesktop_def drop_pending_def unlinkMobileBySocket_def addPending_def takePending_def
  removePendingForDesktop_def fireTimer_def

subsection \<open>The invariant\<close>

definition desktops_ok :: "(string, desktop_conn) jsmap \<Rightarrow> bool" where
  "desktops_ok ds \<longleftrightarrow> distinct (map fst ds) \<and> distinct (map (dc_socket \<circ> snd) ds) \<and>
     (\<forall>(i, c) \<in> set ds. dc_desktopId c = i)"

definition pairings_ok :: "(string, pairing) jsmap \<Rightarrow> bool" where
  "pairings_ok ps \<longleftrightarrow> distinct (map fst ps) \<and> distinct (map (pr_desktopId \<circ> snd) ps)"

definition links_ok :: "(string, mobile_conn list) jsmap \<Rightarrow> bool" where
  "links_ok ls \<longleftrightarrow> distinct (map fst ls) \<and>
     (\<forall>(d, cs) \<in> set ls. cs \<noteq> [] \<and> (\<forall>c \<in> set cs. mc_desktopId c = d))"

definition pending_sig :: "string \<times> pending_request \<Rightarrow> nat \<times> string \<times> string \<times> string \<times> string" where
  "pending_sig e = (pq_timeout (snd e), fst e, pq_desktopId (snd e), pq_requestId (snd e), pq_method (snd e))"

definition timer_sig :: "timer \<Rightarrow> nat \<times> string \<times> string \<times> string \<times> string" where
  "timer_sig t = (tm_id t, tm_key t, tm_desktopId t, tm_requestId t, tm_method t)"

text \<open>Pending requests and armed timers are in one-to-one correspondence, and the closure of each
  timer speaks of the request whose key it looks up.\<close>

definition pending_ok :: "(string, pending_request) jsmap \<Rightarrow> timer list \<Rightarrow> nat \<Rightarrow> bool" where
  "pending_ok pd ts n \<longleftrightarrow>
     distinct (map fst pd) \<and>
     (\<forall>(k, p) \<in> set pd. k = pendingKey (pq_desktopId p) (pq_requestId p) \<and>
        mc_desktopId (pq_mobile p) = pq_desktopId p) \<and>
     distinct (map tm_id ts) \<and> (\<forall>t \<in> set ts. tm_id t < n) \<and>
     timer_sig ` set ts = pending_sig ` set pd"

definition relay_inv :: "relay_state \<Rightarrow> bool" where
  "relay_inv s \<longleftrightarrow> desktops_ok (desktops s) \<and> pairings_ok (pairings s) \<and>
     distinct (map fst (mobileSessions s)) \<and> links_ok (links s) \<and>
     pending_ok (pending s) (timers s) (next_timer s)"

lemma relay_invD:
  assumes "relay_inv s"
  shows "desktops_ok (desktops s)" "pairings_ok (pairings s)"
    "distinct (map fst (mobileSessions s))" "links_ok (links s)"
    "pending_ok (pending s) (timers s) (next_timer s)"
  using assms by (simp_all add: relay_inv_def)

lemma relay_inv_initial [simp]: "relay_inv initial_relay_state"
  by (simp add: relay_inv_def initial_relay_state_def desktops_ok_def pairings_ok_def links_ok_def
      pending_ok_def)

subsection \<open>Generic facts on tables\<close>

lemma distinct_snd_update:
  assumes "distinct (map (f \<circ> snd) m)"
    and "\<And>k' v'. (k', v') \<in> set m \<Longrightarrow> k' \<noteq> k \<Longrightarrow> f v' \<noteq> f v"
    and "distinct (map fst m)"
  shows "distinct (map (f \<circ> snd) (AList.update k v m))"
  using assms
proof (induction m)
  case Nil
  then show ?case by simp
next
  case (Cons e m)
  obtain k1 v1 where e: "e = (k1, v1)" by (cases e)
  show ?case
  proof (cases "k1 = k")
    case True
    with Cons.prems e have "\<And>k' v'. (k', v') \<in> set m \<Longrightarrow> f v' \<noteq> f v" by force
    then have "f v \<notin> (f \<circ> snd) ` set m" by force
    with True e Cons.prems show ?thesis by simp
  next
    case False
    have IH: "distinct (map (f \<circ> snd) (AList.update k v m))"
      using Cons.prems by (intro Cons.IH) auto
    have "f v1 \<notin> (f \<circ> snd) ` set (AList.update k v m)"
    proof
      assume "f v1 \<in> (f \<circ> snd) ` set (AList.update k v m)"
      then obtain k2 v2 where "(k2, v2) \<in> set (AList.update k v m)" and eq: "f v1 = f v2" by force
      then consider "(k2, v2) \<in> set m" | "v2 = v" using set_update_subset [of k v m] by auto
      then show False
      proof cases
        case 1
        with eq Cons.prems(1) e show False by force
      next
        case 2
        with eq Cons.prems(2) [of k1 v1] False e show False by simp
      qed
    qed
    with IH False e show ?thesis by (simp add: comp_def)
  qed
qed

lemma entries_with_key:
  "distinct (map fst m) \<Longrightarrow> map_of m k = Some v \<Longrightarrow> {e \<in> set m. fst e = k} = {(k, v)}"
  by (auto dest: map_of_SomeD) (metis map_of_is_SomeI option.inject)

lemma map_of_mem: "distinct (map fst m) \<Longrightarrow> map_of m k = Some v \<longleftrightarrow> (k, v) \<in> set m"
  by (auto dest: map_of_SomeD)

subsection \<open>Desktops\<close>

lemma find_desktop_key_Some: "find_desktop_key sock ds = Some i \<Longrightarrow> \<exists>c. (i, c) \<in> set ds \<and> dc_socket c = sock"
  by (induction ds rule: find_desktop_key.induct) (auto split: if_splits)

lemma find_desktop_key_None: "find_desktop_key sock ds = None \<longleftrightarrow> (\<forall>(i, c) \<in> set ds. dc_socket c \<noteq> sock)"
  by (induction sock ds rule: find_desktop_key.induct) auto

lemma find_desktop_key_mem:
  "distinct (map (dc_socket \<circ> snd) ds) \<Longrightarrow> (i, c) \<in> set ds \<Longrightarrow> find_desktop_key (dc_socket c) ds = Some i"
  by (induction ds) force+

lemma desktops_ok_delete: "desktops_ok ds \<Longrightarrow> desktops_ok (AList.delete i ds)"
  by (auto simp: desktops_ok_def AList.delete_eq distinct_map_filter)

lemma desktops_ok_filter: "desktops_ok ds \<Longrightarrow> desktops_ok (filter P ds)"
  by (auto simp: desktops_ok_def distinct_map_filter)

lemma desktops_ok_register:
  assumes "desktops_ok ds" and "dc_desktopId c = i"
  shows "desktops_ok (AList.update i c (filter (\<lambda>(j, d). \<not> (dc_socket d = dc_socket c \<and> j \<noteq> i)) ds))"
    (is "desktops_ok (AList.update i c ?kept)")
proof -
  have "desktops_ok ?kept" using assms(1) by (rule desktops_ok_filter)
  then have k: "distinct (map fst ?kept)" "distinct (map (dc_socket \<circ> snd) ?kept)"
    "\<And>j d. (j, d) \<in> set ?kept \<Longrightarrow> dc_desktopId d = j"
    by (auto simp: desktops_ok_def)
  have "distinct (map fst (AList.update i c ?kept))" using k(1) by (rule distinct_update)
  moreover have "distinct (map (dc_socket \<circ> snd) (AList.update i c ?kept))"
    using k(2) by (rule distinct_snd_update) (use k(1) in auto)
  moreover have "\<forall>(j, d) \<in> set (AList.update i c ?kept). dc_desktopId d = j"
    using k(3) set_update_subset [of i c ?kept] assms(2) by fastforce
  ultimately show ?thesis by (simp add: desktops_ok_def)
qed

lemma registerDesktop_inv: "relay_inv s \<Longrightarrow> relay_inv (fst (registerDesktop d n p v o' sock s))"
  unfolding relay_inv_def registerDesktop_def Let_def
  using desktops_ok_register
      [of "desktops s" "\<lparr>dc_desktopId = d, dc_name = n, dc_platform = p, dc_appVersion = v,
         dc_offeredCapabilities = (case o' of Some cs \<Rightarrow> cs | None \<Rightarrow> []), dc_socket = sock\<rparr>" d]
  by simp

lemma removeDesktopBySocket_inv: "relay_inv s \<Longrightarrow> relay_inv (fst (removeDesktopBySocket sock s))"
  by (auto simp: relay_inv_def removeDesktopBySocket_def desktops_ok_delete split: option.splits)

subsection \<open>Pairing codes\<close>

lemma draw_code_Some:
  "draw_code ns ps = Some code \<Longrightarrow> map_of ps code = None \<and> (\<exists>n \<in> set ns. code = generatePairingCode n)"
  by (induction ns ps rule: draw_code.induct) (auto simp: Let_def split: if_splits)

lemma draw_code_None:
  "draw_code ns ps = None \<longleftrightarrow> (\<forall>n \<in> set ns. map_of ps (generatePairingCode n) \<noteq> None)"
  by (induction ns ps rule: draw_code.induct) (auto simp: Let_def)

lemma pairings_ok_filter: "pairings_ok ps \<Longrightarrow> pairings_ok (filter P ps)"
  by (auto simp: pairings_ok_def distinct_map_filter)

lemma pairings_ok_delete: "pairings_ok ps \<Longrightarrow> pairings_ok (AList.delete c ps)"
  by (simp add: AList.delete_eq pairings_ok_filter)

lemma pairings_ok_create:
  assumes "pairings_ok ps"
  shows "pairings_ok (AList.update code \<lparr>pr_desktopId = d, pr_expiresAt = e\<rparr>
           (filter (\<lambda>(c, p). pr_desktopId p \<noteq> d) ps))" (is "pairings_ok (AList.update code ?v ?kept)")
proof -
  have k: "distinct (map fst ?kept)" "distinct (map (pr_desktopId \<circ> snd) ?kept)"
    using pairings_ok_filter [OF assms] by (simp_all add: pairings_ok_def)
  then show ?thesis
    unfolding pairings_ok_def by (auto intro!: distinct_update distinct_snd_update)
qed

lemma createPairing_inv: "relay_inv s \<Longrightarrow> relay_inv (fst (createPairing d ttl url now ns s))"
  by (auto simp: relay_inv_def createPairing_def Let_def pairings_ok_filter pairings_ok_create
      split: option.splits)

lemma consumePairing_inv: "relay_inv s \<Longrightarrow> relay_inv (fst (consumePairing d c now s))"
  by (auto simp: relay_inv_def consumePairing_def pairings_ok_delete split: option.splits)

subsection \<open>Mobile sessions\<close>

lemma issueMobileSession_inv: "relay_inv s \<Longrightarrow> relay_inv (fst (issueMobileSession d m ttl now u s))"
  by (simp add: relay_inv_def issueMobileSession_def Let_def distinct_update)

lemma resumeMobile_inv: "relay_inv s \<Longrightarrow> relay_inv (fst (resumeMobile d m t now s))"
  by (auto simp: relay_inv_def resumeMobile_def distinct_delete split: option.splits)

subsection \<open>Links\<close>

lemma links_ok_lookup: "links_ok ls \<Longrightarrow> map_of ls d = Some cs \<Longrightarrow> cs \<noteq> [] \<and> (\<forall>c \<in> set cs. mc_desktopId c = d)"
  by (auto simp: links_ok_def dest: map_of_SomeD)

lemma mobilesForDesktop_desktop:
  "links_ok (links s) \<Longrightarrow> c \<in> set (mobilesForDesktop d s) \<Longrightarrow> mc_desktopId c = d"
  by (cases "map_of (links s) d") (auto simp: mobilesForDesktop_def dest: links_ok_lookup)

lemma links_ok_update:
  "links_ok ls \<Longrightarrow> cs \<noteq> [] \<Longrightarrow> \<forall>c \<in> set cs. mc_desktopId c = d \<Longrightarrow> links_ok (AList.update d cs ls)"
  using set_update_subset [of d cs ls]
  unfolding links_ok_def by (intro conjI distinct_update) fastforce+

lemma links_ok_delete: "links_ok ls \<Longrightarrow> links_ok (AList.delete d ls)"
  by (auto simp: links_ok_def AList.delete_eq distinct_map_filter)

lemma linkMobile_inv: "relay_inv s \<Longrightarrow> relay_inv (linkMobile c s)"
  unfolding relay_inv_def linkMobile_def
  by (auto intro!: links_ok_update dest: mobilesForDesktop_desktop)

lemma set_delete_first: "set (delete_first P xs) \<subseteq> set xs"
  by (induction xs) auto

lemma delete_first_split:
  "\<exists>x \<in> set xs. P x \<Longrightarrow>
   \<exists>us x vs. xs = us @ x # vs \<and> (\<forall>u \<in> set us. \<not> P u) \<and> P x \<and> delete_first P xs = us @ vs"
proof (induction xs)
  case Nil
  then show ?case by simp
next
  case (Cons y ys)
  show ?case
  proof (cases "P y")
    case True
    then show ?thesis by (intro exI [of _ "[]"] exI [of _ y] exI [of _ ys]) simp
  next
    case False
    with Cons obtain us x vs where "ys = us @ x # vs" "\<forall>u \<in> set us. \<not> P u" "P x"
      "delete_first P ys = us @ vs" by auto
    with False show ?thesis by (intro exI [of _ "y # us"] exI [of _ x] exI [of _ vs]) simp
  qed
qed

lemma filter_eq_Cons_mem: "filter P xs = y # ys \<Longrightarrow> y \<in> set xs \<and> P y"
proof -
  assume "filter P xs = y # ys"
  then have "y \<in> set (filter P xs)" by simp
  then show ?thesis by simp
qed

lemma find_link_Some:
  "find_link sock ls = Some (d, c) \<Longrightarrow> \<exists>cs. (d, cs) \<in> set ls \<and> c \<in> set cs \<and> mc_socket c = sock"
proof (induction sock ls rule: find_link.induct)
  case (2 sock d' cs ls)
  show ?case
  proof (cases "filter (\<lambda>c. mc_socket c = sock) cs")
    case Nil
    with 2 show ?thesis by fastforce
  next
    case (Cons x xs)
    with "2.prems" have "d' = d" "x = c" by simp_all
    with filter_eq_Cons_mem [OF Cons] show ?thesis by auto
  qed
qed simp

lemma find_link_None:
  "find_link sock ls = None \<longleftrightarrow> (\<forall>(d, cs) \<in> set ls. \<forall>c \<in> set cs. mc_socket c \<noteq> sock)"
proof (induction sock ls rule: find_link.induct)
  case (2 sock d cs ls)
  show ?case
  proof (cases "filter (\<lambda>c. mc_socket c = sock) cs")
    case Nil
    with 2 show ?thesis by (simp add: filter_empty_conv)
  next
    case (Cons x xs)
    with filter_eq_Cons_mem [OF Cons] show ?thesis by auto
  qed
qed simp

subsection \<open>Pending requests\<close>

lemma pending_okD:
  assumes "pending_ok pd ts n"
  shows "distinct (map fst pd)" "distinct (map tm_id ts)" "timer_sig ` set ts = pending_sig ` set pd"
    "\<And>t. t \<in> set ts \<Longrightarrow> tm_id t < n"
    "\<And>k p. (k, p) \<in> set pd \<Longrightarrow> k = pendingKey (pq_desktopId p) (pq_requestId p)"
    "\<And>k p. (k, p) \<in> set pd \<Longrightarrow> mc_desktopId (pq_mobile p) = pq_desktopId p"
  using assms by (auto simp: pending_ok_def)

lemma pending_timer:
  assumes "pending_ok pd ts n" and "e \<in> set pd"
  obtains t where "t \<in> set ts" and "timer_sig t = pending_sig e"
  using assms pending_okD(3) [OF assms(1)] by (metis (no_types, lifting) image_eqI image_iff)

lemma pending_timeout_inj:
  assumes ok: "pending_ok pd ts n" and "e \<in> set pd" "e' \<in> set pd"
    and eq: "pq_timeout (snd e) = pq_timeout (snd e')"
  shows "e = e'"
proof -
  obtain t t' where t: "t \<in> set ts" "timer_sig t = pending_sig e" "t' \<in> set ts" "timer_sig t' = pending_sig e'"
    using assms by (metis pending_timer)
  then have "tm_id t = tm_id t'" using eq by (simp add: timer_sig_def pending_sig_def)
  then have "t = t'" using pending_okD(2) [OF ok] t(1,3) by (auto simp: distinct_map inj_on_def)
  then have "fst e = fst e'" using t(2,4) by (simp add: timer_sig_def pending_sig_def)
  then show ?thesis
    using pending_okD(1) [OF ok] assms(2,3) by (auto simp: distinct_map inj_on_def)
qed

text \<open>Dropping any selection of entries together with their timers.\<close>

lemma delete_as_filter: "AList.delete k m = filter (\<lambda>e. fst e \<noteq> k) m"
  by (auto simp: AList.delete_eq case_prod_beta' intro!: filter_cong)

lemma pending_ok_drop:
  assumes ok: "pending_ok pd ts n"
    and ids: "ids = (\<lambda>e. pq_timeout (snd e)) ` {e \<in> set pd. Q e}"
  shows "pending_ok (filter (\<lambda>e. \<not> Q e) pd) (clear_timers ids ts) n"
proof -
  have *: "pq_timeout (snd e) \<in> ids \<longleftrightarrow> Q e" if e: "e \<in> set pd" for e
  proof
    assume "pq_timeout (snd e) \<in> ids"
    then obtain e' where "e' \<in> set pd" "Q e'" "pq_timeout (snd e) = pq_timeout (snd e')"
      by (auto simp: ids)
    with pending_timeout_inj [OF ok e] show "Q e" by metis
  qed (use e in \<open>auto simp: ids\<close>)
  have "timer_sig ` set (clear_timers ids ts) = {x \<in> timer_sig ` set ts. fst x \<notin> ids}"
    by (auto simp: clear_timers_def timer_sig_def)
  also have "\<dots> = {x \<in> pending_sig ` set pd. fst x \<notin> ids}" by (simp add: pending_okD(3) [OF ok])
  also have "\<dots> = pending_sig ` set (filter (\<lambda>e. \<not> Q e) pd)"
    using * by (auto simp: pending_sig_def)
  finally show ?thesis
    using ok by (auto simp: pending_ok_def distinct_map_filter clear_timers_def)
qed

lemma drop_pending_inv: "relay_inv s \<Longrightarrow> relay_inv (drop_pending P s)"
  using pending_ok_drop [of "pending s" "timers s" "next_timer s" _ "\<lambda>(k, p). P p"]
  by (auto simp: relay_inv_def drop_pending_def case_prod_beta' image_def)

lemma unlinkMobileBySocket_inv: "relay_inv s \<Longrightarrow> relay_inv (fst (unlinkMobileBySocket sock s))"
proof -
  assume inv: "relay_inv s"
  show ?thesis
  proof (cases "find_link sock (links s)")
    case None
    with inv show ?thesis by (simp add: unlinkMobileBySocket_def)
  next
    case (Some e)
    obtain d c where e: "e = (d, c)" by (cases e)
    let ?cs = "delete_first (\<lambda>c. mc_socket c = sock) (mobilesForDesktop d s)"
    let ?ls = "if ?cs = [] then AList.delete d (links s) else AList.update d ?cs (links s)"
    have "\<forall>c \<in> set ?cs. mc_desktopId c = d"
      using set_delete_first [of _ "mobilesForDesktop d s"] mobilesForDesktop_desktop [OF relay_invD(4) [OF inv]]
      by blast
    then have "links_ok ?ls" using relay_invD(4) [OF inv] by (simp add: links_ok_delete links_ok_update)
    then have "relay_inv (s\<lparr>links := ?ls\<rparr>)" using inv by (simp add: relay_inv_def)
    then show ?thesis unfolding unlinkMobileBySocket_def Let_def Some e by (simp add: drop_pending_inv)
  qed
qed

lemma removePendingForDesktop_inv: "relay_inv s \<Longrightarrow> relay_inv (fst (removePendingForDesktop d s))"
  by (simp add: removePendingForDesktop_def drop_pending_inv)

lemma takePending_inv:
  assumes inv: "relay_inv s"
  shows "relay_inv (fst (takePending d r s))"
proof (cases "map_of (pending s) (pendingKey d r)")
  case None
  with inv show ?thesis by (simp add: takePending_def Let_def)
next
  case (Some p)
  let ?k = "pendingKey d r"
  have ok: "pending_ok (pending s) (timers s) (next_timer s)" using inv by (rule relay_invD)
  have "{pq_timeout p} = (\<lambda>e. pq_timeout (snd e)) ` {e \<in> set (pending s). fst e = ?k}"
    using Some pending_okD(1) [OF ok] by (simp add: entries_with_key)
  from pending_ok_drop [OF ok this] Some inv show ?thesis
    by (simp add: takePending_def Let_def relay_inv_def delete_as_filter)
qed

lemma addPending_inv:
  assumes inv: "relay_inv s" and "mc_desktopId mob = d"
  shows "relay_inv (fst (addPending d r m mob ms ps s))"
proof (cases "map_of (pending s) (pendingKey d r)")
  case (Some p)
  with inv show ?thesis by (simp add: addPending_def Let_def)
next
  case None
  let ?k = "pendingKey d r"
  let ?p = "\<lparr>pq_desktopId = d, pq_requestId = r, pq_method = m, pq_mobile = mob, pq_timeout = next_timer s\<rparr>"
  have ok: "pending_ok (pending s) (timers s) (next_timer s)" using inv by (rule relay_invD)
  have fresh: "?k \<notin> fst ` set (pending s)" using None by (simp add: map_of_eq_None_iff)
  then have "set (AList.update ?k ?p (pending s)) = insert (?k, ?p) (set (pending s))"
    using set_update_iff [OF pending_okD(1) [OF ok]] by force
  moreover have "next_timer s \<notin> tm_id ` set (timers s)" using pending_okD(4) [OF ok] by force
  ultimately have "pending_ok (AList.update ?k ?p (pending s))
      (timers s @ [\<lparr>tm_id = next_timer s, tm_key = ?k, tm_ms = ms, tm_desktopId = d, tm_requestId = r,
         tm_method = m, tm_params = ps\<rparr>]) (Suc (next_timer s))"
    using pending_okD(3) [OF ok] ok assms(2)
    by (simp add: pending_ok_def distinct_update timer_sig_def pending_sig_def less_Suc_eq)
  with None inv show ?thesis by (simp add: addPending_def Let_def relay_inv_def)
qed

text \<open>The request that a firing timer takes is the one it was armed for.\<close>

lemma fireTimer_entry:
  assumes "relay_inv s" and "t \<in> set (timers s)"
  obtains p where "map_of (pending s) (tm_key t) = Some p" and "pq_timeout p = tm_id t"
    and "pq_desktopId p = tm_desktopId t" and "pq_requestId p = tm_requestId t" and "pq_method p = tm_method t"
proof -
  have ok: "pending_ok (pending s) (timers s) (next_timer s)" using assms(1) by (rule relay_invD)
  have "timer_sig t \<in> pending_sig ` set (pending s)" using assms(2) pending_okD(3) [OF ok] by blast
  then obtain k p where "(k, p) \<in> set (pending s)" "timer_sig t = pending_sig (k, p)" by force
  with pending_okD(1) [OF ok] that show ?thesis
    by (auto simp: timer_sig_def pending_sig_def map_of_mem)
qed

lemma fireTimer_inv:
  assumes inv: "relay_inv s" and t: "t \<in> set (timers s)"
  shows "relay_inv (fst (fireTimer t s))"
proof -
  have ok: "pending_ok (pending s) (timers s) (next_timer s)" using inv by (rule relay_invD)
  obtain p where p: "map_of (pending s) (tm_key t) = Some p" "pq_timeout p = tm_id t"
    using inv t by (rule fireTimer_entry)
  then have "{tm_id t} = (\<lambda>e. pq_timeout (snd e)) ` {e \<in> set (pending s). fst e = tm_key t}"
    using pending_okD(1) [OF ok] by (simp add: entries_with_key)
  from pending_ok_drop [OF ok this] p inv show ?thesis
    by (simp add: fireTimer_def Let_def relay_inv_def delete_as_filter)
qed

lemmas relay_ops_inv =
  registerDesktop_inv removeDesktopBySocket_inv createPairing_inv consumePairing_inv
  issueMobileSession_inv resumeMobile_inv linkMobile_inv unlinkMobileBySocket_inv
  addPending_inv takePending_inv removePendingForDesktop_inv fireTimer_inv

subsection \<open>The table of pending requests\<close>

definition pending_lookup :: "relay_state \<Rightarrow> string \<times> string \<Rightarrow> (mobile_conn \<times> string) option" where
  "pending_lookup s k =
     map_option (\<lambda>p. (pq_mobile p, pq_method p)) (map_of (pending s) (pendingKey (fst k) (snd k)))"

interpretation rp: request_table_add
  "\<lambda>k. pendingKey (fst k) (snd k)"
  pending_lookup
  "\<lambda>k. takePending (fst k) (snd k)"
  "\<lambda>k v. addPending (fst k) (snd k) (snd v) (fst v) ms ps"
  for ms ps
  by unfold_locales
    (auto simp: pending_lookup_def takePending_def addPending_def Let_def split: option.splits)

lemma pendingKey_inj:
  assumes "CHR 0x00 \<notin> set d" and "CHR 0x00 \<notin> set d'"
  shows "pendingKey d r = pendingKey d' r' \<longleftrightarrow> d = d' \<and> r = r'"
proof
  assume eq: "pendingKey d r = pendingKey d' r'"
  have "takeWhile (\<lambda>c. c \<noteq> CHR 0x00) (pendingKey x y) = x" if "CHR 0x00 \<notin> set x" for x y
    using that by (auto simp: pendingKey_def takeWhile_append intro!: takeWhile_eq_all_conv [THEN iffD2])
  with eq assms have "d = d'" by metis
  with eq show "d = d' \<and> r = r'" by (simp add: pendingKey_def)
qed simp

subsection \<open>Capabilities and codes\<close>

lemma negotiate_subset:
  "set (negotiateCapabilities m d) = set m \<inter> set RELAY_CAPABILITIES \<inter> set d"
  by (auto simp: negotiateCapabilities_def)

lemma negotiate_empty [simp]: "negotiateCapabilities [] d = []" "negotiateCapabilities m [] = []"
  by (simp_all add: negotiateCapabilities_def)

lemma length_code: "n < 1000000 \<Longrightarrow> length (generatePairingCode n) = 6"
  using length_show_nat_le [of n 6] by (simp add: generatePairingCode_def pad_start_def)

lemma read_code: "read_nat (generatePairingCode n) = n"
  by (simp add: generatePairingCode_def pad_start_def read_nat_zeros)

lemma code_inj: "generatePairingCode m = generatePairingCode n \<longleftrightarrow> m = n"
  by (metis read_code)

text \<open>While fewer than a million codes are in use, a random source that delivers every value
  eventually ends the loop.\<close>

lemma draw_code_terminates:
  assumes "length ps < 1000000" and "{..<1000000} \<subseteq> set ns"
  shows "\<exists>code. draw_code ns ps = Some code"
proof (rule ccontr)
  assume "\<nexists>code. draw_code ns ps = Some code"
  then have "draw_code ns ps = None" by auto
  then have "generatePairingCode ` {..<1000000} \<subseteq> fst ` set ps"
    using assms(2) by (auto simp: draw_code_None map_of_eq_None_iff)
  then have "card (generatePairingCode ` {..<1000000}) \<le> card (fst ` set ps)"
    by (intro card_mono) auto
  moreover have "card (generatePairingCode ` {..<1000000}) = 1000000"
    by (subst card_image) (auto simp: inj_on_def code_inj)
  moreover have "card (fst ` set ps) \<le> length ps"
    by (metis card_length length_map set_map)
  ultimately show False using assms(1) by simp
qed

lemma createPairing_lookup:
  assumes "relay_inv s" and "createPairing d ttl url now ns s = (s', Created code e qr)"
  shows "map_of (pairings s') code = Some \<lparr>pr_desktopId = d, pr_expiresAt = now + ttl * 1000\<rparr>"
    and "\<And>c p. map_of (pairings s') c = Some p \<Longrightarrow> pr_desktopId p = d \<Longrightarrow> c = code"
    and "\<And>c p. pr_desktopId p \<noteq> d \<Longrightarrow> map_of (pairings s') c = Some p \<longleftrightarrow> map_of (pairings s) c = Some p"
proof -
  let ?kept = "filter (\<lambda>(c, p). pr_desktopId p \<noteq> d) (pairings s)"
  have dist: "distinct (map fst (pairings s))" using assms(1) by (simp add: relay_inv_def pairings_ok_def)
  have draw: "draw_code ns ?kept = Some code"
    and s': "pairings s' = AList.update code \<lparr>pr_desktopId = d, pr_expiresAt = now + ttl * 1000\<rparr> ?kept"
    using assms(2) by (auto simp: createPairing_def Let_def split: option.splits)
  have fresh: "map_of ?kept code = None" using draw_code_Some [OF draw] by simp
  show "map_of (pairings s') code = Some \<lparr>pr_desktopId = d, pr_expiresAt = now + ttl * 1000\<rparr>"
    by (simp add: s')
  have look: "map_of (pairings s') c =
      (if c = code then Some \<lparr>pr_desktopId = d, pr_expiresAt = now + ttl * 1000\<rparr>
       else case map_of (pairings s) c of Some p \<Rightarrow> if pr_desktopId p \<noteq> d then Some p else None | None \<Rightarrow> None)" for c
    using map_of_filter_entries [OF dist, of "\<lambda>(c, p). pr_desktopId p \<noteq> d"] by (simp add: s' split: option.split)
  show "c = code" if "map_of (pairings s') c = Some p" "pr_desktopId p = d" for c p
    using that(1) unfolding look
    by (cases "map_of (pairings s) c") (use that(2) in \<open>auto split: if_splits\<close>)
  have "pr_desktopId p = d" if "map_of (pairings s) code = Some p" for p
    using fresh that map_of_filter_entries [OF dist, of "\<lambda>(c, p). pr_desktopId p \<noteq> d" code]
    by (simp split: if_splits)
  then show "map_of (pairings s') c = Some p \<longleftrightarrow> map_of (pairings s) c = Some p" if "pr_desktopId p \<noteq> d" for c p
    unfolding look using that by (cases "map_of (pairings s) c"; force split: if_splits)
qed

end
