(* ===== verification/Relay_Audit.thy ===== *)
theory Relay_Audit
  imports Envelope
begin

section \<open>The relay's audit log (apps/relay/src/audit.ts)\<close>

text \<open>
  The redaction of logged payloads and the line that the JSON logger writes.  A field whose value
  is \<open>undefined\<close> is \<^const>\<open>None\<close>.
\<close>

fun contains :: "string \<Rightarrow> string \<Rightarrow> bool" where
  "contains w [] = (w = [])"
| "contains w (c # s) = (prefix w (c # s) \<or> contains w s)"

text \<open>The regular expression \<open>/token|pairingcode|secret|password|authorization/i\<close>.\<close>

definition SENSITIVE_FIELD :: "string \<Rightarrow> bool" where
  "SENSITIVE_FIELD k =
     list_ex (\<lambda>w. contains w (map to_lower k))
       [''token'', ''pairingcode'', ''secret'', ''password'', ''authorization'']"

fun redactPayload :: "json \<Rightarrow> json" where
  "redactPayload (JArr xs) = JArr (map (\<lambda>x. redactPayload x) xs)"
| "redactPayload (JObj m) =
     JObj (map (\<lambda>e. (fst e, if SENSITIVE_FIELD (fst e) then JStr ''<redacted>''
                             else redactPayload (snd e))) m)"
| "redactPayload v = v"

type_synonym audit_fields = "(string \<times> json option) list"

text \<open>The object that \<open>JSON_AUDIT_LOGGER\<close> prints: the defined fields are spread over the
  timestamp, the component and the event, so a field of the same name replaces them.\<close>

definition definedFields :: "audit_fields \<Rightarrow> jobj" where
  "definedFields flds = List.map_filter (\<lambda>(k, v). map_option (Pair k) v) flds"

definition JSON_AUDIT_LOGGER :: "int \<Rightarrow> string \<Rightarrow> audit_fields \<Rightarrow> json" where
  "JSON_AUDIT_LOGGER now event flds =
     JObj (foldl (\<lambda>m (k, v). AList.update k v m)
       [(''timestamp'', JStr (iso_string now)), (''component'', JStr ''relay''), (''event'', JStr event)]
       (definedFields flds))"

subsection \<open>What redaction guarantees\<close>

text \<open>No value under a sensitive name is visible, at any depth.\<close>

fun fully_redacted :: "json \<Rightarrow> bool" where
  "fully_redacted (JArr xs) = list_all (\<lambda>x. fully_redacted x) xs"
| "fully_redacted (JObj m) =
     list_all (\<lambda>e. if SENSITIVE_FIELD (fst e) then snd e = JStr ''<redacted>''
                    else fully_redacted (snd e)) m"
| "fully_redacted v = True"

lemma fully_redacted_redact: "fully_redacted (redactPayload j)"
  by (induction j rule: redactPayload.induct) (auto simp: list_all_iff)

lemma redact_fixpoint: "fully_redacted j \<Longrightarrow> redactPayload j = j"
proof (induction j rule: redactPayload.induct)
  case (1 xs)
  then show ?case by (auto simp: list_all_iff intro!: map_idI)
next
  case (2 m)
  have "(fst e, if SENSITIVE_FIELD (fst e) then JStr ''<redacted>'' else redactPayload (snd e)) = e"
    if "e \<in> set m" for e
    using 2 that by (cases e) (auto simp: list_all_iff)
  then show ?case by (auto intro!: map_idI)
qed auto

lemma redact_idem: "redactPayload (redactPayload j) = redactPayload j"
  by (rule redact_fixpoint) (rule fully_redacted_redact)

lemma redact_keys: "\<exists>m'. redactPayload (JObj m) = JObj m' \<and> map fst m' = map fst m"
  by (simp add: comp_def)

end
