(* ===== verification/Relay_Handlers.thy ===== *)
theory Relay_Handlers
  imports Relay_Invariant Relay_Audit
begin

section \<open>The relay's handlers (apps/relay/src/handlers.ts)\<close>

text \<open>
  Each handler takes what the event loop gives it (the environment: the schema library, the clock,
  the readiness of the sockets, the random source, the options of the server), the relay's state,
  the socket and the received frame; it returns the new state, its effects in the order in which
  the code performs them, and how it ended.  One reading of the clock serves a whole handler.
\<close>

record frame =
  fr_json :: "json option"
  fr_bytes :: int

record relay_env =
  env_safeParse :: zod
  env_now :: int
  env_readyState :: "socket \<Rightarrow> int option"
  env_draws :: "nat list"
  env_uuid :: string
  env_relayMobileUrl :: string
  env_mobileSessionTtlMs :: "int option"
  env_desktopResponseTimeoutMs :: "int option"
  env_logInputText :: bool
  env_logPayloads :: bool

text \<open>A handler returns, raises \<open>RangeError\<close> out of the message callback, or is still drawing
  pairing codes when the random source given to the model ends.\<close>

datatype completion = Returned | RaisedRangeError | Drawing

type_synonym outcome = "relay_state \<times> relay_effect list \<times> completion"

definition DEFAULT_MOBILE_SESSION_TTL_MS :: int where
  "DEFAULT_MOBILE_SESSION_TTL_MS = 8 * 60 * 60 * 1000"

definition DEFAULT_DESKTOP_RESPONSE_TIMEOUT_MS :: int where
  "DEFAULT_DESKTOP_RESPONSE_TIMEOUT_MS = 15000"

definition FORWARDED :: "string \<Rightarrow> bool" where
  "FORWARDED m \<longleftrightarrow> m \<in> set MOBILE_FORWARDED_METHODS"

definition DESKTOP_EVENT_SET :: "string \<Rightarrow> bool" where
  "DESKTOP_EVENT_SET n \<longleftrightarrow> n \<in> set DESKTOP_EVENTS"

definition send :: "relay_env \<Rightarrow> socket \<Rightarrow> wire_message \<Rightarrow> relay_effect list" where
  "send e sock msg =
     (case env_readyState e sock of
        Some r \<Rightarrow> if r \<noteq> 1 then [] else [Send sock msg]
      | None \<Rightarrow> [Send sock msg])"

subsection \<open>Fields of the audit log\<close>

abbreviation jstr :: "string \<Rightarrow> json option" where
  "jstr s \<equiv> Some (JStr s)"

definition sessionIdFrom :: "json option \<Rightarrow> json option" where
  "sessionIdFrom v =
     (case v of
        None \<Rightarrow> None
      | Some j \<Rightarrow>
          (case prop_of ''sessionId'' j of
             Some (JStr i) \<Rightarrow> jstr i
           | _ \<Rightarrow> (case prop_of ''session'' j of
                     Some sess \<Rightarrow> (case prop_of ''id'' sess of Some (JStr i) \<Rightarrow> jstr i | _ \<Rightarrow> None)
                   | None \<Rightarrow> None)))"

definition inputTextFrom :: "string \<Rightarrow> json option \<Rightarrow> bool \<Rightarrow> json option" where
  "inputTextFrom method params enabled =
     (case params of
        None \<Rightarrow> None
      | Some j \<Rightarrow>
          if \<not> enabled then None
          else if method = ''session.input'' \<and> as_str (prop_of ''data'' j) \<noteq> None
          then prop_of ''data'' j
          else if method = ''interaction.respond''
          then (case prop_of ''response'' j of
                  Some r \<Rightarrow> (case prop_of ''text'' r of Some (JStr t) \<Rightarrow> jstr t | _ \<Rightarrow> None)
                | None \<Rightarrow> None)
          else None)"

definition terminalOutputTextFrom :: "string \<Rightarrow> json \<Rightarrow> bool \<Rightarrow> json option" where
  "terminalOutputTextFrom event data enabled =
     (if \<not> enabled \<or> event \<noteq> ''terminal.output'' then None
      else (case prop_of ''data'' data of Some (JStr t) \<Rightarrow> jstr t | _ \<Rightarrow> None))"

fun wire_kind :: "wire_message \<Rightarrow> string" where
  "wire_kind (Request i m p t) = ''request''"
| "wire_kind (Response i ok r e t) = ''response''"
| "wire_kind (Event n d t) = ''event''"

definition logReceivedMessage :: "string \<Rightarrow> wire_message \<Rightarrow> frame \<Rightarrow> bool \<Rightarrow> relay_effect" where
  "logReceivedMessage role message raw logPayloads =
     Audit ''message.received'' [
       (''role'', jstr role),
       (''kind'', jstr (wire_kind message)),
       (''requestId'', if isEvent message then None else jstr (msg_id message)),
       (''method'', if isRequest message then jstr (msg_method message) else None),
       (''eventName'', if isEvent message then jstr (msg_event message) else None),
       (''messageBytes'', Some (JNum (fr_bytes raw))),
       (''payload'', if logPayloads then Some (redactPayload (encode_wire message)) else None)]"

definition logRejected :: "string \<Rightarrow> error_code \<Rightarrow> string \<Rightarrow> frame \<Rightarrow> relay_effect" where
  "logRejected role code requestId raw =
     Audit ''message.rejected'' [
       (''role'', jstr role),
       (''code'', jstr (error_code_str code)),
       (''requestId'', jstr requestId),
       (''messageBytes'', Some (JNum (fr_bytes raw)))]"

definition strs :: "string list \<Rightarrow> json" where
  "strs xs = JArr (map JStr xs)"

definition device_json :: "mobile_device \<Rightarrow> json" where
  "device_json d = JObj [(''id'', JStr (md_id d)), (''name'', JStr (md_name d)), (''platform'', JStr (md_platform d))]"

definition as_device :: "json \<Rightarrow> mobile_device" where
  "as_device j = \<lparr>md_id = str_at ''id'' j, md_name = str_at ''name'' j, md_platform = str_at ''platform'' j\<rparr>"

definition device_at :: "string \<Rightarrow> json \<Rightarrow> mobile_device" where
  "device_at k v = as_device (case prop_of k v of Some j \<Rightarrow> j | None \<Rightarrow> JNull)"

subsection \<open>Looking up the sender\<close>

definition findDesktopId :: "relay_state \<Rightarrow> socket \<Rightarrow> string" where
  "findDesktopId s sock = (case find_desktop_key sock (desktops s) of Some i \<Rightarrow> i | None \<Rightarrow> [])"

definition findMobileConn :: "relay_state \<Rightarrow> socket \<Rightarrow> mobile_conn option" where
  "findMobileConn s sock = map_option snd (find_link sock (links s))"

subsection \<open>Messages from a desktop\<close>

definition handleDesktopRegister ::
  "relay_env \<Rightarrow> relay_state \<Rightarrow> socket \<Rightarrow> string \<Rightarrow> jobj option \<Rightarrow> outcome" where
  "handleDesktopRegister e s sock i params =
     (case env_safeParse e DesktopRegisterParamsSchema (map_option JObj params) of
        Inl m \<Rightarrow> (s, send e sock (makeError (env_now e) i INVALID_MESSAGE m None), Returned)
      | Inr d \<Rightarrow>
          (case registerDesktop (str_at ''desktopId'' d) (str_at ''desktopName'' d) (str_at ''platform'' d)
                  (str_at ''appVersion'' d) (strs_at ''offeredCapabilities'' d) sock s of
             (s', closes) \<Rightarrow>
               (s', closes @
                  Audit ''desktop.registered'' [
                    (''desktopId'', jstr (str_at ''desktopId'' d)),
                    (''platform'', jstr (str_at ''platform'' d)),
                    (''appVersion'', jstr (str_at ''appVersion'' d)),
                    (''requestId'', jstr i)] #
                  send e sock (makeResponse (env_now e) i [(''registered'', JBool True)]),
                Returned)))"

definition handlePairingCreate ::
  "relay_env \<Rightarrow> relay_state \<Rightarrow> socket \<Rightarrow> string \<Rightarrow> jobj option \<Rightarrow> outcome" where
  "handlePairingCreate e s sock i params =
     (case env_safeParse e DesktopPairingCreateParamsSchema (map_option JObj params) of
        Inl m \<Rightarrow> (s, send e sock (makeError (env_now e) i INVALID_MESSAGE m None), Returned)
      | Inr d \<Rightarrow>
          (let desktopId = findDesktopId s sock
           in if desktopId = []
              then (s, send e sock (makeError (env_now e) i DAEMON_UNAVAILABLE ''desktop not registered'' None), Returned)
              else
                (case createPairing desktopId (num_at ''ttlSeconds'' d) (env_relayMobileUrl e) (env_now e)
                        (env_draws e) s of
                   (s', StillDrawing) \<Rightarrow> (s', [], Drawing)
                 | (s', CreateRangeError) \<Rightarrow> (s', [], RaisedRangeError)
                 | (s', Created pairingCode expiresAt qr) \<Rightarrow>
                     (s',
                      Audit ''desktop.pairing.created'' [
                        (''desktopId'', jstr desktopId),
                        (''requestId'', jstr i),
                        (''ttlSeconds'', Some (JNum (num_at ''ttlSeconds'' d)))] #
                      send e sock (makeResponse (env_now e) i [
                        (''desktopId'', JStr desktopId),
                        (''pairingCode'', JStr pairingCode),
                        (''expiresAt'', JStr expiresAt),
                        (''qrPayload'', JObj [
                          (''relayUrl'', JStr (qr_relayUrl qr)),
                          (''desktopId'', JStr (qr_desktopId qr)),
                          (''pairingCode'', JStr (qr_pairingCode qr)),
                          (''expiresAt'', JStr (qr_expiresAt qr))])]),
                      Returned))))"

definition handleDesktopRequest ::
  "relay_env \<Rightarrow> relay_state \<Rightarrow> socket \<Rightarrow> string \<Rightarrow> string \<Rightarrow> jobj option \<Rightarrow> outcome" where
  "handleDesktopRequest e s sock i method params =
     (if method = ''desktop.register'' then handleDesktopRegister e s sock i params
      else if method = ''desktop.pairing.create'' then handlePairingCreate e s sock i params
      else (s, send e sock (makeError (env_now e) i UNSUPPORTED_METHOD (''unknown method '' @ method) None), Returned))"

text \<open>The result of \<open>session.list\<close> and \<open>session.subscribe\<close> is given the negotiated
  capabilities on its way to the mobile.\<close>

definition addNegotiated :: "relay_state \<Rightarrow> string \<Rightarrow> mobile_conn \<Rightarrow> string \<Rightarrow> bool \<Rightarrow> jobj option \<Rightarrow> jobj option" where
  "addNegotiated s desktopId mobile method ok result =
     (case result of
        None \<Rightarrow> None
      | Some r \<Rightarrow>
          if ok \<and> (method = ''session.list'' \<or> method = ''session.subscribe'')
          then Some (AList.update ''negotiatedCapabilities''
                 (strs (negotiateCapabilities (mc_offeredCapabilities mobile)
                    (case getDesktop desktopId s of Some d \<Rightarrow> dc_offeredCapabilities d | None \<Rightarrow> []))) r)
          else Some r)"

definition handleDesktopResponse ::
  "relay_env \<Rightarrow> relay_state \<Rightarrow> socket \<Rightarrow> frame \<Rightarrow> string \<Rightarrow> bool \<Rightarrow> jobj option \<Rightarrow> protocol_error option \<Rightarrow>
   string \<Rightarrow> outcome" where
  "handleDesktopResponse e s sock raw i ok result err sentAt =
     (let desktopId = findDesktopId s sock
      in if desktopId = [] then (s, [], Returned)
         else
           (case takePending desktopId i s of
              (s', None) \<Rightarrow> (s', [], Returned)
            | (s', Some (mobile, method)) \<Rightarrow>
                (s',
                 Audit ''desktop.response.forwarded'' [
                   (''desktopId'', jstr desktopId),
                   (''mobileDeviceId'', jstr (mc_mobileDeviceId mobile)),
                   (''requestId'', jstr i),
                   (''ok'', Some (JBool ok)),
                   (''messageBytes'', Some (JNum (fr_bytes raw)))] #
                 send e (mc_socket mobile)
                   (Response i ok (addNegotiated s' desktopId mobile method ok result) err sentAt),
                 Returned)))"

definition handleDesktopEvent ::
  "relay_env \<Rightarrow> relay_state \<Rightarrow> socket \<Rightarrow> frame \<Rightarrow> string \<Rightarrow> jobj \<Rightarrow> string \<Rightarrow> outcome" where
  "handleDesktopEvent e s sock raw event data sentAt =
     (if \<not> DESKTOP_EVENT_SET event then (s, [], Returned)
      else
        (let desktopId = findDesktopId s sock
         in if desktopId = [] then (s, [], Returned)
            else
              (let mobiles = mobilesForDesktop desktopId s
               in (s,
                   Audit ''desktop.event.forwarded'' [
                     (''desktopId'', jstr desktopId),
                     (''eventName'', jstr event),
                     (''sessionId'', sessionIdFrom (Some (JObj data))),
                     (''mobileCount'', Some (JNum (int (length mobiles)))),
                     (''messageBytes'', Some (JNum (fr_bytes raw))),
                     (''outputText'', terminalOutputTextFrom event (JObj data) (env_logInputText e))] #
                   concat (map (\<lambda>m. send e (mc_socket m) (Event event data sentAt)) mobiles),
                   Returned))))"

definition with_log :: "relay_effect \<Rightarrow> outcome \<Rightarrow> outcome" where
  "with_log l r = (case r of (s, effs, c) \<Rightarrow> (s, l # effs, c))"

definition handleDesktopMessage :: "relay_env \<Rightarrow> relay_state \<Rightarrow> socket \<Rightarrow> frame \<Rightarrow> outcome" where
  "handleDesktopMessage e s sock raw =
     (case parseWireMessage (env_safeParse e) (fr_json raw) of
        ParseErr i code message \<Rightarrow>
          (s, logRejected ''desktop'' code i raw # send e sock (makeError (env_now e) i code message None), Returned)
      | ParseOk msg \<Rightarrow>
          with_log (logReceivedMessage ''desktop'' msg raw (env_logPayloads e))
            (case msg of
               Request i method params sentAt \<Rightarrow> handleDesktopRequest e s sock i method params
             | Response i ok result err sentAt \<Rightarrow> handleDesktopResponse e s sock raw i ok result err sentAt
             | Event event data sentAt \<Rightarrow> handleDesktopEvent e s sock raw event data sentAt))"

subsection \<open>Messages from a mobile\<close>

definition handleMobilePair ::
  "relay_env \<Rightarrow> relay_state \<Rightarrow> socket \<Rightarrow> string \<Rightarrow> jobj option \<Rightarrow> outcome" where
  "handleMobilePair e s sock i params =
     (case env_safeParse e MobilePairParamsSchema (map_option JObj params) of
        Inl m \<Rightarrow> (s, send e sock (makeError (env_now e) i INVALID_MESSAGE m None), Returned)
      | Inr d \<Rightarrow>
          (let desktopId = str_at ''desktopId'' d; device = device_at ''mobileDevice'' d
           in case getDesktop desktopId s of
                None \<Rightarrow> (s, send e sock (makeError (env_now e) i DESKTOP_OFFLINE ''desktop is offline'' None), Returned)
              | Some desktop \<Rightarrow>
                  (case consumePairing desktopId (str_at ''pairingCode'' d) (env_now e) s of
                     (s1, Inl code) \<Rightarrow> (s1, send e sock (makeError (env_now e) i code ''pairing failed'' None), Returned)
                   | (s1, Inr _) \<Rightarrow>
                       (case issueMobileSession desktopId (md_id device)
                               (case env_mobileSessionTtlMs e of Some t \<Rightarrow> t | None \<Rightarrow> DEFAULT_MOBILE_SESSION_TTL_MS)
                               (env_now e) (env_uuid e) s1 of
                          (s2, None) \<Rightarrow> (s2, [], RaisedRangeError)
                        | (s2, Some (token, expiresAt)) \<Rightarrow>
                            (let offers = (case strs_at ''offeredCapabilities'' d of Some cs \<Rightarrow> cs | None \<Rightarrow> []);
                                 conn = \<lparr>mc_mobileDeviceId = md_id device, mc_mobileDevice = device,
                                         mc_desktopId = desktopId, mc_token = token,
                                         mc_offeredCapabilities = offers, mc_socket = sock\<rparr>
                             in (linkMobile conn s2,
                                 Audit ''mobile.paired'' [
                                   (''desktopId'', jstr desktopId),
                                   (''mobileDeviceId'', jstr (md_id device)),
                                   (''platform'', jstr (md_platform device)),
                                   (''requestId'', jstr i)] #
                                 send e sock (makeResponse (env_now e) i [
                                   (''desktopId'', JStr (dc_desktopId desktop)),
                                   (''desktopName'', JStr (dc_name desktop)),
                                   (''paired'', JBool True),
                                   (''mobileSessionToken'', JStr token),
                                   (''mobileSessionExpiresAt'', JStr expiresAt),
                                   (''negotiatedCapabilities'',
                                      strs (negotiateCapabilities offers (dc_offeredCapabilities desktop)))]) @
                                 send e (dc_socket desktop) (makeEvent (env_now e) ''mobile.paired'' [
                                   (''mobileDevice'', device_json device),
                                   (''mobileSessionExpiresAt'', JStr expiresAt)]),
                                 Returned))))))"

definition handleMobileResume ::
  "relay_env \<Rightarrow> relay_state \<Rightarrow> socket \<Rightarrow> string \<Rightarrow> jobj option \<Rightarrow> outcome" where
  "handleMobileResume e s sock i params =
     (case env_safeParse e MobileResumeParamsSchema (map_option JObj params) of
        Inl m \<Rightarrow> (s, send e sock (makeError (env_now e) i INVALID_MESSAGE m None), Returned)
      | Inr d \<Rightarrow>
          (let desktopId = str_at ''desktopId'' d; deviceId = str_at ''mobileDeviceId'' d;
               token = str_at ''mobileSessionToken'' d
           in case getDesktop desktopId s of
                None \<Rightarrow> (s, send e sock (makeError (env_now e) i DESKTOP_OFFLINE ''desktop is offline'' None), Returned)
              | Some desktop \<Rightarrow>
                  (case resumeMobile desktopId deviceId token (env_now e) s of
                     (s1, Inl code) \<Rightarrow> (s1, send e sock (makeError (env_now e) i code ''resume failed'' None), Returned)
                   | (s1, Inr _) \<Rightarrow>
                       (let offers = (case strs_at ''offeredCapabilities'' d of Some cs \<Rightarrow> cs | None \<Rightarrow> []);
                            conn = \<lparr>mc_mobileDeviceId = deviceId,
                                    mc_mobileDevice = \<lparr>md_id = deviceId, md_name = ''resumed'', md_platform = ''unknown''\<rparr>,
                                    mc_desktopId = desktopId, mc_token = token,
                                    mc_offeredCapabilities = offers, mc_socket = sock\<rparr>
                        in (linkMobile conn s1,
                            Audit ''mobile.resumed'' [
                              (''desktopId'', jstr desktopId),
                              (''mobileDeviceId'', jstr deviceId),
                              (''requestId'', jstr i)] #
                            send e sock (makeResponse (env_now e) i [
                              (''desktopId'', JStr (dc_desktopId desktop)),
                              (''desktopName'', JStr (dc_name desktop)),
                              (''resumed'', JBool True),
                              (''negotiatedCapabilities'',
                                 strs (negotiateCapabilities offers (dc_offeredCapabilities desktop)))]),
                            Returned)))))"

definition handleMobileForward ::
  "relay_env \<Rightarrow> relay_state \<Rightarrow> socket \<Rightarrow> frame \<Rightarrow> string \<Rightarrow> string \<Rightarrow> jobj option \<Rightarrow> string \<Rightarrow> outcome" where
  "handleMobileForward e s sock raw i method params sentAt =
     (case findMobileConn s sock of
        None \<Rightarrow> (s, send e sock (makeError (env_now e) i MOBILE_NOT_PAIRED ''pair before sending session commands'' None), Returned)
      | Some conn \<Rightarrow>
          (case getDesktop (mc_desktopId conn) s of
             None \<Rightarrow> (s, send e sock (makeError (env_now e) i DESKTOP_OFFLINE ''desktop is offline'' None), Returned)
           | Some desktop \<Rightarrow>
               (case addPending (dc_desktopId desktop) i method conn
                       (case env_desktopResponseTimeoutMs e of Some t \<Rightarrow> t | None \<Rightarrow> DEFAULT_DESKTOP_RESPONSE_TIMEOUT_MS)
                       params s of
                  (s', False) \<Rightarrow> (s', send e sock (makeError (env_now e) i INVALID_MESSAGE ''request id is already in flight'' None), Returned)
                | (s', True) \<Rightarrow>
                    (s',
                     Audit ''mobile.request.forwarded'' [
                       (''desktopId'', jstr (dc_desktopId desktop)),
                       (''mobileDeviceId'', jstr (mc_mobileDeviceId conn)),
                       (''method'', jstr method),
                       (''requestId'', jstr i),
                       (''sessionId'', sessionIdFrom (map_option JObj params)),
                       (''messageBytes'', Some (JNum (fr_bytes raw))),
                       (''inputText'', inputTextFrom method (map_option JObj params) (env_logInputText e))] #
                     send e (dc_socket desktop) (Request i method params sentAt),
                     Returned))))"

definition handleMobileRequest ::
  "relay_env \<Rightarrow> relay_state \<Rightarrow> socket \<Rightarrow> frame \<Rightarrow> string \<Rightarrow> string \<Rightarrow> jobj option \<Rightarrow> string \<Rightarrow> outcome" where
  "handleMobileRequest e s sock raw i method params sentAt =
     (if method = ''mobile.pair'' then handleMobilePair e s sock i params
      else if method = ''mobile.resume'' then handleMobileResume e s sock i params
      else if FORWARDED method then handleMobileForward e s sock raw i method params sentAt
      else (s, send e sock (makeError (env_now e) i UNSUPPORTED_METHOD (''unknown method '' @ method) None), Returned))"

definition handleMobileMessage :: "relay_env \<Rightarrow> relay_state \<Rightarrow> socket \<Rightarrow> frame \<Rightarrow> outcome" where
  "handleMobileMessage e s sock raw =
     (case parseWireMessage (env_safeParse e) (fr_json raw) of
        ParseErr i code message \<Rightarrow>
          (s, logRejected ''mobile'' code i raw # send e sock (makeError (env_now e) i code message None), Returned)
      | ParseOk msg \<Rightarrow>
          with_log (logReceivedMessage ''mobile'' msg raw (env_logPayloads e))
            (case msg of
               Request i method params sentAt \<Rightarrow> handleMobileRequest e s sock raw i method params sentAt
             | Response i ok result err sentAt \<Rightarrow> (s, [], Returned)
             | Event event data sentAt \<Rightarrow> (s, [], Returned)))"

subsection \<open>Closed sockets and timers\<close>

definition onDesktopClose :: "relay_env \<Rightarrow> relay_state \<Rightarrow> socket \<Rightarrow> outcome" where
  "onDesktopClose e s sock =
     (case removeDesktopBySocket sock s of
        (s1, None) \<Rightarrow> (s1, [], Returned)
      | (s1, Some desktopId) \<Rightarrow>
          if desktopId = [] then (s1, [], Returned)
          else
            (case removePendingForDesktop desktopId s1 of
               (s2, removed) \<Rightarrow>
                 (s2,
                  Audit ''websocket.disconnected'' [(''role'', jstr ''desktop''), (''desktopId'', jstr desktopId)] #
                  concat (map (\<lambda>(requestId, mobile).
                    send e (mc_socket mobile)
                      (makeError (env_now e) requestId DESKTOP_OFFLINE ''desktop disconnected'' None)) removed),
                  Returned)))"

definition onMobileClose :: "relay_env \<Rightarrow> relay_state \<Rightarrow> socket \<Rightarrow> outcome" where
  "onMobileClose e s sock =
     (case unlinkMobileBySocket sock s of
        (s1, None) \<Rightarrow> (s1, [], Returned)
      | (s1, Some (mobileDeviceId, desktopId)) \<Rightarrow>
          (s1,
           Audit ''websocket.disconnected'' [
             (''role'', jstr ''mobile''), (''desktopId'', jstr desktopId), (''mobileDeviceId'', jstr mobileDeviceId)] #
           (case getDesktop desktopId s1 of
              Some desktop \<Rightarrow>
                send e (dc_socket desktop)
                  (makeEvent (env_now e) ''mobile.disconnected'' [(''mobileDeviceId'', JStr mobileDeviceId)])
            | None \<Rightarrow> []),
           Returned))"

text \<open>The \<open>onTimeout\<close> closure that the forwarding handler passes to \<open>addPending\<close>, run by the
  timer's callback.\<close>

definition onResponseTimeout :: "relay_env \<Rightarrow> relay_state \<Rightarrow> timer \<Rightarrow> outcome" where
  "onResponseTimeout e s t =
     (case fireTimer t s of
        (s', None) \<Rightarrow> (s', [], Returned)
      | (s', Some pendingMobile) \<Rightarrow>
          (s',
           Audit ''mobile.request.timed_out'' [
             (''desktopId'', jstr (tm_desktopId t)),
             (''mobileDeviceId'', jstr (mc_mobileDeviceId pendingMobile)),
             (''method'', jstr (tm_method t)),
             (''requestId'', jstr (tm_requestId t)),
             (''sessionId'', sessionIdFrom (map_option JObj (tm_params t)))] #
           send e (mc_socket pendingMobile)
             (makeError (env_now e) (tm_requestId t) INTERNAL_ERROR ''desktop response timed out'' None),
           Returned))"

end
