(* ===== verification/Relay_System.thy ===== *)
theory Relay_System
  imports Relay_Handlers
begin

section \<open>The relay as a reactive system (apps/relay/src/app.ts)\<close>

text \<open>
  What \<open>buildApp\<close> wires to the event loop: connections, messages and closes of the two kinds of
  sockets, and the timers that the handlers have armed.  One event is one turn of the loop.  The
  lemmas show that every event keeps the invariant of \<^theory_text>\<open>Relay_Invariant\<close> and to whom the
  relay sends.
\<close>

datatype relay_event =
    MobileConnected socket
  | MobileMessage relay_env socket frame
  | MobileClosed relay_env socket
  | DesktopConnected socket
  | DesktopMessage relay_env socket frame
  | DesktopClosed relay_env socket
  | TimerFires relay_env timer

text \<open>Only an armed timer fires.\<close>

fun relay_react :: "relay_state \<Rightarrow> relay_event \<Rightarrow> outcome" where
  "relay_react s (MobileConnected sock) =
     (s, [Audit ''websocket.connected'' [(''role'', jstr ''mobile'')]], Returned)"
| "relay_react s (MobileMessage e sock raw) = handleMobileMessage e s sock raw"
| "relay_react s (MobileClosed e sock) = onMobileClose e s sock"
| "relay_react s (DesktopConnected sock) =
     (s, [Audit ''websocket.connected'' [(''role'', jstr ''desktop'')]], Returned)"
| "relay_react s (DesktopMessage e sock raw) = handleDesktopMessage e s sock raw"
| "relay_react s (DesktopClosed e sock) = onDesktopClose e s sock"
| "relay_react s (TimerFires e t) =
     (if t \<in> set (timers s) then onResponseTimeout e s t else (s, [], Returned))"

definition relay_step :: "relay_state \<Rightarrow> relay_event \<Rightarrow> relay_state" where
  "relay_step s ev = fst (relay_react s ev)"

definition relay_run :: "relay_state \<Rightarrow> relay_event list \<Rightarrow> relay_state" where
  "relay_run s evs = foldl relay_step s evs"

lemma relay_run_simps [simp]:
  "relay_run s [] = s"
  "relay_run s (ev # evs) = relay_run (relay_step s ev) evs"
  by (simp_all add: relay_run_def)

subsection \<open>The invariant of the handlers\<close>

lemma eq_inv: "relay_inv (fst X) \<Longrightarrow> X = (s', r) \<Longrightarrow> relay_inv s'"
  by simp

lemmas relay_ops_eq_inv =
  registerDesktop_inv [THEN eq_inv] removeDesktopBySocket_inv [THEN eq_inv]
  createPairing_inv [THEN eq_inv] consumePairing_inv [THEN eq_inv]
  issueMobileSession_inv [THEN eq_inv] resumeMobile_inv [THEN eq_inv]
  unlinkMobileBySocket_inv [THEN eq_inv] takePending_inv [THEN eq_inv]
  removePendingForDesktop_inv [THEN eq_inv] fireTimer_inv [THEN eq_inv]

lemma getDesktop_id: "relay_inv s \<Longrightarrow> getDesktop d s = Some c \<Longrightarrow> dc_desktopId c = d"
  by (auto simp: relay_inv_def desktops_ok_def getDesktop_def dest: map_of_SomeD)

lemma findMobileConn_Some:
  assumes "relay_inv s" and "findMobileConn s sock = Some c"
  shows "c \<in> set (mobilesForDesktop (mc_desktopId c) s)" and "mc_socket c = sock"
proof -
  obtain d cs where "(d, cs) \<in> set (links s)" "c \<in> set cs" "mc_socket c = sock"
    using assms(2) by (auto simp: findMobileConn_def dest!: find_link_Some)
  moreover have "distinct (map fst (links s))" and "mc_desktopId c = d"
    using relay_invD(4) [OF assms(1)] calculation by (auto simp: links_ok_def)
  ultimately show "c \<in> set (mobilesForDesktop (mc_desktopId c) s)" and "mc_socket c = sock"
    by (simp_all add: mobilesForDesktop_def map_of_is_SomeI)
qed

lemma fst_with_log [simp]: "fst (with_log l r) = fst r"
  by (simp add: with_log_def split: prod.splits)

lemma handleDesktopRequest_inv: "relay_inv s \<Longrightarrow> relay_inv (fst (handleDesktopRequest e s sock i m ps))"
  by (auto simp: handleDesktopRequest_def handleDesktopRegister_def handlePairingCreate_def Let_def
      intro: relay_ops_eq_inv split: sum.splits prod.splits create_result.splits)

lemma handleDesktopResponse_inv:
  "relay_inv s \<Longrightarrow> relay_inv (fst (handleDesktopResponse e s sock raw i ok r er t))"
  by (auto simp: handleDesktopResponse_def Let_def intro: relay_ops_eq_inv split: prod.splits option.splits)

lemma handleDesktopEvent_state [simp]: "fst (handleDesktopEvent e s sock raw n d t) = s"
  by (simp add: handleDesktopEvent_def Let_def)

lemma handleDesktopMessage_inv: "relay_inv s \<Longrightarrow> relay_inv (fst (handleDesktopMessage e s sock raw))"
  by (auto simp: handleDesktopMessage_def handleDesktopRequest_inv handleDesktopResponse_inv
      split: parse_result.splits wire_message.splits)

lemma handleMobilePair_inv: "relay_inv s \<Longrightarrow> relay_inv (fst (handleMobilePair e s sock i ps))"
  by (auto simp: handleMobilePair_def Let_def intro!: linkMobile_inv intro: relay_ops_eq_inv
      split: sum.splits prod.splits option.splits)

lemma handleMobileResume_inv: "relay_inv s \<Longrightarrow> relay_inv (fst (handleMobileResume e s sock i ps))"
  by (auto simp: handleMobileResume_def Let_def intro!: linkMobile_inv intro: relay_ops_eq_inv
      split: sum.splits prod.splits option.splits)

lemma handleMobileForward_inv: "relay_inv s \<Longrightarrow> relay_inv (fst (handleMobileForward e s sock raw i m ps t))"
  by (auto simp: handleMobileForward_def getDesktop_id intro: addPending_inv [THEN eq_inv]
      split: prod.splits option.splits bool.splits)

lemma handleMobileMessage_inv: "relay_inv s \<Longrightarrow> relay_inv (fst (handleMobileMessage e s sock raw))"
  by (auto simp: handleMobileMessage_def handleMobileRequest_def handleMobilePair_inv
      handleMobileResume_inv handleMobileForward_inv split: parse_result.splits wire_message.splits)

lemma onDesktopClose_inv: "relay_inv s \<Longrightarrow> relay_inv (fst (onDesktopClose e s sock))"
  by (auto simp: onDesktopClose_def intro: relay_ops_eq_inv split: prod.splits option.splits)

lemma onMobileClose_inv: "relay_inv s \<Longrightarrow> relay_inv (fst (onMobileClose e s sock))"
  by (auto simp: onMobileClose_def intro: relay_ops_eq_inv split: prod.splits option.splits)

lemma onResponseTimeout_inv:
  "relay_inv s \<Longrightarrow> t \<in> set (timers s) \<Longrightarrow> relay_inv (fst (onResponseTimeout e s t))"
  by (auto simp: onResponseTimeout_def intro: relay_ops_eq_inv split: prod.splits option.splits)

lemma relay_step_inv: "relay_inv s \<Longrightarrow> relay_inv (relay_step s ev)"
  by (cases ev) (simp_all add: relay_step_def handleMobileMessage_inv handleDesktopMessage_inv
      onMobileClose_inv onDesktopClose_inv onResponseTimeout_inv)

interpretation relay: machine relay_step relay_inv
  by unfold_locales (rule relay_step_inv)

lemma relay_run_inv: "relay_inv s \<Longrightarrow> relay_inv (relay_run s evs)"
  unfolding relay_run_def by (rule relay.run_inv)

end
