(* ===== verification/Relay_Props.thy ===== *)
theory Relay_Props
  imports Relay_System
begin

section \<open>What the relay guarantees\<close>

text \<open>
  The properties of the relay that the protocol relies on: who may be linked to a desktop, where
  requests, responses and events go, and that every forwarded request is answered.
\<close>

subsection \<open>Effects\<close>

lemma send_mem [simp]:
  "Send k m \<in> set (send e sock msg) \<longleftrightarrow>
     k = sock \<and> m = msg \<and> (env_readyState e sock = None \<or> env_readyState e sock = Some 1)"
  "Audit n f \<notin> set (send e sock msg)"
  "CloseSocket k c r \<notin> set (send e sock msg)"
  by (auto simp: send_def split: option.splits)

definition sends :: "relay_effect list \<Rightarrow> (socket \<times> wire_message) list" where
  "sends effs = List.map_filter (\<lambda>x. case x of Send k m \<Rightarrow> Some (k, m) | _ \<Rightarrow> None) effs"

lemma sends_simps [simp]:
  "sends [] = []"
  "sends (Send k m # effs) = (k, m) # sends effs"
  "sends (Audit n f # effs) = sends effs"
  "sends (CloseSocket k c r # effs) = sends effs"
  "sends (xs @ ys) = sends xs @ sends ys"
  by (simp_all add: sends_def List.map_filter_def)

lemma sends_mem: "(k, m) \<in> set (sends effs) \<longleftrightarrow> Send k m \<in> set effs"
  by (induction effs) (auto simp: sends_def List.map_filter_def split: relay_effect.splits)

text \<open>Sockets that accept a message.\<close>

definition is_open :: "relay_env \<Rightarrow> socket \<Rightarrow> bool" where
  "is_open e sock \<longleftrightarrow> env_readyState e sock = None \<or> env_readyState e sock = Some 1"

lemma sends_send [simp]: "sends (send e sock msg) = (if is_open e sock then [(sock, msg)] else [])"
  by (auto simp: send_def is_open_def split: option.splits)

lemma sends_concat: "sends (concat (map f xs)) = concat (map (sends \<circ> f) xs)"
  by (induction xs) auto

subsection \<open>Codes outlive nothing but their creation\<close>

definition creates_code :: "relay_event \<Rightarrow> bool" where
  "creates_code ev =
     (case ev of
        DesktopMessage e sock raw \<Rightarrow>
          (case parseWireMessage (env_safeParse e) (fr_json raw) of
             ParseOk (Request i method params sentAt) \<Rightarrow> method = ''desktop.pairing.create''
           | _ \<Rightarrow> False)
      | _ \<Rightarrow> False)"

lemma handleMobilePair_gone:
  "map_of (pairings s) c = None \<Longrightarrow> map_of (pairings (fst (handleMobilePair e s sock i ps))) c = None"
  by (simp add: handleMobilePair_def Let_def consumePairing_def issueMobileSession_def linkMobile_def
      split: sum.split option.split)

lemma handler_pairings [simp]:
  "pairings (fst (handleMobileResume e s sock i ps)) = pairings s"
  "pairings (fst (handleMobileForward e s sock raw i m ps t)) = pairings s"
  "pairings (fst (handleDesktopRegister e s sock i ps)) = pairings s"
  "pairings (fst (handleDesktopResponse e s sock raw i ok r er t)) = pairings s"
  subgoal by (simp add: handleMobileResume_def Let_def resumeMobile_def linkMobile_def split: sum.split option.split)
  subgoal by (simp add: handleMobileForward_def addPending_def Let_def split: option.split)
  subgoal by (simp add: handleDesktopRegister_def registerDesktop_def Let_def split: sum.split)
  subgoal by (simp add: handleDesktopResponse_def takePending_def Let_def split: option.split)
  done

lemma step_code_gone:
  assumes "map_of (pairings s) c = None" and "\<not> creates_code ev"
  shows "map_of (pairings (relay_step s ev)) c = None"
proof (cases ev)
  case (MobileMessage e sock raw)
  then show ?thesis
    using assms(1)
    by (simp add: relay_step_def handleMobileMessage_def handleMobileRequest_def handleMobilePair_gone
        split: parse_result.split wire_message.split)
next
  case (DesktopMessage e sock raw)
  then show ?thesis
    using assms
    by (simp add: relay_step_def creates_code_def handleDesktopMessage_def handleDesktopRequest_def
        split: parse_result.splits wire_message.splits)
next
  case (MobileClosed e sock)
  then show ?thesis
    using assms(1) by (simp add: relay_step_def onMobileClose_def unlinkMobileBySocket_def drop_pending_def Let_def split: option.split)
next
  case (DesktopClosed e sock)
  then show ?thesis
    using assms(1) by (simp add: relay_step_def onDesktopClose_def removeDesktopBySocket_def removePendingForDesktop_def
        drop_pending_def split: option.split)
next
  case (TimerFires e t)
  then show ?thesis
    using assms(1) by (simp add: relay_step_def onResponseTimeout_def fireTimer_def Let_def split: option.split)
qed (use assms in \<open>simp_all add: relay_step_def\<close>)

lemma run_code_gone:
  "map_of (pairings s) c = None \<Longrightarrow> \<forall>ev \<in> set evs. \<not> creates_code ev \<Longrightarrow>
   map_of (pairings (relay_run s evs)) c = None"
  by (induction evs arbitrary: s) (auto simp: step_code_gone)

text \<open>What a pairing request that links a mobile has done.\<close>

lemma handleMobilePair_linked:
  assumes "handleMobilePair e s sock i ps = (s', effs, r)" and "links s' \<noteq> links s"
    and "env_safeParse e MobilePairParamsSchema (map_option JObj ps) = Inr v"
  shows "map_of (pairings s') (str_at ''pairingCode'' v) = None"
    and "\<exists>p. map_of (pairings s) (str_at ''pairingCode'' v) = Some p \<and>
           pr_desktopId p = str_at ''desktopId'' v \<and> env_now e \<le> pr_expiresAt p"
  using assms
  by (auto simp: handleMobilePair_def Let_def consumePairing_def issueMobileSession_def linkMobile_def
      split: option.splits if_splits)

subsection \<open>Where messages go\<close>

lemma sends_with_log [simp]: "sends (fst (snd (with_log (Audit n f) r))) = sends (fst (snd r))"
  by (simp add: with_log_def split: prod.split)

lemma sends_logReceived [simp]: "sends (logReceivedMessage role m raw b # effs) = sends effs"
  by (simp add: logReceivedMessage_def)

lemma sends_with_logReceived [simp]:
  "sends (fst (snd (with_log (logReceivedMessage role m raw b) r))) = sends (fst (snd r))"
  by (simp add: logReceivedMessage_def)

lemma handleDesktopMessage_Response:
  assumes "parseWireMessage (env_safeParse e) (fr_json raw) = ParseOk (Response i ok res er t)"
  shows "fst (handleDesktopMessage e s sock raw) = fst (handleDesktopResponse e s sock raw i ok res er t)"
    and "sends (fst (snd (handleDesktopMessage e s sock raw))) =
           sends (fst (snd (handleDesktopResponse e s sock raw i ok res er t)))"
  using assms by (simp_all add: handleDesktopMessage_def)

lemma handleDesktopMessage_Event:
  assumes "parseWireMessage (env_safeParse e) (fr_json raw) = ParseOk (Event n d t)"
  shows "fst (handleDesktopMessage e s sock raw) = s"
    and "sends (fst (snd (handleDesktopMessage e s sock raw))) =
           sends (fst (snd (handleDesktopEvent e s sock raw n d t)))"
  using assms by (simp_all add: handleDesktopMessage_def)

lemma handleMobileMessage_Request:
  assumes "parseWireMessage (env_safeParse e) (fr_json raw) = ParseOk (Request i m ps t)"
  shows "fst (handleMobileMessage e s sock raw) = fst (handleMobileRequest e s sock raw i m ps t)"
    and "sends (fst (snd (handleMobileMessage e s sock raw))) =
           sends (fst (snd (handleMobileRequest e s sock raw i m ps t)))"
  using assms by (simp_all add: handleMobileMessage_def)

lemma handleDesktopResponse_sends:
  "sends (fst (snd (handleDesktopResponse e s sock raw i ok res er t))) =
     (if findDesktopId s sock = [] then []
      else case map_of (pending s) (pendingKey (findDesktopId s sock) i) of
             None \<Rightarrow> []
           | Some p \<Rightarrow>
               if is_open e (mc_socket (pq_mobile p))
               then [(mc_socket (pq_mobile p),
                      Response i ok (addNegotiated (fst (takePending (findDesktopId s sock) i s))
                        (findDesktopId s sock) (pq_mobile p) (pq_method p) ok res) er t)]
               else [])"
  by (simp add: handleDesktopResponse_def Let_def takePending_def split: option.split)

lemma handleDesktopResponse_state:
  "fst (handleDesktopResponse e s sock raw i ok res er t) =
     (if findDesktopId s sock = [] then s else fst (takePending (findDesktopId s sock) i s))"
  by (simp add: handleDesktopResponse_def Let_def split: option.split prod.split)

lemma handleDesktopEvent_sends:
  "sends (fst (snd (handleDesktopEvent e s sock raw n d t))) =
     (if \<not> DESKTOP_EVENT_SET n \<or> findDesktopId s sock = [] then []
      else map (\<lambda>c. (mc_socket c, Event n d t))
             (filter (\<lambda>c. is_open e (mc_socket c)) (mobilesForDesktop (findDesktopId s sock) s)))"
proof -
  have "sends (concat (map (\<lambda>m. send e (mc_socket m) (Event n d t)) cs)) =
      map (\<lambda>c. (mc_socket c, Event n d t)) (filter (\<lambda>c. is_open e (mc_socket c)) cs)" for cs :: "mobile_conn list"
    by (induction cs) auto
  then show ?thesis by (simp add: handleDesktopEvent_def Let_def)
qed

lemma findDesktopId_stable: "desktops s' = desktops s \<Longrightarrow> findDesktopId s' sock = findDesktopId s sock"
  by (simp add: findDesktopId_def)

lemma takePending_desktops [simp]: "desktops (fst (takePending d i s)) = desktops s"
  by (simp add: takePending_def Let_def split: option.split)

lemma takePending_gone [simp]: "map_of (pending (fst (takePending d i s))) (pendingKey d i) = None"
  by (simp add: takePending_def Let_def split: option.split)



end
