(* ===== verification/Relay_Requests.thy ===== *)
theory Relay_Requests
  imports Relay_Props
begin

section \<open>Requests: forwarding, timeouts and closes\<close>

text \<open>
  Where a mobile's requests go, that a pending request is answered when its timer fires or its
  desktop leaves, what closing a mobile's socket removes, and what the audit log may show.
\<close>

lemma handleMobileForward_sends:
  "sends (fst (snd (handleMobileForward e s sock raw i m ps t))) =
     (case findMobileConn s sock of
        None \<Rightarrow> if is_open e sock
                then [(sock, makeError (env_now e) i MOBILE_NOT_PAIRED ''pair before sending session commands'' None)]
                else []
      | Some conn \<Rightarrow>
          (case getDesktop (mc_desktopId conn) s of
             None \<Rightarrow> if is_open e sock
                     then [(sock, makeError (env_now e) i DESKTOP_OFFLINE ''desktop is offline'' None)] else []
           | Some desktop \<Rightarrow>
               if map_of (pending s) (pendingKey (dc_desktopId desktop) i) \<noteq> None
               then if is_open e sock
                    then [(sock, makeError (env_now e) i INVALID_MESSAGE ''request id is already in flight'' None)] else []
               else if is_open e (dc_socket desktop) then [(dc_socket desktop, Request i m ps t)] else []))"
  by (simp add: handleMobileForward_def addPending_def Let_def split: option.split)

text \<open>C3: A forwarded command reaches only the desktop that its sender is linked to, word for word,
  and becomes pending there under its own connection; otherwise its sender alone is told why:
  it is not linked, its desktop is offline, or the request's id is already in flight.\<close>

theorem request_confined:
  assumes inv: "relay_inv s"
    and msg: "parseWireMessage (env_safeParse e) (fr_json raw) = ParseOk (Request i m ps t)"
    and fwd: "m \<in> set MOBILE_FORWARDED_METHODS"
    and sent: "(k, w) \<in> set (sends (fst (snd (handleMobileMessage e s sock raw))))"
  shows "(k = sock \<and> (\<exists>code text. w = makeError (env_now e) i code text None \<and>
            code \<in> {MOBILE_NOT_PAIRED, DESKTOP_OFFLINE, INVALID_MESSAGE})) \<or>
         (\<exists>c desktop. c \<in> set (mobilesForDesktop (mc_desktopId c) s) \<and> mc_socket c = sock \<and>
            getDesktop (mc_desktopId c) s = Some desktop \<and> k = dc_socket desktop \<and> w = Request i m ps t \<and>
            pending_lookup (fst (handleMobileMessage e s sock raw)) (mc_desktopId c, i) = Some (c, m))"
proof -
  have m: "FORWARDED m" "m \<noteq> ''mobile.pair''" "m \<noteq> ''mobile.resume''"
    using fwd by (auto simp: FORWARDED_def MOBILE_FORWARDED_METHODS_def)
  note st = handleMobileMessage_Request(1) [OF msg] and snds = handleMobileMessage_Request(2) [OF msg]
  show ?thesis
  proof (cases "findMobileConn s sock")
    case None
    with sent show ?thesis
      by (auto simp: snds handleMobileRequest_def m handleMobileForward_sends split: if_splits)
  next
    case (Some c)
    note c = findMobileConn_Some [OF inv Some]
    show ?thesis
    proof (cases "getDesktop (mc_desktopId c) s")
      case None
      with sent Some show ?thesis
        by (auto simp: snds handleMobileRequest_def m handleMobileForward_sends split: if_splits)
    next
      case (Some desktop)
      with inv have d: "dc_desktopId desktop = mc_desktopId c" by (rule getDesktop_id)
      show ?thesis
      proof (cases "map_of (pending s) (pendingKey (mc_desktopId c) i)")
        case None
        with sent Some \<open>findMobileConn s sock = Some c\<close> d c show ?thesis
          by (intro disjI2 exI [of _ c] exI [of _ desktop])
            (auto simp: st snds handleMobileRequest_def m handleMobileForward_sends handleMobileForward_def
              addPending_def Let_def pending_lookup_def split: if_splits)
      next
        case (Some p)
        with sent \<open>getDesktop (mc_desktopId c) s = Some desktop\<close> \<open>findMobileConn s sock = Some c\<close> d show ?thesis
          by (auto simp: snds handleMobileRequest_def m handleMobileForward_sends split: if_splits)
      qed
    qed
  qed
qed

text \<open>C27: No pending request waits for ever: each has an armed timer, and when that timer fires the
  request is no longer pending, no other request is touched, and its sender is told, if its socket is
  open, that the desktop did not answer in time.\<close>

theorem pending_times_out:
  assumes inv: "relay_inv s" and p: "map_of (pending s) key = Some p"
  shows "\<exists>t \<in> set (timers s). tm_key t = key \<and>
           pending (fst (onResponseTimeout e s t)) = AList.delete key (pending s) \<and>
           sends (fst (snd (onResponseTimeout e s t))) =
             (if is_open e (mc_socket (pq_mobile p))
              then [(mc_socket (pq_mobile p),
                     makeError (env_now e) (pq_requestId p) INTERNAL_ERROR ''desktop response timed out'' None)]
              else [])"
proof -
  have ok: "pending_ok (pending s) (timers s) (next_timer s)" using inv by (rule relay_invD)
  obtain t where t: "t \<in> set (timers s)" "timer_sig t = pending_sig (key, p)"
    using ok map_of_SomeD [OF p] by (rule pending_timer)
  then have "tm_key t = key" "tm_requestId t = pq_requestId p"
    by (simp_all add: timer_sig_def pending_sig_def)
  with t(1) p show ?thesis
    by (intro bexI [of _ t]) (simp_all add: onResponseTimeout_def fireTimer_def Let_def)
qed

text \<open>When the socket of a registered desktop closes, the desktop is no longer registered, none of
  its requests stays pending, the requests of other desktops do, and every mobile that waited for it
  is told, in the order of the requests, that the desktop is offline.\<close>

theorem desktop_close_answers_all:
  assumes inv: "relay_inv s" and reg: "findDesktopId s sock = d" "d \<noteq> []"
  shows "getDesktop d (fst (onDesktopClose e s sock)) = None \<and>
         findDesktopId (fst (onDesktopClose e s sock)) sock = [] \<and>
         pending (fst (onDesktopClose e s sock)) = filter (\<lambda>(k, p). pq_desktopId p \<noteq> d) (pending s) \<and>
         sends (fst (snd (onDesktopClose e s sock))) =
           map (\<lambda>(k, p). (mc_socket (pq_mobile p),
                          makeError (env_now e) (pq_requestId p) DESKTOP_OFFLINE ''desktop disconnected'' None))
             (filter (\<lambda>(k, p). pq_desktopId p = d \<and> is_open e (mc_socket (pq_mobile p))) (pending s))"
proof -
  have key: "find_desktop_key sock (desktops s) = Some d"
    using reg by (auto simp: findDesktopId_def split: option.splits)
  have ok: "desktops_ok (desktops s)" using inv by (rule relay_invD)
  obtain c where c: "(d, c) \<in> set (desktops s)" "dc_socket c = sock"
    using find_desktop_key_Some [OF key] by blast
  have "find_desktop_key sock (AList.delete d (desktops s)) = None"
  proof -
    have "dc_socket c' \<noteq> sock" if "(j, c') \<in> set (desktops s)" "j \<noteq> d" for j c'
      using that c ok unfolding desktops_ok_def distinct_map inj_on_def by fastforce
    then show ?thesis by (fastforce simp: find_desktop_key_None set_delete_iff)
  qed
  moreover have "sends (concat (map (\<lambda>(requestId, mobile).
        send e (mc_socket mobile) (makeError (env_now e) requestId DESKTOP_OFFLINE ''desktop disconnected'' None))
        (map (\<lambda>(k, p). (pq_requestId p, pq_mobile p)) (filter (\<lambda>(k, p). pq_desktopId p = d) pd)))) =
      map (\<lambda>(k, p). (mc_socket (pq_mobile p),
             makeError (env_now e) (pq_requestId p) DESKTOP_OFFLINE ''desktop disconnected'' None))
        (filter (\<lambda>(k, p). pq_desktopId p = d \<and> is_open e (mc_socket (pq_mobile p))) pd)"
    for pd :: "(string, pending_request) jsmap"
    by (induction pd) (auto split: if_splits)
  ultimately show ?thesis
    using key reg(2)
    by (simp add: onDesktopClose_def removeDesktopBySocket_def removePendingForDesktop_def drop_pending_def
        getDesktop_def findDesktopId_def)
qed

subsection \<open>Closing a mobile's socket\<close>

definition link_count :: "socket \<Rightarrow> (string, mobile_conn list) jsmap \<Rightarrow> nat" where
  "link_count sock ls = sum_list (map (\<lambda>(d, cs). length (filter (\<lambda>c. mc_socket c = sock) cs)) ls)"

lemma link_count_find: "link_count sock ls = 0 \<longleftrightarrow> find_link sock ls = None"
proof (induction sock ls rule: find_link.induct)
  case (2 sock d cs ls)
  then show ?case by (cases "filter (\<lambda>c. mc_socket c = sock) cs") (auto simp: link_count_def)
qed (simp add: link_count_def)

lemma link_count_update:
  assumes "distinct (map fst ls)" and "map_of ls d = Some cs"
  shows "link_count sock (AList.update d cs' ls) + length (filter (\<lambda>c. mc_socket c = sock) cs) =
         link_count sock ls + length (filter (\<lambda>c. mc_socket c = sock) cs')"
  using assms by (induction ls) (auto simp: link_count_def)

lemma link_count_delete:
  assumes "distinct (map fst ls)" and "map_of ls d = Some cs"
  shows "link_count sock (AList.delete d ls) + length (filter (\<lambda>c. mc_socket c = sock) cs) = link_count sock ls"
  using assms
proof (induction ls)
  case (Cons e ls)
  show ?case
  proof (cases "fst e = d")
    case True
    with Cons.prems have "d \<notin> fst ` set ls" by auto
    then have "AList.delete d ls = ls" by (simp add: delete_id)
    with True Cons.prems show ?thesis by (cases e) (simp add: link_count_def)
  next
    case False
    with Cons show ?thesis by (cases e) (auto simp: link_count_def)
  qed
qed simp

lemma filter_delete_first:
  "\<exists>x \<in> set xs. P x \<Longrightarrow> Suc (length (filter P (delete_first P xs))) = length (filter P xs)"
  by (induction xs) auto

text \<open>Closing the socket of a mobile removes exactly one of the links that the socket has, and
  every request that is pending for it; a socket that was linked twice (it paired and resumed, or
  resumed twice) keeps a link although it is closed.\<close>

theorem mobile_close_removes_one_link:
  assumes inv: "relay_inv s" and linked: "link_count sock (links s) > 0"
  shows "link_count sock (links (fst (onMobileClose e s sock))) = link_count sock (links s) - 1 \<and>
         pending (fst (onMobileClose e s sock)) =
           filter (\<lambda>(k, p). mc_socket (pq_mobile p) \<noteq> sock) (pending s)"
proof -
  have lok: "links_ok (links s)" using inv by (rule relay_invD)
  then have dist: "distinct (map fst (links s))" by (simp add: links_ok_def)
  obtain d c where f: "find_link sock (links s) = Some (d, c)"
    using linked link_count_find [of sock "links s"] by (cases "find_link sock (links s)") auto
  then obtain cs where cs: "map_of (links s) d = Some cs" "c \<in> set cs" "mc_socket c = sock"
    using find_link_Some [OF f] dist by auto
  let ?P = "\<lambda>c. mc_socket c = sock"
  let ?ls = "if delete_first ?P cs = [] then AList.delete d (links s) else AList.update d (delete_first ?P cs) (links s)"
  have "Suc (length (filter ?P (delete_first ?P cs))) = length (filter ?P cs)"
    using cs by (intro filter_delete_first) auto
  then have "Suc (link_count sock ?ls) = link_count sock (links s)"
    using link_count_update [OF dist cs(1), of sock "delete_first ?P cs"] link_count_delete [OF dist cs(1), of sock]
    by (auto split: if_splits)
  then have "link_count sock ?ls = link_count sock (links s) - 1" by linarith
  moreover have "mobilesForDesktop d s = cs" using cs(1) by (simp add: mobilesForDesktop_def)
  ultimately show ?thesis
    using f by (simp add: onMobileClose_def unlinkMobileBySocket_def Let_def drop_pending_def cong: if_cong split del: if_split)
qed

subsection \<open>The audit log\<close>

definition payload_fields :: "relay_effect list \<Rightarrow> json list" where
  "payload_fields effs =
     concat (map (\<lambda>x. case x of Audit n f \<Rightarrow> List.map_filter (\<lambda>(k, v). if k = ''payload'' then v else None) f
                              | _ \<Rightarrow> []) effs)"

lemma payload_send [simp]: "payload_fields (send e k m) = []"
  by (auto simp: send_def payload_fields_def split: option.split)

lemma payload_simps [simp]:
  "payload_fields [] = []"
  "payload_fields (xs @ ys) = payload_fields xs @ payload_fields ys"
  "payload_fields (Send k m # xs) = payload_fields xs"
  "payload_fields (CloseSocket k c r # xs) = payload_fields xs"
  "payload_fields (Audit n f # xs) =
     List.map_filter (\<lambda>(k, v). if k = ''payload'' then v else None) f @ payload_fields xs"
  by (simp_all add: payload_fields_def)

lemma payload_concat: "(\<And>x. payload_fields (f x) = []) \<Longrightarrow> payload_fields (concat (map f xs)) = []"
  by (induction xs) auto

lemma payload_log [simp]:
  "payload_fields (logReceivedMessage role m raw b # effs) =
     (if b then [redactPayload (encode_wire m)] else []) @ payload_fields effs"
  by (simp add: logReceivedMessage_def List.map_filter_def)

lemma handler_payloads [simp]:
  "payload_fields (fst (snd (handleDesktopRegister e s sock i ps))) = []"
  "payload_fields (fst (snd (handlePairingCreate e s sock i ps))) = []"
  "payload_fields (fst (snd (handleDesktopResponse e s sock raw i ok r er t))) = []"
  "payload_fields (fst (snd (handleDesktopEvent e s sock raw n d t))) = []"
  "payload_fields (fst (snd (handleMobilePair e s sock i ps))) = []"
  "payload_fields (fst (snd (handleMobileResume e s sock i ps))) = []"
  "payload_fields (fst (snd (handleMobileForward e s sock raw i m ps t))) = []"
  "payload_fields (fst (snd (onDesktopClose e s sock))) = []"
  "payload_fields (fst (snd (onMobileClose e s sock))) = []"
  "payload_fields (fst (snd (onResponseTimeout e s tm))) = []"
  subgoal by (simp add: handleDesktopRegister_def registerDesktop_def Let_def List.map_filter_def
      split: sum.split option.split)
  subgoal by (simp add: handlePairingCreate_def Let_def List.map_filter_def
      split: sum.split prod.split create_result.split)
  subgoal by (simp add: handleDesktopResponse_def Let_def List.map_filter_def split: prod.split option.split)
  subgoal by (simp add: handleDesktopEvent_def Let_def List.map_filter_def payload_concat)
  subgoal by (simp add: handleMobilePair_def Let_def List.map_filter_def
      split: sum.split prod.split option.split)
  subgoal by (simp add: handleMobileResume_def Let_def List.map_filter_def
      split: sum.split prod.split option.split)
  subgoal by (simp add: handleMobileForward_def List.map_filter_def split: prod.split option.split bool.split)
  subgoal by (simp add: onDesktopClose_def List.map_filter_def payload_concat split: prod.split option.split)
  subgoal by (simp add: onMobileClose_def List.map_filter_def split: prod.split option.split)
  subgoal by (simp add: onResponseTimeout_def List.map_filter_def split: prod.split option.split)
  done

lemma payload_with_log [simp]:
  "payload_fields (fst (snd (with_log (logReceivedMessage role m raw b) r))) =
     (if b then [redactPayload (encode_wire m)] else []) @ payload_fields (fst (snd r))"
  by (simp add: with_log_def split: prod.split)

lemma payload_rejected [simp]: "payload_fields (logRejected role c i raw # effs) = payload_fields effs"
  by (simp add: logRejected_def List.map_filter_def)

definition logged_payload :: "relay_env \<Rightarrow> frame \<Rightarrow> json list" where
  "logged_payload e raw =
     (case parseWireMessage (env_safeParse e) (fr_json raw) of
        ParseOk m \<Rightarrow> if env_logPayloads e then [redactPayload (encode_wire m)] else []
      | ParseErr i c t \<Rightarrow> [])"

lemma handleMobileRequest_payload [simp]:
  "payload_fields (fst (snd (handleMobileRequest e s sock raw i m ps t))) = []"
  by (simp add: handleMobileRequest_def)

lemma handleDesktopRequest_payload [simp]:
  "payload_fields (fst (snd (handleDesktopRequest e s sock i m ps))) = []"
  by (simp add: handleDesktopRequest_def)

lemma message_payloads:
  "payload_fields (fst (snd (handleMobileMessage e s sock raw))) = logged_payload e raw"
  "payload_fields (fst (snd (handleDesktopMessage e s sock raw))) = logged_payload e raw"
proof -
  show "payload_fields (fst (snd (handleMobileMessage e s sock raw))) = logged_payload e raw"
  proof (cases "parseWireMessage (env_safeParse e) (fr_json raw)")
    case (ParseOk m)
    then show ?thesis by (cases m) (simp_all add: handleMobileMessage_def logged_payload_def)
  qed (simp add: handleMobileMessage_def logged_payload_def)
  show "payload_fields (fst (snd (handleDesktopMessage e s sock raw))) = logged_payload e raw"
  proof (cases "parseWireMessage (env_safeParse e) (fr_json raw)")
    case (ParseOk m)
    then show ?thesis by (cases m) (simp_all add: handleDesktopMessage_def logged_payload_def)
  qed (simp add: handleDesktopMessage_def logged_payload_def)
qed

text \<open>Every message payload that the relay gives to its audit log has the values under sensitive
  names (tokens, pairing codes, secrets, passwords, authorizations) replaced, at every depth, and
  nothing is logged as a payload when the option is off.\<close>

theorem logged_payloads_redacted:
  "(\<forall>j \<in> set (payload_fields (fst (snd (relay_react s ev)))). fully_redacted j) \<and>
   (\<forall>e sock raw. (ev = MobileMessage e sock raw \<or> ev = DesktopMessage e sock raw) \<and> \<not> env_logPayloads e
      \<longrightarrow> payload_fields (fst (snd (relay_react s ev))) = [])"
  by (cases ev) (auto simp: message_payloads logged_payload_def fully_redacted_redact List.map_filter_def
      split: parse_result.splits if_splits)

end
