(* ===== verification/Relay_Pairing.thy ===== *)
theory Relay_Pairing
  imports Relay_Props
begin

section \<open>Pairing: codes and links\<close>

text \<open>
  The properties of pairing codes (one per desktop, of six digits, used once, valid until their
  expiry) and of the links that they and the session tokens establish.
\<close>


text \<open>Creating a pairing code makes it the only code of its desktop, valid until the requested
  time has passed, changes no other desktop's codes, and reports the same code, desktop and expiry in
  the answer and in its QR payload.\<close>

theorem pairing_created:
  assumes "relay_inv s" and "createPairing d ttl url now ns s = (s', Created code expiresAt qr)"
  shows "map_of (pairings s') code = Some \<lparr>pr_desktopId = d, pr_expiresAt = now + ttl * 1000\<rparr> \<and>
         (\<forall>c p. map_of (pairings s') c = Some p \<and> pr_desktopId p = d \<longrightarrow> c = code) \<and>
         (\<forall>c p. pr_desktopId p \<noteq> d \<longrightarrow> (map_of (pairings s') c = Some p \<longleftrightarrow> map_of (pairings s) c = Some p)) \<and>
         toISOString (now + ttl * 1000) = Some expiresAt \<and>
         qr = \<lparr>qr_relayUrl = url, qr_desktopId = d, qr_pairingCode = code, qr_expiresAt = expiresAt\<rparr>"
proof -
  have "toISOString (now + ttl * 1000) = Some expiresAt \<and>
         qr = \<lparr>qr_relayUrl = url, qr_desktopId = d, qr_pairingCode = code, qr_expiresAt = expiresAt\<rparr>"
    using assms(2) by (auto simp: createPairing_def Let_def split: option.splits)
  with createPairing_lookup [OF assms] show ?thesis by blast
qed

text \<open>A time to live that takes the expiry beyond the range of dates makes the handler of
  \<open>desktop.pairing.create\<close> raise out of the socket's message callback, after the code has been
  stored and without any answer.\<close>

theorem pairing_ttl_raises:
  assumes "env_safeParse e DesktopPairingCreateParamsSchema (map_option JObj ps) = Inr v"
    and "findDesktopId s sock \<noteq> []"
    and "env_now e + num_at ''ttlSeconds'' v * 1000 > MAX_TIME"
    and "draw_code (env_draws e) (filter (\<lambda>(c, p). pr_desktopId p \<noteq> findDesktopId s sock) (pairings s)) = Some code"
  shows "\<exists>s'. handlePairingCreate e s sock i ps = (s', [], RaisedRangeError) \<and>
           map_of (pairings s') code =
             Some \<lparr>pr_desktopId = findDesktopId s sock, pr_expiresAt = env_now e + num_at ''ttlSeconds'' v * 1000\<rparr>"
proof -
  have "toISOString (env_now e + num_at ''ttlSeconds'' v * 1000) = None"
    using assms(3) by (auto simp: toISOString_range)
  with assms show ?thesis by (simp add: handlePairingCreate_def createPairing_def Let_def)
qed

text \<open>C2: A code pairs once: after a pairing request has linked a mobile, every later pairing request
  with the same code is refused, without a change of the state, for as long as no desktop creates a
  new code, whatever else the relay's sockets and timers do.\<close>

theorem pairing_code_single_use:
  assumes linked: "handleMobilePair e0 s0 sock0 i0 ps0 = (s1, effs, r)" "links s1 \<noteq> links s0"
    and params0: "env_safeParse e0 MobilePairParamsSchema (map_option JObj ps0) = Inr v0"
    and later: "\<forall>ev \<in> set evs. \<not> creates_code ev"
    and params: "env_safeParse e MobilePairParamsSchema (map_option JObj ps) = Inr v"
      "str_at ''pairingCode'' v = str_at ''pairingCode'' v0"
  shows "handleMobilePair e (relay_run s1 evs) sock i ps =
           (relay_run s1 evs,
            send e sock
              (if getDesktop (str_at ''desktopId'' v) (relay_run s1 evs) = None
               then makeError (env_now e) i DESKTOP_OFFLINE ''desktop is offline'' None
               else makeError (env_now e) i PAIRING_NOT_FOUND ''pairing failed'' None),
            Returned)"
proof -
  have "map_of (pairings s1) (str_at ''pairingCode'' v0) = None"
    using linked params0 by (rule handleMobilePair_linked)
  then have "map_of (pairings (relay_run s1 evs)) (str_at ''pairingCode'' v) = None"
    using later params(2) by (simp add: run_code_gone)
  with params show ?thesis
    by (cases "getDesktop (str_at ''desktopId'' v) (relay_run s1 evs)")
      (simp_all add: handleMobilePair_def consumePairing_def Let_def)
qed

subsection \<open>Who may be linked\<close>

lemma linkMobile_links:
  "mobilesForDesktop d (linkMobile c s) =
     mobilesForDesktop d s @ (if d = mc_desktopId c then [c] else [])"
  by (simp add: mobilesForDesktop_def linkMobile_def split: option.split)

lemma mobilesForDesktop_cong: "links s' = links s \<Longrightarrow> mobilesForDesktop d s' = mobilesForDesktop d s"
  by (simp add: mobilesForDesktop_def)

definition paired_by_code :: "relay_env \<Rightarrow> relay_state \<Rightarrow> mobile_conn \<Rightarrow> bool" where
  "paired_by_code e s c \<longleftrightarrow>
     (\<exists>code p. map_of (pairings s) code = Some p \<and> pr_desktopId p = mc_desktopId c \<and> env_now e \<le> pr_expiresAt p)"

definition resumed_by_token :: "relay_env \<Rightarrow> relay_state \<Rightarrow> mobile_conn \<Rightarrow> bool" where
  "resumed_by_token e s c \<longleftrightarrow>
     (\<exists>m. map_of (mobileSessions s) (mc_token c) = Some m \<and> ms_desktopId m = mc_desktopId c \<and>
        ms_mobileDeviceId m = mc_mobileDeviceId c \<and> env_now e \<le> ms_expiresAt m)"

lemma handleMobilePair_links:
  "links (fst (handleMobilePair e s sock i ps)) = links s \<or>
   (\<exists>c s2. fst (handleMobilePair e s sock i ps) = linkMobile c s2 \<and> links s2 = links s \<and>
      mc_socket c = sock \<and> paired_by_code e s c)"
proof (cases "env_safeParse e MobilePairParamsSchema (map_option JObj ps)")
  case (Inl m)
  then show ?thesis by (simp add: handleMobilePair_def)
next
  case (Inr v)
  show ?thesis
  proof (cases "\<exists>p. getDesktop (str_at ''desktopId'' v) s \<noteq> None \<and>
      map_of (pairings s) (str_at ''pairingCode'' v) = Some p \<and>
      pr_desktopId p = str_at ''desktopId'' v \<and> env_now e \<le> pr_expiresAt p")
    case False
    with Inr show ?thesis
      by (auto simp: handleMobilePair_def Let_def consumePairing_def split: option.split)
  next
    case True
    then obtain p desk where "getDesktop (str_at ''desktopId'' v) s = Some desk"
      "map_of (pairings s) (str_at ''pairingCode'' v) = Some p"
      "pr_desktopId p = str_at ''desktopId'' v" "env_now e \<le> pr_expiresAt p" by auto
    with Inr show ?thesis
      by (auto simp: handleMobilePair_def Let_def consumePairing_def issueMobileSession_def paired_by_code_def
          split: option.split intro!: exI)
  qed
qed

lemma handleMobileResume_links:
  "links (fst (handleMobileResume e s sock i ps)) = links s \<or>
   (\<exists>c s2. fst (handleMobileResume e s sock i ps) = linkMobile c s2 \<and> links s2 = links s \<and>
      mc_socket c = sock \<and> resumed_by_token e s c)"
proof (cases "env_safeParse e MobileResumeParamsSchema (map_option JObj ps)")
  case (Inl m)
  then show ?thesis by (simp add: handleMobileResume_def)
next
  case (Inr v)
  let ?d = "str_at ''desktopId'' v" and ?m = "str_at ''mobileDeviceId'' v" and ?t = "str_at ''mobileSessionToken'' v"
  show ?thesis
  proof (cases "\<exists>m desk. getDesktop ?d s = Some desk \<and> map_of (mobileSessions s) ?t = Some m \<and>
      ms_desktopId m = ?d \<and> ms_mobileDeviceId m = ?m \<and> env_now e \<le> ms_expiresAt m")
    case False
    with Inr show ?thesis
      by (auto simp: handleMobileResume_def Let_def resumeMobile_def split: option.split)
  next
    case True
    then obtain m desk where "getDesktop ?d s = Some desk" "map_of (mobileSessions s) ?t = Some m"
      "ms_desktopId m = ?d" "ms_mobileDeviceId m = ?m" "env_now e \<le> ms_expiresAt m" by auto
    with Inr show ?thesis
      by (auto simp: handleMobileResume_def Let_def resumeMobile_def resumed_by_token_def intro!: exI)
  qed
qed

lemma handler_links [simp]:
  "links (fst (handleMobileForward e s sock raw i m ps t)) = links s"
  "links (fst (handleDesktopRegister e s sock i ps)) = links s"
  "links (fst (handlePairingCreate e s sock i ps)) = links s"
  "links (fst (handleDesktopResponse e s sock raw i ok r er t)) = links s"
  "links (fst (onDesktopClose e s sock)) = links s"
  "links (fst (onResponseTimeout e s tm)) = links s"
  subgoal by (simp add: handleMobileForward_def addPending_def Let_def split: option.split)
  subgoal by (simp add: handleDesktopRegister_def registerDesktop_def Let_def split: sum.split)
  subgoal by (simp add: handlePairingCreate_def createPairing_def Let_def split: sum.split option.split)
  subgoal by (simp add: handleDesktopResponse_def takePending_def Let_def split: option.split)
  subgoal by (simp add: onDesktopClose_def removeDesktopBySocket_def removePendingForDesktop_def drop_pending_def
      split: option.split)
  subgoal by (simp add: onResponseTimeout_def fireTimer_def Let_def split: option.split)
  done

lemma handleDesktopMessage_links [simp]: "links (fst (handleDesktopMessage e s sock raw)) = links s"
  by (simp add: handleDesktopMessage_def handleDesktopRequest_def split: parse_result.split wire_message.split)

lemma onMobileClose_links:
  "set (mobilesForDesktop d (fst (onMobileClose e s sock))) \<subseteq> set (mobilesForDesktop d s)"
proof (cases "find_link sock (links s)")
  case None
  then show ?thesis by (simp add: onMobileClose_def unlinkMobileBySocket_def)
next
  case (Some x)
  obtain d' c where x: "x = (d', c)" by (cases x)
  let ?cs = "delete_first (\<lambda>c. mc_socket c = sock) (mobilesForDesktop d' s)"
  have "links (fst (onMobileClose e s sock)) =
      (if ?cs = [] then AList.delete d' (links s) else AList.update d' ?cs (links s))"
    using Some x by (simp add: onMobileClose_def unlinkMobileBySocket_def drop_pending_def Let_def)
  then have "mobilesForDesktop d (fst (onMobileClose e s sock)) = (if d = d' then ?cs else mobilesForDesktop d s)"
    by (simp add: mobilesForDesktop_def)
  with set_delete_first show ?thesis by (metis order_refl)
qed

lemma handleMobileMessage_links:
  "links (fst (handleMobileMessage e s sock raw)) = links s \<or>
   (\<exists>c s2. fst (handleMobileMessage e s sock raw) = linkMobile c s2 \<and> links s2 = links s \<and>
      mc_socket c = sock \<and> (paired_by_code e s c \<or> resumed_by_token e s c))"
proof (cases "parseWireMessage (env_safeParse e) (fr_json raw)")
  case (ParseOk m)
  show ?thesis
  proof (cases m)
    case (Request i mth ps t)
    from handleMobilePair_links [of e s sock i ps] handleMobileResume_links [of e s sock i ps] show ?thesis
      unfolding handleMobileMessage_Request(1) [OF ParseOk [unfolded Request]] handleMobileRequest_def
      by (cases "mth = ''mobile.pair''"; cases "mth = ''mobile.resume''") (simp; blast)+
  qed (use ParseOk in \<open>simp_all add: handleMobileMessage_def\<close>)
qed (simp add: handleMobileMessage_def)


end
