(* ===== verification/Relay_Registry.thy ===== *)
theory Relay_Registry
  imports Relay_Props
begin

section \<open>The registry of desktops\<close>

text \<open>
  The relay's states are consistent however its sockets behave, and a desktop that connects anew
  takes its identifier over from its former connection, whose later close does no harm.
\<close>

text \<open>C5: In every state that the relay reaches, in whatever order its sockets connect, send and close
  and its timers fire: a desktop identifier and a socket are registered at most once, a desktop has at
  most one pairing code, connections are filed under the desktop they are linked to, no request is
  pending twice, and pending requests and armed timers correspond one to one.\<close>

theorem relay_reachable_inv: "relay_inv (relay_run initial_relay_state evs)"
  by (rule relay_run_inv) (rule relay_inv_initial)

lemma map_of_kept:
  "distinct (map fst ds) \<Longrightarrow>
   map_of (filter (\<lambda>(i, c). \<not> (dc_socket c = sock \<and> i \<noteq> d)) ds) k =
     (case map_of ds k of Some c \<Rightarrow> if dc_socket c = sock \<and> k \<noteq> d then None else Some c | None \<Rightarrow> None)"
  by (subst map_of_filter_entries) (auto split: option.split)

lemma findDesktopId_key:
  "relay_inv s \<Longrightarrow> getDesktop d s = Some c \<Longrightarrow> findDesktopId s (dc_socket c) = d"
  using find_desktop_key_mem [of "desktops s" d c]
  by (auto simp: relay_inv_def desktops_ok_def getDesktop_def findDesktopId_def dest: map_of_SomeD)

lemma unregistered_socket:
  assumes "relay_inv s" and "\<And>d c. getDesktop d s = Some c \<Longrightarrow> dc_socket c \<noteq> sock"
  shows "find_desktop_key sock (desktops s) = None"
proof -
  have "dc_socket c \<noteq> sock" if "(d, c) \<in> set (desktops s)" for d c
    using assms(1) assms(2) [of d c] that
    by (auto simp: relay_inv_def desktops_ok_def getDesktop_def map_of_mem)
  then show ?thesis by (auto simp: find_desktop_key_None)
qed

text \<open>A desktop that registers under an identifier another socket holds takes it over: the other
  socket is closed with code 4001 and nothing else is, the identifier belongs to the new socket,
  desktops of other sockets stay registered as they were, and when the close of the old socket arrives
  later it changes nothing and tells nobody anything.\<close>

theorem desktop_takeover:
  assumes inv: "relay_inv s"
    and reg: "registerDesktop d name platform version offered sock s = (s', effs)"
    and old: "getDesktop d s = Some c" "dc_socket c \<noteq> sock"
  shows "effs = [CloseSocket (dc_socket c) 4001 ''replaced by a new connection''] \<and>
         findDesktopId s' sock = d \<and>
         (\<exists>c'. getDesktop d s' = Some c' \<and> dc_socket c' = sock \<and> dc_name c' = name) \<and>
         (\<forall>i x. i \<noteq> d \<longrightarrow>
            (getDesktop i s' = Some x \<longleftrightarrow> getDesktop i s = Some x \<and> dc_socket x \<noteq> sock)) \<and>
         onDesktopClose e s' (dc_socket c) = (s', [], Returned)"
proof -
  let ?kept = "filter (\<lambda>(i, c). \<not> (dc_socket c = sock \<and> i \<noteq> d)) (desktops s)"
  let ?c = "\<lparr>dc_desktopId = d, dc_name = name, dc_platform = platform, dc_appVersion = version,
      dc_offeredCapabilities = (case offered of Some cs \<Rightarrow> cs | None \<Rightarrow> []), dc_socket = sock\<rparr>"
  have ds: "distinct (map fst (desktops s))" using inv by (simp add: relay_inv_def desktops_ok_def)
  have inv': "relay_inv s'" using registerDesktop_inv [OF inv, of d name platform version offered sock] reg by simp
  have kd: "map_of ?kept d = Some c" using old unfolding map_of_kept [OF ds] getDesktop_def by simp
  have s': "desktops s' = AList.update d ?c ?kept" "effs = [CloseSocket (dc_socket c) 4001 ''replaced by a new connection'']"
    using reg kd old by (auto simp: registerDesktop_def Let_def)
  have get: "getDesktop i s' = (if i = d then Some ?c else
      case getDesktop i s of Some x \<Rightarrow> if dc_socket x = sock \<and> i \<noteq> d then None else Some x | None \<Rightarrow> None)" for i
    unfolding getDesktop_def s'(1) map_of_update by (simp only: fun_upd_apply map_of_kept [OF ds])
  then have others: "i \<noteq> d \<Longrightarrow> getDesktop i s' = Some x \<longleftrightarrow> getDesktop i s = Some x \<and> dc_socket x \<noteq> sock" for i x
    by (auto simp: get split: option.splits if_splits)
  have "dc_socket x \<noteq> dc_socket c" if g: "getDesktop i s' = Some x" for i x
  proof (cases "i = d")
    case True
    with g get [of d] have "x = ?c" by simp
    with old(2) show ?thesis by simp
  next
    case False
    with g others have "findDesktopId s (dc_socket x) = i" by (metis findDesktopId_key [OF inv])
    with False findDesktopId_key [OF inv old(1)] show ?thesis by metis
  qed
  then have "find_desktop_key (dc_socket c) (desktops s') = None" by (rule unregistered_socket [OF inv'])
  then have close: "onDesktopClose e s' (dc_socket c) = (s', [], Returned)"
    by (simp add: onDesktopClose_def removeDesktopBySocket_def)
  have "findDesktopId s' sock = d" using findDesktopId_key [OF inv', of d ?c] get [of d] by simp
  with others get [of d] s'(2) close show ?thesis by auto
qed

end
