(* ===== verification/Relay_Examples.thy ===== *)
theory Relay_Examples
  imports Relay_Requests Relay_Pairing Relay_Registry
begin

section \<open>The relay's properties on concrete runs\<close>

text \<open>
  One desktop on socket 1, one mobile on socket 2: each property of the relay that has hypotheses is
  applied here at concrete states and frames, with the reference implementation of the schemas.
\<close>

subsection \<open>A small world\<close>

definition env0 :: relay_env where
  "env0 = \<lparr>env_safeParse = zod_ref, env_now = 0, env_readyState = (\<lambda>_. Some 1), env_draws = [7],
     env_uuid = ''u'', env_relayMobileUrl = ''ws'', env_mobileSessionTtlMs = None,
     env_desktopResponseTimeoutMs = None, env_logInputText = False, env_logPayloads = False\<rparr>"

lemma env0_simps [simp]:
  "env_safeParse env0 = zod_ref" "env_now env0 = 0" "env_readyState env0 k = Some 1" "env_draws env0 = [7]"
  "env_uuid env0 = ''u''" "env_mobileSessionTtlMs env0 = None" "env_desktopResponseTimeoutMs env0 = None"
  "is_open env0 k" "env_relayMobileUrl env0 = ''ws''"
  by (simp_all add: env0_def is_open_def)

definition frame_of :: "wire_message \<Rightarrow> frame" where
  "frame_of m = \<lparr>fr_json = Some (encode_wire m), fr_bytes = 0\<rparr>"

lemma parse_frame [simp]: "parseWireMessage (env_safeParse env0) (fr_json (frame_of m)) = ParseOk m"
  by (simp add: frame_of_def zr.parse_encode)

lemma parse_frame' [simp]: "parseWireMessage zod_ref (fr_json (frame_of m)) = ParseOk m"
  using parse_frame by simp

definition desktop1 :: desktop_conn where
  "desktop1 = \<lparr>dc_desktopId = ''d'', dc_name = ''n'', dc_platform = ''p'', dc_appVersion = ''1'',
     dc_offeredCapabilities = [], dc_socket = 1\<rparr>"

definition mobile2 :: mobile_conn where
  "mobile2 = \<lparr>mc_mobileDeviceId = ''m'', mc_mobileDevice = \<lparr>md_id = ''m'', md_name = ''x'', md_platform = ''ios''\<rparr>,
     mc_desktopId = ''d'', mc_token = ''t'', mc_offeredCapabilities = [], mc_socket = 2\<rparr>"

lemma conn_simps [simp]:
  "dc_desktopId desktop1 = ''d''" "dc_socket desktop1 = 1" "mc_desktopId mobile2 = ''d''" "mc_socket mobile2 = 2"
  by (simp_all add: desktop1_def mobile2_def)

definition registered :: relay_state where
  "registered = initial_relay_state\<lparr>desktops := [(''d'', desktop1)]\<rparr>"

definition with_code :: relay_state where
  "with_code = registered\<lparr>pairings := [(''000007'', \<lparr>pr_desktopId = ''d'', pr_expiresAt = 60000\<rparr>)]\<rparr>"

definition linked :: relay_state where
  "linked = registered\<lparr>links := [(''d'', [mobile2])]\<rparr>"

definition request5 :: pending_request where
  "request5 = \<lparr>pq_desktopId = ''d'', pq_requestId = ''r'', pq_method = ''session.list'', pq_mobile = mobile2,
     pq_timeout = 0\<rparr>"

definition timer5 :: timer where
  "timer5 = \<lparr>tm_id = 0, tm_key = pendingKey ''d'' ''r'', tm_ms = 15000, tm_desktopId = ''d'', tm_requestId = ''r'',
     tm_method = ''session.list'', tm_params = None\<rparr>"

definition waiting :: relay_state where
  "waiting = linked\<lparr>pending := [(pendingKey ''d'' ''r'', request5)], timers := [timer5], next_timer := 1\<rparr>"

lemmas world = registered_def with_code_def linked_def waiting_def initial_relay_state_def

lemma registered_inv: "relay_inv registered"
  by (simp add: world relay_inv_def desktops_ok_def pairings_ok_def links_ok_def pending_ok_def)

lemma linked_inv: "relay_inv linked"
  by (simp add: world relay_inv_def desktops_ok_def pairings_ok_def links_ok_def pending_ok_def)

lemma waiting_inv: "relay_inv waiting"
  by (simp add: world relay_inv_def desktops_ok_def pairings_ok_def links_ok_def pending_ok_def
      timer_sig_def pending_sig_def request5_def timer5_def)

lemma world_finds [simp]:
  "findDesktopId registered (Suc 0) = ''d''" "findDesktopId linked (Suc 0) = ''d''" "findDesktopId waiting (Suc 0) = ''d''"
  "getDesktop ''d'' registered = Some desktop1" "getDesktop ''d'' linked = Some desktop1"
  "mobilesForDesktop ''d'' linked = [mobile2]" "mobilesForDesktop ''d'' waiting = [mobile2]"
  "find_link 2 (links linked) = Some (''d'', mobile2)" "pending linked = []"
  "map_of (pending waiting) (pendingKey ''d'' ''r'') = Some request5"
  "getDesktop ''d'' with_code = Some desktop1" "links with_code = []" "pairings registered = []"
  "pairings with_code = [(''000007'', \<lparr>pr_desktopId = ''d'', pr_expiresAt = 60000\<rparr>)]"
  by (simp_all add: world findDesktopId_def getDesktop_def mobilesForDesktop_def)

lemma waiting_simps [simp]:
  "pending waiting = [(pendingKey ''d'' ''r'', request5)]"
  "pq_desktopId request5 = ''d''" "pq_requestId request5 = ''r''" "pq_mobile request5 = mobile2"
  by (simp_all add: world request5_def)

subsection \<open>Pairing\<close>


theorem pairing_created_witness:
  "map_of (pairings (fst (createPairing ''d'' 60 ''ws'' 0 [7] registered))) (generatePairingCode 7) =
     Some \<lparr>pr_desktopId = ''d'', pr_expiresAt = 0 + 60 * 1000\<rparr>"
proof -
  have "createPairing ''d'' 60 ''ws'' 0 [7] registered =
      (fst (createPairing ''d'' 60 ''ws'' 0 [7] registered),
       Created (generatePairingCode 7) (iso_string 60000)
         \<lparr>qr_relayUrl = ''ws'', qr_desktopId = ''d'', qr_pairingCode = generatePairingCode 7,
          qr_expiresAt = iso_string 60000\<rparr>)"
    by (simp add: createPairing_def world Let_def toISOString_def MAX_TIME_def)
  from pairing_created [OF registered_inv this] show ?thesis by blast
qed

definition create_params :: jobj where
  "create_params = [(''ttlSeconds'', JNum 9000000000000)]"

theorem pairing_ttl_raises_witness:
  "\<exists>s'. handlePairingCreate env0 registered 1 ''i'' (Some create_params) = (s', [], RaisedRangeError) \<and>
        map_of (pairings s') (generatePairingCode 7) =
          Some \<lparr>pr_desktopId = findDesktopId registered 1,
                pr_expiresAt = env_now env0 + num_at ''ttlSeconds'' (JObj create_params) * 1000\<rparr>"
  by (rule pairing_ttl_raises)
    (simp_all add: zod_ref_def DesktopPairingCreateParamsSchema_def create_params_def num_at_def MAX_TIME_def)

definition pair_params :: jobj where
  "pair_params = [(''desktopId'', JStr ''d''), (''pairingCode'', JStr ''000007''),
     (''mobileDevice'', JObj [(''id'', JStr ''m''), (''name'', JStr ''x''), (''platform'', JStr ''ios'')])]"

lemma pair_params_ok: "zod_ref MobilePairParamsSchema (Some (JObj pair_params)) = Inr (JObj pair_params)"
  by (simp add: zod_ref_def MobilePairParamsSchema_def MobileDeviceSchema_def MobilePlatformSchema_def pair_params_def)

lemma pair_params_at [simp]:
  "str_at ''desktopId'' (JObj pair_params) = ''d''" "str_at ''pairingCode'' (JObj pair_params) = ''000007''"
  by (simp_all add: pair_params_def)

theorem pairing_code_single_use_witness:
  "\<exists>s1. links s1 \<noteq> links with_code \<and>
     fst (handleMobilePair env0 (relay_run s1 [DesktopClosed env0 1, MobileClosed env0 2]) 3 ''j'' (Some pair_params)) =
       relay_run s1 [DesktopClosed env0 1, MobileClosed env0 2]"
proof -
  obtain s1 effs r where s1: "handleMobilePair env0 with_code 2 ''i'' (Some pair_params) = (s1, effs, r)"
    by (metis prod_cases3)
  then have l: "links s1 \<noteq> links with_code"
    by (simp add: handleMobilePair_def pair_params_ok consumePairing_def issueMobileSession_def Let_def
        toISOString_def MAX_TIME_def DEFAULT_MOBILE_SESSION_TTL_MS_def linkMobile_def mobilesForDesktop_def)
      auto
  have "fst (handleMobilePair env0 (relay_run s1 [DesktopClosed env0 1, MobileClosed env0 2]) 3 ''j'' (Some pair_params)) =
       relay_run s1 [DesktopClosed env0 1, MobileClosed env0 2]"
    by (subst pairing_code_single_use [OF s1 l]) (simp_all add: pair_params_ok creates_code_def)
  with l show ?thesis by blast
qed

subsection \<open>Desktops and messages\<close>

theorem desktop_takeover_witness:
  "onDesktopClose env0 (fst (registerDesktop ''d'' ''n2'' ''p'' ''1'' None 5 registered)) (dc_socket desktop1) =
     (fst (registerDesktop ''d'' ''n2'' ''p'' ''1'' None 5 registered), [], Returned)"
  using desktop_takeover [OF registered_inv, of "''d''" "''n2''" "''p''" "''1''" None 5 _ _ desktop1 env0]
  by (cases "registerDesktop ''d'' ''n2'' ''p'' ''1'' None 5 registered") simp



theorem request_confined_witness:
  "\<exists>c desktop. mc_socket c = 2 \<and> getDesktop (mc_desktopId c) linked = Some desktop \<and> 1 = dc_socket desktop \<and>
     pending_lookup (fst (handleMobileMessage env0 linked 2 (frame_of (Request ''q'' ''session.list'' None ''t''))))
       (mc_desktopId c, ''q'') = Some (c, ''session.list'')"
proof -
  let ?f = "frame_of (Request ''q'' ''session.list'' None ''t'')"
  have m: "''session.list'' \<in> set MOBILE_FORWARDED_METHODS" by (simp add: MOBILE_FORWARDED_METHODS_def)
  have "(1, Request ''q'' ''session.list'' None ''t'') \<in> set (sends (fst (snd (handleMobileMessage env0 linked 2 ?f))))"
    by (simp add: handleMobileMessage_def handleMobileRequest_def handleMobileForward_def FORWARDED_def m
        findMobileConn_def addPending_def Let_def with_log_def logReceivedMessage_def)
  from request_confined [OF linked_inv parse_frame m this] show ?thesis by auto
qed

theorem pending_times_out_witness:
  "\<exists>t \<in> set (timers waiting). pending (fst (onResponseTimeout env0 waiting t)) =
     AList.delete (pendingKey ''d'' ''r'') (pending waiting)"
  using pending_times_out [OF waiting_inv world_finds(10), of env0] by blast

theorem desktop_close_answers_all_witness:
  "pending (fst (onDesktopClose env0 waiting 1)) = [] \<and>
   sends (fst (snd (onDesktopClose env0 waiting 1))) =
     [(2, makeError 0 ''r'' DESKTOP_OFFLINE ''desktop disconnected'' None)]"
  using desktop_close_answers_all [OF waiting_inv, of 1 "''d''" env0]
  by simp

theorem mobile_close_removes_one_link_witness:
  "pending (fst (onMobileClose env0 waiting 2)) = []"
proof -
  have "link_count 2 (links waiting) > 0" by (simp add: world link_count_def)
  from mobile_close_removes_one_link [OF waiting_inv this, of env0] show ?thesis
    by simp
qed

theorem logged_payloads_redacted_witness:
  "payload_fields (fst (snd (relay_react linked (MobileMessage env0 2 (frame_of (Event ''a'' [] ''t'')))))) = []"
  using conjunct2 [OF logged_payloads_redacted [of linked "MobileMessage env0 2 (frame_of (Event ''a'' [] ''t''))"]]
  by (simp add: env0_def)

end
