(* ===== verification/Client_Props.thy ===== *)
theory Client_Props
  imports Mobile_Client
begin

section \<open>What the mobile's client guarantees\<close>

subsection \<open>Settled promises\<close>

fun settled_by :: "client_effect \<Rightarrow> nat option" where
  "settled_by (ConnectResolved p) = Some p"
| "settled_by (ConnectRejected p r) = Some p"
| "settled_by (RequestResolved p v) = Some p"
| "settled_by (RequestRejected p r) = Some p"
| "settled_by e = None"

definition settles :: "client_effect list \<Rightarrow> nat list" where
  "settles effs = List.map_filter settled_by effs"

lemma settles_simps [simp]:
  "settles [] = []"
  "settles (e # effs) = (case settled_by e of Some p \<Rightarrow> [p] | None \<Rightarrow> []) @ settles effs"
  by (simp_all add: settles_def map_filter_simps split: option.split)

lemma settles_append [simp]: "settles (xs @ ys) = settles xs @ settles ys"
  by (induction xs) simp_all

lemma settles_listeners [simp]:
  "settles (map (\<lambda>l. ConnectionListener l st) ls) = []"
  "settles (map (\<lambda>l. EventListener l ev d t) ls) = []"
  "settles (map (\<lambda>(i, p). RequestRejected p r) ps) = map snd ps"
proof -
  show "settles (map (\<lambda>l. ConnectionListener l st) ls) = []" by (induction ls) simp_all
  show "settles (map (\<lambda>l. EventListener l ev d t) ls) = []" by (induction ls) simp_all
  show "settles (map (\<lambda>(i, p). RequestRejected p r) ps) = map snd ps" by (induction ps) auto
qed

text \<open>The promises that are not settled yet.\<close>

definition waiting_promises :: "client_state \<Rightarrow> nat set" where
  "waiting_promises s = snd ` set (cl_pending s) \<union> (set (cl_sockets s) - set (cl_settled s))"

subsection \<open>The invariant\<close>

definition client_inv :: "client_state \<Rightarrow> bool" where
  "client_inv s \<longleftrightarrow>
     distinct (map fst (cl_pending s)) \<and> distinct (map snd (cl_pending s)) \<and>
     snd ` set (cl_pending s) \<subseteq> {..<cl_promises s} - set (cl_sockets s) \<and>
     set (cl_sockets s) \<subseteq> {..<cl_promises s} \<and> set (cl_settled s) \<subseteq> set (cl_sockets s) \<and>
     set (cl_sockets s) - set (cl_settled s) = set_option (cl_cancelConnect s) \<and>
     (cl_cancelConnect s = None \<or> cl_cancelConnect s = cl_socket s) \<and>
     set_option (cl_socket s) \<subseteq> set (cl_sockets s) \<and>
     (cl_socket s = None \<longrightarrow> cl_pending s = [] \<and> cl_state s \<noteq> Connected) \<and>
     (cl_state s = Connected \<longrightarrow> cl_cancelConnect s = None)"

lemma client_inv_initial: "client_inv initial_client"
  by (simp add: client_inv_def initial_client_def)

text \<open>One step settles promises that were waiting or have just been made, each once, and all others
  go on waiting.\<close>

definition accounts :: "client_state \<Rightarrow> client_outcome \<Rightarrow> bool" where
  "accounts s r \<longleftrightarrow>
     (let new = {cl_promises s..<cl_promises (fst r)} in
      cl_promises s \<le> cl_promises (fst r) \<and> distinct (settles (snd r)) \<and>
      set (settles (snd r)) \<subseteq> waiting_promises s \<union> new \<and>
      waiting_promises (fst r) = (waiting_promises s \<union> new) - set (settles (snd r)))"

lemmas client_ops = setState_def rejectPending_def takeRequest_def handleResponse_def handleMessage_def
  handleClose_def cancelAttempt_def connect_def socketOpen_def socketClose_def socketError_def
  closeClient_def request_def onEvent_def offEvent_def onConnection_def offConnection_def Let_def

lemma client_invD:
  assumes "client_inv s"
  shows "distinct (map fst (cl_pending s))" "distinct (map snd (cl_pending s))"
    "snd ` set (cl_pending s) \<subseteq> {..<cl_promises s} - set (cl_sockets s)"
    "set (cl_sockets s) \<subseteq> {..<cl_promises s}" "set (cl_settled s) \<subseteq> set (cl_sockets s)"
    "set (cl_sockets s) - set (cl_settled s) = set_option (cl_cancelConnect s)"
    "cl_cancelConnect s = None \<or> cl_cancelConnect s = cl_socket s"
    "set_option (cl_socket s) \<subseteq> set (cl_sockets s)"
    "cl_socket s = None \<Longrightarrow> cl_pending s = []" "cl_socket s = None \<Longrightarrow> cl_state s \<noteq> Connected"
    "cl_state s = Connected \<Longrightarrow> cl_cancelConnect s = None"
  using assms unfolding client_inv_def by blast+

lemma waiting_conv:
  "client_inv s \<Longrightarrow> waiting_promises s = snd ` set (cl_pending s) \<union> set_option (cl_cancelConnect s)"
  by (simp add: waiting_promises_def client_invD(6))

lemma waiting_below: "client_inv s \<Longrightarrow> waiting_promises s \<subseteq> {..<cl_promises s}"
  using client_invD(3,4) [of s] unfolding waiting_promises_def by blast

lemma cancel_current:
  assumes "client_inv s" and "a \<in> set (cl_sockets s)" and "a \<notin> set (cl_settled s)"
  shows "cl_cancelConnect s = Some a"
proof -
  have "a \<in> set_option (cl_cancelConnect s)" using assms(2,3) client_invD(6) [OF assms(1)] by blast
  then show ?thesis by simp
qed

lemma cancel_facts:
  assumes "client_inv s" and "cl_cancelConnect s = Some a"
  shows "cl_socket s = Some a" "a \<notin> set (cl_settled s)" "a \<in> set (cl_sockets s)" "a < cl_promises s"
    "a \<notin> snd ` set (cl_pending s)"
proof -
  note d = client_invD [OF assms(1)]
  have "a \<in> set (cl_sockets s) - set (cl_settled s)" using d(6) assms(2) by simp
  then show "a \<notin> set (cl_settled s)" and m: "a \<in> set (cl_sockets s)" by blast+
  show "cl_socket s = Some a" using d(7) assms(2) by simp
  show "a < cl_promises s" using d(4) m by blast
  show "a \<notin> snd ` set (cl_pending s)" using d(3) m by blast
qed

lemma delete_filter: "AList.delete k m = filter (\<lambda>e. fst e \<noteq> k) m"
  by (induction m) auto

lemma accounts_none [simp]: "settles effs = [] \<Longrightarrow> accounts s (s, effs)"
  by (simp add: accounts_def)

lemma goodI:
  "r = (s', effs) \<Longrightarrow> client_inv s' \<and> accounts s (s', effs) \<Longrightarrow> client_inv (fst r) \<and> accounts s r"
  by simp

lemma good_takeRequest:
  assumes inv: "client_inv s" and p: "map_of (cl_pending s) i = Some p" and e: "settles effs = [p]"
    and s': "s' = s\<lparr>cl_pending := AList.delete i (cl_pending s)\<rparr>"
  shows "client_inv s' \<and> accounts s (s', effs)"
proof
  note d = client_invD [OF inv]
  have mem: "(i, p) \<in> set (cl_pending s)" using p by (rule map_of_SomeD)
  have "j \<noteq> i \<longleftrightarrow> q \<noteq> p" if "(j, q) \<in> set (cl_pending s)" for j q
    using that d(1,2) mem unfolding distinct_map inj_on_def by fastforce
  then have rest: "snd ` set (AList.delete i (cl_pending s)) = snd ` set (cl_pending s) - {p}"
    by (force simp: delete_filter)
  show "client_inv s'"
    unfolding client_inv_def s' using d rest by (simp add: delete_filter distinct_map_filter) blast
  have pm: "p \<in> snd ` set (cl_pending s)" using mem by force
  then have "p \<notin> set (cl_sockets s)" using d(3) by blast
  with pm show "accounts s (s', effs)"
    unfolding accounts_def waiting_promises_def by (simp add: e s' rest Let_def) blast
qed

lemma good_message:
  assumes "client_inv s"
  shows "client_inv (fst (handleMessage sp raw s)) \<and> accounts s (handleMessage sp raw s)"
proof (cases "parseWireMessage sp raw")
  case (ParseOk m)
  then show ?thesis
  proof (cases m)
    case (Response i ok res err t)
    show ?thesis
    proof (cases "map_of (cl_pending s) i")
      case None
      with ParseOk Response assms show ?thesis
        by (simp add: handleMessage_def handleResponse_def takeRequest_def)
    next
      case (Some p)
      have "settles (snd (handleResponse i ok res err s)) = [p]"
        by (simp add: handleResponse_def takeRequest_def Some split: option.split)
      from good_takeRequest [OF assms Some this refl] ParseOk Response Some show ?thesis
        by (simp add: handleMessage_def handleResponse_def takeRequest_def)
    qed
  qed (use assms in \<open>simp_all add: handleMessage_def\<close>)
qed (use assms in \<open>simp_all add: handleMessage_def\<close>)

text \<open>Settling the attempt that is under way.\<close>

lemma good_settle:
  assumes inv: "client_inv s" and a: "cl_cancelConnect s = Some a" and e: "settles effs = [a]"
    and s': "s' = s\<lparr>cl_settled := a # cl_settled s, cl_cancelConnect := None, cl_state := st\<rparr>"
  shows "client_inv s' \<and> accounts s (s', effs)"
proof
  note d = client_invD [OF inv] and f = cancel_facts [OF inv a]
  have c: "set (cl_sockets s) - set (cl_settled s) = {a}" using d(6) a by simp
  then show "client_inv s'"
    unfolding client_inv_def s' using d f by simp blast
  from c f show "accounts s (s', effs)"
    unfolding accounts_def waiting_promises_def by (simp add: e s' Let_def) blast
qed

lemma good_open:
  assumes "client_inv s" and "a \<in> set (cl_sockets s)"
  shows "client_inv (fst (socketOpen a s)) \<and> accounts s (socketOpen a s)"
proof (cases "a \<in> set (cl_settled s) \<or> cl_socket s \<noteq> Some a")
  case True
  with assms show ?thesis by (auto simp: socketOpen_def)
next
  case False
  with cancel_current [OF assms] have c: "cl_cancelConnect s = Some a" by simp
  with False have "socketOpen a s = (s\<lparr>cl_settled := a # cl_settled s, cl_cancelConnect := None, cl_state := Connected\<rparr>,
      map (\<lambda>l. ConnectionListener l Connected) (cl_connectionListeners s) @ [ConnectResolved a])"
    by (simp add: socketOpen_def setState_def)
  then show ?thesis by (rule goodI) (rule good_settle [OF assms(1) c _ refl], simp)
qed

lemma good_error:
  assumes "client_inv s" and "a \<in> set (cl_sockets s)"
  shows "client_inv (fst (socketError a s)) \<and> accounts s (socketError a s)"
proof (cases "a \<notin> set (cl_settled s) \<and> cl_socket s = Some a")
  case False
  then have "socketError a s = (s, [])" by (auto simp: socketError_def)
  with assms show ?thesis by simp
next
  case True
  with cancel_current [OF assms] have c: "cl_cancelConnect s = Some a" by simp
  with True have "socketError a s = (s\<lparr>cl_settled := a # cl_settled s, cl_cancelConnect := None, cl_state := Disconnected\<rparr>,
      ConnectRejected a ConnectionFailed # map (\<lambda>l. ConnectionListener l Disconnected) (cl_connectionListeners s))"
    by (simp add: socketError_def setState_def cancelAttempt_def)
  then show ?thesis by (rule goodI) (rule good_settle [OF assms(1) c _ refl], simp)
qed

text \<open>Losing the socket in use.\<close>

lemma good_lost:
  assumes inv: "client_inv s" and a: "cl_cancelConnect s = None" and e: "settles effs = map snd (cl_pending s)"
    and s': "s' = s\<lparr>cl_pending := [], cl_socket := None, cl_state := Disconnected\<rparr>"
  shows "client_inv s' \<and> accounts s (s', effs)"
proof
  note d = client_invD [OF inv]
  show "client_inv s'" unfolding client_inv_def s' using d a by simp
  have "snd ` set (cl_pending s) \<inter> set (cl_sockets s) = {}" using d(3) by blast
  then show "accounts s (s', effs)"
    using d(2,6) a unfolding accounts_def waiting_promises_def by (simp add: e s' Let_def) blast
qed

lemma accounts_trans:
  assumes "client_inv s" and "accounts s (s1, e1)" and "accounts s1 (s2, e2)"
  shows "accounts s (s2, e1 @ e2)"
proof -
  let ?w = waiting_promises and ?p = cl_promises and ?E = "\<lambda>e. set (settles e)"
  have w: "?w s \<subseteq> {..<?p s}" using assms(1) by (rule waiting_below)
  have a1: "?p s \<le> ?p s1" "distinct (settles e1)" "?E e1 \<subseteq> ?w s \<union> {?p s..<?p s1}"
    "?w s1 = ?w s \<union> {?p s..<?p s1} - ?E e1"
    using assms(2) by (simp_all add: accounts_def Let_def)
  have a2: "?p s1 \<le> ?p s2" "distinct (settles e2)" "?E e2 \<subseteq> ?w s1 \<union> {?p s1..<?p s2}"
    "?w s2 = ?w s1 \<union> {?p s1..<?p s2} - ?E e2"
    using assms(3) by (simp_all add: accounts_def Let_def)
  have n: "{?p s..<?p s2} = {?p s..<?p s1} \<union> {?p s1..<?p s2}"
    using a1(1) a2(1) by (simp add: ivl_disj_un_two(3))
  have "?w s \<inter> {?p s1..<?p s2} = {}" using w a1(1) by fastforce
  moreover have "{?p s..<?p s1} \<inter> {?p s1..<?p s2} = {}" by auto
  ultimately have d: "?E e1 \<inter> {?p s1..<?p s2} = {}" using a1(3) by blast
  have "?E e1 \<inter> ?E e2 = {}" using d a1(4) a2(3) by blast
  moreover have "?w s2 = ?w s \<union> {?p s..<?p s2} - (?E e1 \<union> ?E e2)"
    unfolding a2(4) a1(4) n using d by blast
  moreover have "?E e1 \<union> ?E e2 \<subseteq> ?w s \<union> {?p s..<?p s2}"
    unfolding n using a1(3,4) a2(3) by blast
  ultimately show ?thesis
    using a1(1,2) a2(1,2) by (simp add: accounts_def Let_def)
qed

lemma good_cancel:
  assumes "client_inv s" and "a \<in> set (cl_sockets s)"
  shows "client_inv (fst (cancelAttempt a r s)) \<and> accounts s (cancelAttempt a r s) \<and>
         cl_cancelConnect (fst (cancelAttempt a r s)) \<noteq> Some a"
proof (cases "a \<in> set (cl_settled s)")
  case True
  with assms cancel_facts(2) [OF assms(1), of a] show ?thesis by (auto simp: cancelAttempt_def)
next
  case False
  with cancel_current [OF assms] have c: "cl_cancelConnect s = Some a" by simp
  with False have eq: "cancelAttempt a r s = (s\<lparr>cl_settled := a # cl_settled s, cl_cancelConnect := None,
      cl_state := cl_state s\<rparr>, [ConnectRejected a r])"
    by (simp add: cancelAttempt_def)
  then have "client_inv (fst (cancelAttempt a r s)) \<and> accounts s (cancelAttempt a r s)"
    by (rule goodI) (rule good_settle [OF assms(1) c _ refl], simp)
  with eq show ?thesis by simp
qed

lemma good_handleClose:
  assumes "client_inv s" and "cl_cancelConnect s \<noteq> Some a"
  shows "client_inv (fst (handleClose a s)) \<and> accounts s (handleClose a s)"
proof (cases "cl_socket s = Some a")
  case False
  with assms show ?thesis by (simp add: handleClose_def)
next
  case True
  with assms client_invD(7) [OF assms(1)] have "cl_cancelConnect s = None" by auto
  note lost = good_lost [OF assms(1) this _ refl]
  from True have "handleClose a s = (s\<lparr>cl_pending := [], cl_socket := None, cl_state := Disconnected\<rparr>,
      map (\<lambda>(i, p). RequestRejected p ConnectionClosed) (cl_pending s) @
      map (\<lambda>l. ConnectionListener l Disconnected) (cl_connectionListeners s))"
    by (simp add: handleClose_def rejectPending_def setState_def)
  then show ?thesis by (rule goodI) (rule lost, simp)
qed

lemma good_close:
  assumes "client_inv s" and "a \<in> set (cl_sockets s)"
  shows "client_inv (fst (socketClose a s)) \<and> accounts s (socketClose a s)"
proof -
  obtain s1 e1 where c: "cancelAttempt a ConnectionClosed s = (s1, e1)" by (cases "cancelAttempt a ConnectionClosed s")
  obtain s2 e2 where h: "handleClose a s1 = (s2, e2)" by (cases "handleClose a s1")
  from good_cancel [OF assms, of ConnectionClosed] c
  have 1: "client_inv s1" "accounts s (s1, e1)" "cl_cancelConnect s1 \<noteq> Some a" by simp_all
  from good_handleClose [OF 1(1,3)] h have 2: "client_inv s2" "accounts s1 (s2, e2)" by simp_all
  from accounts_trans [OF assms(1) 1(2) 2(2)] 2(1) show ?thesis by (simp add: socketClose_def c h)
qed

text \<open>New promises.\<close>

lemma good_new_attempt:
  assumes inv: "client_inv s" and a: "cl_cancelConnect s = None" "a = cl_promises s" and e: "settles effs = []"
    and s': "s' = s\<lparr>cl_state := Connecting, cl_promises := Suc a, cl_sockets := a # cl_sockets s,
        cl_cancelConnect := Some a, cl_socket := Some a\<rparr>"
  shows "client_inv s' \<and> accounts s (s', effs)"
proof
  note d = client_invD [OF inv]
  have n: "a \<notin> set (cl_sockets s)" "a \<notin> set (cl_settled s)" "a \<notin> snd ` set (cl_pending s)"
    using d(3,4,5) a(2) by auto
  have u: "set (cl_sockets s) - set (cl_settled s) = {}" using d(6) a(1) by simp
  have "snd ` set (cl_pending s) \<subseteq> {..<Suc a} - insert a (set (cl_sockets s))"
    and "insert a (set (cl_sockets s)) \<subseteq> {..<Suc a}" and "set (cl_settled s) \<subseteq> insert a (set (cl_sockets s))"
    and "insert a (set (cl_sockets s)) - set (cl_settled s) = {a}"
    using d(3,4,5) n u a(2) by auto
  with d(1,2) show "client_inv s'" unfolding client_inv_def s' by simp
  have "{a..<Suc a} = {a}" by auto
  with n u show "accounts s (s', effs)"
    unfolding accounts_def waiting_promises_def using a(2) by (simp add: e s' Let_def) blast
qed

lemma good_rejected:
  assumes inv: "client_inv s" and a: "a = cl_promises s" and e: "settles effs = [a]"
    and st: "st = Connected \<longrightarrow> st = cl_state s"
    and s': "s' = s\<lparr>cl_state := st, cl_promises := Suc a\<rparr>"
  shows "client_inv s' \<and> accounts s (s', effs)"
proof
  note d = client_invD [OF inv]
  have "snd ` set (cl_pending s) \<subseteq> {..<Suc a} - set (cl_sockets s)" "set (cl_sockets s) \<subseteq> {..<Suc a}"
    using d(3,4) a by auto
  with d st show "client_inv s'" unfolding client_inv_def s' by auto
  have "{a..<Suc a} = {a}" by auto
  moreover have "a \<notin> waiting_promises s" using waiting_below [OF inv] a by auto
  ultimately show "accounts s (s', effs)"
    using a unfolding accounts_def waiting_promises_def by (auto simp: e s' Let_def)
qed

lemma good_asked:
  assumes inv: "client_inv s" and a: "a = cl_promises s" "i \<notin> fst ` set (cl_pending s)" "cl_socket s \<noteq> None"
    and e: "settles effs = []"
    and s': "s' = s\<lparr>cl_promises := Suc a, cl_pending := AList.update i a (cl_pending s)\<rparr>"
  shows "client_inv s' \<and> accounts s (s', effs)"
proof
  note d = client_invD [OF inv]
  have up: "AList.update i a m = m @ [(i, a)]" if "i \<notin> fst ` set m" for m
    using that by (induction m) auto
  have n: "a \<notin> set (cl_sockets s)" "a \<notin> snd ` set (cl_pending s)" using d(3,4) a(1) by auto
  have "insert a (snd ` set (cl_pending s)) \<subseteq> {..<Suc a} - set (cl_sockets s)" "set (cl_sockets s) \<subseteq> {..<Suc a}"
    using d(3,4) n a(1) by auto
  moreover have "a \<notin> set (map snd (cl_pending s))" "i \<notin> set (map fst (cl_pending s))" using n a(2) by simp_all
  ultimately show "client_inv s'" unfolding client_inv_def s'
    using d(1,2,5,6,7,8,11) a(2,3) by (simp add: up)
  have "{a..<Suc a} = {a}" by auto
  moreover have "snd ` set (AList.update i a (cl_pending s)) = insert a (snd ` set (cl_pending s))"
    unfolding up [OF a(2)] by simp
  ultimately show "accounts s (s', effs)"
    using n a unfolding accounts_def waiting_promises_def by (auto simp: e s' Let_def)
qed

lemma good_then:
  assumes "client_inv s" and "client_inv s1 \<and> accounts s (s1, e1)" and "client_inv s2 \<and> accounts s1 (s2, e2)"
  shows "client_inv s2 \<and> accounts s (s2, e1 @ e2)"
  using assms accounts_trans [OF assms(1)] by blast

lemma good_connect:
  assumes inv: "client_inv s"
  shows "client_inv (fst (connect url err s)) \<and> accounts s (connect url err s)"
proof -
  define x where "x = (case cl_cancelConnect s of Some b \<Rightarrow> cancelAttempt b ConnectionSuperseded s | None \<Rightarrow> (s, []))"
  obtain s1 e1 where x: "x = (s1, e1)" by (cases x)
  have p: "cl_promises s1 = cl_promises s" and g: "client_inv s1 \<and> accounts s (s1, e1)"
    and c: "cl_cancelConnect s1 = None"
  proof -
    have "client_inv (fst x) \<and> accounts s x \<and> cl_cancelConnect (fst x) = None \<and> cl_promises (fst x) = cl_promises s"
    proof (cases "cl_cancelConnect s")
      case (Some b)
      from good_cancel [OF inv cancel_facts(3) [OF inv Some], of ConnectionSuperseded] cancel_facts(2) [OF inv Some] Some
      show ?thesis by (simp add: x_def cancelAttempt_def)
    qed (simp add: x_def inv)
    then show "cl_promises s1 = cl_promises s" "client_inv s1 \<and> accounts s (s1, e1)" "cl_cancelConnect s1 = None"
      by (simp_all add: x)
  qed
  let ?l = "\<lambda>st. map (\<lambda>l. ConnectionListener l st) (cl_connectionListeners s1)"
  show ?thesis
  proof (cases err)
    case None
    have "connect url err s = (s1\<lparr>cl_state := Connecting, cl_promises := Suc (cl_promises s),
        cl_sockets := cl_promises s # cl_sockets s1, cl_cancelConnect := Some (cl_promises s),
        cl_socket := Some (cl_promises s)\<rparr>, e1 @ ?l Connecting @ [CreateSocket (cl_promises s) url])"
      unfolding connect_def x_def [symmetric] by (simp add: x None setState_def Let_def)
    then show ?thesis
      by (rule goodI) (rule good_then [OF inv g good_new_attempt [OF _ c _ _ refl]], use g p in simp_all)
  next
    case (Some er)
    have "connect url err s = (s1\<lparr>cl_state := Disconnected, cl_promises := Suc (cl_promises s)\<rparr>,
        e1 @ ?l Connecting @ ?l Disconnected @ [ConnectRejected (cl_promises s) (Thrown er)])"
      unfolding connect_def x_def [symmetric] by (simp add: x Some setState_def Let_def)
    then show ?thesis
      by (rule goodI) (rule good_then [OF inv g good_rejected [OF _ _ _ _ refl]], use g p in simp_all)
  qed
qed

lemma delete_fresh: "i \<notin> fst ` set m \<Longrightarrow> AList.delete i (AList.update i p m) = m"
  by (induction m) (auto simp: delete_filter filter_id_conv)

lemma good_request:
  assumes inv: "client_inv s" and "i \<notin> fst ` set (cl_pending s)"
  shows "client_inv (fst (request m ps i now err s)) \<and> accounts s (request m ps i now err s)"
proof (cases "cl_socket s = None \<or> cl_state s \<noteq> Connected")
  case True
  have "request m ps i now err s = (s\<lparr>cl_state := cl_state s, cl_promises := Suc (cl_promises s)\<rparr>,
      [RequestRejected (cl_promises s) NotConnected])"
    using True by (auto simp: request_def Let_def split: option.split)
  then show ?thesis by (rule goodI) (rule good_rejected [OF inv refl _ _ refl], simp_all)
next
  case False
  then obtain a where a: "cl_socket s = Some a" "cl_state s = Connected" by auto
  show ?thesis
  proof (cases err)
    case None
    have "request m ps i now err s = (s\<lparr>cl_promises := Suc (cl_promises s),
        cl_pending := AList.update i (cl_promises s) (cl_pending s)\<rparr>, [SocketSend a (Request i m (Some ps) now)])"
      by (simp add: request_def a None Let_def)
    then show ?thesis by (rule goodI) (rule good_asked [OF inv refl assms(2) _ _ refl], simp_all add: a)
  next
    case (Some er)
    have "request m ps i now err s = (s\<lparr>cl_state := cl_state s, cl_promises := Suc (cl_promises s)\<rparr>,
        [RequestRejected (cl_promises s) (Thrown er)])"
      by (simp add: request_def a Some delete_fresh [OF assms(2)] Let_def)
    then show ?thesis by (rule goodI) (rule good_rejected [OF inv refl _ _ refl], simp_all)
  qed
qed

lemma good_listener:
  "client_inv s \<Longrightarrow> client_inv (s\<lparr>cl_eventListeners := ls\<rparr>) \<and> accounts s (s\<lparr>cl_eventListeners := ls\<rparr>, [])"
  "client_inv s \<Longrightarrow> client_inv (s\<lparr>cl_connectionListeners := ls\<rparr>) \<and> accounts s (s\<lparr>cl_connectionListeners := ls\<rparr>, [])"
  by (simp_all add: client_inv_def accounts_def waiting_promises_def)

lemma good_react:
  assumes "client_inv s" and "possible s i"
  shows "client_inv (fst (client_react sp s i)) \<and> accounts s (client_react sp s i)"
proof (cases i)
  case CallClose
  with assms(1) show ?thesis by (simp add: closeClient_def split: option.split)
qed (use assms in \<open>simp_all add: good_connect good_request good_open good_message good_close good_error
      onEvent_def offEvent_def onConnection_def offConnection_def good_listener\<close>)

subsection \<open>Properties\<close>

lemma accounts_all:
  assumes "client_inv s"
  shows "accounts initial_client (s, trace) \<longleftrightarrow>
     distinct (settles trace) \<and> set (settles trace) = {..<cl_promises s} - waiting_promises s"
proof -
  have "waiting_promises initial_client = {}" "cl_promises initial_client = 0"
    by (simp_all add: initial_client_def waiting_promises_def)
  with waiting_below [OF assms] show ?thesis
    unfolding accounts_def Let_def fst_conv snd_conv by (simp add: atLeast0LessThan) blast
qed

lemma reach_accounts:
  "client_reach sp s trace \<Longrightarrow> client_inv s \<and> accounts initial_client (s, trace)"
proof (induction rule: client_reach.induct)
  case start
  show ?case by (simp add: client_inv_initial)
next
  case (react s trace i)
  then have inv: "client_inv s" by blast
  from good_react [OF inv react.hyps(2)] have g: "client_inv (fst (client_react sp s i))"
    "accounts s (fst (client_react sp s i), snd (client_react sp s i))" by simp_all
  with react.IH show ?case using accounts_trans [OF client_inv_initial] by blast
qed

text \<open>C11: However the client is used and whatever its sockets do, every promise it has handed out is
  settled at most once, and it is settled unless its request is still pending or its connection
  attempt is still under way; in particular every connection attempt that another one has superseded
  has been rejected, and without a socket nothing is pending.\<close>

theorem promises_settle_once:
  assumes "client_reach sp s trace"
  shows "distinct (settles trace) \<and>
         (\<forall>p < cl_promises s. p \<in> set (settles trace) \<longleftrightarrow>
            p \<notin> snd ` set (cl_pending s) \<and> (p \<in> set (cl_sockets s) \<longrightarrow> cl_cancelConnect s \<noteq> Some p)) \<and>
         (\<forall>p. cl_cancelConnect s = Some p \<longrightarrow> cl_socket s = Some p) \<and>
         (cl_socket s = None \<longrightarrow> cl_pending s = [])"
proof -
  from reach_accounts [OF assms] have inv: "client_inv s" and acc: "accounts initial_client (s, trace)" by blast+
  from acc have d: "distinct (settles trace)" and t: "set (settles trace) = {..<cl_promises s} - waiting_promises s"
    by (simp_all add: accounts_all [OF inv])
  show ?thesis
    using d client_invD(9) [OF inv] cancel_facts(1,3) [OF inv] unfolding t waiting_conv [OF inv] by auto
qed

text \<open>Losing the connection in use rejects every pending request, in the order of the requests, and
  then reports the client disconnected; the loss of a socket that another has superseded rejects
  nothing but its own attempt, if that was still under way, and reports nothing.\<close>

theorem lost_connection_rejects_all:
  assumes "client_inv s" and "a \<in> set (cl_sockets s)"
  shows "(cl_socket s = Some a \<longrightarrow>
            cl_pending (fst (socketClose a s)) = [] \<and> cl_socket (fst (socketClose a s)) = None \<and>
            cl_state (fst (socketClose a s)) = Disconnected \<and>
            snd (socketClose a s) =
              (if a \<in> set (cl_settled s) then [] else [ConnectRejected a ConnectionClosed]) @
              map (\<lambda>(i, p). RequestRejected p ConnectionClosed) (cl_pending s) @
              map (\<lambda>l. ConnectionListener l Disconnected) (cl_connectionListeners s)) \<and>
         (cl_socket s \<noteq> Some a \<longrightarrow> socketClose a s = (s, []))"
proof (cases "cl_socket s = Some a")
  case True
  then show ?thesis
    by (simp add: socketClose_def cancelAttempt_def handleClose_def rejectPending_def setState_def)
next
  case False
  with cancel_current [OF assms] cancel_facts(1) [OF assms(1), of a] have "a \<in> set (cl_settled s)" by blast
  with False show ?thesis by (simp add: socketClose_def cancelAttempt_def handleClose_def)
qed

text \<open>A request that is pending when the client connects anew is neither rejected by the new
  connection nor by the later close of the old socket, although its answer can only come over the old
  socket: it stays pending until the new connection is lost.\<close>

theorem superseded_requests_hang:
  assumes "client_inv s" and "cl_socket s = Some a" and "a \<in> set (cl_settled s)"
  shows "cl_pending (fst (socketClose a (fst (connect url None s)))) = cl_pending s \<and>
         settles (snd (connect url None s)) = [] \<and>
         settles (snd (socketClose a (fst (connect url None s)))) = []"
proof -
  have c: "cl_cancelConnect s = None"
    using client_invD(7) [OF assms(1)] assms(2,3) cancel_facts(2) [OF assms(1)] by auto
  have "a < cl_promises s" using client_invD(4,8) [OF assms(1)] assms(2) by auto
  with c assms(3) show ?thesis
    by (simp add: connect_def setState_def socketClose_def cancelAttempt_def handleClose_def Let_def)
qed

text \<open>The client's pending requests are a table in the sense of \<^theory_text>\<open>Request_Table\<close>.\<close>

interpretation ct: request_table "\<lambda>i. i" "\<lambda>s i. map_of (cl_pending s) i" takeRequest
  by unfold_locales (auto simp: takeRequest_def split: option.split)

text \<open>A response settles the request with its identifier as it says: the result when it is a
  success (an empty object when there is none), and otherwise the error's code, message and details
  (an internal error when there is none); a second response with that identifier settles nothing.\<close>

theorem response_settles_request:
  assumes "map_of (cl_pending s) i = Some p"
  shows "snd (handleResponse i True result er s) = [RequestResolved p (case result of Some r \<Rightarrow> r | None \<Rightarrow> [])] \<and>
         snd (handleResponse i False result (Some e) s) =
           [RequestRejected p (ProtocolFailure (pe_code e) (pe_message e) (pe_details e))] \<and>
         snd (handleResponse i False result None s) =
           [RequestRejected p (ProtocolFailure INTERNAL_ERROR ''request failed'' None)] \<and>
         handleResponse i ok' result' er' (fst (handleResponse i ok result er s)) =
           (fst (handleResponse i ok result er s), [])"
  using ct.take_twice [of i i s] assms
  by (auto simp: handleResponse_def takeRequest_def split: option.splits)

subsection \<open>Examples\<close>

definition connected1 :: client_state where
  "connected1 = initial_client\<lparr>cl_pending := [(''r'', 1)], cl_socket := Some 0, cl_state := Connected,
     cl_sockets := [0], cl_settled := [0], cl_promises := 2\<rparr>"

lemma connected1_inv: "client_inv connected1"
  by (simp add: client_inv_def connected1_def initial_client_def)

lemma connected1_reach:
  "client_reach sp connected1 ([CreateSocket 0 ''u'', ConnectResolved 0] @ [SocketSend 0 (Request ''r'' ''m'' (Some []) ''t'')])"
proof -
  have 1: "client_reach sp (fst (client_react sp initial_client (CallConnect ''u'' None)))
      ([] @ snd (client_react sp initial_client (CallConnect ''u'' None)))"
    by (rule client_reach.react [OF client_reach.start]) simp
  note 2 = client_reach.react [OF 1, of "SocketOpened 0"]
  note 3 = client_reach.react [OF 2, of "CallRequest ''m'' [] ''r'' ''t'' None"]
  show ?thesis using 3
    by (simp add: connect_def setState_def socketOpen_def request_def initial_client_def connected1_def Let_def
        numeral_2_eq_2)
qed

theorem promises_settle_once_witness:
  "distinct (settles ([CreateSocket 0 ''u'', ConnectResolved 0] @ [SocketSend 0 (Request ''r'' ''m'' (Some []) ''t'')])) \<and>
   (1 \<notin> set (settles ([CreateSocket 0 ''u'', ConnectResolved 0] @ [SocketSend 0 (Request ''r'' ''m'' (Some []) ''t'')])))"
  using promises_settle_once [OF connected1_reach [of zod_ref]] by (simp add: connected1_def)

theorem lost_connection_rejects_all_witness:
  "snd (socketClose 0 connected1) = [RequestRejected 1 ConnectionClosed]"
  using lost_connection_rejects_all [OF connected1_inv, of 0] by (simp add: connected1_def initial_client_def)

theorem superseded_requests_hang_witness:
  "cl_pending (fst (socketClose 0 (fst (connect ''u'' None connected1)))) = [(''r'', 1)]"
  using superseded_requests_hang [OF connected1_inv, of 0 "''u''"] by (simp add: connected1_def)

theorem response_settles_request_witness:
  "snd (handleResponse ''r'' True None None connected1) = [RequestResolved 1 []]"
  using response_settles_request [of connected1 "''r''" 1 None None] by (simp add: connected1_def)

end
