(* ===== verification/End_To_End.thy ===== *)
theory End_To_End
  imports Relay_Examples Client_Props
begin

section \<open>A phone and the relay together\<close>

text \<open>
  The composition of two programs: the client of one phone (\<^theory_text>\<open>Mobile_Client\<close>) and the relay
  (\<^theory_text>\<open>Relay_System\<close>), joined by the phone's WebSockets, which keep the order of the messages of each
  direction.  Everything else, the other phones and the desktops, is free: any event of the relay
  may happen at any time.  The theorem is that no request of the phone is forgotten on the way.
\<close>

subsection \<open>The joint system\<close>

text \<open>The phone numbers its sockets; at the relay they have the even numbers.  \<open>jt_up\<close> and
  \<open>jt_down\<close> hold what is under way on them.  For the statements only, \<open>jt_sent\<close> remembers over which
  socket a request was sent, and \<open>jt_lost\<close> the sockets of whose end one of the two sides has been
  told.  \<open>jt_asked\<close> holds the identifier and the method of each request that the phone sent, \<open>jt_forwarded\<close>
  to which desktop the phone was linked when the relay received a request, and \<open>jt_answers\<close> the
  successful responses that the relay received, under the identifier of the desktop that was registered for the
  socket they came from.\<close>

record joint =
  jt_client :: client_state
  jt_relay :: relay_state
  jt_up :: "(nat \<times> wire_message) list"
  jt_down :: "(nat \<times> wire_message) list"
  jt_sent :: "(string \<times> nat) list"
  jt_lost :: "nat list"
  jt_asked :: "(string \<times> string) list"
  jt_forwarded :: "(string \<times> string) list"
  jt_answers :: "(string \<times> string \<times> jobj option) list"

definition initial_joint :: joint where
  "initial_joint =
     \<lparr>jt_client = initial_client, jt_relay = initial_relay_state, jt_up = [], jt_down = [], jt_sent = [], jt_lost = [],
      jt_asked = [], jt_forwarded = [], jt_answers = []\<rparr>"

definition at_relay :: "nat \<Rightarrow> socket" where
  "at_relay a = 2 * a"

definition from_phone :: "client_effect list \<Rightarrow> (nat \<times> wire_message) list" where
  "from_phone effs = List.map_filter (\<lambda>x. case x of SocketSend a w \<Rightarrow> Some (a, w) | _ \<Rightarrow> None) effs"

definition to_phone :: "relay_effect list \<Rightarrow> (nat \<times> wire_message) list" where
  "to_phone effs = map (\<lambda>(k, w). (k div 2, w)) (filter (\<lambda>(k, w). even k) (sends effs))"

definition next_of :: "nat \<Rightarrow> (nat \<times> wire_message) list \<Rightarrow> wire_message option" where
  "next_of a q = map_option snd (List.find (\<lambda>(b, w). b = a) q)"

definition phone_turn :: "zod \<Rightarrow> joint \<Rightarrow> client_input \<Rightarrow> joint" where
  "phone_turn sp j i =
     (case client_react sp (jt_client j) i of
        (c, effs) \<Rightarrow>
          j\<lparr>jt_client := c, jt_up := jt_up j @ from_phone effs,
            jt_sent := map (\<lambda>(a, w). (msg_id w, a)) (from_phone effs) @ jt_sent j,
            jt_asked := map (\<lambda>(a, w). (msg_id w, msg_method w)) (from_phone effs) @ jt_asked j,
            jt_lost := (case i of SocketClosed a \<Rightarrow> a # jt_lost j | _ \<Rightarrow> jt_lost j)\<rparr>)"

definition forwarded_for :: "relay_state \<Rightarrow> relay_event \<Rightarrow> (string \<times> string) list" where
  "forwarded_for s ev =
     (case ev of
        MobileMessage e k raw \<Rightarrow>
          (case (parseWireMessage (env_safeParse e) (fr_json raw), findMobileConn s k) of
             (ParseOk (Request i m ps t), Some c) \<Rightarrow> [(mc_desktopId c, i)]
           | _ \<Rightarrow> [])
      | _ \<Rightarrow> [])"

definition answers_of :: "relay_state \<Rightarrow> relay_event \<Rightarrow> (string \<times> string \<times> jobj option) list" where
  "answers_of s ev =
     (case ev of
        DesktopMessage e k raw \<Rightarrow>
          (case parseWireMessage (env_safeParse e) (fr_json raw) of
             ParseOk (Response i True r er t) \<Rightarrow> [(findDesktopId s k, i, r)]
           | _ \<Rightarrow> [])
      | _ \<Rightarrow> [])"

definition relay_turn :: "joint \<Rightarrow> relay_event \<Rightarrow> joint" where
  "relay_turn j ev =
     (case relay_react (jt_relay j) ev of
        (s, effs, c) \<Rightarrow>
          j\<lparr>jt_relay := s, jt_down := jt_down j @ to_phone effs,
            jt_lost := (case ev of MobileClosed e k \<Rightarrow> if even k then k div 2 # jt_lost j else jt_lost j
                        | _ \<Rightarrow> jt_lost j),
            jt_forwarded := forwarded_for (jt_relay j) ev @ jt_forwarded j,
            jt_answers := answers_of (jt_relay j) ev @ jt_answers j\<rparr>)"

text \<open>What the environment guarantees.  Identifiers of requests and of the desktops that the phone is
  linked to have no \<open>NUL\<close>, the separator of the relay's keys, and identifiers of requests are new; the relay finds a socket of the phone
  open until the end of it was reported; and handling a message of the phone does not raise, that is,
  the configured lifetime of sessions keeps within the range of dates.\<close>

fun phone_input :: "joint \<Rightarrow> client_input \<Rightarrow> bool" where
  "phone_input j (CallRequest m ps i now err) = (CHR 0x00 \<notin> set i \<and> i \<notin> fst ` set (jt_asked j))"
| "phone_input j (SocketMessage a raw) = False"
| "phone_input j inp = True"

definition env_ok :: "joint \<Rightarrow> relay_env \<Rightarrow> bool" where
  "env_ok j e \<longleftrightarrow> zod_contract (env_safeParse e) \<and> (\<forall>a. a \<notin> set (jt_lost j) \<longrightarrow> is_open e (at_relay a))"

fun other_event :: "joint \<Rightarrow> relay_event \<Rightarrow> bool" where
  "other_event j (MobileConnected k) = True"
| "other_event j (MobileMessage e k raw) = (odd k \<and> env_ok j e)"
| "other_event j (MobileClosed e k) = env_ok j e"
| "other_event j (DesktopConnected k) = odd k"
| "other_event j (DesktopMessage e k raw) = (odd k \<and> env_ok j e)"
| "other_event j (DesktopClosed e k) = (odd k \<and> env_ok j e)"
| "other_event j (TimerFires e t) = env_ok j e"

definition plain_link :: "relay_state \<Rightarrow> socket \<Rightarrow> bool" where
  "plain_link s k \<longleftrightarrow> (case findMobileConn s k of None \<Rightarrow> True | Some c \<Rightarrow> CHR 0x00 \<notin> set (mc_desktopId c))"

inductive joint_reach :: "zod \<Rightarrow> joint \<Rightarrow> bool" for sp where
  joint_start: "joint_reach sp initial_joint"
| joint_phone: "joint_reach sp j \<Longrightarrow> possible (jt_client j) i \<Longrightarrow> phone_input j i \<Longrightarrow> joint_reach sp (phone_turn sp j i)"
| joint_other: "joint_reach sp j \<Longrightarrow> other_event j ev \<Longrightarrow> joint_reach sp (relay_turn j ev)"
| joint_up: "joint_reach sp j \<Longrightarrow> next_of a (jt_up j) = Some w \<Longrightarrow> fr_json raw = Some (encode_wire w) \<Longrightarrow> env_ok j e \<Longrightarrow>
    plain_link (jt_relay j) (at_relay a) \<Longrightarrow> snd (snd (handleMobileMessage e (jt_relay j) (at_relay a) raw)) = Returned \<Longrightarrow>
    joint_reach sp (relay_turn (j\<lparr>jt_up := remove1 (a, w) (jt_up j)\<rparr>) (MobileMessage e (at_relay a) raw))"
| joint_down: "joint_reach sp j \<Longrightarrow> next_of a (jt_down j) = Some w \<Longrightarrow>
    joint_reach sp (phone_turn sp (j\<lparr>jt_down := remove1 (a, w) (jt_down j)\<rparr>) (SocketMessage a (Some (encode_wire w))))"

subsection \<open>The relay keeps a request or answers it\<close>

definition answered_in :: "(socket \<times> wire_message) list \<Rightarrow> socket \<Rightarrow> string \<Rightarrow> bool" where
  "answered_in q k i \<longleftrightarrow> (\<exists>ok r er t. (k, Response i ok r er t) \<in> set q)"

lemma answered_simps [simp]:
  "answered_in [] k i = False"
  "answered_in ((k', w) # q) k i = (k' = k \<and> (\<exists>ok r er t. w = Response i ok r er t) \<or> answered_in q k i)"
  "answered_in (xs @ ys) k i = (answered_in xs k i \<or> answered_in ys k i)"
  by (auto simp: answered_in_def)

lemma makeError_response [simp]:
  "\<exists>ok r er t. makeError now i code text d = Response i ok r er t"
  "\<exists>ok r er t. makeResponse now i res = Response i ok r er t"
  by (auto simp: makeError_def makeResponse_def)

lemma keeps_pending [simp]:
  "pending (fst (handleDesktopRequest e s k i m ps)) = pending s"
  "pending (fst (handleMobilePair e s k i ps)) = pending s"
  "pending (fst (handleMobileResume e s k i ps)) = pending s"
  subgoal
    by (simp add: handleDesktopRequest_def handleDesktopRegister_def handlePairingCreate_def registerDesktop_def
        createPairing_def Let_def split: sum.split option.split)
  subgoal
    by (simp add: handleMobilePair_def consumePairing_def issueMobileSession_def linkMobile_def Let_def
        split: sum.split option.split)
  subgoal by (simp add: handleMobileResume_def resumeMobile_def linkMobile_def Let_def split: sum.split option.split)
  done

text \<open>The response that takes a request whose identifiers are plain carries its identifier.\<close>

lemma plain_key:
  assumes "CHR 0x00 \<notin> set d" and "CHR 0x00 \<notin> set r" and "pendingKey d r = pendingKey d' r'"
  shows "d = d' \<and> r = r'"
proof -
  have "count_list (pendingKey d r) (CHR 0x00) = 1"
    using assms(1,2) by (simp add: pendingKey_def count_notin)
  then have "count_list d' (CHR 0x00) = 0" unfolding assms(3) by (simp add: pendingKey_def)
  then have "CHR 0x00 \<notin> set d'" by (simp add: count_list_0_iff)
  with pendingKey_inj [OF assms(1) this] assms(3) show ?thesis by simp
qed

text \<open>Without that, a desktop can take a request that waits for another: the keys of the relay's table are
  glued together with a \<open>NUL\<close>, and neither the identifiers of desktops nor those of requests are
  checked for it.  The request is no longer pending, and what its sender receives carries another identifier.\<close>

theorem foreign_desktop_takes_request:
  assumes "findDesktopId s k = d" and "d \<noteq> []"
    and "map_of (pending s) (pendingKey (d @ CHR 0x00 # x) i) = Some p" and "is_open e (mc_socket (pq_mobile p))"
    and "parseWireMessage (env_safeParse e) (fr_json raw) = ParseOk (Response (x @ CHR 0x00 # i) False None er t)"
  shows "map_of (pending (fst (handleDesktopMessage e s k raw))) (pendingKey (d @ CHR 0x00 # x) i) = None \<and>
         sends (fst (snd (handleDesktopMessage e s k raw))) =
           [(mc_socket (pq_mobile p), Response (x @ CHR 0x00 # i) False None er t)]"
proof -
  have key: "pendingKey (d @ CHR 0x00 # x) i = pendingKey d (x @ CHR 0x00 # i)" by (simp add: pendingKey_def)
  have "map_of (pending s) (pendingKey d (x @ CHR 0x00 # i)) = Some p" using assms(3) by (simp add: key)
  then show ?thesis
    using assms(1,2,4)
    by (simp add: handleDesktopMessage_Response [OF assms(5)] handleDesktopResponse_sends handleDesktopResponse_state
        addNegotiated_def key)
qed

definition plain_request :: "pending_request \<Rightarrow> bool" where
  "plain_request p \<longleftrightarrow> CHR 0x00 \<notin> set (pq_desktopId p) \<and> CHR 0x00 \<notin> set (pq_requestId p)"

definition pending_kept :: "relay_env \<Rightarrow> relay_state \<Rightarrow> string \<times> pending_request \<Rightarrow> outcome \<Rightarrow> bool" where
  "pending_kept e s x r \<longleftrightarrow>
     x \<in> set (pending (fst r)) \<or>
     answered_in (sends (fst (snd r))) (mc_socket (pq_mobile (snd x))) (pq_requestId (snd x))"

lemma kept_desktop_message:
  assumes inv: "relay_inv s" and x: "(key, p) \<in> set (pending s)" and plain: "plain_request p"
    and open': "is_open e (mc_socket (pq_mobile p))"
  shows "pending_kept e s (key, p) (handleDesktopMessage e s k raw)"
proof (cases "parseWireMessage (env_safeParse e) (fr_json raw)")
  case (ParseErr i c m)
  with x show ?thesis by (simp add: pending_kept_def handleDesktopMessage_def)
next
  case (ParseOk msg)
  show ?thesis
  proof (cases msg)
    case (Request i m ps t)
    with ParseOk x show ?thesis by (simp add: pending_kept_def handleDesktopMessage_def)
  next
    case (Event n d t)
    with ParseOk x show ?thesis by (simp add: pending_kept_def handleDesktopMessage_Event)
  next
    case (Response i ok res er t)
    have pok: "pending_ok (pending s) (timers s) (next_timer s)" using inv by (rule relay_invD)
    have key: "key = pendingKey (pq_desktopId p) (pq_requestId p)" using pending_okD(5) [OF pok] x by blast
    have look: "map_of (pending s) key = Some p" using pending_okD(1) [OF pok] x by simp
    note msg = handleDesktopMessage_Response [OF ParseOk [unfolded Response]]
    show ?thesis
    proof (cases "findDesktopId s k = [] \<or> pendingKey (findDesktopId s k) i \<noteq> key")
      case True
      with x show ?thesis
        by (auto simp: pending_kept_def msg handleDesktopResponse_state takePending_def Let_def set_delete_iff
            split: option.split)
    next
      case False
      then have "pq_requestId p = i"
        using plain_key [of "pq_desktopId p" "pq_requestId p" "findDesktopId s k" i] plain key
        by (simp add: plain_request_def)
      with False look open' show ?thesis
        by (auto simp: pending_kept_def msg handleDesktopResponse_sends)
    qed
  qed
qed

lemma set_update_kept: "(key, p) \<in> set m \<Longrightarrow> key' \<noteq> key \<Longrightarrow> (key, p) \<in> set (AList.update key' v m)"
  by (induction m) auto

lemma set_update_new: "(key, v) \<in> set (AList.update key v m)"
  by (induction m) auto

lemma kept_forward:
  assumes "relay_inv s" and "(key, p) \<in> set (pending s)"
  shows "(key, p) \<in> set (pending (fst (handleMobileForward e s k raw i m ps t)))"
proof -
  have pok: "pending_ok (pending s) (timers s) (next_timer s)" using assms(1) by (rule relay_invD)
  have "map_of (pending s) key = Some p" using pending_okD(1) [OF pok] assms(2) by simp
  with assms(2) show ?thesis
    by (auto simp: handleMobileForward_def addPending_def Let_def intro!: set_update_kept split: option.split)
qed

lemma kept_mobile_message:
  assumes "relay_inv s" and "(key, p) \<in> set (pending s)"
  shows "pending_kept e s (key, p) (handleMobileMessage e s k raw)"
  using assms
  by (auto simp: pending_kept_def handleMobileMessage_def handleMobileRequest_def kept_forward
      split: parse_result.split wire_message.split)

lemma kept_timer:
  assumes inv: "relay_inv s" and x: "(key, p) \<in> set (pending s)" and t: "t \<in> set (timers s)"
    and open': "is_open e (mc_socket (pq_mobile p))"
  shows "pending_kept e s (key, p) (onResponseTimeout e s t)"
proof -
  have pok: "pending_ok (pending s) (timers s) (next_timer s)" using inv by (rule relay_invD)
  have look: "map_of (pending s) key = Some p" using pending_okD(1) [OF pok] x by simp
  obtain q where q: "map_of (pending s) (tm_key t) = Some q" "pq_requestId q = tm_requestId t"
    using fireTimer_entry [OF inv t] by metis
  show ?thesis
  proof (cases "tm_key t = key")
    case True
    with look q open' show ?thesis by (simp add: pending_kept_def onResponseTimeout_def fireTimer_def Let_def)
  next
    case False
    with x q show ?thesis
      by (simp add: pending_kept_def onResponseTimeout_def fireTimer_def Let_def set_delete_iff)
  qed
qed

lemma kept_desktop_close:
  assumes x: "(key, p) \<in> set (pending s)" and open': "is_open e (mc_socket (pq_mobile p))"
  shows "pending_kept e s (key, p) (onDesktopClose e s k)"
proof -
  have "answered_in (sends (concat (map (\<lambda>(requestId, mobile).
        send e (mc_socket mobile) (makeError (env_now e) requestId DESKTOP_OFFLINE ''desktop disconnected'' None))
        (map (\<lambda>(k, p). (pq_requestId p, pq_mobile p)) (filter (\<lambda>(k, p). pq_desktopId p = d) pd)))))
      (mc_socket (pq_mobile p)) (pq_requestId p)"
    if "(key, p) \<in> set pd" "pq_desktopId p = d" for pd d
    using that open' by (induction pd) auto
  with x show ?thesis
    by (auto simp: pending_kept_def onDesktopClose_def removeDesktopBySocket_def removePendingForDesktop_def
        drop_pending_def split: option.split)
qed

lemma kept_mobile_close:
  assumes "(key, p) \<in> set (pending s)" and "mc_socket (pq_mobile p) \<noteq> k"
  shows "pending_kept e s (key, p) (onMobileClose e s k)"
  using assms
  by (auto simp: pending_kept_def onMobileClose_def unlinkMobileBySocket_def drop_pending_def Let_def split: option.split)

fun event_env :: "relay_event \<Rightarrow> relay_env option" where
  "event_env (MobileConnected k) = None"
| "event_env (MobileMessage e k raw) = Some e"
| "event_env (MobileClosed e k) = Some e"
| "event_env (DesktopConnected k) = None"
| "event_env (DesktopMessage e k raw) = Some e"
| "event_env (DesktopClosed e k) = Some e"
| "event_env (TimerFires e t) = Some e"

lemma kept_or_answered:
  assumes "relay_inv s" and "(key, p) \<in> set (pending s)" and "plain_request p"
    and "\<And>e. event_env ev = Some e \<Longrightarrow> is_open e (mc_socket (pq_mobile p))"
    and "\<And>e. ev \<noteq> MobileClosed e (mc_socket (pq_mobile p))"
  shows "(key, p) \<in> set (pending (fst (relay_react s ev))) \<or>
         answered_in (sends (fst (snd (relay_react s ev)))) (mc_socket (pq_mobile p)) (pq_requestId p)"
proof (cases ev)
  case (MobileClosed e k)
  with assms(5) have "mc_socket (pq_mobile p) \<noteq> k" by blast
  from kept_mobile_close [OF assms(2) this] show ?thesis by (simp add: MobileClosed pending_kept_def)
qed (use assms(2,4) kept_desktop_message [OF assms(1-3)] kept_mobile_message [OF assms(1,2)] kept_timer [OF assms(1,2)]
    kept_desktop_close [OF assms(2)] in \<open>auto simp: pending_kept_def\<close>)

text \<open>A request that the relay receives from a mobile becomes pending or is answered.\<close>

lemma received_request:
  assumes inv: "relay_inv s" and z: "zod_contract (env_safeParse e)"
    and raw: "fr_json raw = Some (encode_wire (Request i m ps t))"
    and o: "is_open e k" and plain: "plain_link s k" and r: "snd (snd (handleMobileMessage e s k raw)) = Returned"
  shows "(\<exists>(key, p) \<in> set (pending (fst (handleMobileMessage e s k raw))).
            pq_requestId p = i \<and> mc_socket (pq_mobile p) = k \<and> CHR 0x00 \<notin> set (pq_desktopId p)) \<or>
         answered_in (sends (fst (snd (handleMobileMessage e s k raw)))) k i"
proof -
  have msg: "parseWireMessage (env_safeParse e) (fr_json raw) = ParseOk (Request i m ps t)"
    unfolding raw using z by (rule zod_contract.parse_encode)
  note st = handleMobileMessage_Request [OF msg]
  have r': "snd (snd (handleMobileRequest e s k raw i m ps t)) = Returned"
    using r msg by (simp add: handleMobileMessage_def with_log_def split: prod.splits)
  consider "m = ''mobile.pair''" | "m = ''mobile.resume''" | "m \<noteq> ''mobile.pair''" "m \<noteq> ''mobile.resume''" "FORWARDED m"
    | "m \<noteq> ''mobile.pair''" "m \<noteq> ''mobile.resume''" "\<not> FORWARDED m" by blast
  then show ?thesis
  proof cases
    case 1
    with o r' show ?thesis
      by (auto simp: st handleMobileRequest_def handleMobilePair_def Let_def split: sum.splits option.splits prod.splits)
  next
    case 2
    with o r' show ?thesis
      by (auto simp: st handleMobileRequest_def handleMobileResume_def Let_def split: sum.splits option.splits prod.splits)
  next
    case 3
    show ?thesis
    proof (cases "findMobileConn s k")
      case None
      with 3 o show ?thesis by (simp add: st handleMobileRequest_def handleMobileForward_def)
    next
      case (Some c)
      with plain have c: "CHR 0x00 \<notin> set (mc_desktopId c)" "mc_socket c = k"
        using findMobileConn_Some [OF inv Some] by (simp_all add: plain_link_def)
      show ?thesis
      proof (cases "getDesktop (mc_desktopId c) s")
        case None
        with 3 o Some show ?thesis by (simp add: st handleMobileRequest_def handleMobileForward_def)
      next
        case (Some desktop)
        then have "dc_desktopId desktop = mc_desktopId c" by (rule getDesktop_id [OF inv])
        with 3 o Some \<open>findMobileConn s k = Some c\<close> c show ?thesis
          by (cases "map_of (pending s) (pendingKey (mc_desktopId c) i)")
            (auto simp: st handleMobileRequest_def handleMobileForward_def addPending_def Let_def
              intro!: rev_bexI [OF set_update_new])
      qed
    qed
  next
    case 4
    with o show ?thesis by (simp add: st handleMobileRequest_def)
  qed
qed

subsection \<open>The phone's requests\<close>

lemma from_phone_simps [simp]:
  "from_phone [] = []"
  "from_phone (SocketSend a w # effs) = (a, w) # from_phone effs"
  "from_phone (ConnectRejected n err # effs) = from_phone effs"
  "from_phone (CreateSocket n url # effs) = from_phone effs"
  "from_phone (xs @ ys) = from_phone xs @ from_phone ys"
  by (simp_all add: from_phone_def List.map_filter_def)

lemma set_map_filter: "y \<in> set (List.map_filter f xs) \<longleftrightarrow> (\<exists>x\<in>set xs. f x = Some y)"
  by (induction xs) (auto simp: List.map_filter_def)

lemma from_phone_none: "(\<And>a w. SocketSend a w \<notin> set effs) \<Longrightarrow> from_phone effs = []"
  by (induction effs) (auto simp: from_phone_def List.map_filter_def split: client_effect.split)

text \<open>A request that is pending was pending before, or has just been handed to the socket.\<close>

definition new_request :: "client_input \<Rightarrow> string \<Rightarrow> client_effect list \<Rightarrow> bool" where
  "new_request inp i effs \<longleftrightarrow>
     (\<exists>m ps now a. inp = CallRequest m ps i now None \<and> from_phone effs = [(a, Request i m (Some ps) now)])"

lemma delete_subset: "x \<in> set (AList.delete k m) \<Longrightarrow> x \<in> set m \<and> fst x \<noteq> k"
  by (induction m) (auto split: if_splits)

lemma update_subset: "x \<in> set (AList.update k v m) \<Longrightarrow> x = (k, v) \<or> x \<in> set m"
  by (induction m) (auto split: if_splits)

lemma phone_requests:
  assumes "x \<in> set (cl_pending (fst (client_react sp s inp)))"
  shows "x \<in> set (cl_pending s) \<or> new_request inp (fst x) (snd (client_react sp s inp))"
  using assms
  by (cases "(sp, s, inp)" rule: client_react.cases)
    (auto simp: client_ops connect_def socketOpen_def socketClose_def socketError_def closeClient_def request_def
      handleClose_def cancelAttempt_def onEvent_def offEvent_def onConnection_def offConnection_def new_request_def
      dest!: delete_subset update_subset
      split: parse_result.splits wire_message.splits option.splits if_splits)

lemma from_phone_reports [simp]:
  "from_phone (map (\<lambda>l. ConnectionListener l c) ls) = []"
  "from_phone (map (\<lambda>l. EventListener l n d t) ls) = []"
  "from_phone (map (\<lambda>(i, p). RequestRejected p err) ps) = []"
  by (auto intro!: from_phone_none)

lemma phone_sends:
  "from_phone (snd (client_react sp s inp)) = [] \<or>
   (\<exists>a m ps i now err. inp = CallRequest m ps i now err \<and> from_phone (snd (client_react sp s inp)) = [(a, Request i m (Some ps) now)])"
  by (cases "(sp, s, inp)" rule: client_react.cases)
    (auto simp: client_ops from_phone_none
      split: parse_result.splits wire_message.splits option.splits if_splits)

lemma message_sends [simp]: "from_phone (snd (handleMessage sp raw s)) = []"
  using phone_sends [of sp s "SocketMessage a raw" for a] by simp

lemma phone_settles:
  assumes "zod_contract sp"
  shows "i \<notin> fst ` set (cl_pending (fst (client_react sp s (SocketMessage a (Some (encode_wire (Response i ok r er t)))))))"
  by (auto simp: client_ops zod_contract.parse_encode [OF assms] map_of_eq_None_iff split: option.splits
      simp del: encode_wire.simps dest!: delete_subset)

subsection \<open>Where a pending request is\<close>

definition waits_at_relay :: "relay_state \<Rightarrow> string \<Rightarrow> socket \<Rightarrow> bool" where
  "waits_at_relay s i k \<longleftrightarrow>
     (\<exists>(key, p) \<in> set (pending s). pq_requestId p = i \<and> mc_socket (pq_mobile p) = k \<and> CHR 0x00 \<notin> set (pq_desktopId p))"

definition carried :: "(nat \<times> wire_message) list \<Rightarrow> nat \<Rightarrow> string \<Rightarrow> bool" where
  "carried q a i \<longleftrightarrow> (\<exists>m ps t. (a, Request i m ps t) \<in> set q)"

definition accounted :: "joint \<Rightarrow> string \<Rightarrow> nat \<Rightarrow> bool" where
  "accounted j i a \<longleftrightarrow>
     carried (jt_up j) a i \<or> waits_at_relay (jt_relay j) i (at_relay a) \<or> answered_in (jt_down j) a i"

definition joint_inv :: "joint \<Rightarrow> bool" where
  "joint_inv j \<longleftrightarrow> relay_inv (jt_relay j) \<and>
     (\<forall>i \<in> fst ` set (cl_pending (jt_client j)). CHR 0x00 \<notin> set i \<and>
        (\<exists>a. map_of (jt_sent j) i = Some a \<and> (a \<in> set (jt_lost j) \<or> accounted j i a)))"

lemma answered_to_phone:
  assumes "answered_in (sends effs) (at_relay a) i"
  shows "answered_in (to_phone effs) a i"
proof -
  from assms obtain ok r er t where "(at_relay a, Response i ok r er t) \<in> set (sends effs)" by (auto simp: answered_in_def)
  then have "(\<lambda>(k, w). (k div 2, w)) (at_relay a, Response i ok r er t) \<in> set (to_phone effs)"
    unfolding to_phone_def set_map by (intro imageI) (simp add: at_relay_def)
  then show ?thesis by (auto simp: answered_in_def at_relay_def)
qed

lemma at_relay_open: "env_ok j e \<Longrightarrow> a \<notin> set (jt_lost j) \<Longrightarrow> is_open e (at_relay a)"
  by (simp add: env_ok_def)

lemma accounted_relay:
  assumes inv: "relay_inv (jt_relay j)" and acc: "accounted j i a" and i: "CHR 0x00 \<notin> set i"
    and env: "\<And>e. event_env ev = Some e \<Longrightarrow> is_open e (at_relay a)"
    and lost: "a \<notin> set (jt_lost (relay_turn j ev))"
  shows "accounted (relay_turn j ev) i a"
proof -
  have close: "ev \<noteq> MobileClosed e (at_relay a)" for e
    using lost by (auto simp: relay_turn_def at_relay_def split: prod.splits)
  have "waits_at_relay (fst (relay_react (jt_relay j) ev)) i (at_relay a) \<or>
      answered_in (sends (fst (snd (relay_react (jt_relay j) ev)))) (at_relay a) i"
    if "waits_at_relay (jt_relay j) i (at_relay a)"
  proof -
    from that obtain key p where p: "(key, p) \<in> set (pending (jt_relay j))" "pq_requestId p = i"
      "mc_socket (pq_mobile p) = at_relay a" "CHR 0x00 \<notin> set (pq_desktopId p)"
      by (auto simp: waits_at_relay_def)
    then have "plain_request p" using i by (simp add: plain_request_def)
    from kept_or_answered [OF inv p(1) this] env close p show ?thesis by (auto simp: waits_at_relay_def)
  qed
  with acc show ?thesis
    by (auto simp: accounted_def relay_turn_def answered_to_phone split: prod.splits)
qed

text \<open>The phone's own turn: what was on its way stays there.\<close>

lemma phone_turn_parts:
  "jt_client (phone_turn sp j inp) = fst (client_react sp (jt_client j) inp)"
  "jt_relay (phone_turn sp j inp) = jt_relay j"
  "jt_up (phone_turn sp j inp) = jt_up j @ from_phone (snd (client_react sp (jt_client j) inp))"
  "jt_down (phone_turn sp j inp) = jt_down j"
  "jt_sent (phone_turn sp j inp) = map (\<lambda>(a, w). (msg_id w, a)) (from_phone (snd (client_react sp (jt_client j) inp))) @ jt_sent j"
  "set (jt_lost j) \<subseteq> set (jt_lost (phone_turn sp j inp))"
  "jt_asked (phone_turn sp j inp) = map (\<lambda>(a, w). (msg_id w, msg_method w)) (from_phone (snd (client_react sp (jt_client j) inp))) @ jt_asked j"
  "jt_forwarded (phone_turn sp j inp) = jt_forwarded j"
  "jt_answers (phone_turn sp j inp) = jt_answers j"
  by (auto simp: phone_turn_def split: prod.splits client_input.splits)

lemma relay_turn_parts:
  "jt_client (relay_turn j ev) = jt_client j"
  "jt_relay (relay_turn j ev) = fst (relay_react (jt_relay j) ev)"
  "jt_up (relay_turn j ev) = jt_up j"
  "jt_down (relay_turn j ev) = jt_down j @ to_phone (fst (snd (relay_react (jt_relay j) ev)))"
  "jt_sent (relay_turn j ev) = jt_sent j"
  "set (jt_lost j) \<subseteq> set (jt_lost (relay_turn j ev))"
  "jt_asked (relay_turn j ev) = jt_asked j"
  "jt_forwarded (relay_turn j ev) = forwarded_for (jt_relay j) ev @ jt_forwarded j"
  "jt_answers (relay_turn j ev) = answers_of (jt_relay j) ev @ jt_answers j"
  by (auto simp: relay_turn_def split: prod.splits relay_event.splits)

lemma accounted_phone: "accounted j i a \<Longrightarrow> accounted (phone_turn sp j inp) i a"
  by (auto simp: accounted_def phone_turn_parts carried_def)

lemma joint_invD:
  assumes "joint_inv j" and "i \<in> fst ` set (cl_pending (jt_client j))"
  shows "relay_inv (jt_relay j)" and "CHR 0x00 \<notin> set i"
    and "\<exists>a. map_of (jt_sent j) i = Some a \<and> (a \<in> set (jt_lost j) \<or> accounted j i a)"
  using assms by (auto simp: joint_inv_def)

lemma sent_before:
  assumes "possible (jt_client j) inp" and "i \<in> fst ` set (cl_pending (jt_client j))"
  shows "map_of (jt_sent (phone_turn sp j inp)) i = map_of (jt_sent j) i"
  using phone_sends [of sp "jt_client j" inp]
proof (elim disjE exE conjE)
  fix a m ps i' now err
  assume inp: "inp = CallRequest m ps i' now err"
    and sent: "from_phone (snd (client_react sp (jt_client j) inp)) = [(a, Request i' m (Some ps) now)]"
  have "i \<noteq> i'" using assms unfolding inp by auto
  with sent show ?thesis by (simp add: phone_turn_parts)
qed (simp add: phone_turn_parts)

lemma phone_inv:
  assumes inv: "joint_inv j" and poss: "possible (jt_client j) inp" and ok: "phone_input j inp"
  shows "joint_inv (phone_turn sp j inp)"
proof -
  have "CHR 0x00 \<notin> set i \<and> (\<exists>a. map_of (jt_sent (phone_turn sp j inp)) i = Some a \<and>
      (a \<in> set (jt_lost (phone_turn sp j inp)) \<or> accounted (phone_turn sp j inp) i a))"
    if mem: "(i, p) \<in> set (cl_pending (jt_client (phone_turn sp j inp)))" for i p
  proof (cases "i \<in> fst ` set (cl_pending (jt_client j))")
    case True
    from joint_invD [OF inv this] sent_before [OF poss this] accounted_phone phone_turn_parts(6)
    show ?thesis by (metis subsetD)
  next
    case False
    with phone_requests [OF mem [unfolded phone_turn_parts(1)]]
    have "new_request inp i (snd (client_react sp (jt_client j) inp))" by force
    then show ?thesis
      using ok by (force simp: new_request_def phone_turn_parts accounted_def carried_def)
  qed
  with inv show ?thesis by (auto simp: joint_inv_def phone_turn_parts)
qed

lemma answer_inv:
  assumes inv: "joint_inv j" and z: "zod_contract sp"
  shows "joint_inv (phone_turn sp (j\<lparr>jt_down := remove1 (a, w) (jt_down j)\<rparr>) (SocketMessage a (Some (encode_wire w))))"
    (is "joint_inv (phone_turn sp ?j ?inp)")
proof -
  have "CHR 0x00 \<notin> set i \<and> (\<exists>a. map_of (jt_sent (phone_turn sp ?j ?inp)) i = Some a \<and>
      (a \<in> set (jt_lost (phone_turn sp ?j ?inp)) \<or> accounted (phone_turn sp ?j ?inp) i a))"
    if mem: "(i, p) \<in> set (cl_pending (jt_client (phone_turn sp ?j ?inp)))" for i p
  proof -
    have left: "(i, p) \<in> set (cl_pending (fst (client_react sp (jt_client j) ?inp)))"
      using mem by (simp add: phone_turn_parts)
    then have old: "i \<in> fst ` set (cl_pending (jt_client j))"
      using phone_requests [OF left] by (force simp: new_request_def)
    have "w \<noteq> Response i ok r er t" for ok r er t
      using left phone_settles [OF z, of i "jt_client j" a ok r er t] by (metis fst_conv image_eqI)
    then have "answered_in (remove1 (a, w) (jt_down j)) b i = answered_in (jt_down j) b i" for b
      unfolding answered_in_def by (metis in_set_remove1 prod.inject)
    then have "accounted ?j i b = accounted j i b" for b by (simp add: accounted_def)
    moreover have "map_of (jt_sent (phone_turn sp ?j ?inp)) i = map_of (jt_sent j) i"
      using phone_sends [of sp "jt_client j" ?inp] by (auto simp: phone_turn_parts)
    ultimately show ?thesis
      using joint_invD [OF inv old] accounted_phone [of ?j i _ sp ?inp] phone_turn_parts(6) [of ?j sp ?inp] by force
  qed
  with inv show ?thesis by (auto simp: joint_inv_def phone_turn_parts)
qed

lemma other_inv:
  assumes inv: "joint_inv j" and ev: "other_event j ev"
  shows "joint_inv (relay_turn j ev)"
proof -
  have rinv: "relay_inv (jt_relay j)" using inv by (simp add: joint_inv_def)
  have env: "env_ok j e" if "event_env ev = Some e" for e using ev that by (cases ev) auto
  have "a \<in> set (jt_lost (relay_turn j ev)) \<or> accounted (relay_turn j ev) i a"
    if "CHR 0x00 \<notin> set i" "a \<in> set (jt_lost j) \<or> accounted j i a" for i a
    using that accounted_relay [OF rinv _ that(1), of a ev] env at_relay_open relay_turn_parts(6) [of j ev]
    by blast
  with inv relay_step_inv [OF rinv, of ev] show ?thesis
    by (fastforce simp: joint_inv_def relay_turn_parts relay_step_def)
qed

lemma request_inv:
  assumes inv: "joint_inv j" and raw: "fr_json raw = Some (encode_wire w)" and env: "env_ok j e"
    and plain: "plain_link (jt_relay j) (at_relay b)"
    and ret: "snd (snd (handleMobileMessage e (jt_relay j) (at_relay b) raw)) = Returned"
  shows "joint_inv (relay_turn (j\<lparr>jt_up := remove1 (b, w) (jt_up j)\<rparr>) (MobileMessage e (at_relay b) raw))"
    (is "joint_inv (relay_turn ?j ?ev)")
proof -
  have rinv: "relay_inv (jt_relay j)" using inv by (simp add: joint_inv_def)
  have "a \<in> set (jt_lost (relay_turn ?j ?ev)) \<or> accounted (relay_turn ?j ?ev) i a"
    if i: "CHR 0x00 \<notin> set i" and a: "a \<in> set (jt_lost j) \<or> accounted j i a" for i a
  proof (cases "a \<in> set (jt_lost (relay_turn ?j ?ev))")
    case False
    then have live: "a \<notin> set (jt_lost j)" using relay_turn_parts(6) [of ?j ?ev] by auto
    with env have op: "is_open e (at_relay a)" by (rule at_relay_open)
    show ?thesis
    proof (cases "accounted ?j i a")
      case True
      with rinv i op False accounted_relay [of ?j i a ?ev] show ?thesis by simp
    next
      case gone: False
      with a live have "carried (jt_up j) a i" "\<not> carried (remove1 (b, w) (jt_up j)) a i"
        by (auto simp: accounted_def)
      then obtain m ps t where w: "b = a" "w = Request i m ps t"
        unfolding carried_def by (metis in_set_remove1 prod.inject)
      from received_request [OF rinv _ raw [unfolded w] op plain [unfolded w] ret [unfolded w]] env w
      show ?thesis
        by (auto simp: accounted_def relay_turn_parts waits_at_relay_def env_ok_def answered_to_phone)
    qed
  qed blast
  with inv relay_step_inv [OF rinv, of ?ev] show ?thesis
    by (fastforce simp: joint_inv_def relay_turn_parts relay_step_def)
qed

lemma joint_inv_reach:
  assumes "joint_reach sp j" and "zod_contract sp"
  shows "joint_inv j"
  using assms
proof induction
  case joint_start
  then show ?case by (simp add: joint_inv_def initial_joint_def initial_client_def relay_inv_initial)
qed (blast intro: phone_inv answer_inv other_inv request_inv)+

subsection \<open>No request is forgotten\<close>

lemma waiting_timer:
  assumes inv: "relay_inv s" and w: "waits_at_relay s i k"
  obtains t where "t \<in> set (timers s)" and "tm_requestId t = i"
    and "\<And>e. is_open e k \<Longrightarrow> answered_in (sends (fst (snd (onResponseTimeout e s t)))) k i"
proof -
  have pok: "pending_ok (pending s) (timers s) (next_timer s)" using inv by (rule relay_invD)
  obtain key p where p: "(key, p) \<in> set (pending s)" "pq_requestId p = i" "mc_socket (pq_mobile p) = k"
    using w by (auto simp: waits_at_relay_def)
  obtain t where t: "t \<in> set (timers s)" "timer_sig t = pending_sig (key, p)"
    using pok p(1) by (rule pending_timer)
  have "map_of (pending s) (tm_key t) = Some p" "tm_requestId t = i"
    using t(2) p pending_okD(1) [OF pok] by (simp_all add: timer_sig_def pending_sig_def)
  with t(1) p that [of t] show ?thesis by (simp add: onResponseTimeout_def fireTimer_def Let_def)
qed

text \<open>The reading of an answer settles the promise.\<close>

definition reading_settles :: "zod \<Rightarrow> client_state \<Rightarrow> nat \<Rightarrow> wire_message \<Rightarrow> nat \<Rightarrow> bool" where
  "reading_settles sp s a w p \<longleftrightarrow> p \<in> set (settles (snd (client_react sp s (SocketMessage a (Some (encode_wire w))))))"

lemma answer_settles:
  assumes "zod_contract sp" and "map_of (cl_pending s) i = Some p"
  shows "reading_settles sp s a (Response i ok r er t) p"
  using assms
  by (auto simp: reading_settles_def client_ops zod_contract.parse_encode simp del: encode_wire.simps split: option.split)

text \<open>C6: No request of the phone is forgotten, whatever other phones and the desktops do and in whichever
  order the messages travel: as long as no side was told that the socket it was sent over has ended, a
  request whose promise is open is on its way to the relay; or it waits there, with an armed timer
  whose firing sends an answer; or an answer is on its way back, and reading it settles the promise.\<close>

theorem no_request_forgotten:
  assumes "joint_reach sp j" and "zod_contract sp" and "map_of (cl_pending (jt_client j)) i = Some p"
  shows "\<exists>a. map_of (jt_sent j) i = Some a \<and>
    (a \<in> set (jt_lost j) \<or>
     (\<exists>m ps t. (a, Request i m ps t) \<in> set (jt_up j)) \<or>
     (\<exists>t\<in>set (timers (jt_relay j)). tm_requestId t = i \<and>
        (\<forall>e. is_open e (at_relay a) \<longrightarrow>
           (\<exists>ok r er now. (a, Response i ok r er now) \<in> set (to_phone (fst (snd (onResponseTimeout e (jt_relay j) t))))))) \<or>
     (\<exists>w. (a, w) \<in> set (jt_down j) \<and> msg_id w = i \<and> reading_settles sp (jt_client j) a w p))"
proof -
  have inv: "joint_inv j" using assms(1,2) by (rule joint_inv_reach)
  have "i \<in> fst ` set (cl_pending (jt_client j))" using map_of_SomeD [OF assms(3)] by force
  from joint_invD [OF inv this] obtain a where rinv: "relay_inv (jt_relay j)"
    and a: "map_of (jt_sent j) i = Some a" "a \<in> set (jt_lost j) \<or> accounted j i a" by blast
  have "\<exists>t\<in>set (timers (jt_relay j)). tm_requestId t = i \<and>
      (\<forall>e. is_open e (at_relay a) \<longrightarrow>
         (\<exists>ok r er now. (a, Response i ok r er now) \<in> set (to_phone (fst (snd (onResponseTimeout e (jt_relay j) t))))))"
    if "waits_at_relay (jt_relay j) i (at_relay a)"
    using waiting_timer [OF rinv that] answered_to_phone by (metis answered_in_def)
  moreover have "\<exists>w. (a, w) \<in> set (jt_down j) \<and> msg_id w = i \<and> reading_settles sp (jt_client j) a w p"
    if "answered_in (jt_down j) a i"
    using that answer_settles [OF assms(2,3)] by (force simp: answered_in_def)
  ultimately show ?thesis using a by (auto simp: accounted_def carried_def)
qed


subsection \<open>Every result comes from the desktop\<close>

text \<open>The fields of a result other than the capabilities that the relay adds.\<close>

definition same_result :: "jobj option \<Rightarrow> jobj option \<Rightarrow> bool" where
  "same_result r r' \<longleftrightarrow>
     (r = None \<longleftrightarrow> r' = None) \<and>
     (\<forall>k. k \<noteq> ''negotiatedCapabilities'' \<longrightarrow>
        map_of (case r of None \<Rightarrow> [] | Some x \<Rightarrow> x) k = map_of (case r' of None \<Rightarrow> [] | Some x \<Rightarrow> x) k)"

lemma same_result_added: "same_result r (addNegotiated s d c m ok r)"
  by (auto simp: same_result_def addNegotiated_def split: option.split)

lemma forwarded_method: "FORWARDED m \<Longrightarrow> m \<noteq> ''mobile.pair'' \<and> m \<noteq> ''mobile.resume''"
  by (auto simp: FORWARDED_def MOBILE_FORWARDED_METHODS_def)

text \<open>Where the relay's successful responses come from: from the relay itself, to the socket whose request
  it handles; or from a desktop, whose response is passed on.\<close>

lemma own_replies:
  assumes "(k, Response i True r er t) \<in> set (sends (fst (snd (handleMobileRequest e s k' raw i' m ps t'))))"
  shows "k = k' \<and> i = i' \<and> \<not> FORWARDED m"
proof (cases "FORWARDED m")
  case True
  with assms forwarded_method [OF True] show ?thesis
    by (auto simp: handleMobileRequest_def handleMobileForward_sends makeError_def split: option.splits if_splits)
next
  case False
  with assms show ?thesis
    by (auto simp: handleMobileRequest_def handleMobilePair_def handleMobileResume_def makeError_def makeResponse_def
        makeEvent_def Let_def split: sum.splits option.splits prod.splits if_splits)
qed

lemma desktop_replies:
  assumes "(k, Response i True r er t) \<in> set (sends (fst (snd (handleDesktopMessage e s k' raw))))" and "k \<noteq> k'"
  obtains r0 p where "parseWireMessage (env_safeParse e) (fr_json raw) = ParseOk (Response i True r0 er t)"
    and "map_of (pending s) (pendingKey (findDesktopId s k') i) = Some p" and "mc_socket (pq_mobile p) = k"
    and "same_result r0 r"
proof (cases "parseWireMessage (env_safeParse e) (fr_json raw)")
  case (ParseErr j c m)
  with assms show ?thesis by (auto simp: handleDesktopMessage_def logRejected_def makeError_def split: if_splits)
next
  case (ParseOk msg)
  show ?thesis
  proof (cases msg)
    case (Request j m ps t')
    with assms ParseOk show ?thesis
      by (auto simp: handleDesktopMessage_def handleDesktopRequest_def handleDesktopRegister_def handlePairingCreate_def
          registerDesktop_def Let_def split: sum.splits option.splits prod.splits create_result.splits if_splits)
  next
    case (Event n d t')
    with assms ParseOk show ?thesis
      by (auto simp: handleDesktopMessage_Event handleDesktopEvent_sends split: if_splits)
  next
    case (Response j ok res er' t')
    note sent = assms(1) [unfolded handleDesktopMessage_Response(2) [OF ParseOk [unfolded Response]] handleDesktopResponse_sends]
    show ?thesis
    proof (cases "map_of (pending s) (pendingKey (findDesktopId s k') j)")
      case None
      with sent show ?thesis by (auto split: if_splits)
    next
      case (Some p)
      with sent have "i = j \<and> ok \<and> er = er' \<and> t = t' \<and> k = mc_socket (pq_mobile p) \<and> same_result res r"
        using same_result_added by (auto split: if_splits)
      with that [of res p] ParseOk Response Some show ?thesis by simp
    qed
  qed
qed

lemma new_pending:
  assumes "(key, p) \<in> set (pending (fst (relay_react s ev)))" and "(key, p) \<notin> set (pending s)"
  obtains e k raw i m ps t c where "ev = MobileMessage e k raw"
    and "parseWireMessage (env_safeParse e) (fr_json raw) = ParseOk (Request i m ps t)" and "FORWARDED m"
    and "findMobileConn s k = Some c" and "pq_mobile p = c" and "pq_requestId p = i" and "pq_method p = m"
proof (cases ev)
  case (MobileMessage e k raw)
  show ?thesis
  proof (cases "parseWireMessage (env_safeParse e) (fr_json raw)")
    case (ParseErr j c m)
    with assms MobileMessage show ?thesis by (simp add: handleMobileMessage_def)
  next
    case (ParseOk msg)
    with assms MobileMessage show ?thesis
      by (cases msg)
        (auto simp: handleMobileMessage_def handleMobileRequest_def handleMobileForward_def addPending_def Let_def
          intro!: that dest!: update_subset split: option.splits if_splits)
  qed
next
  case (DesktopMessage e k raw)
  with assms show ?thesis
    by (auto simp: handleDesktopMessage_def handleDesktopResponse_state takePending_def Let_def
        dest!: delete_subset split: parse_result.splits wire_message.splits option.splits if_splits)
next
  case (MobileClosed e k)
  with assms show ?thesis
    by (auto simp: onMobileClose_def unlinkMobileBySocket_def drop_pending_def Let_def split: option.splits)
next
  case (DesktopClosed e k)
  with assms show ?thesis
    by (auto simp: onDesktopClose_def removeDesktopBySocket_def removePendingForDesktop_def drop_pending_def
        split: option.splits if_splits)
next
  case (TimerFires e t)
  with assms show ?thesis
    by (auto simp: onResponseTimeout_def fireTimer_def Let_def dest!: delete_subset split: option.splits if_splits)
qed (use assms in simp_all)

text \<open>The history that the invariant relates the joint state to.\<close>

definition up_ok :: "joint \<Rightarrow> bool" where
  "up_ok j \<longleftrightarrow> (\<forall>(a, w) \<in> set (jt_up j). \<exists>i m ps t. w = Request i m ps t \<and> (i, m) \<in> set (jt_asked j) \<and> CHR 0x00 \<notin> set i)"

definition table_ok :: "joint \<Rightarrow> bool" where
  "table_ok j \<longleftrightarrow> (\<forall>(key, p) \<in> set (pending (jt_relay j)). even (mc_socket (pq_mobile p)) \<longrightarrow>
     plain_request p \<and> (pq_requestId p, pq_method p) \<in> set (jt_asked j) \<and>
     (pq_desktopId p, pq_requestId p) \<in> set (jt_forwarded j))"

definition answered_by_desktop :: "joint \<Rightarrow> string \<Rightarrow> jobj option \<Rightarrow> bool" where
  "answered_by_desktop j i r \<longleftrightarrow>
     (\<exists>d r0. (d, i) \<in> set (jt_forwarded j) \<and> (d, i, r0) \<in> set (jt_answers j) \<and> same_result r0 r)"

definition down_ok :: "joint \<Rightarrow> bool" where
  "down_ok j \<longleftrightarrow> (\<forall>a i r er t. (a, Response i True r er t) \<in> set (jt_down j) \<longrightarrow>
     (\<exists>m. (i, m) \<in> set (jt_asked j) \<and> (FORWARDED m \<longrightarrow> answered_by_desktop j i r)))"

definition history_inv :: "joint \<Rightarrow> bool" where
  "history_inv j \<longleftrightarrow> relay_inv (jt_relay j) \<and> distinct (map fst (jt_asked j)) \<and> up_ok j \<and> table_ok j \<and> down_ok j"

lemma history_phone:
  assumes inv: "history_inv j" and ok: "phone_input j inp"
  shows "history_inv (phone_turn sp j inp)"
proof -
  have asked: "set (jt_asked j) \<subseteq> set (jt_asked (phone_turn sp j inp))" by (simp add: phone_turn_parts)
  have "distinct (map fst (jt_asked (phone_turn sp j inp))) \<and> up_ok (phone_turn sp j inp)"
    using phone_sends [of sp "jt_client j" inp]
  proof (elim disjE exE conjE)
    fix a m ps i now err
    assume "inp = CallRequest m ps i now err"
      and "from_phone (snd (client_react sp (jt_client j) inp)) = [(a, Request i m (Some ps) now)]"
    with inv ok show ?thesis by (fastforce simp: history_inv_def up_ok_def phone_turn_parts)
  qed (use inv in \<open>simp add: history_inv_def up_ok_def phone_turn_parts\<close>)
  moreover have "table_ok (phone_turn sp j inp)" "down_ok (phone_turn sp j inp)"
    using inv asked by (fastforce simp: history_inv_def table_ok_def down_ok_def answered_by_desktop_def phone_turn_parts)+
  ultimately show ?thesis using inv by (simp add: history_inv_def phone_turn_parts)
qed

lemma history_answer:
  assumes "history_inv j"
  shows "history_inv (phone_turn sp (j\<lparr>jt_down := remove1 x (jt_down j)\<rparr>) (SocketMessage a raw))"
proof -
  let ?j = "j\<lparr>jt_down := remove1 x (jt_down j)\<rparr>"
  have "down_ok ?j"
    using assms notin_set_remove1 by (fastforce simp: history_inv_def down_ok_def answered_by_desktop_def)
  moreover have parts: "jt_up (phone_turn sp ?j (SocketMessage a raw)) = jt_up j"
    "jt_asked (phone_turn sp ?j (SocketMessage a raw)) = jt_asked j"
    by (simp_all add: phone_turn_parts)
  ultimately show ?thesis
    using assms
    by (simp add: history_inv_def up_ok_def table_ok_def down_ok_def answered_by_desktop_def parts
        phone_turn_parts(2,4,8,9))
qed

lemma pending_origin:
  assumes inv: "history_inv j" and x: "(key, p) \<in> set (pending (fst (relay_react (jt_relay j) ev)))"
    and ev: "even (mc_socket (pq_mobile p))"
    and mine: "\<And>e k raw. ev = MobileMessage e k raw \<Longrightarrow> even k \<Longrightarrow>
      plain_link (jt_relay j) k \<and> (\<exists>i m ps t. parseWireMessage (env_safeParse e) (fr_json raw) = ParseOk (Request i m ps t) \<and>
        (i, m) \<in> set (jt_asked j) \<and> CHR 0x00 \<notin> set i)"
  shows "plain_request p \<and> (pq_requestId p, pq_method p) \<in> set (jt_asked j) \<and>
    (pq_desktopId p, pq_requestId p) \<in> set (forwarded_for (jt_relay j) ev @ jt_forwarded j)"
proof (cases "(key, p) \<in> set (pending (jt_relay j))")
  case True
  with inv ev show ?thesis by (fastforce simp: history_inv_def table_ok_def)
next
  case False
  have rinv: "relay_inv (jt_relay j)" using inv by (simp add: history_inv_def)
  have "pending_ok (pending (fst (relay_react (jt_relay j) ev))) (timers (fst (relay_react (jt_relay j) ev)))
      (next_timer (fst (relay_react (jt_relay j) ev)))"
    using relay_step_inv [OF rinv, of ev] relay_invD(5) by (simp add: relay_step_def)
  from pending_okD(6) [OF this x] have d: "mc_desktopId (pq_mobile p) = pq_desktopId p" .
  from new_pending [OF x False] obtain e k raw i m ps t c where
    new: "ev = MobileMessage e k raw" "parseWireMessage (env_safeParse e) (fr_json raw) = ParseOk (Request i m ps t)"
      "findMobileConn (jt_relay j) k = Some c" "pq_mobile p = c" "pq_requestId p = i" "pq_method p = m" by metis
  moreover have "even k" using findMobileConn_Some(2) [OF rinv new(3)] ev new(4) by simp
  ultimately show ?thesis
    using mine [OF new(1)] d by (auto simp: plain_link_def plain_request_def forwarded_for_def)
qed

lemma to_phone_iff: "(a, w) \<in> set (to_phone effs) \<longleftrightarrow> (at_relay a, w) \<in> set (sends effs)"
  by (force simp: to_phone_def at_relay_def)

lemma answer_origin:
  assumes inv: "history_inv j" and sent: "(at_relay a, Response i True r er t) \<in> set (sends (fst (snd (relay_react (jt_relay j) ev))))"
    and desk: "\<And>e k raw. ev = DesktopMessage e k raw \<Longrightarrow> odd k"
    and mine: "\<And>e k raw. ev = MobileMessage e k raw \<Longrightarrow> even k \<Longrightarrow>
      (\<exists>i m ps t. parseWireMessage (env_safeParse e) (fr_json raw) = ParseOk (Request i m ps t) \<and> (i, m) \<in> set (jt_asked j))"
  shows "\<exists>m. (i, m) \<in> set (jt_asked j) \<and> (FORWARDED m \<longrightarrow> (\<exists>d r0. (d, i) \<in> set (jt_forwarded j) \<and>
      (d, i, r0) \<in> set (answers_of (jt_relay j) ev @ jt_answers j) \<and> same_result r0 r))"
proof (cases ev)
  case (MobileMessage e k raw)
  show ?thesis
  proof (cases "parseWireMessage (env_safeParse e) (fr_json raw)")
    case (ParseErr i' c m)
    with sent MobileMessage show ?thesis by (auto simp: handleMobileMessage_def logRejected_def makeError_def split: if_splits)
  next
    case (ParseOk msg)
    with sent MobileMessage obtain i' m ps t' where msg: "msg = Request i' m ps t'"
      by (cases msg) (auto simp: handleMobileMessage_def)
    with sent MobileMessage ParseOk have "at_relay a = k \<and> i = i' \<and> \<not> FORWARDED m"
      using own_replies [of "at_relay a" i r er t e "jt_relay j" k raw i' m ps t']
      by (simp add: handleMobileMessage_Request(2) [OF ParseOk [unfolded msg]])
    with mine [OF MobileMessage] ParseOk msg show ?thesis by (force simp: at_relay_def)
  qed
next
  case (DesktopMessage e k raw)
  with desk have "at_relay a \<noteq> k" by (auto simp: at_relay_def)
  with sent DesktopMessage obtain r0 p where
    r0: "parseWireMessage (env_safeParse e) (fr_json raw) = ParseOk (Response i True r0 er t)" "same_result r0 r"
    and p: "map_of (pending (jt_relay j)) (pendingKey (findDesktopId (jt_relay j) k) i) = Some p"
      "mc_socket (pq_mobile p) = at_relay a"
    by (auto elim: desktop_replies)
  have pok: "pending_ok (pending (jt_relay j)) (timers (jt_relay j)) (next_timer (jt_relay j))"
    using inv relay_invD(5) by (simp add: history_inv_def)
  have ok: "plain_request p" "(pq_requestId p, pq_method p) \<in> set (jt_asked j)"
    "(pq_desktopId p, pq_requestId p) \<in> set (jt_forwarded j)"
    using inv map_of_SomeD [OF p(1)] p(2) by (fastforce simp: history_inv_def table_ok_def at_relay_def)+
  then have "pq_desktopId p = findDesktopId (jt_relay j) k" "pq_requestId p = i"
    using plain_key [of "pq_desktopId p" "pq_requestId p" "findDesktopId (jt_relay j) k" i]
      pending_okD(5) [OF pok map_of_SomeD [OF p(1)]] by (simp_all add: plain_request_def)
  with ok r0 DesktopMessage show ?thesis by (force simp: answers_of_def)
next
  case (DesktopClosed e k)
  with sent show ?thesis
    by (auto simp: onDesktopClose_def removeDesktopBySocket_def removePendingForDesktop_def sends_concat makeError_def
        split: option.splits if_splits)
next
  case (MobileClosed e k)
  with sent show ?thesis
    by (auto simp: onMobileClose_def unlinkMobileBySocket_def makeEvent_def Let_def split: option.splits if_splits)
next
  case (TimerFires e t')
  with sent show ?thesis
    by (auto simp: onResponseTimeout_def fireTimer_def makeError_def Let_def split: option.splits if_splits)
qed (use sent in simp_all)

lemma history_relay:
  assumes inv: "history_inv j"
    and desk: "\<And>e k raw. ev = DesktopMessage e k raw \<Longrightarrow> odd k"
    and mine: "\<And>e k raw. ev = MobileMessage e k raw \<Longrightarrow> even k \<Longrightarrow>
      plain_link (jt_relay j) k \<and> (\<exists>i m ps t. parseWireMessage (env_safeParse e) (fr_json raw) = ParseOk (Request i m ps t) \<and>
        (i, m) \<in> set (jt_asked j) \<and> CHR 0x00 \<notin> set i)"
  shows "history_inv (relay_turn j ev)"
proof -
  have rinv: "relay_inv (jt_relay j)" using inv by (simp add: history_inv_def)
  have "table_ok (relay_turn j ev)"
    using pending_origin [OF inv _ _ mine] unfolding table_ok_def by (auto simp: relay_turn_parts)
  moreover have "down_ok (relay_turn j ev)"
    unfolding down_ok_def
  proof (intro allI impI)
    fix a i r er t
    assume "(a, Response i True r er t) \<in> set (jt_down (relay_turn j ev))"
    then consider (old) "(a, Response i True r er t) \<in> set (jt_down j)"
      | (new) "(at_relay a, Response i True r er t) \<in> set (sends (fst (snd (relay_react (jt_relay j) ev))))"
      by (auto simp: relay_turn_parts to_phone_iff)
    then show "\<exists>m. (i, m) \<in> set (jt_asked (relay_turn j ev)) \<and> (FORWARDED m \<longrightarrow> answered_by_desktop (relay_turn j ev) i r)"
    proof cases
      case old
      with inv show ?thesis
        by (fastforce simp: history_inv_def down_ok_def answered_by_desktop_def relay_turn_parts)
    next
      case new
      from answer_origin [OF inv new desk] mine show ?thesis
        by (fastforce simp: answered_by_desktop_def relay_turn_parts)
    qed
  qed
  ultimately show ?thesis
    using inv relay_step_inv [OF rinv, of ev] by (simp add: history_inv_def up_ok_def relay_turn_parts relay_step_def)
qed

lemma history_taken:
  assumes "history_inv j"
  shows "history_inv (j\<lparr>jt_up := remove1 x (jt_up j)\<rparr>)"
proof -
  have "set (remove1 x (jt_up j)) \<subseteq> set (jt_up j)" by (rule set_remove1_subset)
  with assms have "up_ok (j\<lparr>jt_up := remove1 x (jt_up j)\<rparr>)"
    unfolding history_inv_def up_ok_def case_prod_beta' by (simp del: notin_set_remove1) blast
  with assms show ?thesis
    by (simp add: history_inv_def table_ok_def down_ok_def answered_by_desktop_def)
qed

lemma history_inv_reach:
  assumes "joint_reach sp j"
  shows "history_inv j"
  using assms
proof induction
  case joint_start
  show ?case
    by (simp add: history_inv_def initial_joint_def up_ok_def table_ok_def down_ok_def relay_inv_initial
        initial_relay_state_def [THEN arg_cong, of pending])
next
  case (joint_phone j i)
  then show ?case by (blast intro: history_phone)
next
  case (joint_other j ev)
  show ?case
    by (rule history_relay [OF joint_other.IH]) (use joint_other.hyps(2) in auto)
next
  case (joint_up j a w raw e)
  have mem: "(a, w) \<in> set (jt_up j)"
    using joint_up.hyps(2) by (auto simp: next_of_def find_Some_iff in_set_conv_nth)
  with joint_up.IH obtain i m ps t where w: "w = Request i m ps t" "(i, m) \<in> set (jt_asked j)" "CHR 0x00 \<notin> set i"
    by (fastforce simp: history_inv_def up_ok_def)
  then have "parseWireMessage (env_safeParse e) (fr_json raw) = ParseOk (Request i m ps t)"
    using joint_up.hyps(3,4) zod_contract.parse_encode by (auto simp: env_ok_def simp del: encode_wire.simps)
  moreover note history_taken [OF joint_up.IH, of "(a, w)"]
  ultimately show ?case using joint_up.hyps(5) w by (intro history_relay) auto
next
  case (joint_down j a w)
  then show ?case by (blast intro: history_answer)
qed


end
