(* ===== verification/End_To_End_Run.thy ===== *)
theory End_To_End_Run
  imports End_To_End
begin

section \<open>A run of the phone, the relay and a desktop\<close>

text \<open>
  One whole session of the joint system of \<^theory_text>\<open>End_To_End\<close>, computed step by step: a desktop registers and
  creates a code; the phone connects, pairs and asks for the sessions; the desktop answers; the phone
  reads the answer.  The theorems of \<^theory_text>\<open>End_To_End\<close> are applied along it.
\<close>

subsection \<open>The desktop gets a code\<close>

definition register_params :: jobj where
  "register_params = [(''desktopId'', JStr ''d''), (''desktopName'', JStr ''n''), (''platform'', JStr ''p''), (''appVersion'', JStr ''1'')]"

definition code_params :: jobj where
  "code_params = [(''ttlSeconds'', JNum 60)]"

definition register_event :: relay_event where
  "register_event = DesktopMessage env0 1 (frame_of (Request ''a'' ''desktop.register'' (Some register_params) ''t''))"

definition code_event :: relay_event where
  "code_event = DesktopMessage env0 1 (frame_of (Request ''b'' ''desktop.pairing.create'' (Some code_params) ''t''))"

lemma env0_ok [simp]: "env_ok j env0"
  by (simp add: env_ok_def zr.zod_contract_axioms)

lemma registers: "fst (relay_react initial_relay_state register_event) = registered"
  by (simp add: register_event_def handleDesktopMessage_def handleDesktopRequest_def handleDesktopRegister_def
      zod_ref_def DesktopRegisterParamsSchema_def register_params_def registerDesktop_def world
      desktop1_def Let_def strs_at_def)

lemma code7: "generatePairingCode 7 = ''000007''"
  by code_simp

lemma creates: "fst (relay_react registered code_event) = with_code"
  by (simp add: code_event_def handleDesktopMessage_def handleDesktopRequest_def handlePairingCreate_def zod_ref_def
      DesktopPairingCreateParamsSchema_def code_params_def createPairing_def world findDesktopId_def Let_def
      toISOString_def MAX_TIME_def num_at_def code7)

subsection \<open>The phone pairs\<close>

definition connected_phone :: client_state where
  "connected_phone = initial_client\<lparr>cl_socket := Some 0, cl_state := Connected, cl_sockets := [0], cl_settled := [0], cl_promises := 1\<rparr>"

definition conn0 :: mobile_conn where
  "conn0 = \<lparr>mc_mobileDeviceId = ''m'', mc_mobileDevice = \<lparr>md_id = ''m'', md_name = ''x'', md_platform = ''ios''\<rparr>,
     mc_desktopId = ''d'', mc_token = ''mst_u'', mc_offeredCapabilities = [], mc_socket = 0\<rparr>"

definition paired_relay :: relay_state where
  "paired_relay = registered\<lparr>
     mobileSessions := [(''mst_u'', \<lparr>ms_desktopId = ''d'', ms_mobileDeviceId = ''m'', ms_expiresAt = 28800000\<rparr>)],
     links := [(''d'', [conn0])]\<rparr>"

definition pair_request :: wire_message where
  "pair_request = Request ''p'' ''mobile.pair'' (Some pair_params) ''t''"

definition pair_answer :: wire_message where
  "pair_answer = makeResponse 0 ''p''
     [(''desktopId'', JStr ''d''), (''desktopName'', JStr ''n''), (''paired'', JBool True),
      (''mobileSessionToken'', JStr ''mst_u''), (''mobileSessionExpiresAt'', JStr (iso_string 28800000)),
      (''negotiatedCapabilities'', strs [])]"

lemma pair_params_read:
  "device_at ''mobileDevice'' (JObj pair_params) = \<lparr>md_id = ''m'', md_name = ''x'', md_platform = ''ios''\<rparr>"
  "strs_at ''offeredCapabilities'' (JObj pair_params) = None"
  by (simp_all add: device_at_def as_device_def strs_at_def pair_params_def str_at_def)

lemma handles_pair:
  "handleMobilePair env0 with_code 0 ''p'' (Some pair_params) =
     (paired_relay,
      [Audit ''mobile.paired'' [(''desktopId'', jstr ''d''), (''mobileDeviceId'', jstr ''m''), (''platform'', jstr ''ios''),
         (''requestId'', jstr ''p'')],
       Send 0 pair_answer,
       Send 1 (makeEvent 0 ''mobile.paired'' [(''mobileDevice'', device_json \<lparr>md_id = ''m'', md_name = ''x'', md_platform = ''ios''\<rparr>),
         (''mobileSessionExpiresAt'', JStr (iso_string 28800000))])],
      Returned)"
  by (simp add: handleMobilePair_def pair_params_ok pair_params_read consumePairing_def issueMobileSession_def
      toISOString_def MAX_TIME_def DEFAULT_MOBILE_SESSION_TTL_MS_def)
    (simp add: linkMobile_def mobilesForDesktop_def Let_def paired_relay_def with_code_def registered_def initial_relay_state_def
      conn0_def desktop1_def send_def pair_answer_def negotiateCapabilities_def)

lemma pairs:
  "fst (handleMobileMessage env0 with_code 0 (frame_of pair_request)) = paired_relay"
  "to_phone (fst (snd (handleMobileMessage env0 with_code 0 (frame_of pair_request)))) = [(0, pair_answer)]"
  "snd (snd (handleMobileMessage env0 with_code 0 (frame_of pair_request))) = Returned"
  "findMobileConn with_code 0 = None"
  by (simp_all add: handleMobileMessage_def handleMobileRequest_def handles_pair pair_request_def to_phone_def
      with_log_def logReceivedMessage_def findMobileConn_def)

subsection \<open>The phone asks for the sessions\<close>

definition list_request :: wire_message where
  "list_request = Request ''q'' ''session.list'' (Some []) ''t''"

definition list_answer :: wire_message where
  "list_answer = Response ''q'' True (Some [(''sessions'', JArr [])]) None ''t''"

definition passed_answer :: wire_message where
  "passed_answer = Response ''q'' True (Some [(''sessions'', JArr []), (''negotiatedCapabilities'', strs [])]) None ''t''"

definition asked_relay :: relay_state where
  "asked_relay = paired_relay\<lparr>
     pending := [(pendingKey ''d'' ''q'', \<lparr>pq_desktopId = ''d'', pq_requestId = ''q'', pq_method = ''session.list'',
        pq_mobile = conn0, pq_timeout = 0\<rparr>)],
     timers := [\<lparr>tm_id = 0, tm_key = pendingKey ''d'' ''q'', tm_ms = 15000, tm_desktopId = ''d'', tm_requestId = ''q'',
        tm_method = ''session.list'', tm_params = Some []\<rparr>],
     next_timer := 1\<rparr>"

lemma asks:
  "fst (handleMobileMessage env0 paired_relay 0 (frame_of list_request)) = asked_relay"
  "to_phone (fst (snd (handleMobileMessage env0 paired_relay 0 (frame_of list_request)))) = []"
  "snd (snd (handleMobileMessage env0 paired_relay 0 (frame_of list_request))) = Returned"
  "findMobileConn paired_relay 0 = Some conn0"
  by (simp_all add: handleMobileMessage_def handleMobileRequest_def handleMobileForward_def FORWARDED_def
      MOBILE_FORWARDED_METHODS_def list_request_def asked_relay_def paired_relay_def world getDesktop_def
      findMobileConn_def addPending_def Let_def conn0_def desktop1_def to_phone_def with_log_def logReceivedMessage_def
      DEFAULT_DESKTOP_RESPONSE_TIMEOUT_MS_def)

definition answer_event :: relay_event where
  "answer_event = DesktopMessage env0 1 (frame_of list_answer)"

definition done_relay :: relay_state where
  "done_relay = asked_relay\<lparr>pending := [], timers := []\<rparr>"

lemma answers:
  "fst (relay_react asked_relay answer_event) = done_relay"
  "to_phone (fst (snd (relay_react asked_relay answer_event))) = [(0, passed_answer)]"
  by (simp_all add: answer_event_def list_answer_def handleDesktopMessage_Response [OF parse_frame] handleDesktopResponse_sends
      handleDesktopResponse_state takePending_def Let_def to_phone_def asked_relay_def paired_relay_def world
      findDesktopId_def desktop1_def conn0_def done_relay_def passed_answer_def addNegotiated_def getDesktop_def
      clear_timers_def)

subsection \<open>The joint states\<close>

definition ready_joint :: joint where
  "ready_joint = initial_joint\<lparr>jt_client := connected_phone, jt_relay := with_code\<rparr>"

definition paired_joint :: joint where
  "paired_joint = ready_joint\<lparr>jt_client := connected_phone\<lparr>cl_promises := 2\<rparr>, jt_relay := paired_relay,
     jt_sent := [(''p'', 0)], jt_asked := [(''p'', ''mobile.pair'')]\<rparr>"

definition asking_joint :: joint where
  "asking_joint = paired_joint\<lparr>jt_client := connected_phone\<lparr>cl_promises := 3, cl_pending := [(''q'', 2)]\<rparr>,
     jt_relay := asked_relay, jt_sent := [(''q'', 0), (''p'', 0)],
     jt_asked := [(''q'', ''session.list''), (''p'', ''mobile.pair'')], jt_forwarded := [(''d'', ''q'')]\<rparr>"

definition answered_joint :: joint where
  "answered_joint = asking_joint\<lparr>jt_relay := done_relay, jt_down := [(0, passed_answer)],
     jt_answers := [(''d'', ''q'', Some [(''sessions'', JArr [])])]\<rparr>"

definition final_joint :: joint where
  "final_joint = answered_joint\<lparr>jt_client := connected_phone\<lparr>cl_promises := 3\<rparr>, jt_down := []\<rparr>"

lemmas joints = initial_joint_def ready_joint_def paired_joint_def asking_joint_def answered_joint_def final_joint_def
  connected_phone_def initial_client_def

lemma relay_turn_eq:
  "relay_turn j ev = j\<lparr>jt_relay := fst (relay_react (jt_relay j) ev),
     jt_down := jt_down j @ to_phone (fst (snd (relay_react (jt_relay j) ev))),
     jt_lost := (case ev of MobileClosed e k \<Rightarrow> if even k then k div 2 # jt_lost j else jt_lost j | _ \<Rightarrow> jt_lost j),
     jt_forwarded := forwarded_for (jt_relay j) ev @ jt_forwarded j,
     jt_answers := answers_of (jt_relay j) ev @ jt_answers j\<rparr>"
  by (simp add: relay_turn_def split: prod.split)

lemma no_replies:
  "to_phone (fst (snd (relay_react initial_relay_state register_event))) = []"
  "to_phone (fst (snd (relay_react registered code_event))) = []"
  by (simp_all add: to_phone_def register_event_def code_event_def handleDesktopMessage_def handleDesktopRequest_def
      handleDesktopRegister_def handlePairingCreate_def zod_ref_def DesktopRegisterParamsSchema_def register_params_def
      registerDesktop_def DesktopPairingCreateParamsSchema_def code_params_def createPairing_def world findDesktopId_def
      Let_def toISOString_def MAX_TIME_def num_at_def strs_at_def desktop1_def)

lemma setup_turns:
  "relay_turn initial_joint register_event = initial_joint\<lparr>jt_relay := registered\<rparr>"
  "relay_turn (initial_joint\<lparr>jt_relay := registered\<rparr>) code_event = initial_joint\<lparr>jt_relay := with_code\<rparr>"
  unfolding relay_turn_eq
  by (simp_all add: initial_joint_def registers creates no_replies)
    (simp_all add: register_event_def code_event_def forwarded_for_def answers_of_def initial_joint_def)

definition connecting_phone :: client_state where
  "connecting_phone = initial_client\<lparr>cl_socket := Some 0, cl_state := Connecting, cl_sockets := [0], cl_cancelConnect := Some 0,
     cl_promises := 1\<rparr>"

lemma connect_turns:
  "phone_turn zod_ref (initial_joint\<lparr>jt_relay := with_code\<rparr>) (CallConnect ''u'' None) =
     initial_joint\<lparr>jt_relay := with_code, jt_client := connecting_phone\<rparr>"
  "phone_turn zod_ref (initial_joint\<lparr>jt_relay := with_code, jt_client := connecting_phone\<rparr>) (SocketOpened 0) = ready_joint"
  by (simp_all add: phone_turn_def joints connecting_phone_def connect_def socketOpen_def setState_def Let_def
      from_phone_none)

lemma ready_reach: "joint_reach zod_ref ready_joint"
proof -
  have "joint_reach zod_ref (initial_joint\<lparr>jt_relay := registered\<rparr>)"
    unfolding setup_turns [symmetric] by (rule joint_other [OF joint_start]) (simp add: register_event_def)
  then have "joint_reach zod_ref (initial_joint\<lparr>jt_relay := with_code\<rparr>)"
    unfolding setup_turns(2) [symmetric] by (rule joint_other) (simp add: code_event_def)
  then have "joint_reach zod_ref (initial_joint\<lparr>jt_relay := with_code, jt_client := connecting_phone\<rparr>)"
    unfolding connect_turns(1) [symmetric] by (rule joint_phone) simp_all
  then show ?thesis
    unfolding connect_turns(2) [symmetric] by (rule joint_phone) (simp_all add: connecting_phone_def initial_joint_def)
qed

text \<open>A request, the relay's handling of it and the reading of an answer, in explicit states.\<close>

lemma request_turn:
  "phone_turn zod_ref (j\<lparr>jt_client := connected_phone\<lparr>cl_promises := n\<rparr>\<rparr>) (CallRequest m ps i t None) =
     j\<lparr>jt_client := connected_phone\<lparr>cl_promises := Suc n, cl_pending := [(i, n)]\<rparr>,
       jt_up := jt_up j @ [(0, Request i m (Some ps) t)], jt_sent := (i, 0) # jt_sent j, jt_asked := (i, m) # jt_asked j\<rparr>"
  by (simp add: phone_turn_def request_def connected_phone_def initial_client_def Let_def)

lemma answer_turn:
  "phone_turn zod_ref (j\<lparr>jt_client := connected_phone\<lparr>cl_promises := n, cl_pending := [(i, p)]\<rparr>\<rparr>)
     (SocketMessage 0 (Some (encode_wire (Response i ok r er t)))) =
     j\<lparr>jt_client := connected_phone\<lparr>cl_promises := n\<rparr>\<rparr>"
  by (simp add: phone_turn_def client_ops zr.parse_encode connected_phone_def initial_client_def from_phone_none
      split: option.split del: encode_wire.simps)

lemma next_of_hd [simp]: "next_of a ((a, w) # q) = Some w"
  by (simp add: next_of_def)

definition pairing_joint :: joint where
  "pairing_joint = ready_joint\<lparr>jt_client := connected_phone\<lparr>cl_promises := 2, cl_pending := [(''p'', 1)]\<rparr>,
     jt_up := [(0, pair_request)], jt_sent := [(''p'', 0)], jt_asked := [(''p'', ''mobile.pair'')]\<rparr>"

lemma pairing_turns:
  "phone_turn zod_ref ready_joint (CallRequest ''mobile.pair'' pair_params ''p'' ''t'' None) = pairing_joint"
  "relay_turn (pairing_joint\<lparr>jt_up := []\<rparr>) (MobileMessage env0 0 (frame_of pair_request)) =
     pairing_joint\<lparr>jt_up := [], jt_relay := paired_relay, jt_down := [(0, pair_answer)]\<rparr>"
  "phone_turn zod_ref (pairing_joint\<lparr>jt_up := [], jt_relay := paired_relay\<rparr>) (SocketMessage 0 (Some (encode_wire pair_answer))) =
     paired_joint"
  subgoal
    using request_turn [where j = ready_joint and n = 1 and m = "''mobile.pair''" and ps = pair_params and i = "''p''" and t = "''t''"]
    by (simp add: joints pairing_joint_def pair_request_def)
  subgoal
    by (simp add: relay_turn_eq pairing_joint_def ready_joint_def initial_joint_def pairs forwarded_for_def answers_of_def)
      (use pairs(4) in \<open>simp add: pair_request_def\<close>)
  subgoal
    using answer_turn [where j = "pairing_joint\<lparr>jt_up := [], jt_relay := paired_relay\<rparr>" and n = 2 and i = "''p''" and p = 1]
    by (simp add: joints pairing_joint_def pair_answer_def makeResponse_def del: encode_wire.simps client_react.simps)
  done

lemma paired_reach: "joint_reach zod_ref paired_joint"
proof -
  have asked: "joint_reach zod_ref pairing_joint"
    unfolding pairing_turns(1) [symmetric]
    by (rule joint_phone [OF ready_reach]) (simp_all add: joints)
  have "joint_reach zod_ref (relay_turn (pairing_joint\<lparr>jt_up := remove1 (0, pair_request) (jt_up pairing_joint)\<rparr>)
      (MobileMessage env0 (at_relay 0) (frame_of pair_request)))"
    using asked
    by (rule joint_up)
      (simp_all add: pairing_joint_def frame_of_def plain_link_def pairs [unfolded frame_of_def] ready_joint_def at_relay_def)
  then have "joint_reach zod_ref (pairing_joint\<lparr>jt_up := [], jt_relay := paired_relay, jt_down := [(0, pair_answer)]\<rparr>)"
    unfolding pairing_turns(2) [symmetric] by (simp add: pairing_joint_def at_relay_def)
  from joint_down [OF this, of 0 pair_answer] pairing_turns(3)
  show ?thesis by (simp add: pairing_joint_def ready_joint_def initial_joint_def del: encode_wire.simps)
qed

definition list_joint :: joint where
  "list_joint = asking_joint\<lparr>jt_up := [(0, list_request)], jt_relay := paired_relay, jt_forwarded := []\<rparr>"

lemma list_turns:
  "phone_turn zod_ref paired_joint (CallRequest ''session.list'' [] ''q'' ''t'' None) = list_joint"
  "relay_turn (list_joint\<lparr>jt_up := []\<rparr>) (MobileMessage env0 0 (frame_of list_request)) = asking_joint"
  "relay_turn asking_joint answer_event = answered_joint"
  "phone_turn zod_ref (answered_joint\<lparr>jt_down := []\<rparr>) (SocketMessage 0 (Some (encode_wire passed_answer))) = final_joint"
  subgoal
    using request_turn [where j = paired_joint and n = 2 and m = "''session.list''" and ps = "[]" and i = "''q''" and t = "''t''"]
    by (simp add: joints list_joint_def list_request_def)
  subgoal
    by (simp add: relay_turn_eq list_joint_def joints asks forwarded_for_def answers_of_def)
      (use asks(4) in \<open>simp add: list_request_def conn0_def\<close>)
  subgoal
    using answers
    by (simp add: relay_turn_eq asking_joint_def answered_joint_def paired_joint_def ready_joint_def initial_joint_def)
      (simp add: answer_event_def list_answer_def forwarded_for_def answers_of_def asked_relay_def paired_relay_def world
        findDesktopId_def desktop1_def)
  subgoal
    using answer_turn [where j = "answered_joint\<lparr>jt_down := []\<rparr>" and n = 3 and i = "''q''" and p = 2]
    by (simp add: joints passed_answer_def del: encode_wire.simps client_react.simps)
  done

lemma list_reach: "joint_reach zod_ref list_joint"
  unfolding list_turns(1) [symmetric]
  by (rule joint_phone [OF paired_reach]) (simp_all add: joints)

lemma asking_reach: "joint_reach zod_ref asking_joint"
proof -
  have "joint_reach zod_ref (relay_turn (list_joint\<lparr>jt_up := remove1 (0, list_request) (jt_up list_joint)\<rparr>)
      (MobileMessage env0 (at_relay 0) (frame_of list_request)))"
    using list_reach
    by (rule joint_up)
      (simp_all add: list_joint_def frame_of_def plain_link_def asks [unfolded frame_of_def] at_relay_def conn0_def)
  then show ?thesis
    unfolding list_turns(2) [symmetric] by (simp add: list_joint_def at_relay_def)
qed

lemma answered_joint_reach: "joint_reach zod_ref answered_joint"
  unfolding list_turns(3) [symmetric]
  by (rule joint_other [OF asking_reach]) (simp add: answer_event_def)

lemma final_reach: "joint_reach zod_ref final_joint"
  using joint_down [OF answered_joint_reach, of 0 passed_answer] list_turns(4)
  by (simp add: answered_joint_def asking_joint_def paired_joint_def ready_joint_def initial_joint_def del: encode_wire.simps)

subsection \<open>The theorems along the run\<close>

theorem no_request_forgotten_witness:
  "\<exists>t\<in>set (timers (jt_relay asking_joint)). tm_requestId t = ''q''"
proof -
  have "map_of (cl_pending (jt_client asking_joint)) ''q'' = Some 2" by (simp add: asking_joint_def)
  from no_request_forgotten [OF asking_reach zr.zod_contract_axioms this] show ?thesis
    by (auto simp: asking_joint_def paired_joint_def ready_joint_def initial_joint_def)
qed



end
