(* ===== verification/Relay_Server.thy ===== *)
theory Relay_Server
  imports Complex_Main Relay_System
begin

section \<open>The relay's entry point (apps/relay/src/server.ts, app.ts)\<close>

text \<open>
  How the relay is configured: \<open>server.ts\<close> reads its settings from environment variables,
  \<open>startServer\<close> and \<open>buildApp\<close> fill in what is missing, and every handler runs under the result, the
  record \<open>relay_env\<close>.  The settings are strings; \<open>Number\<close> is that of the language, on exact rationals
  (the rounding to the nearest double is left out).  A handler is modelled under settings that are
  integers; for the others \<open>handlerEnv\<close> has no result.
\<close>

subsection \<open>Numbers of the language\<close>

datatype js_number = NaN | Infinite bool | Finite rat

text \<open>\<open>Infinite True\<close> is minus infinity.\<close>

fun js_times :: "js_number \<Rightarrow> js_number \<Rightarrow> js_number" where
  "js_times NaN y = NaN"
| "js_times x NaN = NaN"
| "js_times (Infinite a) (Infinite b) = Infinite (a \<noteq> b)"
| "js_times (Infinite a) (Finite q) = (if q = 0 then NaN else Infinite (a \<noteq> (q < 0)))"
| "js_times (Finite q) (Infinite b) = (if q = 0 then NaN else Infinite ((q < 0) \<noteq> b))"
| "js_times (Finite p) (Finite q) = Finite (p * q)"

instantiation js_number :: "{one, times}"
begin

definition one_js_number :: js_number where
  "one_js_number = Finite 1"

definition times_js_number :: "js_number \<Rightarrow> js_number \<Rightarrow> js_number" where
  "times_js_number x y = js_times x y"

instance ..

end

lemma js_number_one [simp]: "1 * x = (x :: js_number)" "x * 1 = (x :: js_number)"
  by (cases x; simp add: times_js_number_def one_js_number_def)+

lemma js_number_commute: "x * y = y * (x :: js_number)"
  by (cases x; cases y) (auto simp: times_js_number_def)

lemma js_times_finite [simp]: "Finite p * Finite q = Finite (p * q)"
  by (simp add: times_js_number_def)

text \<open>\<open>Number(text)\<close>: decimal literals with an optional fraction and exponent, the prefixed
  literals, \<open>Infinity\<close>; white space around is ignored and an empty text is zero.\<close>

definition is_digit :: "char \<Rightarrow> bool" where
  "is_digit c = (let n = of_char c :: nat in 48 \<le> n \<and> n \<le> 57)"

definition base_digit :: "char \<Rightarrow> nat" where
  "base_digit c = (let n = of_char c :: nat in
     if 48 \<le> n \<and> n \<le> 57 then n - 48
     else if 97 \<le> n \<and> n \<le> 102 then n - 87
     else if 65 \<le> n \<and> n \<le> 70 then n - 55
     else 16)"

fun literal_base :: "char \<Rightarrow> nat option" where
  "literal_base c =
     (if c \<in> set ''xX'' then Some 16 else if c \<in> set ''oO'' then Some 8 else if c \<in> set ''bB'' then Some 2 else None)"

definition exponent_of :: "string \<Rightarrow> int option" where
  "exponent_of s =
     (let (neg, ds) = (case s of [] \<Rightarrow> (False, [])
                       | c # r \<Rightarrow> if c = CHR ''+'' then (False, r) else if c = CHR ''-'' then (True, r) else (False, s))
      in if ds = [] \<or> \<not> list_all is_digit ds then None
         else Some (if neg then - int (read_nat ds) else int (read_nat ds)))"

definition pow10 :: "int \<Rightarrow> rat" where
  "pow10 k = (if 0 \<le> k then 10 ^ nat k else 1 / 10 ^ nat (- k))"

definition unsigned_literal :: "string \<Rightarrow> js_number" where
  "unsigned_literal s =
     (if s = ''Infinity'' then Infinite False
      else
        (let whole = takeWhile is_digit s;
             r1 = dropWhile is_digit s;
             r2 = (if r1 \<noteq> [] \<and> hd r1 = CHR ''.'' then tl r1 else r1);
             fraction = (if r1 \<noteq> [] \<and> hd r1 = CHR ''.'' then takeWhile is_digit r2 else []);
             r3 = drop (length fraction) r2;
             mantissa = of_nat (read_nat (whole @ fraction)) * pow10 (- int (length fraction))
         in if whole = [] \<and> fraction = [] then NaN
            else case r3 of
              [] \<Rightarrow> Finite mantissa
            | c # ex \<Rightarrow>
                if c \<in> set ''eE''
                then (case exponent_of ex of None \<Rightarrow> NaN | Some k \<Rightarrow> Finite (mantissa * pow10 k))
                else NaN))"

definition signed_literal :: "string \<Rightarrow> js_number" where
  "signed_literal s =
     (case s of
        [] \<Rightarrow> NaN
      | c # r \<Rightarrow>
          if c = CHR ''+'' then unsigned_literal r
          else if c = CHR ''-'' then Finite (-1) * unsigned_literal r
          else unsigned_literal s)"

definition js_Number :: "string \<Rightarrow> js_number" where
  "js_Number text =
     (let s = js_trim text
      in if s = [] then Finite 0
         else
           (case s of
              z # x # ds \<Rightarrow>
                (case (if z = CHR ''0'' then literal_base x else None) of
                   Some b \<Rightarrow>
                     if ds \<noteq> [] \<and> list_all (\<lambda>c. base_digit c < b) ds
                     then Finite (of_nat (foldl (\<lambda>a c. b * a + base_digit c) 0 ds)) else NaN
                 | None \<Rightarrow> signed_literal s)
            | _ \<Rightarrow> signed_literal s))"

text \<open>The value as the integer that the handlers compute with.\<close>

fun as_integer :: "js_number \<Rightarrow> int option" where
  "as_integer (Finite q) = (if of_int \<lfloor>q\<rfloor> = q then Some \<lfloor>q\<rfloor> else None)"
| "as_integer x = None"

lemma as_integer_of_int [simp]: "as_integer (Finite (of_int k)) = Some k" "as_integer (Finite (of_nat n)) = Some (int n)"
  by simp_all

lemma is_digit_digit: "n < 10 \<Longrightarrow> is_digit (digit n)"
  by (simp add: is_digit_def digit_def of_char_of)

lemma show_nat_digits: "list_all is_digit (show_nat n)" "show_nat n \<noteq> []"
proof (induction n rule: show_nat.induct)
  case (1 n)
  { case 1
    then show ?case using "1.IH" by (subst show_nat.simps) (simp add: is_digit_digit)
  next
    case 2
    then show ?case by (subst show_nat.simps) simp
  }
qed

lemma digit_chars:
  assumes "is_digit c"
  shows "\<not> is_ws c" "c \<noteq> CHR ''+''" "c \<noteq> CHR ''-''" "literal_base c = None" "c \<noteq> CHR ''I''"
  using assms by (auto simp: is_digit_def is_ws_def Let_def)

lemma digits_number:
  assumes "list_all is_digit ds" and "ds \<noteq> []"
  shows "js_Number ds = Finite (of_nat (read_nat ds))"
proof -
  from assms have ends: "is_digit (hd ds)" "is_digit (last ds)" by (simp_all add: list_all_iff)
  then have trim: "js_trim ds = ds" by (intro js_trim_fixed) (simp add: digit_chars)
  have "ds \<noteq> ''Infinity''" using ends digit_chars(5) [of "hd ds"] by auto
  moreover have parts: "takeWhile is_digit ds = ds" "dropWhile is_digit ds = []"
    using assms by (simp_all add: list_all_iff)
  ultimately have u: "unsigned_literal ds = Finite (of_nat (read_nat ds))"
    using assms(2) by (simp add: unsigned_literal_def parts Let_def pow10_def)
  then have "signed_literal ds = Finite (of_nat (read_nat ds))"
    using assms(2) digit_chars(2,3) [OF ends(1)] by (cases ds) (simp_all add: signed_literal_def)
  moreover have "literal_base x = None" if "ds = z # x # r" for z x r
    using assms(1) that by (simp add: digit_chars(4) del: literal_base.simps)
  ultimately show ?thesis
    using assms by (auto simp: js_Number_def trim Let_def simp del: literal_base.simps split: list.split)
qed

lemma js_Number_show_nat [simp]: "js_Number (show_nat n) = Finite (of_nat n)"
  using digits_number [OF show_nat_digits] by simp

lemma number_literals:
  "js_Number ''8h'' = NaN" "js_Number '' 0x1F '' = Finite 31" "js_Number ''-1.5e2'' = Finite (-150)" "js_Number '''' = Finite 0"
  by code_simp+

subsection \<open>The settings\<close>

text \<open>\<open>process.env\<close>, the options of the runtime, the application and the server that listens.  The audit
  log is one of the two functions of \<open>audit.ts\<close>.\<close>

type_synonym process_env = "string \<Rightarrow> string option"

datatype audit_logger = JsonLogger | NoopLogger

record relay_options =
  ro_mobileSessionTtlMs :: "js_number option"
  ro_desktopResponseTimeoutMs :: "js_number option"
  ro_auditLog :: "audit_logger option"
  ro_logInputText :: "bool option"
  ro_logPayloads :: "bool option"

record relay_app =
  app_relayMobileUrl :: string
  app_options :: relay_options

record relay_server =
  srv_app :: relay_app
  srv_port :: js_number
  srv_host :: string

definition no_options :: relay_options where
  "no_options = \<lparr>ro_mobileSessionTtlMs = None, ro_desktopResponseTimeoutMs = None, ro_auditLog = None,
     ro_logInputText = None, ro_logPayloads = None\<rparr>"

definition buildApp :: "string option \<Rightarrow> relay_options option \<Rightarrow> relay_app" where
  "buildApp relayMobileUrl options =
     \<lparr>app_relayMobileUrl = (case relayMobileUrl of Some u \<Rightarrow> u | None \<Rightarrow> ''ws://localhost:8787/v1/ws/mobile''),
      app_options = (case options of Some opts \<Rightarrow> opts | None \<Rightarrow> no_options)\<rparr>"

definition app_auditLog :: "relay_app \<Rightarrow> audit_logger" where
  "app_auditLog app = (case ro_auditLog (app_options app) of Some l \<Rightarrow> l | None \<Rightarrow> NoopLogger)"

text \<open>The routes of the application.\<close>

datatype route = JsonRoute jobj | MobileRoute | DesktopRoute

definition routes :: "(string \<times> route) list" where
  "routes = [
     (''/healthz'', JsonRoute [(''status'', JStr ''ok'')]),
     (''/readyz'', JsonRoute [(''status'', JStr ''ready'')]),
     (''/v1/ws/mobile'', MobileRoute),
     (''/v1/ws/desktop'', DesktopRoute)]"

definition startServer :: "js_number \<Rightarrow> string option \<Rightarrow> relay_options option \<Rightarrow> string option \<Rightarrow> relay_server" where
  "startServer port relayMobileUrl options host =
     (let opts = (case options of Some opts \<Rightarrow> opts
                  | None \<Rightarrow> no_options\<lparr>ro_mobileSessionTtlMs := Some (Finite (of_int DEFAULT_MOBILE_SESSION_TTL_MS)),
                                      ro_desktopResponseTimeoutMs := Some (Finite (of_int DEFAULT_DESKTOP_RESPONSE_TIMEOUT_MS))\<rparr>)
      in \<lparr>srv_app = buildApp relayMobileUrl (Some (opts\<lparr>ro_auditLog :=
            Some (case ro_auditLog opts of Some l \<Rightarrow> l | None \<Rightarrow> JsonLogger)\<rparr>)),
          srv_port = port,
          srv_host = (case host of Some h \<Rightarrow> h | None \<Rightarrow> ''0.0.0.0'')\<rparr>)"

text \<open>\<open>Number(process.env.NAME ?? n)\<close>.\<close>

definition number_setting :: "process_env \<Rightarrow> string \<Rightarrow> int \<Rightarrow> js_number" where
  "number_setting penv name n = (case penv name of Some t \<Rightarrow> js_Number t | None \<Rightarrow> Finite (of_int n))"

definition server_main :: "process_env \<Rightarrow> relay_server" where
  "server_main penv =
     startServer (number_setting penv ''PORT'' 8787) (penv ''RELAY_MOBILE_URL'')
       (Some \<lparr>ro_mobileSessionTtlMs =
                Some (number_setting penv ''MOBILE_SESSION_TTL_SECONDS'' (8 * 60 * 60) * Finite 1000),
              ro_desktopResponseTimeoutMs = Some (number_setting penv ''DESKTOP_RESPONSE_TIMEOUT_MS'' 15000),
              ro_auditLog = None,
              ro_logInputText = Some (penv ''RELAY_LOG_INPUT_TEXT'' = Some ''true''),
              ro_logPayloads = Some (penv ''RELAY_LOG_PAYLOADS'' = Some ''true'')\<rparr>)
       (Some (case penv ''HOST'' of Some h \<Rightarrow> h | None \<Rightarrow> ''0.0.0.0''))"

subsection \<open>The handlers under the settings\<close>

definition integer_option :: "js_number option \<Rightarrow> int option option" where
  "integer_option n = (case n of None \<Rightarrow> Some None | Some x \<Rightarrow> map_option Some (as_integer x))"

text \<open>What \<open>buildApp\<close> passes to the handlers of a socket; the rest of the environment (the clock, the
  sockets, the random source) is that of the turn.\<close>

definition handlerEnv :: "relay_app \<Rightarrow> relay_env \<Rightarrow> relay_env option" where
  "handlerEnv app e =
     (case (integer_option (ro_mobileSessionTtlMs (app_options app)),
            integer_option (ro_desktopResponseTimeoutMs (app_options app))) of
        (Some ttl, Some timeout) \<Rightarrow>
          Some (e\<lparr>env_relayMobileUrl := app_relayMobileUrl app,
                  env_mobileSessionTtlMs := ttl,
                  env_desktopResponseTimeoutMs := timeout,
                  env_logInputText := (ro_logInputText (app_options app) = Some True),
                  env_logPayloads := (ro_logPayloads (app_options app) = Some True)\<rparr>)
      | _ \<Rightarrow> None)"

fun event_in :: "relay_app \<Rightarrow> relay_event \<Rightarrow> relay_event option" where
  "event_in app (MobileMessage e sock raw) = map_option (\<lambda>e'. MobileMessage e' sock raw) (handlerEnv app e)"
| "event_in app (MobileClosed e sock) = map_option (\<lambda>e'. MobileClosed e' sock) (handlerEnv app e)"
| "event_in app (DesktopMessage e sock raw) = map_option (\<lambda>e'. DesktopMessage e' sock raw) (handlerEnv app e)"
| "event_in app (DesktopClosed e sock) = map_option (\<lambda>e'. DesktopClosed e' sock) (handlerEnv app e)"
| "event_in app (TimerFires e t) = map_option (\<lambda>e'. TimerFires e' t) (handlerEnv app e)"
| "event_in app (MobileConnected sock) = Some (MobileConnected sock)"
| "event_in app (DesktopConnected sock) = Some (DesktopConnected sock)"

fun is_audit :: "relay_effect \<Rightarrow> bool" where
  "is_audit (Audit n flds) = True"
| "is_audit x = False"

definition app_turn :: "relay_app \<Rightarrow> relay_state \<Rightarrow> relay_event \<Rightarrow> outcome option" where
  "app_turn app s ev =
     map_option (\<lambda>ev'. case relay_react s ev' of (s', effs, c) \<Rightarrow>
         (s', if app_auditLog app = NoopLogger then filter (Not \<circ> is_audit) effs else effs, c))
       (event_in app ev)"

subsection \<open>What the settings mean\<close>

lemma number_setting_nat:
  "penv name = map_option show_nat n \<Longrightarrow>
   number_setting penv name d = Finite (of_int (case n of Some k \<Rightarrow> int k | None \<Rightarrow> d))"
  by (cases n) (simp_all add: number_setting_def)

lemma server_env:
  assumes "penv ''MOBILE_SESSION_TTL_SECONDS'' = map_option show_nat ttl"
    and "penv ''DESKTOP_RESPONSE_TIMEOUT_MS'' = map_option show_nat timeout"
  shows "handlerEnv (srv_app (server_main penv)) e =
     Some (e\<lparr>env_relayMobileUrl := (case penv ''RELAY_MOBILE_URL'' of Some u \<Rightarrow> u | None \<Rightarrow> ''ws://localhost:8787/v1/ws/mobile''),
             env_mobileSessionTtlMs := Some (case ttl of Some n \<Rightarrow> 1000 * int n | None \<Rightarrow> DEFAULT_MOBILE_SESSION_TTL_MS),
             env_desktopResponseTimeoutMs := Some (case timeout of Some n \<Rightarrow> int n | None \<Rightarrow> DEFAULT_DESKTOP_RESPONSE_TIMEOUT_MS),
             env_logInputText := (penv ''RELAY_LOG_INPUT_TEXT'' = Some ''true''),
             env_logPayloads := (penv ''RELAY_LOG_PAYLOADS'' = Some ''true'')\<rparr>)"
proof -
  define t where "t = (case ttl of Some k \<Rightarrow> int k | None \<Rightarrow> 28800)"
  have "number_setting penv ''MOBILE_SESSION_TTL_SECONDS'' 28800 * Finite 1000 = Finite (of_int (1000 * t))"
    by (simp add: number_setting_nat [where penv = penv and name = "''MOBILE_SESSION_TTL_SECONDS''" and n = ttl, OF assms(1)] t_def)
  moreover have "1000 * t = (case ttl of Some n \<Rightarrow> 1000 * int n | None \<Rightarrow> DEFAULT_MOBILE_SESSION_TTL_MS)"
    by (simp add: t_def DEFAULT_MOBILE_SESSION_TTL_MS_def split: option.split)
  moreover have "number_setting penv ''DESKTOP_RESPONSE_TIMEOUT_MS'' 15000 =
      Finite (of_int (case timeout of Some n \<Rightarrow> int n | None \<Rightarrow> DEFAULT_DESKTOP_RESPONSE_TIMEOUT_MS))"
    by (simp add: number_setting_nat [where penv = penv and name = "''DESKTOP_RESPONSE_TIMEOUT_MS''" and n = timeout, OF assms(2)] DEFAULT_DESKTOP_RESPONSE_TIMEOUT_MS_def split: option.split)
  ultimately show ?thesis
    by (simp add: handlerEnv_def server_main_def startServer_def buildApp_def Let_def integer_option_def
        del: of_int_mult)
qed

lemma server_listens:
  "penv ''PORT'' = map_option show_nat port \<Longrightarrow>
   srv_port (server_main penv) = Finite (of_int (case port of Some n \<Rightarrow> int n | None \<Rightarrow> 8787)) \<and>
   srv_host (server_main penv) = (case penv ''HOST'' of Some h \<Rightarrow> h | None \<Rightarrow> ''0.0.0.0'') \<and>
   app_auditLog (srv_app (server_main penv)) = JsonLogger"
  by (simp add: server_main_def startServer_def Let_def number_setting_nat app_auditLog_def buildApp_def)

end
