(* ===== verification/Relay_Tokens.thy ===== *)
theory Relay_Tokens
  imports Relay_Server Relay_Examples
begin

section \<open>The life of a session token\<close>

text \<open>
  From the variable \<open>MOBILE_SESSION_TTL_SECONDS\<close> to the resumption of a mobile: a token that the relay
  gives to a paired mobile stays in the relay's map through every later event, and is accepted exactly
  until its lifetime has passed.
\<close>

definition session_token :: "string \<Rightarrow> string" where
  "session_token uuid = ''mst_'' @ filter (\<lambda>c. c \<noteq> CHR ''-'') uuid"

text \<open>The identifier drawn in this event is another than the one that gave the token.\<close>

fun fresh_token :: "string \<Rightarrow> relay_event \<Rightarrow> bool" where
  "fresh_token token (MobileMessage e sock raw) = (session_token (env_uuid e) \<noteq> token)"
| "fresh_token token ev = True"

fun clock_until :: "int \<Rightarrow> relay_event \<Rightarrow> bool" where
  "clock_until limit (MobileMessage e sock raw) = (env_now e \<le> limit)"
| "clock_until limit ev = True"

subsection \<open>What changes the table of tokens\<close>

lemma handler_tokens [simp]:
  "mobileSessions (fst (handleMobileForward e s sock raw i m ps t)) = mobileSessions s"
  "mobileSessions (fst (handleDesktopRequest e s sock i m' ps)) = mobileSessions s"
  "mobileSessions (fst (handleDesktopResponse e s sock raw i ok r er t)) = mobileSessions s"
  "mobileSessions (fst (onMobileClose e s sock)) = mobileSessions s"
  "mobileSessions (fst (onDesktopClose e s sock)) = mobileSessions s"
  "mobileSessions (fst (onResponseTimeout e s tm)) = mobileSessions s"
  subgoal by (simp add: handleMobileForward_def addPending_def Let_def split: option.split)
  subgoal by (simp add: handleDesktopRequest_def handleDesktopRegister_def handlePairingCreate_def registerDesktop_def
        createPairing_def Let_def split: sum.split option.split)
  subgoal by (simp add: handleDesktopResponse_def takePending_def Let_def split: option.split)
  subgoal by (simp add: onMobileClose_def unlinkMobileBySocket_def drop_pending_def Let_def split: option.split)
  subgoal by (simp add: onDesktopClose_def removeDesktopBySocket_def removePendingForDesktop_def drop_pending_def
        split: option.split)
  subgoal by (simp add: onResponseTimeout_def fireTimer_def Let_def split: option.split)
  done

lemma pair_tokens:
  "session_token (env_uuid e) \<noteq> token \<Longrightarrow>
   map_of (mobileSessions (fst (handleMobilePair e s sock i ps))) token = map_of (mobileSessions s) token"
  by (simp add: handleMobilePair_def Let_def consumePairing_def issueMobileSession_def linkMobile_def session_token_def
      split: sum.split option.split)

lemma resume_tokens:
  assumes "map_of (mobileSessions s) token = Some m"
  shows "map_of (mobileSessions (fst (handleMobileResume e s sock i ps))) token = Some m \<or>
    map_of (mobileSessions (fst (handleMobileResume e s sock i ps))) token = None \<and> ms_expiresAt m < env_now e"
  using assms by (auto simp: handleMobileResume_def Let_def resumeMobile_def linkMobile_def split: sum.split option.split)

lemma resume_no_token:
  "map_of (mobileSessions s) token = None \<Longrightarrow>
   map_of (mobileSessions (fst (handleMobileResume e s sock i ps))) token = None"
  by (simp add: handleMobileResume_def Let_def resumeMobile_def linkMobile_def split: sum.split option.split)

lemma step_tokens:
  assumes "fresh_token token ev"
  shows "map_of (mobileSessions (relay_step s ev)) token = map_of (mobileSessions s) token \<or>
    (\<exists>m. map_of (mobileSessions s) token = Some m \<and> map_of (mobileSessions (relay_step s ev)) token = None \<and>
       \<not> clock_until (ms_expiresAt m) ev)"
proof (cases ev)
  case (MobileMessage e sock raw)
  have "map_of (mobileSessions (fst (handleMobileResume e s sock i ps))) token = map_of (mobileSessions s) token \<or>
      (\<exists>m. map_of (mobileSessions s) token = Some m \<and>
         map_of (mobileSessions (fst (handleMobileResume e s sock i ps))) token = None \<and> ms_expiresAt m < env_now e)" for i ps
    using resume_tokens [of s token] resume_no_token [of s token] by (cases "map_of (mobileSessions s) token") metis+
  with assms MobileMessage show ?thesis
    by (simp add: relay_step_def handleMobileMessage_def handleMobileRequest_def pair_tokens not_le
        split: parse_result.split wire_message.split)
next
  case (DesktopMessage e sock raw)
  then show ?thesis
    by (simp add: relay_step_def handleDesktopMessage_def split: parse_result.split wire_message.split)
qed (simp_all add: relay_step_def)

text \<open>A token keeps its entry, or is gone after it was presented too late.\<close>

lemma run_tokens:
  assumes "map_of (mobileSessions s) token = Some m" and "list_all (fresh_token token) evs"
  shows "map_of (mobileSessions (relay_run s evs)) token = Some m \<or>
    map_of (mobileSessions (relay_run s evs)) token = None \<and> \<not> list_all (clock_until (ms_expiresAt m)) evs"
proof -
  have gone: "map_of (mobileSessions (relay_run r es)) token = None"
    if "map_of (mobileSessions r) token = None" "list_all (fresh_token token) es" for r es
    using that
  proof (induction es arbitrary: r)
    case (Cons ev es)
    then have "map_of (mobileSessions (relay_step r ev)) token = None"
      using step_tokens [of token ev r] by auto
    with Cons show ?case by simp
  qed simp
  from assms show ?thesis
  proof (induction evs arbitrary: s)
    case (Cons ev evs)
    then show ?case
      using step_tokens [of token ev s] gone [of "relay_step s ev" evs] by auto
  qed simp
qed

subsection \<open>From the setting to the resumption\<close>

text \<open>The answer to a pairing request that carries a token.\<close>

fun token_answer :: "socket \<Rightarrow> string \<Rightarrow> string \<Rightarrow> relay_effect \<Rightarrow> bool" where
  "token_answer sock i token (Send k (Response j ok (Some r) err t)) =
     (k = sock \<and> j = i \<and> ok \<and> map_of r ''mobileSessionToken'' = Some (JStr token))"
| "token_answer sock i token x = False"

lemma token_answer_sends [simp]:
  "\<not> list_ex (token_answer sock i token) (send e k (makeError now j code msg det))"
  "\<not> list_ex (token_answer sock i token) (send e k (makeEvent now n d))"
  "list_ex (token_answer sock i token) (send e k (makeResponse now j r)) \<longleftrightarrow>
     is_open e k \<and> k = sock \<and> j = i \<and> map_of r ''mobileSessionToken'' = Some (JStr token)"
  by (auto simp: send_def is_open_def makeError_def makeEvent_def makeResponse_def split: option.splits)

definition ttl_of :: "relay_env \<Rightarrow> int" where
  "ttl_of e = (case env_mobileSessionTtlMs e of Some t \<Rightarrow> t | None \<Rightarrow> DEFAULT_MOBILE_SESSION_TTL_MS)"

lemma pair_gives_token:
  assumes "list_ex (token_answer sock i token) (fst (snd (handleMobilePair e s sock i ps)))"
    and "env_safeParse e MobilePairParamsSchema (map_option JObj ps) = Inr d"
  shows "map_of (mobileSessions (fst (handleMobilePair e s sock i ps))) token = Some
    \<lparr>ms_desktopId = str_at ''desktopId'' d, ms_mobileDeviceId = md_id (device_at ''mobileDevice'' d),
     ms_expiresAt = env_now e + ttl_of e\<rparr>"
proof (cases "getDesktop (str_at ''desktopId'' d) s")
  case None
  with assms show ?thesis by (simp add: handleMobilePair_def Let_def)
next
  case (Some desk)
  show ?thesis
  proof (cases "snd (consumePairing (str_at ''desktopId'' d) (str_at ''pairingCode'' d) (env_now e) s)")
    case (Inl code)
    with Some assms show ?thesis
      by (cases "consumePairing (str_at ''desktopId'' d) (str_at ''pairingCode'' d) (env_now e) s")
        (simp add: handleMobilePair_def Let_def)
  next
    case (Inr u)
    with Some assms show ?thesis
      by (cases "consumePairing (str_at ''desktopId'' d) (str_at ''pairingCode'' d) (env_now e) s")
        (auto simp: handleMobilePair_def Let_def issueMobileSession_def ttl_of_def linkMobile_def
          split: option.splits)
  qed
qed

lemma resume_accepted:
  "snd (resumeMobile d m token now s) = Inr () \<longleftrightarrow>
     (\<exists>x. map_of (mobileSessions s) token = Some x \<and> ms_desktopId x = d \<and> ms_mobileDeviceId x = m \<and> now \<le> ms_expiresAt x)"
  by (auto simp: resumeMobile_def split: option.split)

lemma server_ttl:
  assumes "penv ''MOBILE_SESSION_TTL_SECONDS'' = map_option show_nat ttl"
    and "handlerEnv (srv_app (server_main penv)) e0 = Some e"
  shows "ttl_of e = 1000 * (case ttl of Some n \<Rightarrow> int n | None \<Rightarrow> 28800)"
proof -
  have "number_setting penv ''MOBILE_SESSION_TTL_SECONDS'' 28800 * Finite 1000 =
      Finite (of_int (1000 * (case ttl of Some n \<Rightarrow> int n | None \<Rightarrow> 28800)))"
    by (simp add: number_setting_nat [where penv = penv and name = "''MOBILE_SESSION_TTL_SECONDS''" and n = ttl, OF assms(1)])
  with assms(2) show ?thesis
    by (auto simp: handlerEnv_def server_main_def startServer_def buildApp_def Let_def integer_option_def ttl_of_def
        simp del: of_int_mult split: option.splits prod.splits)
qed

text \<open>C10: A relay that was started with MOBILE_SESSION_TTL_SECONDS = n (or without it: eight hours) gives every
  mobile that it pairs a token that is accepted for resuming for exactly n seconds, for this mobile and
  this desktop, whatever the relay does in between: never later, and until then unless some attempt to
  resume comes with a clock beyond that time.\<close>

theorem token_lifetime:
  assumes "penv ''MOBILE_SESSION_TTL_SECONDS'' = map_option show_nat ttl"
    and "handlerEnv (srv_app (server_main penv)) e0 = Some e"
    and "list_ex (token_answer sock i token) (fst (snd (handleMobilePair e s sock i ps)))"
    and "env_safeParse e MobilePairParamsSchema (map_option JObj ps) = Inr d"
    and "list_all (fresh_token token) evs"
  shows "(snd (resumeMobile (str_at ''desktopId'' d) (md_id (device_at ''mobileDevice'' d)) token now
            (relay_run (fst (handleMobilePair e s sock i ps)) evs)) = Inr () \<longrightarrow>
          now \<le> env_now e + 1000 * (case ttl of Some n \<Rightarrow> int n | None \<Rightarrow> 28800)) \<and>
         (now \<le> env_now e + 1000 * (case ttl of Some n \<Rightarrow> int n | None \<Rightarrow> 28800) \<and>
          list_all (clock_until (env_now e + 1000 * (case ttl of Some n \<Rightarrow> int n | None \<Rightarrow> 28800))) evs \<longrightarrow>
          snd (resumeMobile (str_at ''desktopId'' d) (md_id (device_at ''mobileDevice'' d)) token now
            (relay_run (fst (handleMobilePair e s sock i ps)) evs)) = Inr ())"
  using run_tokens [OF pair_gives_token [OF assms(3,4)] assms(5)] server_ttl [OF assms(1,2)]
  by (auto simp: resume_accepted)

definition minute_settings :: process_env where
  "minute_settings = (\<lambda>_. None)(''MOBILE_SESSION_TTL_SECONDS'' := Some ''60'')"

definition minute_env :: relay_env where
  "minute_env = env0\<lparr>env_relayMobileUrl := ''ws://localhost:8787/v1/ws/mobile'', env_mobileSessionTtlMs := Some 60000,
     env_desktopResponseTimeoutMs := Some 15000, env_logInputText := False, env_logPayloads := False\<rparr>"

lemma minute_simps:
  "minute_settings ''MOBILE_SESSION_TTL_SECONDS'' = map_option show_nat (Some 60)"
  "handlerEnv (srv_app (server_main minute_settings)) env0 = Some minute_env"
  "env_safeParse minute_env = zod_ref" "env_now minute_env = 0" "env_uuid minute_env = ''u''"
  "env_mobileSessionTtlMs minute_env = Some 60000" "is_open minute_env k"
proof -
  show sixty: "minute_settings ''MOBILE_SESSION_TTL_SECONDS'' = map_option show_nat (Some 60)"
    by code_simp
  have "minute_settings ''DESKTOP_RESPONSE_TIMEOUT_MS'' = map_option show_nat None"
    by (simp add: minute_settings_def)
  from server_env [where penv = minute_settings, OF sixty this]
  show "handlerEnv (srv_app (server_main minute_settings)) env0 = Some minute_env"
    by (simp add: minute_env_def minute_settings_def DEFAULT_DESKTOP_RESPONSE_TIMEOUT_MS_def)
qed (simp_all add: minute_env_def is_open_def)

lemma minute_pairs:
  "list_ex (token_answer 0 ''p'' ''mst_u'') (fst (snd (handleMobilePair minute_env with_code 0 ''p'' (Some pair_params))))"
  by (simp add: handleMobilePair_def minute_simps pair_params_ok consumePairing_def issueMobileSession_def Let_def
      toISOString_def MAX_TIME_def)

theorem token_lifetime_witness:
  "snd (resumeMobile ''d'' ''m'' ''mst_u'' 60000
     (relay_run (fst (handleMobilePair minute_env with_code 0 ''p'' (Some pair_params))) [MobileClosed env0 0])) = Inr () \<and>
   snd (resumeMobile ''d'' ''m'' ''mst_u'' 60001
     (relay_run (fst (handleMobilePair minute_env with_code 0 ''p'' (Some pair_params))) [MobileClosed env0 0])) \<noteq> Inr ()"
proof -
  have device: "md_id (device_at ''mobileDevice'' (JObj pair_params)) = ''m''"
    by (simp add: device_at_def as_device_def pair_params_def str_at_def)
  note lifetime = token_lifetime [OF minute_simps(1,2) minute_pairs, where d = "JObj pair_params" and evs = "[MobileClosed env0 0]"]
  show ?thesis
    using lifetime [where now = 60000] lifetime [where now = 60001]
    by (simp add: minute_simps pair_params_ok device)
qed

text \<open>A setting that is no number is not rejected: the lifetime is not a number.  With an empty setting
  the lifetime is zero.\<close>

theorem bad_setting_accepted:
  "ro_mobileSessionTtlMs (app_options (srv_app (server_main (minute_settings(''MOBILE_SESSION_TTL_SECONDS'' := Some ''8h''))))) = Some NaN"
  "map_option ttl_of (handlerEnv (srv_app (server_main (minute_settings(''MOBILE_SESSION_TTL_SECONDS'' := Some [])))) e) = Some 0"
  by (simp_all add: server_main_def startServer_def buildApp_def Let_def number_setting_def number_literals times_js_number_def
      minute_settings_def handlerEnv_def integer_option_def ttl_of_def DEFAULT_DESKTOP_RESPONSE_TIMEOUT_MS_def)

end
