(* ===== verification/End_To_End_Pairing.thy ===== *)
theory End_To_End_Pairing
  imports Relay_Tokens Mobile_Runtime
begin

section \<open>Pairing, from the desktop's code to the phone's profile\<close>

text \<open>
  The relay's \<open>desktop.pairing.create\<close>, the app's reading of the QR code (\<open>parseQrPairingRequest\<close>), the
  message of the runtime's \<open>pair\<close>, the relay's \<open>mobile.pair\<close> and the app's \<open>buildPairingProfile\<close>, put
  together: each is the definition of its own theory, and what one sends is what the next receives.
\<close>

subsection \<open>The message of the app\<close>

definition pair_message :: "transport_request \<Rightarrow> jobj" where
  "pair_message req = [
     (''desktopId'', JStr (tr_desktopId req)),
     (''pairingCode'', JStr (tr_pairingCode req)),
     (''mobileDevice'', tr_mobileDevice req),
     (''offeredCapabilities'', JArr [JStr ''interaction.structured''])]"

lemma pair_message_sent:
  "find_pair n s = Some c \<Longrightarrow> pc_stage c = PairConnecting \<Longrightarrow>
   snd (pairAnswered n answer s) = [PairingSend n ''mobile.pair'' (pair_message (pc_request c))]"
  by (simp add: pairAnswered_def pair_message_def)

definition transport_of :: "pairing_request \<Rightarrow> json \<Rightarrow> transport_request" where
  "transport_of req device = \<lparr>tr_relayWsUrl = prq_relayWsUrl req, tr_desktopId = prq_desktopId req,
     tr_pairingCode = prq_pairingCode req, tr_mobileDevice = device\<rparr>"

lemma pair_message_conforms:
  "conforms MobileDeviceSchema device \<Longrightarrow>
   conforms MobilePairParamsSchema (JObj (pair_message (transport_of req device)))"
  by (simp add: MobilePairParamsSchema_def pair_message_def transport_of_def del: conforms.simps(9))
    (simp add: MobileDeviceSchema_def)

subsection \<open>The code of the relay\<close>

lemma code_digits: "list_all is_digit (generatePairingCode n)" "generatePairingCode n \<noteq> []"
  using show_nat_digits [of n] is_digit_digit [of 0] by (auto simp: generatePairingCode_def pad_start_def list_all_iff)

lemma code_trimmed: "js_trim (generatePairingCode n) = generatePairingCode n"
proof -
  have "is_digit (hd (generatePairingCode n))" "is_digit (last (generatePairingCode n))"
    using code_digits [of n] by (simp_all add: list_all_iff)
  then show ?thesis by (intro js_trim_fixed) (simp add: digit_chars(1))
qed

text \<open>The QR payload in the answer to \<open>desktop.pairing.create\<close>.\<close>

fun qr_answer :: "socket \<Rightarrow> string \<Rightarrow> json \<Rightarrow> relay_effect \<Rightarrow> bool" where
  "qr_answer sock i qr (Send k (Response j ok (Some r) err t)) =
     (k = sock \<and> j = i \<and> ok \<and> map_of r ''qrPayload'' = Some qr)"
| "qr_answer sock i qr x = False"

lemma qr_answer_sends [simp]:
  "\<not> list_ex (qr_answer sock i qr) (send e k (makeError now j code msg det))"
  "list_ex (qr_answer sock i qr) (send e k (makeResponse now j r)) \<longleftrightarrow>
     is_open e k \<and> k = sock \<and> j = i \<and> map_of r ''qrPayload'' = Some qr"
  by (auto simp: send_def is_open_def makeError_def makeResponse_def split: option.splits)

lemma create_gives_qr:
  assumes "list_ex (qr_answer sock i qr) (fst (snd (handlePairingCreate e s sock i ps)))"
  obtains n expiresAt p where
    "qr = JObj [(''relayUrl'', JStr (env_relayMobileUrl e)), (''desktopId'', JStr (findDesktopId s sock)),
       (''pairingCode'', JStr (generatePairingCode n)), (''expiresAt'', JStr expiresAt)]"
    "map_of (pairings (fst (handlePairingCreate e s sock i ps))) (generatePairingCode n) = Some p"
    "pr_desktopId p = findDesktopId s sock" "findDesktopId s sock \<noteq> []"
proof -
  from assms obtain d where d: "env_safeParse e DesktopPairingCreateParamsSchema (map_option JObj ps) = Inr d"
    by (cases "env_safeParse e DesktopPairingCreateParamsSchema (map_option JObj ps)") (auto simp: handlePairingCreate_def)
  from assms d have ne: "findDesktopId s sock \<noteq> []" by (auto simp: handlePairingCreate_def Let_def)
  obtain s1 res where c: "createPairing (findDesktopId s sock) (num_at ''ttlSeconds'' d) (env_relayMobileUrl e) (env_now e)
      (env_draws e) s = (s1, res)" by (metis prod.exhaust)
  with assms d ne obtain code expiresAt q where res: "res = Created code expiresAt q"
    by (cases res) (auto simp: handlePairingCreate_def Let_def)
  with c obtain n where code: "code = generatePairingCode n"
    and q: "q = \<lparr>qr_relayUrl = env_relayMobileUrl e, qr_desktopId = findDesktopId s sock, qr_pairingCode = code,
      qr_expiresAt = expiresAt\<rparr>"
    and p: "map_of (pairings s1) code = Some \<lparr>pr_desktopId = findDesktopId s sock,
      pr_expiresAt = env_now e + num_at ''ttlSeconds'' d * 1000\<rparr>"
    by (auto simp: createPairing_def Let_def dest: draw_code_Some split: option.splits)
  show thesis
    using assms d ne c p by (intro that) (auto simp: handlePairingCreate_def Let_def res q code)
qed

subsection \<open>The whole way\<close>

lemma scan_reads:
  assumes "zod_contract sp" and "jparse raw = Some (JObj [(''relayUrl'', JStr u), (''desktopId'', JStr d),
      (''pairingCode'', JStr c), (''expiresAt'', JStr x)])"
    and "relayUrlError url u = None" and "js_trim u = u" and "js_trim d = d" and "d \<noteq> []" and "js_trim c = c" and "c \<noteq> []"
  shows "parseQrPairingRequest sp url jparse raw = Inr \<lparr>prq_relayWsUrl = u, prq_desktopId = d, prq_pairingCode = c\<rparr>"
  using assms(2-)
  by (simp add: parseQrPairingRequest_def zod_contract.accepts [OF assms(1)] QrPayloadSchema_def
      validateManualPairingRequest_def Let_def)

lemma stripped_params:
  assumes "conforms MobileDeviceSchema device"
  shows "\<exists>v. strip_unknown MobilePairParamsSchema (JObj (pair_message (transport_of req device))) = v \<and>
    str_at ''desktopId'' v = prq_desktopId req \<and> str_at ''pairingCode'' v = prq_pairingCode req \<and>
    md_id (device_at ''mobileDevice'' v) = str_at ''id'' device"
proof -
  from assms obtain m i where "device = JObj m" and "map_of m ''id'' = Some (JStr i)"
    by (auto simp: MobileDeviceSchema_def split: json.splits option.splits)
  with assms show ?thesis
    by (simp add: MobilePairParamsSchema_def pair_message_def transport_of_def device_at_def as_device_def str_at_def
        MobileDeviceSchema_def MobilePlatformSchema_def)
qed

text \<open>What the relay answers to the app's message while the code lives.\<close>

definition pair_result :: "relay_env \<Rightarrow> desktop_conn \<Rightarrow> string \<Rightarrow> json \<Rightarrow> jobj" where
  "pair_result e desk expiresAt capabilities = [
     (''desktopId'', JStr (dc_desktopId desk)), (''desktopName'', JStr (dc_name desk)), (''paired'', JBool True),
     (''mobileSessionToken'', JStr (session_token (env_uuid e))), (''mobileSessionExpiresAt'', JStr expiresAt),
     (''negotiatedCapabilities'', capabilities)]"

lemma relay_pairs:
  assumes "zod_contract (env_safeParse e)" and device: "conforms MobileDeviceSchema device"
    and "getDesktop (prq_desktopId req) s = Some desk"
    and "map_of (pairings s) (prq_pairingCode req) = Some p" and "pr_desktopId p = prq_desktopId req"
    and "env_now e \<le> pr_expiresAt p" and "toISOString (env_now e + ttl_of e) = Some x" and "is_open e phone"
  shows "\<exists>xs. Send phone (makeResponse (env_now e) i (pair_result e desk x (strs xs)))
    \<in> set (fst (snd (handleMobilePair e s phone i (Some (pair_message (transport_of req device))))))"
proof -
  obtain v where v: "strip_unknown MobilePairParamsSchema (JObj (pair_message (transport_of req device))) = v"
    "str_at ''desktopId'' v = prq_desktopId req" "str_at ''pairingCode'' v = prq_pairingCode req"
    "md_id (device_at ''mobileDevice'' v) = str_at ''id'' device"
    using stripped_params [OF device] by blast
  have "env_safeParse e MobilePairParamsSchema (Some (JObj (pair_message (transport_of req device)))) = Inr v"
    using zod_contract.accepts [OF assms(1) pair_message_conforms [OF device]] v(1) by simp
  moreover have "send e phone m = [Send phone m]" for m
    using assms(8) by (auto simp: send_def is_open_def split: option.splits)
  moreover have "toISOString (env_now e + (case env_mobileSessionTtlMs e of Some t \<Rightarrow> t | None \<Rightarrow> DEFAULT_MOBILE_SESSION_TTL_MS)) = Some x"
    using assms(7) by (simp add: ttl_of_def)
  ultimately show ?thesis
    using assms(3-6) v by (auto simp: handleMobilePair_def Let_def consumePairing_def issueMobileSession_def session_token_def
        pair_result_def)
qed

lemma iso_nonempty: "toISOString t = Some x \<Longrightarrow> x \<noteq> []"
  by (auto simp: toISOString_def iso_string_def Let_def split: if_splits prod.splits)

lemma strs_conform: "conforms (ZArray ZString) (strs xs)"
  by (simp add: strs_def list_all_iff)

lemma phone_builds:
  assumes "zod_contract sp" and device: "conforms MobileDeviceSchema device"
    and "str_at ''id'' device \<noteq> []" and "str_at ''name'' device \<noteq> []"
    and "validateManualPairingRequest url req = Inr v"
    and "dc_desktopId desk = prq_desktopId req" and "prq_desktopId req \<noteq> []" and "dc_name desk \<noteq> []" and "x \<noteq> []"
  shows "\<exists>p. buildPairingProfile sp url req device (JObj (pair_result e desk x (strs xs))) = Inr p \<and>
    pp_desktopId p = prq_desktopId req \<and> pp_desktopName p = dc_name desk \<and> pp_mobileDeviceId p = str_at ''id'' device \<and>
    pp_mobileSessionToken p = session_token (env_uuid e) \<and> pp_mobileSessionExpiresAt p = x \<and>
    pp_relayWsUrl p = prq_relayWsUrl v"
proof -
  from device obtain m i n pl where dev: "device = JObj m" and f: "map_of m ''id'' = Some (JStr i)" "map_of m ''name'' = Some (JStr n)"
    "map_of m ''platform'' = Some (JStr pl)" "pl \<in> {''ios'', ''android'', ''unknown''}"
    by (auto simp: MobileDeviceSchema_def MobilePlatformSchema_def split: json.splits option.splits)
  have "sp MobileDeviceSchema (Some device) = Inr (JObj [(''id'', JStr i), (''name'', JStr n), (''platform'', JStr pl)])"
    using zod_contract.accepts [OF assms(1) device] f
    by (simp add: dev MobileDeviceSchema_def MobilePlatformSchema_def)
  moreover have "conforms MobilePairResultSchema (JObj (pair_result e desk x (strs xs)))"
    using strs_conform [of xs] by (simp add: MobilePairResultSchema_def pair_result_def del: conforms.simps(7))
  then have "\<exists>res. sp MobilePairResultSchema (Some (JObj (pair_result e desk x (strs xs)))) = Inr res \<and>
      str_at ''desktopId'' res = dc_desktopId desk \<and> str_at ''desktopName'' res = dc_name desk \<and>
      str_at ''mobileSessionToken'' res = session_token (env_uuid e) \<and> str_at ''mobileSessionExpiresAt'' res = x"
    by (simp add: zod_contract.accepts [OF assms(1)])
      (simp add: MobilePairResultSchema_def pair_result_def str_at_def)
  moreover have "relayUrlError url (prq_relayWsUrl v) = None" "prq_relayWsUrl v \<noteq> []"
    using validate_ok [OF assms(5)] url_ok_nonempty by blast+
  moreover have "session_token u \<noteq> []" for u by (simp add: session_token_def)
  ultimately show ?thesis
    using assms(3-) f dev
    by (auto simp: buildPairingProfile_def parsePairingProfile_def profileKeys_def as_profile_def str_at_def)
qed


subsection \<open>Where the way is blocked\<close>

text \<open>The app trims the identifier that it has scanned, the relay compares it as it is: a desktop whose
  identifier starts or ends with white space cannot be paired by its QR code.\<close>

theorem padded_identifier_offline:
  assumes zod: "zod_contract sp" "zod_contract (env_safeParse e2)"
    and created: "list_ex (qr_answer k i1 qr) (fst (snd (handlePairingCreate e1 s k i1 ps)))"
    and scanned: "jparse raw = Some qr"
    and address: "relayUrlError url (env_relayMobileUrl e1) = None" "js_trim (env_relayMobileUrl e1) = env_relayMobileUrl e1"
    and padded: "js_trim (findDesktopId s k) \<noteq> []" "getDesktop (js_trim (findDesktopId s k)) s2 = None"
    and device: "conforms MobileDeviceSchema device" and open_phone: "is_open e2 phone"
  shows "\<exists>req. parseQrPairingRequest sp url jparse raw = Inr req \<and>
    handleMobilePair e2 s2 phone i2 (Some (pair_message (transport_of req device))) =
      (s2, [Send phone (makeError (env_now e2) i2 DESKTOP_OFFLINE ''desktop is offline'' None)], Returned)"
proof -
  obtain n t where qr: "qr = JObj [(''relayUrl'', JStr (env_relayMobileUrl e1)), (''desktopId'', JStr (findDesktopId s k)),
       (''pairingCode'', JStr (generatePairingCode n)), (''expiresAt'', JStr t)]"
    using create_gives_qr [OF created] by blast
  define req where "req = \<lparr>prq_relayWsUrl = env_relayMobileUrl e1, prq_desktopId = js_trim (findDesktopId s k),
    prq_pairingCode = generatePairingCode n\<rparr>"
  have "parseQrPairingRequest sp url jparse raw = Inr req"
    using address padded(1) code_digits(2) [of n]
    by (simp add: parseQrPairingRequest_def scanned qr zod_contract.accepts [OF zod(1)] QrPayloadSchema_def
        validateManualPairingRequest_def Let_def req_def code_trimmed)
  moreover obtain v where "env_safeParse e2 MobilePairParamsSchema (Some (JObj (pair_message (transport_of req device)))) = Inr v"
    "str_at ''desktopId'' v = prq_desktopId req"
    using stripped_params [OF device] zod_contract.accepts [OF zod(2) pair_message_conforms [OF device]] by metis
  moreover have "send e2 phone m = [Send phone m]" for m
    using open_phone by (auto simp: send_def is_open_def split: option.splits)
  ultimately show ?thesis
    using padded(2) by (auto simp: handleMobilePair_def Let_def req_def)
qed

text \<open>A desktop without a name may register, but no profile is built from the result of pairing with it:
  the code is used up and the phone is linked, yet the app reports a failure.\<close>

theorem nameless_desktop_rejected:
  assumes "zod_contract sp" and device: "conforms MobileDeviceSchema device"
    and "validateManualPairingRequest url req = Inr v"
    and "dc_desktopId desk = prq_desktopId req" and "dc_name desk = []"
  shows "\<exists>err. buildPairingProfile sp url req device (JObj (pair_result e desk x (strs xs))) = Inl err"
proof (cases "buildPairingProfile sp url req device (JObj (pair_result e desk x (strs xs)))")
  case (Inr p)
  have "conforms MobilePairResultSchema (JObj (pair_result e desk x (strs xs)))"
    using strs_conform [of xs] by (simp add: MobilePairResultSchema_def pair_result_def del: conforms.simps(7))
  then have "\<exists>res. sp MobilePairResultSchema (Some (JObj (pair_result e desk x (strs xs)))) = Inr res \<and>
      str_at ''desktopName'' res = dc_name desk"
    by (simp add: zod_contract.accepts [OF assms(1)])
      (simp add: MobilePairResultSchema_def pair_result_def str_at_def)
  with Inr assms(5) have False
    by (auto simp: buildPairingProfile_def parsePairingProfile_def profileKeys_def split: sum.splits if_splits)
  then show ?thesis ..
qed auto

subsection \<open>A code that is scanned\<close>

definition local_url :: url_parser where
  "local_url v = Some (''localhost'', ''/v1/ws/mobile'')"

definition minute_qr :: json where
  "minute_qr = JObj [(''relayUrl'', JStr ''ws://localhost:8787/v1/ws/mobile''), (''desktopId'', JStr ''d''),
     (''pairingCode'', JStr (generatePairingCode 7)), (''expiresAt'', JStr (iso_string 60000))]"

definition plain_device :: json where
  "plain_device = JObj [(''id'', JStr ''m''), (''name'', JStr ''x''), (''platform'', JStr ''ios'')]"

lemma minute_code: "generatePairingCode 7 = ''000007''"
  by code_simp

lemma with_code_inv: "relay_inv with_code"
  by (simp add: world relay_inv_def desktops_ok_def pairings_ok_def links_ok_def pending_ok_def)

lemma minute_creates:
  "fst (handlePairingCreate minute_env registered 1 ''b'' (Some [(''ttlSeconds'', JNum 60)])) = with_code"
  "list_ex (qr_answer 1 ''b'' minute_qr) (fst (snd (handlePairingCreate minute_env registered 1 ''b'' (Some [(''ttlSeconds'', JNum 60)]))))"
proof -
  have url: "env_relayMobileUrl minute_env = ''ws://localhost:8787/v1/ws/mobile''" and draws: "env_draws minute_env = [7]"
    by (simp_all add: minute_env_def)
  have "findDesktopId registered 1 = ''d''" by (simp add: findDesktopId_def world)
  moreover have "createPairing ''d'' 60 ''ws://localhost:8787/v1/ws/mobile'' 0 [7] registered =
      (with_code, Created ''000007'' (iso_string 60000) \<lparr>qr_relayUrl = ''ws://localhost:8787/v1/ws/mobile'', qr_desktopId = ''d'',
         qr_pairingCode = ''000007'', qr_expiresAt = iso_string 60000\<rparr>)"
    by (simp add: createPairing_def world Let_def minute_code toISOString_def MAX_TIME_def)
  ultimately show "fst (handlePairingCreate minute_env registered 1 ''b'' (Some [(''ttlSeconds'', JNum 60)])) = with_code"
    "list_ex (qr_answer 1 ''b'' minute_qr) (fst (snd (handlePairingCreate minute_env registered 1 ''b'' (Some [(''ttlSeconds'', JNum 60)]))))"
    by (simp_all add: handlePairingCreate_def minute_simps zod_ref_def DesktopPairingCreateParamsSchema_def num_at_def Let_def
        url draws minute_qr_def minute_code)
qed


end
