(* ===== verification/Dev_Scripts.thy ===== *)
theory Dev_Scripts
  imports Envelope Mobile_Buffers
begin

section \<open>The relay's development scripts (apps/relay/scripts)\<close>

text \<open>
  \<open>fake-desktop.ts\<close> and \<open>fake-mobile.ts\<close> talk to a relay without a desktop or a phone.  They read the
  messages that they receive without checking them, so every read of a property can raise
  \<open>TypeError\<close>, which ends the process.  A callback is a sequence of blocks; a block takes the state and
  gives the new one, what it did, and the error that it raised, if any.
\<close>

subsection \<open>Unchecked values\<close>

datatype script_error = TypeError

text \<open>\<open>v.k\<close>, for a name that no prototype has.\<close>

fun read_prop :: "string \<Rightarrow> json option \<Rightarrow> script_error + json option" where
  "read_prop k None = Inl TypeError"
| "read_prop k (Some v) = (if v = JNull then Inl TypeError else Inr (prop_of k v))"

fun read_path :: "string list \<Rightarrow> json option \<Rightarrow> script_error + json option" where
  "read_path [] v = Inr v"
| "read_path (k # ks) v = (case read_prop k v of Inl t \<Rightarrow> Inl t | Inr w \<Rightarrow> read_path ks w)"

fun truthy :: "json option \<Rightarrow> bool" where
  "truthy None = False"
| "truthy (Some (JBool b)) = b"
| "truthy (Some (JNum n)) = (n \<noteq> 0)"
| "truthy (Some (JStr s)) = (s \<noteq> [])"
| "truthy (Some JNull) = False"
| "truthy (Some v) = True"

text \<open>\<open>`${v}`\<close>; inside an array, \<open>null\<close> is the empty text.\<close>

definition join_with :: "string \<Rightarrow> string list \<Rightarrow> string" where
  "join_with sep xs = concat (case xs of [] \<Rightarrow> [] | x # ys \<Rightarrow> x # map (\<lambda>y. sep @ y) ys)"

fun json_text :: "json \<Rightarrow> string" where
  "json_text JNull = ''null''"
| "json_text (JBool b) = (if b then ''true'' else ''false'')"
| "json_text (JNum n) = show_int n"
| "json_text (JStr s) = s"
| "json_text (JArr xs) = join_with '','' (map (\<lambda>x. if x = JNull then [] else json_text x) xs)"
| "json_text (JObj m) = ''[object Object]''"

definition js_text :: "json option \<Rightarrow> string" where
  "js_text v = (case v of None \<Rightarrow> ''undefined'' | Some j \<Rightarrow> json_text j)"

text \<open>\<open>v.join(",")\<close>: only arrays have the method.\<close>

fun joined :: "json option \<Rightarrow> script_error + string" where
  "joined (Some (JArr xs)) = Inr (json_text (JArr xs))"
| "joined v = Inl TypeError"

subsection \<open>Blocks\<close>

datatype script_effect =
    SendJson json
  | ConsoleLog "json option list"
  | ConsoleError "json option list"
  | StdoutWrite string
  | SetInterval nat int
  | ClearInterval nat
  | SetTimeout nat int
  | ExitProcess int

type_synonym 's block = "'s \<Rightarrow> 's \<times> script_effect list \<times> script_error option"

definition skip_block :: "'s block" where
  "skip_block s = (s, [], None)"

definition does :: "script_effect list \<Rightarrow> 's block" where
  "does es s = (s, es, None)"

definition then_do :: "'s block \<Rightarrow> 's block \<Rightarrow> 's block" where
  "then_do f g s =
     (case f s of
        (s1, e1, Some t) \<Rightarrow> (s1, e1, Some t)
      | (s1, e1, None) \<Rightarrow> (case g s1 of (s2, e2, r) \<Rightarrow> (s2, e1 @ e2, r)))"

definition reading :: "(script_error + 'a) \<Rightarrow> ('a \<Rightarrow> 's block) \<Rightarrow> 's block" where
  "reading r k s = (case r of Inl t \<Rightarrow> (s, [], Some t) | Inr v \<Rightarrow> k v s)"

definition when_do :: "bool \<Rightarrow> 's block \<Rightarrow> 's block" where
  "when_do b f = (if b then f else skip_block)"

definition in_order :: "'s block list \<Rightarrow> 's block" where
  "in_order bs = foldr then_do bs skip_block"

lemma in_order_simps [simp]:
  "in_order [] = skip_block"
  "in_order (b # bs) = then_do b (in_order bs)"
  by (simp_all add: in_order_def)

abbreviation text_value :: "string \<Rightarrow> json option" where
  "text_value s \<equiv> Some (JStr s)"

text \<open>\<open>m.kind === "request" && m.method === name\<close>, and the same for events, for a value that is not
  \<open>null\<close>.\<close>

definition asks_for :: "string \<Rightarrow> json \<Rightarrow> bool" where
  "asks_for name m \<longleftrightarrow> prop_of ''kind'' m = text_value ''request'' \<and> prop_of ''method'' m = text_value name"

definition reports :: "string \<Rightarrow> json \<Rightarrow> bool" where
  "reports name m \<longleftrightarrow> prop_of ''kind'' m = text_value ''event'' \<and> prop_of ''event'' m = text_value name"

text \<open>\<open>send(msg)\<close> of both scripts: the version and the time, then the message's own fields;
  \<open>JSON.stringify\<close> leaves out fields that are \<open>undefined\<close>.\<close>

record script_env =
  sc_now :: int
  sc_desktopId :: "string option"
  sc_platform :: string
  sc_cwd :: string
  sc_code :: "string option"
  sc_choice :: "string option"

definition script_send :: "script_env \<Rightarrow> jobj \<Rightarrow> script_effect" where
  "script_send e msg = SendJson (JObj ([(''version'', JStr ''2026-07-11''), (''sentAt'', JStr (iso_string (sc_now e)))] @ msg))"

definition DESKTOP_ID :: "script_env \<Rightarrow> string" where
  "DESKTOP_ID e = (case sc_desktopId e of Some d \<Rightarrow> d | None \<Rightarrow> ''desk_demo'')"

subsection \<open>fake-desktop.ts\<close>

record fake_desktop =
  fd_seq :: int
  fd_intervals :: "nat list"
  fd_timeouts :: "nat list"
  fd_next :: nat

definition initial_fake_desktop :: fake_desktop where
  "initial_fake_desktop = \<lparr>fd_seq = 0, fd_intervals = [], fd_timeouts = [], fd_next = 0\<rparr>"

definition demo_session :: "script_env \<Rightarrow> json" where
  "demo_session e = JObj [
     (''id'', JStr ''sess_1''), (''agent'', JStr ''claude''), (''title'', JStr (''Claude '' @ [CHR 0xB7] @ '' demo'')),
     (''command'', JStr ''claude''), (''argv'', JArr []), (''cwd'', JStr (sc_cwd e)), (''status'', JStr ''running''),
     (''createdAt'', JStr (iso_string (sc_now e))), (''lastActivityAt'', JStr (iso_string (sc_now e)))]"

definition respond_ok :: "script_env \<Rightarrow> json \<Rightarrow> jobj \<Rightarrow> script_effect" where
  "respond_ok e m result =
     script_send e ([(''kind'', JStr ''response'')] @ opt_field ''id'' (prop_of ''id'' m) @
       [(''ok'', JBool True), (''result'', JObj result)])"

definition CRLF :: string where
  "CRLF = [CHR 0x0D, CHR 0x0A]"

text \<open>\<open>seq += 1\<close> and the output that carries the new number.\<close>

definition fd_output :: "script_env \<Rightarrow> (int \<Rightarrow> string) \<Rightarrow> fake_desktop block" where
  "fd_output e line s =
     (let n = fd_seq s + 1
      in (s\<lparr>fd_seq := n\<rparr>,
          [script_send e [(''kind'', JStr ''event''), (''event'', JStr ''terminal.output''),
             (''data'', JObj [(''sessionId'', JStr ''sess_1''), (''seq'', JNum n), (''data'', JStr (line n))])]],
          None))"

definition fdOpen :: "script_env \<Rightarrow> fake_desktop block" where
  "fdOpen e = does [
     script_send e [(''kind'', JStr ''request''), (''id'', JStr ''d1''), (''method'', JStr ''desktop.register''),
       (''params'', JObj [(''desktopId'', JStr (DESKTOP_ID e)), (''desktopName'', JStr ''Fake Desktop''),
          (''platform'', JStr (sc_platform e)), (''appVersion'', JStr ''0.1.0'')])],
     script_send e [(''kind'', JStr ''request''), (''id'', JStr ''d2''), (''method'', JStr ''desktop.pairing.create''),
       (''params'', JObj [(''ttlSeconds'', JNum 300)])]]"

definition fdPairingCode :: "json \<Rightarrow> fake_desktop block" where
  "fdPairingCode m =
     reading (read_prop ''id'' (Some m)) (\<lambda>i.
       when_do (i = text_value ''d2'' \<and> truthy (prop_of ''ok'' m)) (in_order [
         reading (read_path [''result'', ''pairingCode''] (Some m)) (\<lambda>code.
           does [ConsoleLog [text_value ''PAIRING CODE:'', code]]),
         reading (read_path [''result'', ''qrPayload''] (Some m)) (\<lambda>qr.
           does [ConsoleLog [text_value ''QR PAYLOAD:'', qr]])]))"

definition fdPaired :: "json \<Rightarrow> fake_desktop block" where
  "fdPaired m =
     when_do (reports ''mobile.paired'' m)
       (reading (read_path [''data'', ''mobileDevice'', ''name''] (Some m)) (\<lambda>name.
          does [ConsoleLog [text_value ''mobile paired:'', name]]))"

definition fdList :: "script_env \<Rightarrow> json \<Rightarrow> fake_desktop block" where
  "fdList e m =
     when_do (asks_for ''session.list'' m) (does [respond_ok e m [(''sessions'', JArr [demo_session e])]])"

definition fdSubscribe :: "script_env \<Rightarrow> json \<Rightarrow> fake_desktop block" where
  "fdSubscribe e m =
     when_do (asks_for ''session.subscribe'' m) (\<lambda>s.
       (let i = fd_next s; t = Suc i
        in (s\<lparr>fd_intervals := i # fd_intervals s, fd_timeouts := t # fd_timeouts s, fd_next := Suc t\<rparr>,
            [respond_ok e m [(''session'', demo_session e), (''mode'', JStr ''live'')],
             SetInterval i 1000, SetTimeout t 2500],
            None)))"

definition fdTick :: "script_env \<Rightarrow> nat \<Rightarrow> fake_desktop block" where
  "fdTick e i s =
     (if i \<notin> set (fd_intervals s) then skip_block s
      else then_do (fd_output e (\<lambda>n. ''tick '' @ show_int n @ CRLF))
             (\<lambda>s. if 5 \<le> fd_seq s then (s\<lparr>fd_intervals := removeAll i (fd_intervals s)\<rparr>, [ClearInterval i], None)
                  else skip_block s) s)"

definition demo_option :: "string \<Rightarrow> string \<Rightarrow> string \<Rightarrow> json" where
  "demo_option i label intent = JObj [(''id'', JStr i), (''label'', JStr label), (''intent'', JStr intent)]"

definition demo_interaction :: "script_env \<Rightarrow> int \<Rightarrow> json" where
  "demo_interaction e n = JObj [
     (''id'', JStr ''int_demo''), (''sessionId'', JStr ''sess_1''), (''kind'', JStr ''approval''),
     (''prompt'', JStr ''Allow Claude to run npm test?''), (''details'', JStr ''npm test''),
     (''options'', JArr [
        demo_option ''approve_once'' ''Allow once'' ''approveOnce'',
        demo_option ''approve_session'' ''Allow for session'' ''approveSession'',
        demo_option ''reject'' ''Reject'' ''reject'']),
     (''allowsText'', JBool True), (''allowsTerminalInput'', JBool True),
     (''createdAt'', JStr (iso_string (sc_now e))), (''terminalSeq'', JNum n)]"

definition fdPrompt :: "script_env \<Rightarrow> nat \<Rightarrow> fake_desktop block" where
  "fdPrompt e t s =
     (if t \<notin> set (fd_timeouts s) then skip_block s
      else then_do (fd_output e (\<lambda>n. ''Allow Claude to run `npm test`? [y/n]'' @ CRLF))
             (\<lambda>s. does [script_send e [(''kind'', JStr ''event''), (''event'', JStr ''interaction.requested''),
                      (''data'', JObj [(''interaction'', demo_interaction e (fd_seq s))])]] s)
             (s\<lparr>fd_timeouts := removeAll t (fd_timeouts s)\<rparr>))"

text \<open>The answer to an interaction.  \<open>m.params.response\<close> and its type have been read when the result
  is sent.\<close>

definition fdRespond :: "script_env \<Rightarrow> json \<Rightarrow> fake_desktop block" where
  "fdRespond e m =
     when_do (asks_for ''interaction.respond'' m)
       (reading (read_path [''params'', ''response''] (Some m)) (\<lambda>r.
        reading (read_prop ''type'' r) (\<lambda>type.
        reading (if type = text_value ''options''
                 then (case read_prop ''optionIds'' r of Inl t \<Rightarrow> Inl t | Inr ids \<Rightarrow> joined ids)
                 else Inr (js_text type)) (\<lambda>picked.
        reading (read_path [''params'', ''interactionId''] (Some m)) (\<lambda>interactionId.
        reading (read_path [''params'', ''sessionId''] (Some m)) (\<lambda>sessionId.
        reading (read_prop ''optionIds'' r) (\<lambda>optionIds.
          in_order [
            does [ConsoleLog [text_value ''interaction response from mobile:'', r],
                  respond_ok e m [(''accepted'', JBool True)]],
            fd_output e (\<lambda>n. ''> '' @ picked @ CRLF),
            does [script_send e [(''kind'', JStr ''event''), (''event'', JStr ''interaction.resolved''),
              (''data'', JObj (opt_field ''interactionId'' interactionId @ opt_field ''sessionId'' sessionId @
                 [(''resolution'', JStr (if type = text_value ''cancel'' then ''cancelled'' else ''answered''))] @
                 (if type = text_value ''options'' then opt_field ''optionIds'' optionIds else []) @
                 [(''resolvedAt'', JStr (iso_string (sc_now e)))]))]]])))))))"

definition fdInput :: "script_env \<Rightarrow> json \<Rightarrow> fake_desktop block" where
  "fdInput e m =
     when_do (asks_for ''session.input'' m)
       (reading (read_path [''params'', ''data''] (Some m)) (\<lambda>input.
          in_order [
            does [ConsoleLog [text_value ''input from mobile:'', input], respond_ok e m [(''accepted'', JBool True)]],
            fd_output e (\<lambda>n. ''echo: '' @ js_text input)]))"

definition fdInterrupt :: "script_env \<Rightarrow> json \<Rightarrow> fake_desktop block" where
  "fdInterrupt e m =
     when_do (asks_for ''session.interrupt'' m) (does [respond_ok e m [(''interrupted'', JBool True)]])"

definition fdMessage :: "script_env \<Rightarrow> json \<Rightarrow> fake_desktop block" where
  "fdMessage e m = in_order [fdPairingCode m, fdPaired m, fdList e m, fdSubscribe e m, fdRespond e m, fdInput e m, fdInterrupt e m]"

datatype fake_desktop_input =
    FdOpened
  | FdMessage json
  | FdTick nat
  | FdPrompt nat
  | FdClosed

fun fd_react :: "script_env \<times> fake_desktop_input \<Rightarrow> fake_desktop block" where
  "fd_react (e, FdOpened) = fdOpen e"
| "fd_react (e, FdMessage m) = fdMessage e m"
| "fd_react (e, FdTick i) = fdTick e i"
| "fd_react (e, FdPrompt t) = fdPrompt e t"
| "fd_react (e, FdClosed) = does [ConsoleLog [text_value ''desktop socket closed'']]"

text \<open>A run of the process, up to the first error.\<close>

definition fd_run :: "(script_env \<times> fake_desktop_input) list \<Rightarrow> fake_desktop block" where
  "fd_run inputs = in_order (map fd_react inputs)"

subsection \<open>The numbers of the outputs\<close>

fun output_chunk :: "script_effect \<Rightarrow> terminal_chunk option" where
  "output_chunk (SendJson v) =
     (if reports ''terminal.output'' v
      then (case prop_of ''data'' v of
              None \<Rightarrow> None
            | Some d \<Rightarrow> Some \<lparr>tc_seq = num_at ''seq'' d, tc_data = str_at ''data'' d\<rparr>)
      else None)"
| "output_chunk x = None"

definition outputs :: "script_effect list \<Rightarrow> terminal_chunk list" where
  "outputs es = List.map_filter output_chunk es"

lemma outputs_simps [simp]:
  "outputs [] = []"
  "outputs (x # es) = (case output_chunk x of None \<Rightarrow> outputs es | Some c \<Rightarrow> c # outputs es)"
  "outputs (es @ fs) = outputs es @ outputs fs"
  by (simp_all add: outputs_def List.map_filter_def split: option.split)

text \<open>A block numbers its outputs without gaps, starting after the state's number.\<close>

definition numbered :: "fake_desktop block \<Rightarrow> bool" where
  "numbered f \<longleftrightarrow> (\<forall>s. fd_seq s \<le> fd_seq (fst (f s)) \<and>
     map tc_seq (outputs (fst (snd (f s)))) = [fd_seq s + 1..fd_seq (fst (f s))])"

named_theorems numbering \<open>blocks that number their outputs without gaps\<close>

lemma numbered_skip [numbering]: "numbered skip_block"
  by (simp add: numbered_def skip_block_def)

lemma numbered_does: "outputs es = [] \<Longrightarrow> numbered (does es)"
  by (simp add: numbered_def does_def)

lemma upto_join: "i \<le> j \<Longrightarrow> j \<le> k \<Longrightarrow> [i + 1..j] @ [j + 1..k] = [i + 1..k]" for i j k :: int
  using upto_split2 [of "i + 1" j k] by (cases "i = j") auto

lemma numbered_then [numbering]: "numbered f \<Longrightarrow> numbered g \<Longrightarrow> numbered (then_do f g)"
  unfolding numbered_def
proof
  fix s assume f: "\<forall>s. fd_seq s \<le> fd_seq (fst (f s)) \<and>
      map tc_seq (outputs (fst (snd (f s)))) = [fd_seq s + 1..fd_seq (fst (f s))]"
    and g: "\<forall>s. fd_seq s \<le> fd_seq (fst (g s)) \<and>
      map tc_seq (outputs (fst (snd (g s)))) = [fd_seq s + 1..fd_seq (fst (g s))]"
  obtain s1 e1 r where fs: "f s = (s1, e1, r)" by (metis prod.exhaust)
  obtain s2 e2 r2 where gs: "g s1 = (s2, e2, r2)" by (metis prod.exhaust)
  from f [rule_format, of s] g [rule_format, of s1] upto_join [of "fd_seq s" "fd_seq s1" "fd_seq s2"]
  show "fd_seq s \<le> fd_seq (fst (then_do f g s)) \<and>
      map tc_seq (outputs (fst (snd (then_do f g s)))) = [fd_seq s + 1..fd_seq (fst (then_do f g s))]"
    by (cases r) (auto simp: then_do_def fs gs)
qed

lemma numbered_reading [numbering]: "(\<And>v. numbered (k v)) \<Longrightarrow> numbered (reading r k)"
  by (cases r) (simp_all add: numbered_def reading_def)

lemma numbered_when [numbering]: "numbered f \<Longrightarrow> numbered (when_do b f)"
  by (simp add: when_do_def numbered_skip)

lemma numbered_in_order: "(\<And>b. b \<in> set bs \<Longrightarrow> numbered b) \<Longrightarrow> numbered (in_order bs)"
  by (induction bs) (auto intro: numbering)

lemma sent_chunk: "output_chunk (script_send e msg) =
    (if map_of msg ''kind'' = text_value ''event'' \<and> map_of msg ''event'' = text_value ''terminal.output''
     then map_option (\<lambda>d. \<lparr>tc_seq = num_at ''seq'' d, tc_data = str_at ''data'' d\<rparr>) (map_of msg ''data'') else None)"
  by (simp add: script_send_def reports_def split: option.split)

lemma answer_chunk [simp]: "output_chunk (respond_ok e m r) = None"
  by (cases "prop_of ''id'' m") (simp_all add: respond_ok_def sent_chunk)

lemma numbered_output [numbering]: "numbered (fd_output e line)"
  by (simp add: numbered_def fd_output_def Let_def sent_chunk num_at_def)

lemma numbered_tick: "numbered (fdTick e i)"
proof -
  have "numbered (then_do (fd_output e (\<lambda>n. ''tick '' @ show_int n @ CRLF))
      (\<lambda>s. if 5 \<le> fd_seq s then (s\<lparr>fd_intervals := removeAll i (fd_intervals s)\<rparr>, [ClearInterval i], None)
           else skip_block s))"
    by (intro numbering) (simp add: numbered_def skip_block_def)
  then show ?thesis by (auto simp: numbered_def fdTick_def skip_block_def)
qed

lemma numbered_prompt: "numbered (fdPrompt e t)"
proof -
  have f: "numbered (then_do (fd_output e l) (\<lambda>s. does [script_send e [(''kind'', JStr ''event''), (''event'', JStr ''interaction.requested''),
                      (''data'', JObj [(''interaction'', demo_interaction e (fd_seq s))])]] s))" for l
    by (intro numbering) (simp add: numbered_def does_def sent_chunk)
  have "fd_seq s \<le> fd_seq (fst (fdPrompt e t s)) \<and>
      map tc_seq (outputs (fst (snd (fdPrompt e t s)))) = [fd_seq s + 1..fd_seq (fst (fdPrompt e t s))]" for s
    using f [of "\<lambda>n. ''Allow Claude to run `npm test`? [y/n]'' @ CRLF", unfolded numbered_def, rule_format,
        of "s\<lparr>fd_timeouts := removeAll t (fd_timeouts s)\<rparr>"]
    by (simp add: fdPrompt_def skip_block_def)
  then show ?thesis by (simp add: numbered_def)
qed

lemma numbered_message: "numbered (fdMessage e m)"
  unfolding fdMessage_def
proof (rule numbered_in_order)
  fix b assume "b \<in> set [fdPairingCode m, fdPaired m, fdList e m, fdSubscribe e m, fdRespond e m, fdInput e m, fdInterrupt e m]"
  moreover have "numbered (fdPairingCode m)" "numbered (fdPaired m)" "numbered (fdList e m)" "numbered (fdInterrupt e m)"
    "numbered (fdInput e m)" "numbered (fdRespond e m)"
    unfolding fdPairingCode_def fdPaired_def fdList_def fdInterrupt_def fdInput_def fdRespond_def in_order_simps
    by (intro numbering numbered_does; simp add: sent_chunk)+
  moreover have "numbered (fdSubscribe e m)"
    by (auto simp: fdSubscribe_def when_do_def numbered_def skip_block_def Let_def)
  ultimately show "numbered b" by auto
qed

lemma numbered_react: "numbered (fd_react x)"
proof -
  obtain e i where "x = (e, i)" by (cases x)
  then show ?thesis
    by (cases i) (auto simp: numbered_tick numbered_prompt numbered_message fdOpen_def sent_chunk intro!: numbered_does)
qed

lemma numbered_run: "numbered (fd_run inputs)"
  unfolding fd_run_def by (rule numbered_in_order) (auto intro: numbered_react)

text \<open>Whatever happens to the scripted desktop, its terminal outputs carry the numbers 1, 2, 3 and so on
  without gap or repetition, so that the app's terminal, which receives them in this order, shows all
  of their texts (as much as its buffer holds).\<close>

theorem fake_desktop_outputs:
  "map tc_seq (outputs (fst (snd (fd_run inputs initial_fake_desktop)))) =
     [1..fd_seq (fst (fd_run inputs initial_fake_desktop))] \<and>
   tb_text (foldl appendTerminalOutput createTerminalBuffer (outputs (fst (snd (fd_run inputs initial_fake_desktop))))) =
     slice_last MAX_TERMINAL_BUFFER_LENGTH
       (concat (map tc_data (outputs (fst (snd (fd_run inputs initial_fake_desktop))))))"
proof -
  have seqs: "map tc_seq (outputs (fst (snd (fd_run inputs initial_fake_desktop)))) =
      [1..fd_seq (fst (fd_run inputs initial_fake_desktop))]"
    using numbered_run [of inputs, unfolded numbered_def, rule_format, of initial_fake_desktop]
    by (simp add: initial_fake_desktop_def)
  have "0 < tc_seq c" if "c \<in> set (outputs (fst (snd (fd_run inputs initial_fake_desktop))))" for c
  proof -
    from that have "tc_seq c \<in> set (map tc_seq (outputs (fst (snd (fd_run inputs initial_fake_desktop)))))" by simp
    then show ?thesis unfolding seqs by simp
  qed
  then have "accepted tc_seq 0 (outputs (fst (snd (fd_run inputs initial_fake_desktop)))) =
      outputs (fst (snd (fd_run inputs initial_fake_desktop)))"
    by (subst accepted_sorted) (simp_all add: seqs filter_id_conv)
  with seqs show ?thesis
    by (simp add: tb.run_kept createTerminalBuffer_def)
qed

subsection \<open>What the scripted desktop sends conforms to the protocol\<close>

text \<open>The schema of the parameters of a method, of the data of an event and of the result of a method.\<close>

definition params_schema :: "string \<Rightarrow> schema" where
  "params_schema name =
     (case map_of [
        (''desktop.register'', DesktopRegisterParamsSchema),
        (''desktop.pairing.create'', DesktopPairingCreateParamsSchema),
        (''mobile.pair'', MobilePairParamsSchema),
        (''mobile.resume'', MobileResumeParamsSchema),
        (''session.subscribe'', SessionSubscribeParamsSchema),
        (''session.input'', SessionInputParamsSchema),
        (''session.interrupt'', SessionInterruptParamsSchema),
        (''terminal.resize'', TerminalResizeParamsSchema),
        (''interaction.respond'', InteractionRespondParamsSchema)] name of
      Some sch \<Rightarrow> sch | None \<Rightarrow> ZUnknown)"

definition data_schema :: "string \<Rightarrow> schema" where
  "data_schema name =
     (case map_of [
        (''session.created'', SessionCreatedDataSchema),
        (''session.updated'', SessionUpdatedDataSchema),
        (''session.removed'', SessionRemovedDataSchema),
        (''session.ended'', SessionEndedDataSchema),
        (''terminal.output'', TerminalOutputSchema),
        (''terminal.render'', TerminalRenderDataSchema),
        (''interaction.requested'', InteractionRequestedDataSchema),
        (''interaction.updated'', InteractionUpdatedDataSchema),
        (''interaction.resolved'', InteractionResolvedDataSchema),
        (''mobile.paired'', MobilePairedDataSchema),
        (''mobile.disconnected'', MobileDisconnectedDataSchema)] name of
      Some sch \<Rightarrow> sch | None \<Rightarrow> ZUnknown)"

definition result_schema :: "string \<Rightarrow> schema" where
  "result_schema name =
     (case map_of [
        (''desktop.pairing.create'', DesktopPairingCreateResultSchema),
        (''mobile.pair'', MobilePairResultSchema),
        (''mobile.resume'', MobileResumeResultSchema),
        (''session.list'', SessionListResultSchema),
        (''session.subscribe'', SessionSubscribeResultSchema),
        (''session.input'', SessionInputResultSchema),
        (''interaction.respond'', SessionInputResultSchema)] name of
      Some sch \<Rightarrow> sch | None \<Rightarrow> ZUnknown)"

definition has :: "schema \<Rightarrow> json option \<Rightarrow> bool" where
  "has sch v = (case v of Some x \<Rightarrow> conforms sch x | None \<Rightarrow> is_optional sch)"

text \<open>A message whose parameters or data are those of its method or event.\<close>

definition well_formed :: "json \<Rightarrow> bool" where
  "well_formed m =
     (conforms WireMessageSchema m \<and>
      (case (prop_of ''kind'' m, prop_of ''method'' m, prop_of ''event'' m) of
         (Some (JStr k), name, ev) \<Rightarrow>
           (k = ''request'' \<longrightarrow> (case name of Some (JStr n) \<Rightarrow> has (params_schema n) (prop_of ''params'' m) | _ \<Rightarrow> False)) \<and>
           (k = ''event'' \<longrightarrow> (case ev of Some (JStr n) \<Rightarrow> has (data_schema n) (prop_of ''data'' m) | _ \<Rightarrow> False))
       | _ \<Rightarrow> False))"

text \<open>A response to one of these messages, with the result of its method.\<close>

definition answers_one :: "json list \<Rightarrow> json \<Rightarrow> bool" where
  "answers_one ms v =
     list_ex (\<lambda>m. prop_of ''kind'' m = text_value ''request'' \<and> prop_of ''id'' m = prop_of ''id'' v \<and>
        (case prop_of ''method'' m of Some (JStr n) \<Rightarrow> has (result_schema n) (prop_of ''result'' v) | _ \<Rightarrow> False)) ms"

definition sends_well :: "json list \<Rightarrow> script_effect \<Rightarrow> bool" where
  "sends_well ms x =
     (case x of
        SendJson v \<Rightarrow> well_formed v \<and> (prop_of ''kind'' v = text_value ''response'' \<longrightarrow> answers_one ms v)
      | _ \<Rightarrow> True)"

text \<open>A block that raises nothing and whose effects all satisfy a test.\<close>

definition quiet :: "(script_effect \<Rightarrow> bool) \<Rightarrow> 's block \<Rightarrow> bool" where
  "quiet P f \<longleftrightarrow> (\<forall>s. snd (snd (f s)) = None \<and> list_all P (fst (snd (f s))))"

named_theorems quietly \<open>blocks that raise nothing\<close>

lemma quiet_skip [quietly]: "quiet P skip_block"
  by (simp add: quiet_def skip_block_def)

lemma quiet_does: "list_all P es \<Longrightarrow> quiet P (does es)"
  by (simp add: quiet_def does_def)

lemma quiet_then [quietly]: "quiet P f \<Longrightarrow> quiet P g \<Longrightarrow> quiet P (then_do f g)"
  unfolding quiet_def then_do_def by (auto simp: split: prod.split option.split) (metis fst_conv snd_conv option.distinct(1))+

lemma quiet_reading: "r = Inr v \<Longrightarrow> quiet P (k v) \<Longrightarrow> quiet P (reading r k)"
  by (simp add: quiet_def reading_def)

lemma quiet_when [quietly]: "(b \<Longrightarrow> quiet P f) \<Longrightarrow> quiet P (when_do b f)"
  by (simp add: when_do_def quiet_skip)

lemma quiet_in_order: "(\<And>b. b \<in> set bs \<Longrightarrow> quiet P b) \<Longrightarrow> quiet P (in_order bs)"
  by (induction bs) (auto intro: quietly)

lemma quiet_mono: "quiet P f \<Longrightarrow> (\<And>x. P x \<Longrightarrow> Q x) \<Longrightarrow> quiet Q f"
  by (auto simp: quiet_def list_all_iff)

lemma sent_event [simp]:
  "sends_well ms (script_send e [(''kind'', JStr ''event''), (''event'', JStr n), (''data'', JObj d)]) \<longleftrightarrow>
     conforms (data_schema n) (JObj d)"
  by (simp add: sends_well_def script_send_def well_formed_def wire_schema_defs WireMessageSchema_def PROTOCOL_VERSION_def
      has_def del: conforms.simps(8))

lemma sent_request [simp]:
  "sends_well ms (script_send e [(''kind'', JStr ''request''), (''id'', JStr i), (''method'', JStr n), (''params'', JObj d)]) \<longleftrightarrow>
     conforms (params_schema n) (JObj d)"
  by (simp add: sends_well_def script_send_def well_formed_def wire_schema_defs WireMessageSchema_def PROTOCOL_VERSION_def
      has_def del: conforms.simps(8))

lemma sent_response:
  assumes "m \<in> set ms" and "asks_for n m" and "well_formed m" and "conforms (result_schema n) (JObj result)"
  shows "sends_well ms (respond_ok e m result)"
proof -
  from assms(2,3) obtain i where i: "prop_of ''id'' m = text_value i"
    by (auto simp: well_formed_def asks_for_def wire_schema_defs WireMessageSchema_def split: json.splits option.splits)
  with assms have "answers_one ms (JObj ([(''version'', JStr ''2026-07-11''), (''sentAt'', JStr (iso_string (sc_now e))),
      (''kind'', JStr ''response''), (''id'', JStr i), (''ok'', JBool True), (''result'', JObj result)]))"
    by (auto simp: answers_one_def list_ex_iff asks_for_def has_def intro!: bexI [where x = m])
  with i show ?thesis
    by (simp add: sends_well_def respond_ok_def script_send_def well_formed_def wire_schema_defs WireMessageSchema_def
        PROTOCOL_VERSION_def del: conforms.simps(8)) blast
qed

lemma silent_log [simp]: "sends_well ms (ConsoleLog vs)" "sends_well ms (SetInterval k n)" "sends_well ms (SetTimeout k n)"
  "sends_well ms (ClearInterval k)"
  by (simp_all add: sends_well_def)

lemma demo_session_conforms: "conforms SessionSchema (demo_session e)"
  by (simp add: SessionSchema_def AgentKindSchema_def SessionStatusSchema_def demo_session_def)

lemma demo_interaction_conforms: "conforms InteractionRequestSchema (demo_interaction e n)"
  by (simp add: InteractionRequestSchema_def InteractionKindSchema_def InteractionOptionSchema_def
      InteractionOptionIntentSchema_def demo_interaction_def demo_option_def) blast

lemma quiet_output: "quiet (sends_well ms) (fd_output e line)"
  by (simp add: quiet_def fd_output_def Let_def data_schema_def TerminalOutputSchema_def)

subsection \<open>The conditions on what it receives\<close>

definition received_ok :: "fake_desktop_input \<Rightarrow> bool" where
  "received_ok i =
     (case i of
        FdMessage m \<Rightarrow> well_formed m \<and>
          (prop_of ''id'' m = text_value ''d2'' \<and> truthy (prop_of ''ok'' m) \<longrightarrow>
             has DesktopPairingCreateResultSchema (prop_of ''result'' m))
      | _ \<Rightarrow> True)"

lemma well_formed_object: "well_formed m \<Longrightarrow> \<exists>flds. m = JObj flds"
  by (auto simp: well_formed_def wire_schema_defs WireMessageSchema_def split: json.splits)

lemma well_formed_params:
  "well_formed m \<Longrightarrow> asks_for n m \<Longrightarrow> has (params_schema n) (prop_of ''params'' m)"
  by (auto simp: well_formed_def asks_for_def split: option.splits json.splits)

lemma well_formed_data:
  "well_formed m \<Longrightarrow> reports n m \<Longrightarrow> has (data_schema n) (prop_of ''data'' m)"
  by (auto simp: well_formed_def reports_def split: option.splits json.splits)

lemma has_object: "has (ZObject fs) v \<Longrightarrow> \<exists>m. v = Some (JObj m) \<and> conforms (ZObject fs) (JObj m)"
  unfolding has_def by (cases v; simp; cases "the v") simp_all

lemma quiet_pairing: "received_ok (FdMessage m) \<Longrightarrow> quiet (sends_well ms) (fdPairingCode m)"
proof -
  assume m: "received_ok (FdMessage m)"
  then obtain flds where [simp]: "m = JObj flds" using well_formed_object by (auto simp: received_ok_def)
  have "quiet (sends_well ms) (when_do (prop_of ''id'' m = text_value ''d2'' \<and> truthy (prop_of ''ok'' m)) (in_order [
         reading (read_path [''result'', ''pairingCode''] (Some m)) (\<lambda>code.
           does [ConsoleLog [text_value ''PAIRING CODE:'', code]]),
         reading (read_path [''result'', ''qrPayload''] (Some m)) (\<lambda>qr.
           does [ConsoleLog [text_value ''QR PAYLOAD:'', qr]])]))"
  proof (rule quiet_when)
    assume "prop_of ''id'' m = text_value ''d2'' \<and> truthy (prop_of ''ok'' m)"
    with m have "has DesktopPairingCreateResultSchema (prop_of ''result'' m)" by (simp add: received_ok_def)
    then obtain r where "prop_of ''result'' m = Some (JObj r)"
      using has_object unfolding DesktopPairingCreateResultSchema_def by metis
    then show "quiet (sends_well ms) (in_order [
         reading (read_path [''result'', ''pairingCode''] (Some m)) (\<lambda>code.
           does [ConsoleLog [text_value ''PAIRING CODE:'', code]]),
         reading (read_path [''result'', ''qrPayload''] (Some m)) (\<lambda>qr.
           does [ConsoleLog [text_value ''QR PAYLOAD:'', qr]])])"
      by (simp add: quiet_def then_do_def reading_def does_def skip_block_def)
  qed
  then show ?thesis unfolding fdPairingCode_def by (intro quiet_reading) simp_all
qed

lemma quiet_paired: "well_formed m \<Longrightarrow> quiet (sends_well ms) (fdPaired m)"
  unfolding fdPaired_def
proof (rule quiet_when)
  assume m: "well_formed m" "reports ''mobile.paired'' m"
  then obtain flds where [simp]: "m = JObj flds" using well_formed_object by blast
  from well_formed_data [OF m] have "has MobilePairedDataSchema (prop_of ''data'' m)" by (simp add: data_schema_def)
  then obtain d where "prop_of ''data'' m = Some (JObj d)" and d: "conforms MobilePairedDataSchema (JObj d)"
    using has_object unfolding MobilePairedDataSchema_def by metis
  moreover from d obtain x where "map_of d ''mobileDevice'' = Some (JObj x)"
    by (auto simp: MobilePairedDataSchema_def MobileDeviceSchema_def split: option.splits json.splits)
  ultimately show "quiet (sends_well ms) (reading (read_path [''data'', ''mobileDevice'', ''name''] (Some m)) (\<lambda>name.
          does [ConsoleLog [text_value ''mobile paired:'', name]]))"
    by (simp add: quiet_def reading_def does_def)
qed

lemma params_object:
  assumes "well_formed m" and "asks_for n m" and "params_schema n = ZObject fs"
  shows "\<exists>p. prop_of ''params'' m = Some (JObj p) \<and> conforms (ZObject fs) (JObj p)"
  using well_formed_params [OF assms(1,2)] has_object assms(3) by simp

lemma response_required: "\<not> is_optional InteractionResponseSchema"
  by (simp add: InteractionResponseSchema_def)

lemma quiet_respond:
  assumes m: "well_formed m" and "m \<in> set ms"
  shows "quiet (sends_well ms) (fdRespond e m)"
  unfolding fdRespond_def
proof (rule quiet_when)
  assume a: "asks_for ''interaction.respond'' m"
  obtain flds where [simp]: "m = JObj flds" using well_formed_object [OF m] by blast
  have "params_schema ''interaction.respond'' = InteractionRespondParamsSchema" by (simp add: params_schema_def)
  with params_object [OF m a] obtain p where p: "map_of flds ''params'' = Some (JObj p)"
    and pc: "conforms InteractionRespondParamsSchema (JObj p)"
    unfolding InteractionRespondParamsSchema_def by auto
  from pc obtain sid iid rv where ids: "map_of p ''sessionId'' = Some (JStr sid)" "map_of p ''interactionId'' = Some (JStr iid)"
    and rv: "map_of p ''response'' = Some rv" "conforms InteractionResponseSchema rv"
    by (auto simp: InteractionRespondParamsSchema_def response_required split: option.splits)
  from rv(2) obtain r t where r: "rv = JObj r" "map_of r ''type'' = text_value t"
    and opts: "t = ''options'' \<Longrightarrow> \<exists>xs. map_of r ''optionIds'' = Some (JArr xs) \<and> list_all (conforms ZString) xs"
    by (auto simp: InteractionResponseSchema_def split: json.splits option.splits)
  have answer: "sends_well ms (respond_ok e m [(''accepted'', JBool True)])"
    by (rule sent_response [OF assms(2) a m]) (simp add: result_schema_def SessionInputResultSchema_def, blast)
  show "quiet (sends_well ms) (reading (read_path [''params'', ''response''] (Some m)) (\<lambda>r.
        reading (read_prop ''type'' r) (\<lambda>type.
        reading (if type = text_value ''options''
                 then (case read_prop ''optionIds'' r of Inl t \<Rightarrow> Inl t | Inr ids \<Rightarrow> joined ids)
                 else Inr (js_text type)) (\<lambda>picked.
        reading (read_path [''params'', ''interactionId''] (Some m)) (\<lambda>interactionId.
        reading (read_path [''params'', ''sessionId''] (Some m)) (\<lambda>sessionId.
        reading (read_prop ''optionIds'' r) (\<lambda>optionIds.
          in_order [
            does [ConsoleLog [text_value ''interaction response from mobile:'', r],
                  respond_ok e m [(''accepted'', JBool True)]],
            fd_output e (\<lambda>n. ''> '' @ picked @ CRLF),
            does [script_send e [(''kind'', JStr ''event''), (''event'', JStr ''interaction.resolved''),
              (''data'', JObj (opt_field ''interactionId'' interactionId @ opt_field ''sessionId'' sessionId @
                 [(''resolution'', JStr (if type = text_value ''cancel'' then ''cancelled'' else ''answered''))] @
                 (if type = text_value ''options'' then opt_field ''optionIds'' optionIds else []) @
                 [(''resolvedAt'', JStr (iso_string (sc_now e)))]))]]])))))))"
  proof (cases "t = ''options''")
    case True
    with opts obtain xs where xs: "map_of r ''optionIds'' = Some (JArr xs)" "list_all (conforms ZString) xs" by auto
    have event: "conforms (data_schema ''interaction.resolved'') (JObj [(''interactionId'', JStr iid), (''sessionId'', JStr sid),
        (''resolution'', JStr ''answered''), (''optionIds'', JArr xs), (''resolvedAt'', JStr (iso_string (sc_now e)))])"
      using xs(2) by (simp add: data_schema_def InteractionResolvedDataSchema_def)
    have "quiet (sends_well ms) (in_order [does [ConsoleLog v, respond_ok e m [(''accepted'', JBool True)]],
        fd_output e line,
        does [script_send e [(''kind'', JStr ''event''), (''event'', JStr ''interaction.resolved''),
          (''data'', JObj [(''interactionId'', JStr iid), (''sessionId'', JStr sid),
        (''resolution'', JStr ''answered''), (''optionIds'', JArr xs), (''resolvedAt'', JStr (iso_string (sc_now e)))])]]])"
      for v line
      unfolding in_order_simps
      by (intro quietly quiet_does quiet_output) (use answer event in simp_all)
    with True xs r ids rv(1) p show ?thesis by (simp add: quiet_def reading_def)
  next
    case False
    have event: "conforms (data_schema ''interaction.resolved'') (JObj [(''interactionId'', JStr iid), (''sessionId'', JStr sid),
        (''resolution'', JStr (if t = ''cancel'' then ''cancelled'' else ''answered'')),
        (''resolvedAt'', JStr (iso_string (sc_now e)))])"
      by (simp add: data_schema_def InteractionResolvedDataSchema_def)
    have "quiet (sends_well ms) (in_order [does [ConsoleLog v, respond_ok e m [(''accepted'', JBool True)]],
        fd_output e line,
        does [script_send e [(''kind'', JStr ''event''), (''event'', JStr ''interaction.resolved''),
          (''data'', JObj [(''interactionId'', JStr iid), (''sessionId'', JStr sid),
        (''resolution'', JStr (if t = ''cancel'' then ''cancelled'' else ''answered'')),
        (''resolvedAt'', JStr (iso_string (sc_now e)))])]]])"
      for v line
      unfolding in_order_simps
      by (intro quietly quiet_does quiet_output) (use answer event in simp_all)
    with False r ids rv(1) p show ?thesis by (simp add: quiet_def reading_def)
  qed
qed

lemma quiet_input:
  assumes m: "well_formed m" and "m \<in> set ms"
  shows "quiet (sends_well ms) (fdInput e m)"
  unfolding fdInput_def
proof (rule quiet_when)
  assume a: "asks_for ''session.input'' m"
  obtain flds where [simp]: "m = JObj flds" using well_formed_object [OF m] by blast
  from well_formed_params [OF m a] obtain p where p: "map_of flds ''params'' = Some (JObj p)"
    by (auto simp: params_schema_def has_def SessionInputParamsSchema_def split: option.splits json.splits)
  have answer: "sends_well ms (respond_ok e m [(''accepted'', JBool True)])"
    by (rule sent_response [OF assms(2) a m]) (simp add: result_schema_def SessionInputResultSchema_def, blast)
  have "quiet (sends_well ms) (in_order [does [ConsoleLog v, respond_ok e m [(''accepted'', JBool True)]], fd_output e line])"
    for v line
    unfolding in_order_simps by (intro quietly quiet_does quiet_output) (use answer in simp_all)
  with p show "quiet (sends_well ms) (reading (read_path [''params'', ''data''] (Some m)) (\<lambda>input.
          in_order [
            does [ConsoleLog [text_value ''input from mobile:'', input], respond_ok e m [(''accepted'', JBool True)]],
            fd_output e (\<lambda>n. ''echo: '' @ js_text input)]))"
    by (simp add: quiet_def reading_def)
qed

lemma quiet_message:
  assumes "received_ok (FdMessage m)" and mem: "m \<in> set ms"
  shows "quiet (sends_well ms) (fdMessage e m)"
proof -
  from assms have m: "well_formed m" by (simp add: received_ok_def)
  have "quiet (sends_well ms) (fdList e m)"
    unfolding fdList_def
    by (rule quiet_when, rule quiet_does)
      (use sent_response [OF mem _ m] demo_session_conforms [of e] in \<open>simp add: result_schema_def SessionListResultSchema_def\<close>)
  moreover have "sends_well ms (respond_ok e m [(''session'', demo_session e), (''mode'', JStr ''live'')])"
    if "asks_for ''session.subscribe'' m"
    by (rule sent_response [OF mem that m])
      (simp add: result_schema_def SessionSubscribeResultSchema_def demo_session_conforms)
  then have "quiet (sends_well ms) (fdSubscribe e m)"
    unfolding fdSubscribe_def by (intro quiet_when) (simp add: quiet_def Let_def)
  moreover have "quiet (sends_well ms) (fdInterrupt e m)"
    unfolding fdInterrupt_def
    by (rule quiet_when, rule quiet_does) (use sent_response [OF mem _ m] in \<open>simp add: result_schema_def\<close>)
  ultimately show ?thesis
    unfolding fdMessage_def
    using assms m by (intro quiet_in_order) (auto intro: quiet_pairing quiet_paired quiet_respond quiet_input)
qed

lemma quiet_open: "quiet (sends_well ms) (fdOpen e)"
  unfolding fdOpen_def
  by (rule quiet_does) (simp add: params_schema_def DesktopRegisterParamsSchema_def DesktopPairingCreateParamsSchema_def)

lemma quiet_timers: "quiet (sends_well ms) (fdTick e i)" "quiet (sends_well ms) (fdPrompt e t)"
proof -
  have "quiet (sends_well ms) (then_do (fd_output e l)
      (\<lambda>s. if 5 \<le> fd_seq s then (s\<lparr>fd_intervals := removeAll i (fd_intervals s)\<rparr>, [ClearInterval i], None) else skip_block s))" for l
    by (intro quiet_then quiet_output) (simp add: quiet_def skip_block_def)
  then show "quiet (sends_well ms) (fdTick e i)" by (simp add: quiet_def fdTick_def skip_block_def)
  have "quiet (sends_well ms) (then_do (fd_output e l)
      (\<lambda>s. does [script_send e [(''kind'', JStr ''event''), (''event'', JStr ''interaction.requested''),
                      (''data'', JObj [(''interaction'', demo_interaction e (fd_seq s))])]] s))" for l
    by (intro quiet_then quiet_output)
      (simp add: quiet_def does_def data_schema_def InteractionRequestedDataSchema_def demo_interaction_conforms)
  then show "quiet (sends_well ms) (fdPrompt e t)" by (simp add: quiet_def fdPrompt_def skip_block_def)
qed

definition messages_in :: "(script_env \<times> fake_desktop_input) list \<Rightarrow> json list" where
  "messages_in inputs = List.map_filter (\<lambda>(e, i). case i of FdMessage m \<Rightarrow> Some m | _ \<Rightarrow> None) inputs"

text \<open>C40: A scripted desktop that receives messages of the protocol raises no error, and everything it sends is of
  the protocol: the envelope, the parameters of its requests, the data of its events; every response
  carries the identifier of a request it received and the result of that request's method.\<close>

theorem fake_desktop_conforms:
  assumes "list_all (\<lambda>x. received_ok (snd x)) inputs"
  shows "snd (snd (fd_run inputs s)) = None \<and> list_all (sends_well (messages_in inputs)) (fst (snd (fd_run inputs s)))"
proof -
  have "quiet (sends_well (messages_in inputs)) (fd_run inputs)"
    unfolding fd_run_def
  proof (rule quiet_in_order)
    fix b assume "b \<in> set (map fd_react inputs)"
    then obtain e i where b: "b = fd_react (e, i)" and mem: "(e, i) \<in> set inputs" by auto
    with assms have ok: "received_ok i" by (auto simp: list_all_iff)
    show "quiet (sends_well (messages_in inputs)) b"
    proof (cases i)
      case (FdMessage m)
      with mem have "m \<in> set (messages_in inputs)" by (force simp: messages_in_def List.map_filter_def)
      with ok show ?thesis by (simp add: b FdMessage quiet_message)
    qed (simp_all add: b quiet_open quiet_timers quiet_does)
  qed
  then show ?thesis by (simp add: quiet_def)
qed

definition demo_env :: script_env where
  "demo_env = \<lparr>sc_now = 0, sc_desktopId = None, sc_platform = ''linux'', sc_cwd = ''/'', sc_code = Some ''000007'', sc_choice = None\<rparr>"

definition demo_request :: "string \<Rightarrow> string \<Rightarrow> jobj \<Rightarrow> json" where
  "demo_request i name params = encode_wire (Request i name (Some params) ''t'')"

definition demo_inputs :: "(script_env \<times> fake_desktop_input) list" where
  "demo_inputs = map (Pair demo_env) [FdOpened,
     FdMessage (demo_request ''q1'' ''session.subscribe'' [(''sessionId'', JStr ''sess_1'')]), FdTick 0, FdPrompt 1,
     FdMessage (demo_request ''q2'' ''interaction.respond'' [(''sessionId'', JStr ''sess_1''), (''interactionId'', JStr ''int_demo''),
       (''response'', JObj [(''type'', JStr ''options''), (''optionIds'', JArr [JStr ''reject''])])])]"

lemma demo_request_ok:
  assumes "conforms (params_schema n) (JObj p)" and "i \<noteq> ''d2''"
  shows "received_ok (FdMessage (demo_request i n p))"
proof -
  have "conforms WireMessageSchema (demo_request i n p)"
    unfolding demo_request_def by (rule conforms_encode_wire)
  with assms show ?thesis
    by (simp add: received_ok_def well_formed_def has_def demo_request_def del: conforms.simps)
qed

theorem fake_desktop_conforms_witness:
  "snd (snd (fd_run demo_inputs initial_fake_desktop)) = None \<and>
   list_all (sends_well (messages_in demo_inputs)) (fst (snd (fd_run demo_inputs initial_fake_desktop)))"
proof (rule fake_desktop_conforms)
  have "conforms (params_schema ''session.subscribe'') (JObj [(''sessionId'', JStr ''sess_1'')])"
    by (simp add: params_schema_def SessionSubscribeParamsSchema_def)
  moreover have "conforms (params_schema ''interaction.respond'') (JObj [(''sessionId'', JStr ''sess_1''), (''interactionId'', JStr ''int_demo''),
       (''response'', JObj [(''type'', JStr ''options''), (''optionIds'', JArr [JStr ''reject''])])])"
    by (simp add: params_schema_def InteractionRespondParamsSchema_def InteractionResponseSchema_def)
  ultimately show "list_all (\<lambda>x. received_ok (snd x)) demo_inputs"
    unfolding demo_inputs_def by (simp add: demo_request_ok) (simp add: received_ok_def)
qed

text \<open>The script does not check what it reads: a request without its parameters, which the relay forwards
  as it is, ends the process.\<close>

theorem fake_desktop_unchecked_params:
  "snd (snd (fd_react (e, FdMessage (encode_wire (Request i ''interaction.respond'' None t))) s)) = Some TypeError"
  by (simp add: fdMessage_def fdPairingCode_def fdPaired_def fdList_def fdSubscribe_def fdRespond_def then_do_def reading_def
      when_do_def skip_block_def asks_for_def reports_def)

subsection \<open>fake-mobile.ts\<close>

text \<open>The timers under way are the script's only state.  \<open>process.exit\<close> ends the callback.\<close>

datatype fake_mobile_input = FmOpened | FmMessage json | FmTimeout

type_synonym fake_mobile = nat

definition fm_start :: "script_env \<Rightarrow> script_effect list" where
  "fm_start e =
     (if truthy (map_option JStr (sc_code e)) then []
      else [ConsoleError [text_value ''Set PAIRING_CODE=<code printed by fake-desktop>''], ExitProcess 1])"

definition fmOpen :: "script_env \<Rightarrow> fake_mobile block" where
  "fmOpen e = does [
     script_send e [(''kind'', JStr ''request''), (''id'', JStr ''m1''), (''method'', JStr ''mobile.pair''),
       (''params'', JObj ([(''desktopId'', JStr (DESKTOP_ID e))] @
          opt_field ''pairingCode'' (map_option JStr (sc_code e)) @
          [(''mobileDevice'', JObj [(''id'', JStr ''mob_demo''), (''name'', JStr ''Fake iPhone''), (''platform'', JStr ''ios'')])]))]]"

definition fmPaired :: "script_env \<Rightarrow> json \<Rightarrow> fake_mobile block" where
  "fmPaired e m =
     reading (read_path [''result'', ''desktopName''] (Some m)) (\<lambda>name.
       does [ConsoleLog [text_value ''paired with'', name],
             script_send e [(''kind'', JStr ''request''), (''id'', JStr ''m2''), (''method'', JStr ''session.list''),
               (''params'', JObj [])]])"

fun session_names :: "json list \<Rightarrow> script_error + string list" where
  "session_names [] = Inr []"
| "session_names (x # xs) =
     (case read_prop ''id'' (Some x) of
        Inl t \<Rightarrow> Inl t
      | Inr i \<Rightarrow>
          (case session_names xs of
             Inl t \<Rightarrow> Inl t
           | Inr names \<Rightarrow> Inr ((js_text i @ '' ('' @ js_text (prop_of ''title'' x) @ '')'') # names)))"

definition elements :: "json option \<Rightarrow> script_error + json list" where
  "elements v = (case v of Some (JArr xs) \<Rightarrow> Inr xs | _ \<Rightarrow> Inl TypeError)"

definition fmSessions :: "script_env \<Rightarrow> json \<Rightarrow> fake_mobile block" where
  "fmSessions e m =
     reading (read_path [''result'', ''sessions''] (Some m)) (\<lambda>v.
     reading (elements v) (\<lambda>xs.
     reading (session_names xs) (\<lambda>names. in_order [
       does [ConsoleLog [text_value ''sessions:'', Some (JArr (map JStr names))]],
       reading (read_prop ''id'' (if xs = [] then None else Some (hd xs))) (\<lambda>i.
         does [script_send e [(''kind'', JStr ''request''), (''id'', JStr ''m3''), (''method'', JStr ''session.subscribe''),
           (''params'', JObj (opt_field ''sessionId'' i))]]),
       (\<lambda>n. (Suc n, [SetTimeout 0 2500], None))])))"

definition fmTimeout :: "script_env \<Rightarrow> fake_mobile block" where
  "fmTimeout e n =
     (if n = 0 then skip_block n
      else (n - 1,
        [script_send e [(''kind'', JStr ''request''), (''id'', JStr ''m4''), (''method'', JStr ''session.input''),
           (''params'', JObj [(''sessionId'', JStr ''sess_1''), (''data'', JStr (''hello from phone'' @ [CHR 0x0A])),
              (''inputMode'', JStr ''text'')])]],
        None))"

text \<open>\<open>process.stdout.write\<close> raises for a value that is no text.\<close>

definition fmOutput :: "json \<Rightarrow> fake_mobile block" where
  "fmOutput m =
     when_do (reports ''terminal.output'' m)
       (reading (read_path [''data'', ''data''] (Some m)) (\<lambda>v.
        reading (case v of Some (JStr t) \<Rightarrow> Inr t | _ \<Rightarrow> Inl TypeError) (\<lambda>t. does [StdoutWrite t])))"

fun option_names :: "json list \<Rightarrow> script_error + string list" where
  "option_names [] = Inr []"
| "option_names (x # xs) =
     (case read_prop ''id'' (Some x) of
        Inl t \<Rightarrow> Inl t
      | Inr i \<Rightarrow>
          (case option_names xs of
             Inl t \<Rightarrow> Inl t
           | Inr names \<Rightarrow> Inr ((js_text i @ '' ('' @ js_text (prop_of ''label'' x) @ '')'') # names)))"

definition choice_of :: "script_env \<Rightarrow> string" where
  "choice_of e = (case sc_choice e of Some c \<Rightarrow> c | None \<Rightarrow> ''approve_once'')"

definition fmInteraction :: "script_env \<Rightarrow> json \<Rightarrow> fake_mobile block" where
  "fmInteraction e m =
     when_do (reports ''interaction.requested'' m)
       (reading (read_path [''data'', ''interaction''] (Some m)) (\<lambda>v.
        reading (read_prop ''id'' v) (\<lambda>i.
        reading (read_prop ''prompt'' v) (\<lambda>prompt. in_order [
          does [ConsoleLog [text_value ([CHR 0x0A] @ ''[interaction '' @ js_text i @ ''] '' @ js_text prompt)]],
          reading (read_prop ''options'' v) (\<lambda>opts.
          reading (elements opts) (\<lambda>xs.
          reading (option_names xs) (\<lambda>names.
            does [ConsoleLog [text_value ''options:'', text_value (join_with '' | '' names)]]))),
          reading (read_prop ''sessionId'' v) (\<lambda>sid. does [
            ConsoleLog [text_value (''auto-responding with '' @ [CHR 0x22] @ choice_of e @ [CHR 0x22])],
            script_send e [(''kind'', JStr ''request''), (''id'', JStr ''ir1''), (''method'', JStr ''interaction.respond''),
              (''params'', JObj (opt_field ''sessionId'' sid @ opt_field ''interactionId'' i @
                 [(''response'', JObj [(''type'', JStr ''options''), (''optionIds'', JArr [JStr (choice_of e)])])]))]])]))))"

definition fmResolved :: "json \<Rightarrow> fake_mobile block" where
  "fmResolved m =
     when_do (reports ''interaction.resolved'' m)
       (reading (read_path [''data'', ''resolution''] (Some m)) (\<lambda>res.
        reading (read_path [''data'', ''optionIds''] (Some m)) (\<lambda>ids.
          does [ConsoleLog [text_value ''interaction resolved:'', res,
                  (if ids = None \<or> ids = Some JNull then text_value [] else ids)]])))"

definition fmEnded :: "json \<Rightarrow> fake_mobile block" where
  "fmEnded m =
     when_do (reports ''session.ended'' m)
       (reading (read_path [''data'', ''exitCode''] (Some m)) (\<lambda>code.
          does [ConsoleLog [text_value ([CHR 0x0A] @ ''session ended:''), code]]))"

definition fmMessage :: "script_env \<Rightarrow> json \<Rightarrow> fake_mobile block" where
  "fmMessage e m =
     reading (read_prop ''id'' (Some m)) (\<lambda>i.
       if i = text_value ''m1'' \<and> \<not> truthy (prop_of ''ok'' m)
       then does [ConsoleError [text_value ''pair failed:'', prop_of ''error'' m], ExitProcess 1]
       else in_order [
         when_do (i = text_value ''m1'') (fmPaired e m),
         when_do (i = text_value ''m2'' \<and> truthy (prop_of ''ok'' m)) (fmSessions e m),
         fmOutput m, fmInteraction e m, fmResolved m, fmEnded m])"

fun fm_react :: "script_env \<times> fake_mobile_input \<Rightarrow> fake_mobile block" where
  "fm_react (e, FmOpened) = fmOpen e"
| "fm_react (e, FmMessage m) = fmMessage e m"
| "fm_react (e, FmTimeout) = fmTimeout e"

text \<open>The options of an interaction are optional in the protocol, but the script reads them without a test:
  an interaction that asks for a text ends the process before it is answered.\<close>

theorem fake_mobile_needs_options:
  "snd (snd (fm_react (e, FmMessage (encode_wire (Event ''interaction.requested''
      [(''interaction'', JObj [(''id'', JStr ''i''), (''sessionId'', JStr ''s''), (''kind'', JStr ''text''), (''prompt'', JStr ''p''),
         (''allowsText'', JBool True), (''allowsTerminalInput'', JBool True), (''createdAt'', JStr ''t'')])] ''t''))) n)) = Some TypeError"
  "conforms InteractionRequestSchema (JObj [(''id'', JStr ''i''), (''sessionId'', JStr ''s''), (''kind'', JStr ''text''),
     (''prompt'', JStr ''p''), (''allowsText'', JBool True), (''allowsTerminalInput'', JBool True), (''createdAt'', JStr ''t'')])"
  by (simp_all add: fmMessage_def fmOutput_def fmInteraction_def then_do_def reading_def when_do_def skip_block_def does_def
      reports_def elements_def InteractionRequestSchema_def InteractionKindSchema_def) blast

end
