(* ===== verification/Ui_Styles.thy ===== *)
theory Ui_Styles
  imports Complex_Main Terminal_Presentation
begin

section \<open>Styles (apps/mobile/src/ui/theme.ts and the style sheets of the components)\<close>

text \<open>
  The theme and the style sheets as data, in the sources' order, and how high the touchable areas are at
  least: the design asks for touch targets of at least 44 points.  A style is the list of its properties;
  the styles of an array are merged from left to right.  The height of an area is what the layout of the
  platform gives it at least: its own height, or its minimal height, or its content with the padding, the
  border and the gaps, where a text takes its line height or its font size.
\<close>

datatype style_value = Points rat | Named string | Hairline

type_synonym style = "(string \<times> style_value) list"

type_synonym sheet = "(string \<times> style) list"

subsection \<open>The theme\<close>

definition colors_tokens :: "(string \<times> string) list" where
  "colors_tokens = [
     (''background'', ''#07111E''), (''surface'', ''#111E2E''), (''surfaceRaised'', ''#18283A''),
     (''text'', ''#F4F7FA''), (''textMuted'', ''#9DABBC''), (''primary'', ''#74E8BD''),
     (''primaryPressed'', ''#52CFA1''), (''primaryText'', ''#062117''), (''secondary'', ''#34465C''),
     (''secondaryPressed'', ''#435871''), (''attentionSurface'', ''#352A18''),
     (''attentionBorder'', ''#DDA94E''), (''attentionText'', ''#FFDFA0''), (''activity'', ''#69AFFF''),
     (''destructive'', ''#E36D76''), (''destructivePressed'', ''#C95862''), (''destructiveText'', ''#FFFFFF''),
     (''success'', ''#74E8BD''), (''border'', ''#26384D''), (''disabled'', ''#273444''),
     (''disabledText'', ''#718096'')]"

definition spacing_tokens :: "(string \<times> rat) list" where
  "spacing_tokens = [
     (''xs'', 6), (''sm'', 10), (''md'', 16), (''lg'', 24), (''xl'', 32), (''xxl'', 48)]"

definition radii_tokens :: "(string \<times> rat) list" where
  "radii_tokens = [
     (''small'', 12), (''control'', 18), (''card'', 24), (''cardLarge'', 28), (''pill'', 999)]"

definition typography_tokens :: "(string \<times> rat) list" where
  "typography_tokens = [
     (''body'', 16), (''label'', 16), (''title'', 26), (''caption'', 13)]"

definition colors :: "string \<Rightarrow> string" where
  "colors k = (case map_of colors_tokens k of Some c \<Rightarrow> c | None \<Rightarrow> [])"

definition spacing :: "string \<Rightarrow> rat" where
  "spacing k = (case map_of spacing_tokens k of Some n \<Rightarrow> n | None \<Rightarrow> 0)"

definition radii :: "string \<Rightarrow> rat" where
  "radii k = (case map_of radii_tokens k of Some n \<Rightarrow> n | None \<Rightarrow> 0)"

definition typography :: "string \<Rightarrow> rat" where
  "typography k = (case map_of typography_tokens k of Some n \<Rightarrow> n | None \<Rightarrow> 0)"

subsection \<open>The style sheets\<close>

definition ActivityRow_styles :: sheet where
  "ActivityRow_styles = [
     (''row'', [(''minHeight'', Points 64), (''flexDirection'', Named ''row''),
        (''alignItems'', Named ''center''), (''gap'', Points (spacing ''md'')),
        (''borderRadius'', Points (radii ''card'')), (''borderWidth'', Points 1),
        (''borderColor'', Named (colors ''border'')), (''backgroundColor'', Named (colors ''surface'')),
        (''padding'', Points (spacing ''md''))]),
     (''rowPressed'', [(''backgroundColor'', Named (colors ''surfaceRaised''))]),
     (''marker'', [(''width'', Points 10), (''height'', Points 10),
        (''borderRadius'', Points (radii ''pill'')), (''backgroundColor'', Named (colors ''activity''))]),
     (''copy'', [(''flex'', Points 1), (''gap'', Points (spacing ''xs''))]),
     (''label'', [(''color'', Named (colors ''text'')), (''fontSize'', Points (typography ''body'')),
        (''fontWeight'', Named ''700'')]),
     (''title'', [(''color'', Named (colors ''textMuted'')), (''fontSize'', Points (typography ''caption'')),
        (''lineHeight'', Points 19)])]"

definition AttentionCard_styles :: sheet where
  "AttentionCard_styles = [
     (''card'', [(''borderRadius'', Points (radii ''card'')), (''borderWidth'', Points 1),
        (''borderColor'', Named (colors ''attentionBorder'')),
        (''backgroundColor'', Named (colors ''attentionSurface'')), (''padding'', Points (spacing ''md'')),
        (''gap'', Points (spacing ''md''))]),
     (''cardPressed'', [(''backgroundColor'', Named (colors ''surfaceRaised''))]),
     (''heading'', [(''flexDirection'', Named ''row''), (''alignItems'', Named ''flex-start''),
        (''gap'', Points (spacing ''sm''))]),
     (''copy'', [(''flex'', Points 1), (''gap'', Points (spacing ''xs''))]),
     (''eyebrow'', [(''color'', Named (colors ''attentionText'')),
        (''fontSize'', Points (typography ''caption'')), (''fontWeight'', Named ''800''),
        (''textTransform'', Named ''uppercase'')]),
     (''message'', [(''color'', Named (colors ''text'')), (''fontSize'', Points (typography ''body'')),
        (''lineHeight'', Points 23), (''fontWeight'', Named ''700'')]),
     (''title'', [(''color'', Named (colors ''textMuted'')), (''fontSize'', Points (typography ''caption'')),
        (''lineHeight'', Points 19)]),
     (''dismiss'', [(''minHeight'', Points 44), (''minWidth'', Points 44),
        (''paddingHorizontal'', Points (spacing ''xs'')), (''alignItems'', Named ''center''),
        (''justifyContent'', Named ''center''), (''borderRadius'', Points (radii ''small''))]),
     (''dismissPressed'', [(''backgroundColor'', Named (colors ''surfaceRaised''))]),
     (''dismissText'', [(''color'', Named (colors ''attentionText'')),
        (''fontSize'', Points (typography ''caption''))])]"

definition InboxScreen_styles :: sheet where
  "InboxScreen_styles = [
     (''content'', [(''paddingBottom'', Points (spacing ''xxl'')), (''gap'', Points (spacing ''lg''))]),
     (''header'', [(''gap'', Points (spacing ''xs''))]),
     (''screenTitle'', [(''color'', Named (colors ''text'')), (''fontSize'', Points (typography ''title'')),
        (''fontWeight'', Named ''800'')]),
     (''count'', [(''color'', Named (colors ''textMuted'')), (''fontSize'', Points (typography ''body''))]),
     (''staleCopy'', [(''color'', Named (colors ''attentionText'')),
        (''fontSize'', Points (typography ''caption''))]),
     (''section'', [(''gap'', Points (spacing ''md''))]),
     (''sectionTitle'', [(''color'', Named (colors ''text'')), (''fontSize'', Points (typography ''body'')),
        (''fontWeight'', Named ''800'')])]"

definition NewScreen_styles :: sheet where
  "NewScreen_styles = [
     (''screen'', [(''gap'', Points (spacing ''md''))]),
     (''title'', [(''color'', Named (colors ''text'')), (''fontSize'', Points (typography ''title'')),
        (''fontWeight'', Named ''800''), (''marginBottom'', Points (spacing ''sm''))]),
     (''card'', [(''backgroundColor'', Named (colors ''surface'')),
        (''borderColor'', Named (colors ''border'')), (''borderRadius'', Points (radii ''card'')),
        (''borderWidth'', Points 1), (''gap'', Points (spacing ''md'')), (''padding'', Points (spacing ''lg''))]),
     (''cardTitle'', [(''color'', Named (colors ''text'')), (''fontSize'', Points (typography ''body'')),
        (''fontWeight'', Named ''800'')]),
     (''description'', [(''color'', Named (colors ''textMuted'')),
        (''fontSize'', Points (typography ''body'')), (''lineHeight'', Points 23)]),
     (''currentComputer'', [(''color'', Named (colors ''text'')),
        (''fontSize'', Points (typography ''caption''))])]"

definition ConnectionRecoveryScreen_styles :: sheet where
  "ConnectionRecoveryScreen_styles = [
     (''screen'', [(''justifyContent'', Named ''center''), (''gap'', Points (spacing ''lg''))]),
     (''card'', [(''gap'', Points (spacing ''md'')), (''padding'', Points (spacing ''lg'')),
        (''borderRadius'', Points (radii ''cardLarge'')), (''borderWidth'', Points 1),
        (''borderColor'', Named (colors ''attentionBorder'')),
        (''backgroundColor'', Named (colors ''attentionSurface''))]),
     (''eyebrow'', [(''color'', Named (colors ''attentionText'')),
        (''fontSize'', Points (typography ''caption'')), (''fontWeight'', Named ''800''),
        (''textTransform'', Named ''uppercase'')]),
     (''title'', [(''color'', Named (colors ''text'')), (''fontSize'', Points (typography ''title'')),
        (''fontWeight'', Named ''800'')]),
     (''message'', [(''color'', Named (colors ''text'')), (''fontSize'', Points (typography ''body'')),
        (''lineHeight'', Points 24)]),
     (''note'', [(''color'', Named (colors ''textMuted'')), (''fontSize'', Points (typography ''body'')),
        (''lineHeight'', Points 24)]),
     (''actions'', [(''gap'', Points (spacing ''sm''))])]"

definition ManualPairingForm_styles :: sheet where
  "ManualPairingForm_styles = [
     (''form'', [(''gap'', Points (spacing ''md''))]),
     (''field'', [(''gap'', Points (spacing ''xs''))]),
     (''label'', [(''color'', Named (colors ''text'')), (''fontSize'', Points (typography ''caption'')),
        (''fontWeight'', Named ''700'')]),
     (''input'', [(''minHeight'', Points 48), (''borderWidth'', Points 1),
        (''borderColor'', Named (colors ''border'')), (''borderRadius'', Points (radii ''control'')),
        (''backgroundColor'', Named (colors ''surface'')), (''color'', Named (colors ''text'')),
        (''paddingHorizontal'', Points (spacing ''md'')), (''fontSize'', Points (typography ''body''))]),
     (''inputError'', [(''borderColor'', Named (colors ''destructive''))]),
     (''error'', [(''color'', Named (colors ''destructive'')), (''fontSize'', Points (typography ''caption''))])]"

definition PairingScreen_styles :: sheet where
  "PairingScreen_styles = [
     (''screen'', [(''gap'', Points (spacing ''lg''))]),
     (''header'', [(''gap'', Points (spacing ''sm''))]),
     (''title'', [(''color'', Named (colors ''text'')), (''fontSize'', Points (typography ''title'')),
        (''fontWeight'', Named ''800'')]),
     (''subtitle'', [(''color'', Named (colors ''textMuted'')), (''fontSize'', Points (typography ''body'')),
        (''lineHeight'', Points 24)]),
     (''cameraArea'', [(''flex'', Points 1), (''gap'', Points (spacing ''md''))]),
     (''camera'', [(''flex'', Points 1), (''minHeight'', Points 260),
        (''borderRadius'', Points (radii ''card'')), (''overflow'', Named ''hidden'')]),
     (''permissionCard'', [(''flex'', Points 1), (''minHeight'', Points 260),
        (''justifyContent'', Named ''center''), (''gap'', Points (spacing ''md'')),
        (''borderRadius'', Points (radii ''card'')), (''backgroundColor'', Named (colors ''surface'')),
        (''padding'', Points (spacing ''lg''))]),
     (''permissionTitle'', [(''color'', Named (colors ''text'')),
        (''fontSize'', Points (typography ''title'')), (''fontWeight'', Named ''800'')]),
     (''error'', [(''color'', Named (colors ''attentionText'')),
        (''backgroundColor'', Named (colors ''attentionSurface'')),
        (''borderColor'', Named (colors ''attentionBorder'')), (''borderWidth'', Points 1),
        (''borderRadius'', Points (radii ''small'')), (''padding'', Points (spacing ''md'')),
        (''fontSize'', Points (typography ''body''))])]"

definition PlainTerminal_styles :: sheet where
  "PlainTerminal_styles = [
     (''terminal'', [(''flex'', Points 1), (''minHeight'', Points 0),
        (''borderRadius'', Points (radii ''card'')), (''borderWidth'', Points 1),
        (''borderColor'', Named (colors ''border'')), (''backgroundColor'', Named ''#030912''),
        (''padding'', Points (spacing ''md''))]),
     (''text'', [(''color'', Named (colors ''text'')), (''fontFamily'', Named ''monospace''),
        (''fontSize'', Points (typography ''caption'')), (''lineHeight'', Points 20),
        (''paddingBottom'', Points (spacing ''md''))])]"

definition SessionComposer_styles :: sheet where
  "SessionComposer_styles = [
     (''container'', [(''gap'', Points (spacing ''xs''))]),
     (''field'', [(''position'', Named ''relative''), (''borderWidth'', Points 1),
        (''borderColor'', Named (colors ''border'')), (''borderRadius'', Points (radii ''control'')),
        (''backgroundColor'', Named (colors ''surface''))]),
     (''input'', [(''minHeight'', Points 52), (''maxHeight'', Points 120),
        (''color'', Named (colors ''text'')), (''fontSize'', Points (typography ''body'')),
        (''paddingHorizontal'', Points (spacing ''md'')),
        (''paddingRight'', Points (spacing ''xxl'' + spacing ''md'')),
        (''paddingVertical'', Points (spacing ''sm''))]),
     (''send'', [(''position'', Named ''absolute''), (''right'', Points 4), (''bottom'', Points 4),
        (''width'', Points 44), (''height'', Points 44), (''alignItems'', Named ''center''),
        (''justifyContent'', Named ''center''), (''borderRadius'', Points 14),
        (''backgroundColor'', Named (colors ''primary''))]),
     (''sendPressed'', [(''backgroundColor'', Named (colors ''primaryPressed''))]),
     (''sendDisabled'', [(''backgroundColor'', Named (colors ''disabled''))]),
     (''sendIcon'', [(''color'', Named (colors ''primaryText'')), (''fontSize'', Points 24),
        (''fontWeight'', Named ''800''), (''lineHeight'', Points 26)]),
     (''sendIconDisabled'', [(''color'', Named (colors ''disabledText''))]),
     (''error'', [(''color'', Named (colors ''destructive'')), (''fontSize'', Points (typography ''caption''))])]"

definition SessionScreen_styles :: sheet where
  "SessionScreen_styles = [
     (''keyboardFrame'', [(''flex'', Points 1)]),
     (''screen'', [(''gap'', Points (spacing ''md''))]),
     (''back'', [(''alignSelf'', Named ''flex-start'')]),
     (''backLabel'', [(''color'', Named (colors ''primary'')), (''fontSize'', Points (typography ''caption'')),
        (''fontWeight'', Named ''800'')]),
     (''unavailable'', [(''flex'', Points 1), (''justifyContent'', Named ''center'')]),
     (''header'', [(''flexDirection'', Named ''row''), (''justifyContent'', Named ''space-between''),
        (''alignItems'', Named ''flex-start''), (''gap'', Points (spacing ''md''))]),
     (''headingCopy'', [(''flex'', Points 1), (''gap'', Points (spacing ''xs''))]),
     (''agent'', [(''color'', Named (colors ''primary'')), (''fontSize'', Points (typography ''caption'')),
        (''fontWeight'', Named ''800''), (''textTransform'', Named ''uppercase'')]),
     (''title'', [(''color'', Named (colors ''text'')), (''fontSize'', Points (typography ''title'')),
        (''fontWeight'', Named ''800'')]),
     (''project'', [(''color'', Named (colors ''textMuted'')), (''fontSize'', Points (typography ''caption''))]),
     (''headerStatus'', [(''alignItems'', Named ''flex-end''), (''gap'', Points (spacing ''xs''))]),
     (''status'', [(''color'', Named (colors ''activity'')), (''fontSize'', Points (typography ''caption'')),
        (''fontWeight'', Named ''800'')]),
     (''connection'', [(''color'', Named (colors ''textMuted'')),
        (''fontSize'', Points (typography ''caption''))]),
     (''stopped'', [(''color'', Named (colors ''textMuted'')), (''fontSize'', Points (typography ''caption''))]),
     (''actionArea'', [(''minHeight'', Points 0)])]"

definition StructuredActionZone_styles :: sheet where
  "StructuredActionZone_styles = [
     (''container'', [(''gap'', Points (spacing ''xs''))]),
     (''actions'', [(''flexDirection'', Named ''row''), (''gap'', Points (spacing ''sm''))]),
     (''action'', [(''flex'', Points 1)]),
     (''choices'', [(''gap'', Points (spacing ''sm''))]),
     (''row'', [(''flexDirection'', Named ''row''), (''alignItems'', Named ''flex-end''),
        (''gap'', Points (spacing ''sm''))]),
     (''input'', [(''flex'', Points 1), (''minHeight'', Points 44), (''maxHeight'', Points 120),
        (''borderWidth'', Points 1), (''borderColor'', Named (colors ''border'')),
        (''borderRadius'', Points (radii ''control'')), (''backgroundColor'', Named (colors ''surface'')),
        (''color'', Named (colors ''text'')), (''fontSize'', Points (typography ''body'')),
        (''paddingHorizontal'', Points (spacing ''md'')), (''paddingVertical'', Points (spacing ''sm''))]),
     (''note'', [(''color'', Named (colors ''textMuted'')), (''fontSize'', Points (typography ''caption''))]),
     (''error'', [(''color'', Named (colors ''destructive'')), (''fontSize'', Points (typography ''caption''))])]"

definition StyledTerminal_styles :: sheet where
  "StyledTerminal_styles = [
     (''terminal'', [(''flex'', Points 1), (''minHeight'', Points 0), (''overflow'', Named ''hidden''),
        (''borderRadius'', Points (radii ''small'')), (''borderWidth'', Points 1),
        (''borderColor'', Named (colors ''border'')), (''backgroundColor'', Named TERMINAL_BACKGROUND)]),
     (''list'', [(''flex'', Points 1), (''minHeight'', Points 0)]),
     (''gridScroller'', [(''flex'', Points 1), (''minHeight'', Points 0)]),
     (''gridContent'', [(''flexGrow'', Points 1)]),
     (''modeControl'', [(''zIndex'', Points 1), (''flexDirection'', Named ''row''),
        (''alignSelf'', Named ''flex-start''), (''marginTop'', Points (spacing ''sm'')),
        (''marginLeft'', Points (spacing ''sm'')), (''padding'', Points 2), (''borderRadius'', Points 7),
        (''backgroundColor'', Named (colors ''surface''))]),
     (''modeOption'', [(''minWidth'', Points 64), (''minHeight'', Points 32),
        (''alignItems'', Named ''center''), (''justifyContent'', Named ''center''),
        (''paddingHorizontal'', Points (spacing ''sm'')), (''borderRadius'', Points 5)]),
     (''modeOptionSelected'', [(''backgroundColor'', Named (colors ''secondary''))]),
     (''modeLabel'', [(''color'', Named (colors ''textMuted'')), (''fontSize'', Points (typography ''caption''))]),
     (''modeLabelSelected'', [(''color'', Named (colors ''text'')), (''fontWeight'', Named ''700'')]),
     (''content'', [(''padding'', Points (spacing ''md'')), (''paddingBottom'', Points (spacing ''lg''))]),
     (''line'', [(''color'', Named TERMINAL_DEFAULT_FG), (''fontFamily'', Named ''monospace''),
        (''fontSize'', Points (typography ''caption'')), (''lineHeight'', Points 18)]),
     (''blankLine'', [(''height'', Points 9)]),
     (''ruleRow'', [(''height'', Points 18), (''justifyContent'', Named ''center'')]),
     (''rule'', [(''height'', Hairline), (''backgroundColor'', Named (colors ''border''))]),
     (''liveTail'', [(''position'', Named ''absolute''), (''right'', Points (spacing ''sm'')),
        (''bottom'', Points (spacing ''sm'')), (''width'', Points 40), (''height'', Points 40),
        (''alignItems'', Named ''center''), (''justifyContent'', Named ''center''),
        (''borderRadius'', Points 20), (''borderWidth'', Points 1),
        (''borderColor'', Named (colors ''border'')), (''backgroundColor'', Named (colors ''surfaceRaised''))]),
     (''liveTailPressed'', [(''backgroundColor'', Named (colors ''secondaryPressed''))]),
     (''liveTailIcon'', [(''color'', Named (colors ''text'')), (''fontSize'', Points (typography ''body'')),
        (''fontWeight'', Named ''800'')])]"

definition SessionFilter_styles :: sheet where
  "SessionFilter_styles = [
     (''container'', [(''flexDirection'', Named ''row''), (''gap'', Points (spacing ''xs'')),
        (''padding'', Points (spacing ''xs'')), (''borderRadius'', Points (radii ''control'')),
        (''backgroundColor'', Named (colors ''surface''))]),
     (''option'', [(''minHeight'', Points 44), (''flex'', Points 1), (''alignItems'', Named ''center''),
        (''justifyContent'', Named ''center''), (''paddingHorizontal'', Points (spacing ''xs'')),
        (''borderRadius'', Points (radii ''small''))]),
     (''selected'', [(''backgroundColor'', Named (colors ''primary''))]),
     (''pressed'', [(''opacity'', Points (75 / 100))]),
     (''label'', [(''color'', Named (colors ''textMuted'')), (''fontSize'', Points (typography ''caption'')),
        (''fontWeight'', Named ''700'')]),
     (''selectedLabel'', [(''color'', Named (colors ''primaryText''))])]"

definition SessionRow_styles :: sheet where
  "SessionRow_styles = [
     (''row'', [(''gap'', Points (spacing ''md'')), (''padding'', Points (spacing ''md'')),
        (''borderWidth'', Points 1), (''borderColor'', Named (colors ''border'')),
        (''borderRadius'', Points (radii ''card'')), (''backgroundColor'', Named (colors ''surface''))]),
     (''waitingRow'', [(''borderColor'', Named (colors ''attentionBorder'')),
        (''backgroundColor'', Named (colors ''attentionSurface''))]),
     (''pressed'', [(''backgroundColor'', Named (colors ''surfaceRaised''))]),
     (''heading'', [(''flexDirection'', Named ''row''), (''alignItems'', Named ''flex-start''),
        (''justifyContent'', Named ''space-between''), (''gap'', Points (spacing ''sm''))]),
     (''titleGroup'', [(''flex'', Points 1), (''gap'', Points (spacing ''xs''))]),
     (''agent'', [(''color'', Named (colors ''primary'')), (''fontSize'', Points (typography ''caption'')),
        (''fontWeight'', Named ''800''), (''textTransform'', Named ''uppercase'')]),
     (''title'', [(''color'', Named (colors ''text'')), (''fontSize'', Points (typography ''body'')),
        (''fontWeight'', Named ''800'')]),
     (''status'', [(''paddingHorizontal'', Points (spacing ''sm'')),
        (''paddingVertical'', Points (spacing ''xs'')), (''borderWidth'', Points 1),
        (''borderColor'', Named (colors ''activity'')), (''borderRadius'', Points (radii ''pill'')),
        (''backgroundColor'', Named (colors ''surfaceRaised''))]),
     (''waitingStatus'', [(''borderColor'', Named (colors ''attentionBorder'')),
        (''backgroundColor'', Named (colors ''attentionText''))]),
     (''statusText'', [(''color'', Named (colors ''text'')), (''fontSize'', Points (typography ''caption'')),
        (''fontWeight'', Named ''700'')]),
     (''waitingStatusText'', [(''color'', Named (colors ''background''))]),
     (''meta'', [(''flexDirection'', Named ''row''), (''justifyContent'', Named ''space-between''),
        (''gap'', Points (spacing ''sm''))]),
     (''project'', [(''flex'', Points 1), (''color'', Named (colors ''textMuted'')),
        (''fontSize'', Points (typography ''caption''))]),
     (''activity'', [(''color'', Named (colors ''textMuted'')), (''fontSize'', Points (typography ''caption''))])]"

definition SessionsScreen_styles :: sheet where
  "SessionsScreen_styles = [
     (''header'', [(''flexDirection'', Named ''row''), (''alignItems'', Named ''center''),
        (''gap'', Points (spacing ''sm'')), (''marginBottom'', Points (spacing ''md''))]),
     (''title'', [(''color'', Named (colors ''text'')), (''fontSize'', Points (typography ''title'')),
        (''fontWeight'', Named ''800'')]),
     (''count'', [(''color'', Named (colors ''primaryText'')),
        (''backgroundColor'', Named (colors ''primary'')), (''borderRadius'', Points 999),
        (''paddingHorizontal'', Points (spacing ''sm'')), (''paddingVertical'', Points (spacing ''xs'')),
        (''fontSize'', Points (typography ''caption'')), (''fontWeight'', Named ''800'')]),
     (''list'', [(''paddingTop'', Points (spacing ''md'')), (''paddingBottom'', Points (spacing ''xl''))]),
     (''emptyList'', [(''flexGrow'', Points 1), (''justifyContent'', Named ''center'')]),
     (''separator'', [(''height'', Points (spacing ''sm''))])]"

definition SettingsScreen_styles :: sheet where
  "SettingsScreen_styles = [
     (''content'', [(''gap'', Points (spacing ''md'')), (''paddingBottom'', Points (spacing ''xl''))]),
     (''title'', [(''color'', Named (colors ''text'')), (''fontSize'', Points (typography ''title'')),
        (''fontWeight'', Named ''800'')]),
     (''card'', [(''backgroundColor'', Named (colors ''surface'')),
        (''borderColor'', Named (colors ''border'')), (''borderRadius'', Points (radii ''card'')),
        (''borderWidth'', Points 1), (''gap'', Points (spacing ''md'')), (''padding'', Points (spacing ''lg''))]),
     (''cardTitle'', [(''color'', Named (colors ''text'')), (''fontSize'', Points (typography ''body'')),
        (''fontWeight'', Named ''800'')]),
     (''detail'', [(''gap'', Points (spacing ''xs''))]),
     (''detailLabel'', [(''color'', Named (colors ''textMuted'')),
        (''fontSize'', Points (typography ''caption''))]),
     (''detailValue'', [(''color'', Named (colors ''text'')), (''fontSize'', Points (typography ''body''))]),
     (''actions'', [(''gap'', Points (spacing ''sm''))]),
     (''securityNote'', [(''color'', Named (colors ''textMuted'')),
        (''fontSize'', Points (typography ''caption'')), (''lineHeight'', Points 18)])]"

definition SplashScreen_styles :: sheet where
  "SplashScreen_styles = [
     (''container'', [(''flex'', Points 1), (''alignItems'', Named ''center''),
        (''justifyContent'', Named ''center''), (''gap'', Points (spacing ''md'')),
        (''padding'', Points (spacing ''xl'')), (''backgroundColor'', Named (colors ''background''))]),
     (''artwork'', [(''width'', Named ''100%''), (''maxWidth'', Points 360), (''aspectRatio'', Points 1)]),
     (''wordmark'', [(''color'', Named (colors ''text'')), (''fontSize'', Points (typography ''title'')),
        (''fontWeight'', Named ''700'')]),
     (''tagline'', [(''color'', Named (colors ''textMuted'')), (''fontSize'', Points (typography ''caption'')),
        (''fontWeight'', Named ''600''), (''letterSpacing'', Points (15 / 10)),
        (''textAlign'', Named ''center'')])]"

definition AppButton_styles :: sheet where
  "AppButton_styles = [
     (''button'', [(''minHeight'', Points 44), (''paddingHorizontal'', Points (spacing ''lg'')),
        (''paddingVertical'', Points (spacing ''sm'')), (''borderRadius'', Points (radii ''control'')),
        (''flexDirection'', Named ''row''), (''alignItems'', Named ''center''),
        (''justifyContent'', Named ''center''), (''gap'', Points (spacing ''sm''))]),
     (''primary'', [(''backgroundColor'', Named (colors ''primary''))]),
     (''primaryPressed'', [(''backgroundColor'', Named (colors ''primaryPressed''))]),
     (''secondary'', [(''backgroundColor'', Named (colors ''secondary''))]),
     (''secondaryPressed'', [(''backgroundColor'', Named (colors ''secondaryPressed''))]),
     (''destructive'', [(''backgroundColor'', Named (colors ''destructive''))]),
     (''destructivePressed'', [(''backgroundColor'', Named (colors ''destructivePressed''))]),
     (''disabled'', [(''backgroundColor'', Named (colors ''disabled'')), (''opacity'', Points (8 / 10))]),
     (''label'', [(''fontSize'', Points (typography ''label'')), (''fontWeight'', Named ''700''),
        (''textAlign'', Named ''center'')]),
     (''disabledLabel'', [(''color'', Named (colors ''disabledText''))])]"

definition AppScreen_styles :: sheet where
  "AppScreen_styles = [
     (''safeArea'', [(''flex'', Points 1), (''backgroundColor'', Named (colors ''background''))]),
     (''content'', [(''flex'', Points 1), (''paddingHorizontal'', Points (spacing ''lg'')),
        (''paddingVertical'', Points (spacing ''md''))])]"

definition ConnectionBanner_styles :: sheet where
  "ConnectionBanner_styles = [
     (''banner'', [(''borderRadius'', Points (radii ''card'')), (''borderWidth'', Points 1),
        (''borderColor'', Named (colors ''attentionBorder'')),
        (''backgroundColor'', Named (colors ''attentionSurface'')), (''padding'', Points (spacing ''md'')),
        (''gap'', Points (spacing ''xs''))]),
     (''recovery'', [(''borderColor'', Named (colors ''primary'')),
        (''backgroundColor'', Named (colors ''surfaceRaised''))]),
     (''label'', [(''color'', Named (colors ''attentionText'')),
        (''fontSize'', Points (typography ''caption'')), (''fontWeight'', Named ''800''),
        (''textTransform'', Named ''uppercase'')]),
     (''recoveryLabel'', [(''color'', Named (colors ''primary''))]),
     (''message'', [(''color'', Named (colors ''text'')), (''fontSize'', Points (typography ''body'')),
        (''lineHeight'', Points 23)])]"

definition EmptyState_styles :: sheet where
  "EmptyState_styles = [
     (''container'', [(''borderRadius'', Points (radii ''cardLarge'')), (''borderWidth'', Points 1),
        (''borderColor'', Named (colors ''border'')), (''backgroundColor'', Named (colors ''surface'')),
        (''padding'', Points (spacing ''xl'')), (''alignItems'', Named ''center''),
        (''gap'', Points (spacing ''lg''))]),
     (''copy'', [(''alignItems'', Named ''center''), (''gap'', Points (spacing ''sm''))]),
     (''title'', [(''color'', Named (colors ''text'')), (''fontSize'', Points (typography ''title'')),
        (''fontWeight'', Named ''800''), (''textAlign'', Named ''center'')]),
     (''description'', [(''color'', Named (colors ''textMuted'')),
        (''fontSize'', Points (typography ''body'')), (''lineHeight'', Points 24),
        (''textAlign'', Named ''center'')]),
     (''action'', [(''alignSelf'', Named ''stretch'')])]"

definition StatusBadge_styles :: sheet where
  "StatusBadge_styles = [
     (''badge'', [(''alignSelf'', Named ''flex-start''), (''borderRadius'', Points (radii ''pill'')),
        (''borderWidth'', Points 1), (''paddingHorizontal'', Points (spacing ''sm'')),
        (''paddingVertical'', Points (spacing ''xs''))]),
     (''connected'', [(''borderColor'', Named (colors ''success'')),
        (''backgroundColor'', Named (colors ''surfaceRaised''))]),
     (''active'', [(''borderColor'', Named (colors ''activity'')),
        (''backgroundColor'', Named (colors ''surfaceRaised''))]),
     (''waiting'', [(''borderColor'', Named (colors ''attentionBorder'')),
        (''backgroundColor'', Named (colors ''attentionText''))]),
     (''offline'', [(''borderColor'', Named (colors ''textMuted'')),
        (''backgroundColor'', Named (colors ''surfaceRaised''))]),
     (''error'', [(''borderColor'', Named (colors ''destructive'')),
        (''backgroundColor'', Named (colors ''surfaceRaised''))]),
     (''label'', [(''color'', Named (colors ''text'')), (''fontSize'', Points (typography ''caption'')),
        (''fontWeight'', Named ''700'')]),
     (''darkLabel'', [(''color'', Named (colors ''background''))])]"

subsection \<open>Merging styles, and heights\<close>

definition style_of :: "sheet \<Rightarrow> string \<Rightarrow> style" where
  "style_of sh name = (case map_of sh name of Some st \<Rightarrow> st | None \<Rightarrow> [])"

fun override :: "style \<Rightarrow> style \<Rightarrow> style" where
  "override st [] = st"
| "override st ((k, v) # ps) = override (AList.update k v st) ps"

definition flatten_styles :: "style list \<Rightarrow> style" where
  "flatten_styles sts = foldl override [] sts"

definition points :: "style \<Rightarrow> string \<Rightarrow> rat option" where
  "points st k = (case map_of st k of Some (Points r) \<Rightarrow> Some r | _ \<Rightarrow> None)"

fun first_points :: "style \<Rightarrow> string list \<Rightarrow> rat" where
  "first_points st [] = 0"
| "first_points st (k # ks) = (case points st k of Some r \<Rightarrow> r | None \<Rightarrow> first_points st ks)"

datatype area = Area style "area list"

fun min_height :: "area \<Rightarrow> rat" where
  "min_height (Area st cs) =
     (case points st ''height'' of
        Some h \<Rightarrow> h
      | None \<Rightarrow>
          max (first_points st [''minHeight''])
            (2 * first_points st [''borderWidth''] +
             first_points st [''paddingTop'', ''paddingVertical'', ''padding''] +
             first_points st [''paddingBottom'', ''paddingVertical'', ''padding''] +
             (if cs = [] then first_points st [''lineHeight'', ''fontSize'']
              else if map_of st ''flexDirection'' = Some (Named ''row'')
              then foldr max (map (\<lambda>c. min_height c) cs) 0
              else sum_list (map (\<lambda>c. min_height c) cs) + first_points st [''gap''] * of_nat (length cs - 1))))"

text \<open>A touchable area: the styles that it always has, those that it has in some states, how far touches
  count outside of it, and its content.\<close>

record pressable =
  tp_name :: string
  tp_base :: "style list"
  tp_states :: "style list"
  tp_hitSlop :: rat
  tp_content :: "area list"

definition touch_height :: "pressable \<Rightarrow> style list \<Rightarrow> rat" where
  "touch_height p states =
     min_height (Area (flatten_styles (tp_base p @ states)) (tp_content p)) + 2 * tp_hitSlop p"

subsection \<open>The touchable areas of the app\<close>

definition AppButton_press :: "string \<Rightarrow> pressable" where
  "AppButton_press variant =
     \<lparr>tp_name = ''button'',
      tp_base = [style_of AppButton_styles ''button'', style_of AppButton_styles variant],
      tp_states = [style_of AppButton_styles (variant @ ''Pressed''), style_of AppButton_styles ''disabled''],
      tp_hitSlop = 0,
      tp_content = [Area (style_of AppButton_styles ''label'') []]\<rparr>"

definition SessionRow_press :: pressable where
  "SessionRow_press =
     \<lparr>tp_name = ''session row'',
      tp_base = [style_of SessionRow_styles ''row''],
      tp_states = [style_of SessionRow_styles ''waitingRow'', style_of SessionRow_styles ''pressed''],
      tp_hitSlop = 0,
      tp_content = [
        Area (style_of SessionRow_styles ''heading'') [
          Area (style_of SessionRow_styles ''titleGroup'') [
            Area (style_of SessionRow_styles ''agent'') [],
            Area (style_of SessionRow_styles ''title'') []],
          Area (style_of SessionRow_styles ''status'') [Area (style_of SessionRow_styles ''statusText'') []]],
        Area (style_of SessionRow_styles ''meta'') [
          Area (style_of SessionRow_styles ''project'') [],
          Area (style_of SessionRow_styles ''activity'') []]]\<rparr>"

definition SessionFilter_press :: pressable where
  "SessionFilter_press =
     \<lparr>tp_name = ''filter'',
      tp_base = [style_of SessionFilter_styles ''option''],
      tp_states = [style_of SessionFilter_styles ''selected'', style_of SessionFilter_styles ''pressed''],
      tp_hitSlop = 0,
      tp_content = [Area (style_of SessionFilter_styles ''label'') []]\<rparr>"

definition SessionBack_press :: pressable where
  "SessionBack_press =
     \<lparr>tp_name = ''back'',
      tp_base = [style_of SessionScreen_styles ''back''],
      tp_states = [],
      tp_hitSlop = spacing ''sm'',
      tp_content = [Area (style_of SessionScreen_styles ''backLabel'') []]\<rparr>"

definition TerminalMode_press :: pressable where
  "TerminalMode_press =
     \<lparr>tp_name = ''terminal mode'',
      tp_base = [style_of StyledTerminal_styles ''modeOption''],
      tp_states = [style_of StyledTerminal_styles ''modeOptionSelected''],
      tp_hitSlop = 0,
      tp_content = [Area (style_of StyledTerminal_styles ''modeLabel'') []]\<rparr>"

definition LiveTail_press :: pressable where
  "LiveTail_press =
     \<lparr>tp_name = ''live tail'',
      tp_base = [style_of StyledTerminal_styles ''liveTail''],
      tp_states = [style_of StyledTerminal_styles ''liveTailPressed''],
      tp_hitSlop = spacing ''sm'',
      tp_content = [Area (style_of StyledTerminal_styles ''liveTailIcon'') []]\<rparr>"

definition ComposerSend_press :: pressable where
  "ComposerSend_press =
     \<lparr>tp_name = ''send'',
      tp_base = [style_of SessionComposer_styles ''send''],
      tp_states = [style_of SessionComposer_styles ''sendDisabled'', style_of SessionComposer_styles ''sendPressed''],
      tp_hitSlop = 0,
      tp_content = [Area (style_of SessionComposer_styles ''sendIcon'') []]\<rparr>"

definition CardDismiss_press :: pressable where
  "CardDismiss_press =
     \<lparr>tp_name = ''dismiss'',
      tp_base = [style_of AttentionCard_styles ''dismiss''],
      tp_states = [style_of AttentionCard_styles ''dismissPressed''],
      tp_hitSlop = 8,
      tp_content = [Area (style_of AttentionCard_styles ''dismissText'') []]\<rparr>"

text \<open>The card, with its heading only: what it shows below makes it higher.\<close>

definition AttentionCard_press :: pressable where
  "AttentionCard_press =
     \<lparr>tp_name = ''attention card'',
      tp_base = [style_of AttentionCard_styles ''card''],
      tp_states = [style_of AttentionCard_styles ''cardPressed''],
      tp_hitSlop = 0,
      tp_content = [
        Area (style_of AttentionCard_styles ''heading'') [
          Area (style_of AttentionCard_styles ''copy'') [
            Area (style_of AttentionCard_styles ''eyebrow'') [],
            Area (style_of AttentionCard_styles ''message'') [],
            Area (style_of AttentionCard_styles ''title'') []],
          Area (flatten_styles (tp_base CardDismiss_press)) (tp_content CardDismiss_press)]]\<rparr>"

definition ActivityRow_press :: pressable where
  "ActivityRow_press =
     \<lparr>tp_name = ''activity row'',
      tp_base = [style_of ActivityRow_styles ''row''],
      tp_states = [style_of ActivityRow_styles ''rowPressed''],
      tp_hitSlop = 0,
      tp_content = [
        Area (style_of ActivityRow_styles ''marker'') [],
        Area (style_of ActivityRow_styles ''copy'') [
          Area (style_of ActivityRow_styles ''label'') [],
          Area (style_of ActivityRow_styles ''title'') []]]\<rparr>"

definition pressables :: "pressable list" where
  "pressables = [AppButton_press ''primary'', AppButton_press ''secondary'', AppButton_press ''destructive'',
     SessionRow_press, SessionFilter_press, SessionBack_press, TerminalMode_press, LiveTail_press,
     ComposerSend_press, CardDismiss_press, AttentionCard_press, ActivityRow_press]"

subsection \<open>What the states of an area change\<close>

text \<open>Properties that the layout does not read.\<close>

definition paints :: "string \<Rightarrow> bool" where
  "paints k \<longleftrightarrow> k \<in> {''backgroundColor'', ''borderColor'', ''opacity''}"

lemma map_of_override: "\<forall>k\<in>set (map fst new). paints k \<Longrightarrow> \<not> paints k' \<Longrightarrow> map_of (override st new) k' = map_of st k'"
  by (induction st new rule: override.induct) auto

lemma flatten_snoc: "flatten_styles (sts @ [st]) = override (flatten_styles sts) st"
  by (simp add: flatten_styles_def)

lemma map_of_flatten:
  "\<forall>st\<in>set states. \<forall>k\<in>set (map fst st). paints k \<Longrightarrow> \<not> paints k' \<Longrightarrow>
   map_of (flatten_styles (base @ states)) k' = map_of (flatten_styles base) k'"
proof (induction states rule: rev_induct)
  case (snoc st states)
  then have "map_of (flatten_styles ((base @ states) @ [st])) k' = map_of (flatten_styles (base @ states)) k'"
    unfolding flatten_snoc by (intro map_of_override) auto
  with snoc show ?case by simp
qed simp

lemma first_points_cong: "(\<And>k. k \<in> set ks \<Longrightarrow> map_of st k = map_of st' k) \<Longrightarrow> first_points st ks = first_points st' ks"
  by (induction ks) (auto simp: points_def split: option.split)

lemma min_height_cong:
  assumes "\<And>k. \<not> paints k \<Longrightarrow> map_of st k = map_of st' k"
  shows "min_height (Area st cs) = min_height (Area st' cs)"
proof -
  have f: "first_points st ks = first_points st' ks" if "\<forall>k\<in>set ks. \<not> paints k" for ks
    by (rule first_points_cong) (use that assms in blast)
  have "first_points st [''minHeight''] = first_points st' [''minHeight'']"
    "first_points st [''borderWidth''] = first_points st' [''borderWidth'']" "first_points st [''gap''] = first_points st' [''gap'']"
    "first_points st [''lineHeight'', ''fontSize''] = first_points st' [''lineHeight'', ''fontSize'']"
    "first_points st [''paddingTop'', ''paddingVertical'', ''padding''] = first_points st' [''paddingTop'', ''paddingVertical'', ''padding'']"
    "first_points st [''paddingBottom'', ''paddingVertical'', ''padding''] =
     first_points st' [''paddingBottom'', ''paddingVertical'', ''padding'']"
    by (rule f, simp add: paints_def)+
  moreover have "points st ''height'' = points st' ''height''" "map_of st ''flexDirection'' = map_of st' ''flexDirection''"
    using assms by (simp_all add: points_def paints_def)
  ultimately show ?thesis by (simp only: min_height.simps)
qed

text \<open>A state that only paints does not move anything.\<close>

lemma painted_height:
  assumes "\<forall>st\<in>set states. \<forall>k\<in>set (map fst st). paints k"
  shows "touch_height p states = touch_height p []"
  unfolding touch_height_def using min_height_cong [OF map_of_flatten [OF assms]] by simp

lemmas sheet_defs = AppButton_styles_def SessionRow_styles_def SessionFilter_styles_def SessionScreen_styles_def
  StyledTerminal_styles_def SessionComposer_styles_def AttentionCard_styles_def ActivityRow_styles_def

lemmas press_defs = AppButton_press_def SessionRow_press_def SessionFilter_press_def SessionBack_press_def
  TerminalMode_press_def LiveTail_press_def ComposerSend_press_def CardDismiss_press_def AttentionCard_press_def
  ActivityRow_press_def

lemmas token_defs = spacing_def spacing_tokens_def typography_def typography_tokens_def radii_def radii_tokens_def

lemma states_paint: "p \<in> set pressables \<Longrightarrow> st \<in> set (tp_states p) \<Longrightarrow> k \<in> set (map fst st) \<Longrightarrow> paints k"
  by (auto simp: pressables_def press_defs style_of_def sheet_defs paints_def)

lemmas height_defs = touch_height_def flatten_styles_def style_of_def points_def token_defs

lemma button_heights:
  "touch_height (AppButton_press ''primary'') [] = 44" "touch_height (AppButton_press ''secondary'') [] = 44"
  "touch_height (AppButton_press ''destructive'') [] = 44"
  by (simp_all add: AppButton_press_def AppButton_styles_def height_defs)

lemma SessionRow_height: "touch_height SessionRow_press [] = 98"
  by (simp add: SessionRow_press_def SessionRow_styles_def height_defs)

lemma SessionFilter_height: "touch_height SessionFilter_press [] = 44"
  by (simp add: SessionFilter_press_def SessionFilter_styles_def height_defs)

lemma SessionBack_height: "touch_height SessionBack_press [] = 33"
  by (simp add: SessionBack_press_def SessionScreen_styles_def height_defs)

lemma TerminalMode_height: "touch_height TerminalMode_press [] = 32"
  by (simp add: TerminalMode_press_def StyledTerminal_styles_def height_defs)

lemma LiveTail_height: "touch_height LiveTail_press [] = 60"
  by (simp add: LiveTail_press_def StyledTerminal_styles_def height_defs)

lemma ComposerSend_height: "touch_height ComposerSend_press [] = 44"
  by (simp add: ComposerSend_press_def SessionComposer_styles_def height_defs)

lemma CardDismiss_height: "touch_height CardDismiss_press [] = 60"
  by (simp add: CardDismiss_press_def AttentionCard_styles_def height_defs)

lemma AttentionCard_height: "touch_height AttentionCard_press [] = 101"
  by (simp add: AttentionCard_press_def CardDismiss_press_def AttentionCard_styles_def height_defs)

lemma ActivityRow_height: "touch_height ActivityRow_press [] = 75"
  by (simp add: ActivityRow_press_def ActivityRow_styles_def height_defs)

lemmas resting_heights = button_heights SessionRow_height SessionFilter_height SessionBack_height TerminalMode_height
  LiveTail_height ComposerSend_height CardDismiss_height AttentionCard_height ActivityRow_height

text \<open>Every touchable area of the app is at least 44 points high in each of its states, as the design asks,
  but for two: the tabs of the terminal's modes are given 32, and the way back to the sessions is as high as
  its text and 20 points around it.\<close>

theorem touch_targets:
  assumes "p \<in> set pressables" and "set states \<subseteq> set (tp_states p)"
  shows "44 \<le> touch_height p states \<longleftrightarrow> tp_name p \<noteq> ''back'' \<and> tp_name p \<noteq> ''terminal mode''"
proof -
  have "touch_height p states = touch_height p []"
    using painted_height states_paint [OF assms(1)] assms(2) by blast
  moreover have "44 \<le> touch_height p [] \<longleftrightarrow> tp_name p \<noteq> ''back'' \<and> tp_name p \<noteq> ''terminal mode''"
    using assms(1) by (auto simp: pressables_def resting_heights) (simp_all add: press_defs)
  ultimately show ?thesis by simp
qed

theorem touch_targets_witness:
  "44 \<le> touch_height SessionRow_press [style_of SessionRow_styles ''pressed''] \<and>
   \<not> 44 \<le> touch_height TerminalMode_press [style_of StyledTerminal_styles ''modeOptionSelected'']"
proof -
  have "SessionRow_press \<in> set pressables" "TerminalMode_press \<in> set pressables" by (simp_all add: pressables_def)
  from touch_targets [OF this(1), of "[style_of SessionRow_styles ''pressed'']"]
    touch_targets [OF this(2), of "[style_of StyledTerminal_styles ''modeOptionSelected'']"]
  show ?thesis by (simp add: SessionRow_press_def TerminalMode_press_def)
qed

text \<open>The colours of the theme are written with six hexadecimal digits.\<close>

lemma theme_colors: "list_all (\<lambda>(k, c). hd c = CHR ''#'' \<and> hex6 (tl c) \<and> length c = 7) colors_tokens"
  by code_simp

end
