(* ===== verification/Layouts.thy ===== *)
theory Layouts
  imports Ui_Styles Other_Screens
begin

section \<open>The layouts of the app (apps/mobile/src/app/_layout.tsx, app/(tabs)/_layout.tsx)\<close>

text \<open>
  The options that the two layouts pass to the router, and what they put on the screen: the stack inside the
  app's provider, and the four tabs, whose routes are those of \<^theory_text>\<open>Other_Screens\<close>.
\<close>

record stack_options =
  so_headerShown :: bool
  so_contentStyle :: style

definition rootStackScreenOptions :: stack_options where
  "rootStackScreenOptions =
     \<lparr>so_headerShown = False, so_contentStyle = [(''backgroundColor'', Named (colors ''background''))]\<rparr>"

text \<open>\<open>RootLayout\<close>: the provider around the stack.\<close>

datatype root_layout = ProviderAround stack_options

definition RootLayout :: root_layout where
  "RootLayout = ProviderAround rootStackScreenOptions"

record tabs_layout =
  tl_initialRouteName :: string
  tl_headerShown :: bool
  tl_activeTintColor :: string
  tl_inactiveTintColor :: string
  tl_barStyle :: style
  tl_icon :: "string \<Rightarrow> nat \<times> nat"
  tl_screens :: "(string \<times> string) list"

definition TabsLayout :: tabs_layout where
  "TabsLayout =
     \<lparr>tl_initialRouteName = ''inbox'', tl_headerShown = False,
      tl_activeTintColor = colors ''primary'', tl_inactiveTintColor = colors ''textMuted'',
      tl_barStyle = [(''minHeight'', Points 64), (''borderTopColor'', Named (colors ''border'')),
        (''backgroundColor'', Named (colors ''surface''))],
      tl_icon = tabBarIcon,
      tl_screens = tabs\<rparr>"

text \<open>The first tab is the initial one, the navigation of the provider goes to it, the bar is high enough
  to be touched, and no two tabs look alike.\<close>

lemma tabs_reachable:
  "fst (hd (tl_screens TabsLayout)) = tl_initialRouteName TabsLayout"
  "NavReplace (''/(tabs)/'' @ tl_initialRouteName TabsLayout) \<in> set (snd (onPaired cfg p s))"
  "44 \<le> min_height (Area (tl_barStyle TabsLayout) [])"
  "distinct (map (fst \<circ> tl_icon TabsLayout \<circ> fst) (tl_screens TabsLayout))"
  "tl_activeTintColor TabsLayout \<noteq> tl_inactiveTintColor TabsLayout"
  using tabs_have_icons(2)
  by (simp_all add: TabsLayout_def tabs_def points_def colors_def colors_tokens_def onPaired_def split: prod.split)

end
