(* ===== verification/Spec2Isabelle.thy ===== *)
theory Spec2Isabelle
  imports Screens_Props End_To_End_Run End_To_End_Pairing Dev_Scripts Layouts
begin

text \<open>
  A verification library for cucoudle: the wire protocol, the relay, and the logic of the mobile app.

  The program.  A desktop daemon (Python, \<^verbatim>\<open>apps/desktop\<close>) runs terminal sessions.  A mobile app
  (\<^verbatim>\<open>apps/mobile\<close>) shows and steers them.  Both connect by WebSocket to a relay (\<^verbatim>\<open>apps/relay\<close>), which
  pairs mobiles with desktops by short codes and session tokens, forwards the mobiles' requests, routes
  the responses back and fans out the desktops' events.  All three exchange the JSON messages of
  \<^verbatim>\<open>packages/protocol\<close>.

  Which theory models what (paths below the repository's root):

  \<^item> \<open>Js_Base\<close>, \<open>Js_Date\<close>: what the sources use of JavaScript.  JSON values; \<open>Map\<close> as an association list
    in insertion order; slices, stable sorting, trimming, decimal digits; \<open>toISOString\<close>; the lemmas on
    them that all components share; the locale \<open>machine\<close> (an invariant kept by every step holds after
    every run).
  \<^item> \<open>Protocol\<close>, \<open>Envelope\<close>: \<^verbatim>\<open>packages/protocol/src\<close>.  Every schema as a schema expression; messages,
    \<open>parseWireMessage\<close>, \<open>makeResponse\<close>, \<open>makeError\<close>, \<open>makeEvent\<close>.  The schema library zod is outside:
    its \<open>safeParse\<close> is a parameter with the contract \<open>zod_contract\<close>, met by the reference
    implementation \<open>zod_ref\<close>, which the examples use.
  \<^item> \<open>Relay_State\<close> (\<^verbatim>\<open>apps/relay/src/state.ts\<close>), \<open>Relay_Audit\<close> (\<^verbatim>\<open>audit.ts\<close>), \<open>Relay_Handlers\<close>
    (\<^verbatim>\<open>handlers.ts\<close>), \<open>Relay_System\<close> (the sockets and timers of \<^verbatim>\<open>app.ts\<close>): the relay.  Its five maps
    and armed timers are the record \<open>relay_state\<close>; a handler takes the environment, the state, the
    socket and the frame and returns the new state, its effects in order, and how it ended (returned or
    raised); \<open>relay_step\<close> is one turn of the event loop, \<open>relay_run\<close> a sequence of them.
  \<^item> \<open>Relay_Server\<close> (\<^verbatim>\<open>apps/relay/src/server.ts\<close>, \<^verbatim>\<open>app.ts\<close>): the settings from the environment variables, with
    the \<open>Number\<close> of the language, their defaults, the routes, and the environment that the handlers of the
    started server run under (\<open>handlerEnv\<close>, \<open>app_turn\<close>).
  \<^item> \<open>Dev_Scripts\<close> (\<^verbatim>\<open>apps/relay/scripts\<close>): the scripted desktop and the scripted phone, as sequences of blocks
    that read unchecked values and may raise.
  \<^item> \<open>Mobile_Buffers\<close> (\<^verbatim>\<open>apps/mobile/src/state/terminalBuffer.ts\<close>, \<^verbatim>\<open>renderBuffer.ts\<close>),
    \<open>Session_State\<close> (\<^verbatim>\<open>sessionState.ts\<close>, \<^verbatim>\<open>sessionReducer.ts\<close>), \<open>Inbox_Selectors\<close>
    (\<^verbatim>\<open>inboxSelectors.ts\<close>): the app's state, its reducer, and what its lists show.
  \<^item> \<open>Mobile_Client\<close> (\<^verbatim>\<open>apps/mobile/src/protocol\<close>): the client's variables, one operation for each of its
    functions and each handler of its sockets; \<open>client_reach\<close> is the relation of the states and traces
    that it reaches.
  \<^item> \<open>Pairing_Profile\<close> (\<^verbatim>\<open>apps/mobile/src/pairing\<close>): validation of manual and scanned pairings, profiles,
    their repository, the device's identity.
  \<^item> \<open>Connection_Coordinator\<close> (\<^verbatim>\<open>apps/mobile/src/application/connectionCoordinator.ts\<close>): the connection's
    state machine; \<open>synchronize\<close> is cut at each \<open>await\<close>, and \<open>coord_react\<close> is one turn of the event loop.
  \<^item> \<open>Mobile_Runtime\<close> (\<^verbatim>\<open>createMobileRuntime.ts\<close>): the runtime, which owns the coordinator, the client
    and a second client for pairing; \<open>App_Provider\<close> (\<^verbatim>\<open>AppProvider.tsx\<close>, \<^verbatim>\<open>useApp.ts\<close>): the app's state,
    which contains the runtime, the reducer's state and the storage; \<open>app_react\<close> is one turn of the event
    loop, \<open>app_reach\<close> the states and traces reached.
  \<^item> \<open>Terminal_Presentation\<close> (\<^verbatim>\<open>apps/mobile/src/features/session/terminalPresentation.ts\<close>,
    \<^verbatim>\<open>ansiPalette.ts\<close>): the rows of the terminal.
  \<^item> \<open>Ui_View\<close> (\<^verbatim>\<open>apps/mobile/src/ui\<close>): views, what a user can read and do in them, and the interface kit.
  \<^item> \<open>Plain_Terminal\<close>, \<open>Styled_Terminal\<close>, \<open>Session_Composer\<close>, \<open>Structured_Actions\<close> (the files of
    \<^verbatim>\<open>apps/mobile/src/features/session\<close> with these parts), \<open>Session_Screen\<close> (\<^verbatim>\<open>SessionScreen.tsx\<close> and its
    route \<^verbatim>\<open>app/session/[id].tsx\<close>): the screen of a session.  Each component is a record of its hooks, one
    operation for each of its functions (two, where the function waits), and the view it renders.
  \<^item> \<open>Session_List\<close> (\<^verbatim>\<open>features/sessions\<close>), \<open>Inbox_Screen\<close> (\<^verbatim>\<open>features/inbox\<close>, \<^verbatim>\<open>app/(tabs)/inbox.tsx\<close>),
    \<open>Pairing_Screen\<close> (\<^verbatim>\<open>features/pairing\<close>), \<open>Other_Screens\<close> (\<^verbatim>\<open>features/new\<close>, \<^verbatim>\<open>features/settings\<close>, the
    recovery screen and the remaining routes of \<^verbatim>\<open>apps/mobile/src/app\<close>): the other screens.
  \<^item> \<open>Ui_Styles\<close> (\<^verbatim>\<open>ui/theme.ts\<close> and the style sheets of all components): the styles as data, and how high the
    touchable areas are at least; \<open>Layouts\<close> (\<^verbatim>\<open>app/_layout.tsx\<close>, \<^verbatim>\<open>app/(tabs)/_layout.tsx\<close>): what the
    layouts pass to the router.
  \<^item> \<open>Screens_Props\<close>: what the screens show and offer in the states that the app reaches.

  \<^item> \<open>End_To_End\<close>: one phone's client and the relay joined by sockets that keep the order of messages, with
    every other phone and desktop left free; \<open>End_To_End_Run\<close>: a whole session of it, step by step;
    \<open>End_To_End_Pairing\<close>: the operations of the relay and of the app that a pairing goes through, put together.

  The interfaces.  \<open>Request_Table\<close> states the contract of a table of pending requests as the locales
  \<open>request_table\<close> and \<open>request_table_add\<close>; the relay's \<open>takePending\<close> and \<open>addPending\<close> satisfy it
  (\<open>rp\<close> in \<open>Relay_Invariant\<close>) and so does the client's table (\<open>ct\<close> in \<open>Client_Props\<close>).  \<open>seq_buffer\<close> and
  its extension \<open>log_buffer\<close> are the contract of buffers fed by numbered chunks, satisfied by both
  buffers of the app (\<open>tb\<close>, \<open>rb\<close>).  \<open>machine\<close> is interpreted for the relay, the two levels of the
  reducer, the coordinator, the runtime, the styled terminal (\<open>styled\<close>) and the pairing screen
  (\<open>pairing_screen\<close>).  \<open>zod_contract\<close> is interpreted by \<open>zod_ref\<close>.

  What the lemmas show:

  \<^item> Relay.  \<open>Relay_Invariant\<close>: the invariant of the maps and timers and the laws of each operation;
    \<open>Relay_System\<close>: every event keeps it; \<open>Relay_Registry\<close>: it holds in every reachable state, and how
    a desktop's identifier is taken over; \<open>Relay_Pairing\<close>: codes and links, single use, authority;
    \<open>Relay_Props\<close>, \<open>Relay_Requests\<close>: where requests, responses and events go, timeouts, closes, the
    redaction of the log; \<open>Relay_Examples\<close>: these on concrete runs.
  \<^item> Protocol.  \<open>Envelope\<close>: encoding and parsing are inverse, and the outcomes of parsing.
  \<^item> App state.  \<open>Mobile_Buffers\<close>: replay and bounds; \<open>Session_Replay\<close>: the order of replayed events, and
    that reducing them refines the reference replay; \<open>Session_Invariant\<close>: consistency and bounds of every
    reachable state; \<open>Inbox_Selectors\<close>: exactly what is listed, and in which order.
  \<^item> Connection.  \<open>Client_Props\<close>: every promise settles at most once, and when; \<open>Coordinator_Props\<close>: the
    coordinator's invariant, progress, the order of a synchronisation, failures, disposal.
  \<^item> App.  \<open>Runtime_Props\<close>: the runtime's coordinator behaves as a coordinator alone, subscriptions and
    pairings; \<open>App_Props\<close>: the app's state is consistent and mirrors the coordinator.
  \<^item> Presentation.  \<open>Terminal_Presentation\<close>: no visible cell is lost, blank space is bounded, keys are
    distinct; \<open>Plain_Terminal\<close>: what the regular expressions match, what is left of a text;
    \<open>Styled_Terminal\<close>: nothing visible is lost on the way to the screen.
  \<^item> Screens.  \<open>Session_Composer\<close>, \<open>Structured_Actions\<close>: a command or an answer is sent once, and is the one
    shown; \<open>Pairing_Screen\<close>: one pairing at a time, and only saved profiles are reported; \<open>Session_List\<close>,
    \<open>Inbox_Screen\<close>: exactly what can be pressed; \<open>Screens_Props\<close>: nothing can be sent unless the connection
    lets requests through.

  \<^item> Composition.  \<open>End_To_End\<close>: no request is forgotten between the phone, the relay and the desktop, and
    every result comes from the desktop that the phone is linked to.  \<open>End_To_End_Pairing\<close>: a scanned code leads
    to a profile whose token is accepted; \<open>Relay_Tokens\<close>: for how long, from the setting to the resumption.
    \<open>Dev_Scripts\<close>: the scripted desktop sends only messages of the protocol and numbers its outputs without
    gaps.

  Abstractions.  Numbers are unbounded integers.  The code's numbers are sequence numbers, times and
  counts; where a time leaves the range of dates the model raises as the code does.  Strings are lists of
  code units below 256; texts of the presentation are lists of code points.  A received frame is the
  value that \<open>JSON.parse\<close> gives for it, or nothing, with its length in bytes.  Sockets, timers, promises
  and listeners are numbers.  One reading of the clock serves a whole handler.  Random numbers, UUIDs and
  request identifiers are arguments; the loop that draws a pairing code runs over the list of draws, and
  an exhausted list is no result.  Listeners of the client do not call back into it.  Messages to the
  user are constructors.  Answers that the coordinator receives have the types its code declares.  No
  definition uses fuel: the recursions are structural or have a measure.

  A view keeps texts, fields and pressables; a callback is the action it takes with the values its closure
  holds, so that a press of an older rendering acts with older values.  Constant texts of the interface
  are written in English translation.  State that React keeps under a key is an association list by that
  key; two objects are the same when their numbers are.  Heights and offsets of the layout are exact
  rationals.  The regular expressions of the plain terminal are run by a matcher with the backtracking
  order of the language; it terminates by the length of the text.

  Not modelled: the web server and the WebSocket library; what is printed on the console; the layout that the
  platform computes from the styles, beyond a lower bound of heights, and the router; React itself (when it
  renders is an input), the camera and the native alerts; the desktop daemon, which is written in Python.
  Numbers of settings are exact rationals, without the rounding to doubles; a relay whose settings are no
  integers is started in the model, but its handlers are not run.

  Plan: the local state of the screens within the runs of the app; the order in which events reach a phone
  through the relay.
\<close>

end
